(* ===== verification/Prelude.thy ===== *)
theory Prelude
  imports Main "HOL-Library.Word"
begin

text \<open>
  Shared vocabulary of the development: the machine integers of the C sources, the outcome
  of a C computation that may run into undefined behaviour, byte-order conversions, and
  the memory copies the sources perform with \<open>memcpy\<close>. The lemmas declared
  \<open>[simp]\<close> here, and the collections \<open>c_simps\<close> and
  \<open>byte_simps\<close>, carry the routine part of the component proofs.
\<close>

unbundle bit_operations_syntax

named_theorems c_simps \<open>equations of the C outcome type\<close>
named_theorems byte_simps \<open>lengths and inverses of the byte codecs\<close>

section \<open>Machine integers\<close>

type_synonym u8 = "8 word"
type_synonym u16 = "16 word"
type_synonym u32 = "32 word"
type_synonym u64 = "64 word"

lemma unat_u8_lt [simp]: "unat (w :: u8) < 256"
  using unsigned_less [of w, where 'a = nat] by simp

lemma unat_u16_lt [simp]: "unat (w :: u16) < 65536"
  using unsigned_less [of w, where 'a = nat] by simp

lemma unat_u32_lt [simp]: "unat (w :: u32) < 4294967296"
  using unsigned_less [of w, where 'a = nat] by simp

lemma unat_u64_lt [simp]: "unat (w :: u64) < 18446744073709551616"
  using unsigned_less [of w, where 'a = nat] by simp

text \<open>Widening conversions keep the value.\<close>

lemma unat_ucast_u8 [simp]:
  "unat (ucast (w :: u8) :: u16) = unat w" "unat (ucast (w :: u8) :: u32) = unat w"
  "unat (ucast (w :: u8) :: u64) = unat w"
  using unat_u8_lt [of w]
  by (auto simp: unsigned_ucast_eq intro!: take_bit_nat_eq_self simp del: unat_u8_lt)

lemma unat_ucast_u16 [simp]:
  "unat (ucast (w :: u16) :: u32) = unat w" "unat (ucast (w :: u16) :: u64) = unat w"
  using unat_u16_lt [of w]
  by (auto simp: unsigned_ucast_eq intro!: take_bit_nat_eq_self simp del: unat_u16_lt)

lemma unat_ucast_u32 [simp]: "unat (ucast (w :: u32) :: u64) = unat w"
  using unat_u32_lt [of w]
  by (auto simp: unsigned_ucast_eq intro!: take_bit_nat_eq_self simp del: unat_u32_lt)

text \<open>Masking with \<open>0xFF\<close> keeps a value that fits a byte.\<close>

lemma byte_AND_mask: "(x :: u32) < 0x100 \<Longrightarrow> x AND 0xFF = x"
proof -
  assume "x < 0x100"
  then have "unat x < 2 ^ 8" by (simp add: word_less_nat_alt)
  then have "unat (take_bit 8 x) = unat x"
    by (simp add: unsigned_take_bit_eq take_bit_nat_eq_self)
  then have "take_bit 8 x = x"
    by (simp only: word_unat_eq_iff)
  then show ?thesis
    by (simp add: take_bit_eq_mask mask_numeral)
qed

text \<open>The masks the sources use, as truncations.\<close>

lemma AND_255: "(x :: u32) AND 0xFF = take_bit 8 x"
  by (simp add: take_bit_eq_mask mask_numeral)

lemma AND_65535: "(x :: u32) AND 0xFFFF = take_bit 16 x"
  by (simp add: take_bit_eq_mask mask_numeral)

lemma AND_low_dword: "(x :: u64) AND 0xFFFFFFFF = take_bit 32 x"
  by (simp add: take_bit_eq_mask mask_numeral)

section \<open>Outcomes of C computations\<close>

text \<open>
  A C function either has a defined result or performs an access the language leaves
  undefined: through a null pointer, outside an object, of an object whose lifetime has ended, or an
  \<open>int\<close> counted past its maximum. \<open>Inl\<close> is the undefined access, \<open>Inr\<close> the defined result; error codes
  such as \<open>-1\<close> are defined results. A pointer argument is an \<open>option\<close>: \<open>None\<close> is
  \<open>NULL\<close>, \<open>Some x\<close> points to an object with value \<open>x\<close>.
\<close>

datatype c_ub = NullDeref | OutOfBounds | LifetimeEnd | IntOverflow

type_synonym 'a c_res = "c_ub + 'a"

definition INT_MAX :: nat where
  "INT_MAX = 2147483647"

fun cbind :: "'a c_res \<Rightarrow> ('a \<Rightarrow> 'b c_res) \<Rightarrow> 'b c_res" where
  "cbind (Inl e) f = Inl e"
| "cbind (Inr x) f = f x"

definition deref :: "'a option \<Rightarrow> 'a c_res" where
  "deref p = (case p of None \<Rightarrow> Inl NullDeref | Some x \<Rightarrow> Inr x)"

definition c_defined :: "'a c_res \<Rightarrow> bool" where
  "c_defined r \<longleftrightarrow> (case r of Inl _ \<Rightarrow> False | Inr _ \<Rightarrow> True)"

lemma cbind_cong [fundef_cong]:
  "m = m' \<Longrightarrow> (\<And>x. m' = Inr x \<Longrightarrow> f x = f' x) \<Longrightarrow> cbind m f = cbind m' f'"
  by (cases m') auto

lemma cbind_eq_Inr [c_simps]:
  "cbind m f = Inr y \<longleftrightarrow> (\<exists>x. m = Inr x \<and> f x = Inr y)"
  by (cases m) auto

lemma cbind_eq_Inl [c_simps]:
  "cbind m f = Inl e \<longleftrightarrow> m = Inl e \<or> (\<exists>x. m = Inr x \<and> f x = Inl e)"
  by (cases m) auto

lemma deref_simps [simp]: "deref None = Inl NullDeref" "deref (Some x) = Inr x"
  by (simp_all add: deref_def)

lemma deref_eq_Inr [c_simps]: "deref p = Inr x \<longleftrightarrow> p = Some x"
  by (cases p) auto

lemma c_defined_simps [simp]: "\<not> c_defined (Inl e)" "c_defined (Inr x)"
  by (simp_all add: c_defined_def)

lemma c_defined_iff: "c_defined r \<longleftrightarrow> (\<exists>x. r = Inr x)"
  by (cases r) auto

section \<open>Byte buffers\<close>

text \<open>
  \<open>mem_read src n\<close> is the source side of \<open>memcpy(dst, src, n)\<close>; \<open>mem_write dst k bs\<close>
  stores the bytes \<open>bs\<close> at offset \<open>k\<close> of the object \<open>dst\<close>. Both are defined only
  inside the object.
\<close>

definition mem_read :: "u8 list \<Rightarrow> nat \<Rightarrow> u8 list c_res" where
  "mem_read src n = (if n \<le> length src then Inr (take n src) else Inl OutOfBounds)"

definition mem_write :: "u8 list \<Rightarrow> nat \<Rightarrow> u8 list \<Rightarrow> u8 list c_res" where
  "mem_write dst k bs =
     (if k + length bs \<le> length dst
      then Inr (take k dst @ bs @ drop (k + length bs) dst)
      else Inl OutOfBounds)"

text \<open>A block from \<open>malloc\<close> has \<open>n\<close> bytes of unknown content.\<close>

definition block :: "nat \<Rightarrow> u8 list \<Rightarrow> u8 list" where
  "block n xs = take n (xs @ replicate n 0)"

lemma length_block [simp]: "length (block n xs) = n"
  by (simp add: block_def)

lemma mem_read_eq_Inr [c_simps]:
  "mem_read src n = Inr bs \<longleftrightarrow> n \<le> length src \<and> bs = take n src"
  by (auto simp: mem_read_def)

lemma mem_write_eq_Inr [c_simps]:
  "mem_write dst k bs = Inr d \<longleftrightarrow>
     k + length bs \<le> length dst \<and> d = take k dst @ bs @ drop (k + length bs) dst"
  by (auto simp: mem_write_def)

lemma length_mem_write: "mem_write dst k bs = Inr d \<Longrightarrow> length d = length dst"
  by (auto simp: mem_write_eq_Inr)

lemma mem_write_0_read:
  "mem_write dst 0 bs = Inr d \<Longrightarrow> take (length bs) d = bs"
  by (auto simp: mem_write_eq_Inr)

section \<open>Byte order\<close>

text \<open>
  \<open>le_bytes n x\<close> is the object representation of an \<open>n\<close>-byte unsigned integer on the
  little-endian hosts the library targets (x86-64, AArch64), least significant byte first;
  \<open>be_bytes\<close> is network order, what \<open>htons\<close>/\<open>htonl\<close> leave in memory.
\<close>

fun le_bytes :: "nat \<Rightarrow> nat \<Rightarrow> u8 list" where
  "le_bytes 0 x = []"
| "le_bytes (Suc n) x = word_of_nat (x mod 256) # le_bytes n (x div 256)"

fun le_val :: "u8 list \<Rightarrow> nat" where
  "le_val [] = 0"
| "le_val (b # bs) = unat b + 256 * le_val bs"

definition be_bytes :: "nat \<Rightarrow> nat \<Rightarrow> u8 list" where
  "be_bytes n x = rev (le_bytes n x)"

definition be_val :: "u8 list \<Rightarrow> nat" where
  "be_val bs = le_val (rev bs)"

lemma le_bytes_unroll:
  "le_bytes (Suc 0) x = [word_of_nat (x mod 256)]"
  "le_bytes 2 x = [word_of_nat (x mod 256), word_of_nat (x div 256 mod 256)]"
  "le_bytes 4 x = [word_of_nat (x mod 256), word_of_nat (x div 256 mod 256),
     word_of_nat (x div 256 div 256 mod 256), word_of_nat (x div 256 div 256 div 256 mod 256)]"
proof -
  have n: "2 = Suc (Suc 0)" "4 = Suc (Suc (Suc (Suc 0)))" by simp_all
  show "le_bytes (Suc 0) x = [word_of_nat (x mod 256)]" by (simp only: le_bytes.simps)
  show "le_bytes 2 x = [word_of_nat (x mod 256), word_of_nat (x div 256 mod 256)]"
    by (simp only: n le_bytes.simps)
  show "le_bytes 4 x = [word_of_nat (x mod 256), word_of_nat (x div 256 mod 256),
     word_of_nat (x div 256 div 256 mod 256), word_of_nat (x div 256 div 256 div 256 mod 256)]"
    by (simp only: n(2) le_bytes.simps)
qed

lemma length_le_bytes [simp]: "length (le_bytes n x) = n"
  by (induction n arbitrary: x) auto

lemma length_be_bytes [simp]: "length (be_bytes n x) = n"
  by (simp add: be_bytes_def)

lemma unat_word_of_nat_u8 [simp]: "unat (word_of_nat (x mod 256) :: u8) = x mod 256"
  by (simp add: unat_of_nat)

lemma le_val_le_bytes [byte_simps]: "le_val (le_bytes n x) = x mod 256 ^ n"
proof (induction n arbitrary: x)
  case (Suc n)
  have "le_val (le_bytes (Suc n) x) = x mod 256 + 256 * (x div 256 mod 256 ^ n)"
    by (simp add: Suc.IH)
  also have "\<dots> = x mod (256 * 256 ^ n)"
    by (simp add: mod_mult2_eq)
  finally show ?case by simp
qed simp

lemma le_val_bound: "le_val bs < 256 ^ length bs"
proof (induction bs)
  case (Cons b bs)
  have "unat b < 256" by simp
  with Cons.IH have "unat b + 256 * le_val bs < 256 * 256 ^ length bs" by linarith
  then show ?case by simp
qed simp

lemma le_bytes_le_val [byte_simps]: "le_bytes (length bs) (le_val bs) = bs"
proof (induction bs)
  case (Cons b bs)
  have b: "unat b < 256" by simp
  then have "(unat b + 256 * le_val bs) mod 256 = unat b"
    and "(unat b + 256 * le_val bs) div 256 = le_val bs" by simp_all
  with Cons.IH show ?case by simp
qed simp

lemma be_val_be_bytes [byte_simps]: "be_val (be_bytes n x) = x mod 256 ^ n"
  by (simp add: be_val_def be_bytes_def le_val_le_bytes)

lemma le_bytes_inj: "le_bytes n x = le_bytes n y \<Longrightarrow> x mod 256 ^ n = y mod 256 ^ n"
  by (metis le_val_le_bytes)

lemma be_bytes_inj: "be_bytes n x = be_bytes n y \<Longrightarrow> x mod 256 ^ n = y mod 256 ^ n"
  by (metis be_val_be_bytes)

text \<open>The widths the sources use, so that the codecs decode their words exactly.\<close>

lemma le_val_u8 [simp]: "le_val (le_bytes (Suc 0) (unat (w :: u8))) = unat w"
  by (simp add: le_val_le_bytes)

lemma le_val_u16 [simp]: "le_val (le_bytes 2 (unat (w :: u16))) = unat w"
  by (simp add: le_val_le_bytes)

lemma le_val_u32 [simp]: "le_val (le_bytes 4 (unat (w :: u32))) = unat w"
  by (simp add: le_val_le_bytes)

lemma le_val_u64 [simp]: "le_val (le_bytes 8 (unat (w :: u64))) = unat w"
  by (simp add: le_val_le_bytes)

lemma be_val_u16 [simp]: "be_val (be_bytes 2 (unat (w :: u16))) = unat w"
  by (simp add: be_val_be_bytes)

lemma be_val_u32 [simp]: "be_val (be_bytes 4 (unat (w :: u32))) = unat w"
  by (simp add: be_val_be_bytes)

section \<open>Lists\<close>

text \<open>\<open>field bs k n\<close> is the \<open>n\<close>-byte field at offset \<open>k\<close> of a byte string.\<close>

definition field :: "'a list \<Rightarrow> nat \<Rightarrow> nat \<Rightarrow> 'a list" where
  "field bs k n = take n (drop k bs)"

lemma field_append_left [byte_simps]:
  "k + n \<le> length xs \<Longrightarrow> field (xs @ ys) k n = field xs k n"
  by (simp add: field_def)

lemma field_append_right [byte_simps]:
  "length xs \<le> k \<Longrightarrow> field (xs @ ys) k n = field ys (k - length xs) n"
  by (simp add: field_def)

lemma field_all [byte_simps]: "n = length xs \<Longrightarrow> field xs 0 n = xs"
  by (simp add: field_def)

lemma field_Cons_pos [byte_simps]: "0 < k \<Longrightarrow> field (x # xs) k n = field xs (k - 1) n"
  by (cases k) (simp_all add: field_def)

lemma field_Cons_Suc [byte_simps]: "field (x # xs) 0 (Suc n) = x # field xs 0 n"
  by (simp add: field_def)

lemma field_0 [byte_simps]: "field xs k 0 = []"
  by (simp add: field_def)

lemma take_update_snoc:
  "k < length xs \<Longrightarrow> take (Suc k) (xs[k := x]) = take k xs @ [x]"
  by (simp add: take_Suc_conv_app_nth)

end
