(* ===== verification/Tlp.thy ===== *)
theory Tlp
  imports Prelude
begin

text \<open>
  Transaction-layer packets: \<open>include/pcapcie/tlp.h\<close>, \<open>src/tlp.c\<close>, and the type
  filter of \<open>include/pcapcie/filter.h\<close>, \<open>src/filter.c\<close>.

  \<open>pcie_tlp_type\<close> is the enumeration with the source's constructors. A packet's type
  field holds the enumeration's underlying unsigned integer, because the FPGA and socket
  backends store bytes from outside in it; so the field is a \<open>u32\<close>, and
  \<open>tlp_type_val\<close> is the integer of each constructor. The payload pointer is an option:
  \<open>None\<close> is \<open>NULL\<close>, \<open>Some bs\<close> points to an object of \<open>length bs\<close> bytes.
\<close>

section \<open>Packet types\<close>

datatype pcie_tlp_type =
    PCIE_TLP_UNKNOWN
  | PCIE_TLP_MEM_READ
  | PCIE_TLP_MEM_WRITE
  | PCIE_TLP_CFG_READ
  | PCIE_TLP_CFG_WRITE
  | PCIE_TLP_CPL

fun tlp_type_val :: "pcie_tlp_type \<Rightarrow> u32" where
  "tlp_type_val PCIE_TLP_UNKNOWN = 0xFF"
| "tlp_type_val PCIE_TLP_MEM_READ = 0x00"
| "tlp_type_val PCIE_TLP_MEM_WRITE = 0x01"
| "tlp_type_val PCIE_TLP_CFG_READ = 0x04"
| "tlp_type_val PCIE_TLP_CFG_WRITE = 0x05"
| "tlp_type_val PCIE_TLP_CPL = 0x0A"

definition pcie_tlp_type_name :: "u32 \<Rightarrow> string" where
  "pcie_tlp_type_name t =
     (if t = tlp_type_val PCIE_TLP_MEM_READ then ''MemRead''
      else if t = tlp_type_val PCIE_TLP_MEM_WRITE then ''MemWrite''
      else if t = tlp_type_val PCIE_TLP_CFG_READ then ''CfgRead''
      else if t = tlp_type_val PCIE_TLP_CFG_WRITE then ''CfgWrite''
      else if t = tlp_type_val PCIE_TLP_CPL then ''Completion''
      else ''Unknown'')"

definition pcie_tlp_type_from_code :: "u8 \<Rightarrow> pcie_tlp_type" where
  "pcie_tlp_type_from_code code =
     (if code = 0x00 then PCIE_TLP_MEM_READ
      else if code = 0x01 then PCIE_TLP_MEM_WRITE
      else if code = 0x04 then PCIE_TLP_CFG_READ
      else if code = 0x05 then PCIE_TLP_CFG_WRITE
      else if code = 0x0A then PCIE_TLP_CPL
      else PCIE_TLP_UNKNOWN)"

section \<open>Packets\<close>

record tlp =
  tlp_type :: u32
  requester_id :: u16
  completer_id :: u16
  tag :: u8
  tlp_length :: u16
  mem_addr :: u64
  mem_data :: "u8 list option"

text \<open>The initialiser \<open>{0}\<close>.\<close>

definition tlp_zero :: tlp where
  "tlp_zero = \<lparr>tlp_type = 0, requester_id = 0, completer_id = 0, tag = 0,
               tlp_length = 0, mem_addr = 0, mem_data = None\<rparr>"

definition pcie_tlp_decode ::
  "u8 \<Rightarrow> u16 \<Rightarrow> u16 \<Rightarrow> u8 \<Rightarrow> u16 \<Rightarrow> u64 \<Rightarrow> u8 list option \<Rightarrow> tlp" where
  "pcie_tlp_decode type_code req cpl tg len a payload =
     tlp_zero\<lparr>tlp_type := tlp_type_val (pcie_tlp_type_from_code type_code),
              requester_id := req, completer_id := cpl, tag := tg, tlp_length := len,
              mem_addr := a, mem_data := payload\<rparr>"

definition pcie_tlp_mem_write :: "u64 \<Rightarrow> u16 \<Rightarrow> u8 list option \<Rightarrow> tlp" where
  "pcie_tlp_mem_write a len d =
     tlp_zero\<lparr>tlp_type := tlp_type_val PCIE_TLP_MEM_WRITE, tlp_length := len,
              mem_addr := a, mem_data := d\<rparr>"

definition pcie_tlp_cfg_write :: "u32 \<Rightarrow> u16 \<Rightarrow> u8 list option \<Rightarrow> tlp" where
  "pcie_tlp_cfg_write a len d =
     tlp_zero\<lparr>tlp_type := tlp_type_val PCIE_TLP_CFG_WRITE, tlp_length := len,
              mem_addr := ucast a, mem_data := d\<rparr>"

definition pcie_tlp_cfg_read :: "u32 \<Rightarrow> tlp" where
  "pcie_tlp_cfg_read a =
     tlp_zero\<lparr>tlp_type := tlp_type_val PCIE_TLP_CFG_READ, tlp_length := 0,
              mem_addr := ucast a, mem_data := None\<rparr>"

text \<open>
  A packet is valid when its payload pointer, if there is one, reaches at least
  \<open>length\<close> bytes: what every consumer of a packet relies on.
\<close>

definition valid_tlp :: "tlp \<Rightarrow> bool" where
  "valid_tlp t \<longleftrightarrow>
     (case mem_data t of None \<Rightarrow> True | Some bs \<Rightarrow> unat (tlp_length t) \<le> length bs)"

text \<open>The payload a packet carries: the first \<open>length\<close> bytes behind its pointer.\<close>

definition tlp_payload :: "tlp \<Rightarrow> u8 list" where
  "tlp_payload t =
     (case mem_data t of None \<Rightarrow> [] | Some bs \<Rightarrow> take (unat (tlp_length t)) bs)"

section \<open>Filters\<close>

record pcie_filter =
  f_mask :: u32
  f_value :: u32

definition PCIE_MATCH_TYPE :: "u32 \<Rightarrow> pcie_filter" where
  "PCIE_MATCH_TYPE t = \<lparr>f_mask = 0xFF, f_value = t\<rparr>"

definition pcie_filter_match :: "pcie_filter \<Rightarrow> tlp \<Rightarrow> bool" where
  "pcie_filter_match f t \<longleftrightarrow> tlp_type t AND f_mask f = f_value f"

section \<open>Lemmas\<close>

lemma valid_tlp_None [simp]: "mem_data t = None \<Longrightarrow> valid_tlp t"
  by (simp add: valid_tlp_def)

lemma valid_tlp_Some: "mem_data t = Some bs \<Longrightarrow> valid_tlp t \<longleftrightarrow> unat (tlp_length t) \<le> length bs"
  by (simp add: valid_tlp_def)

lemma valid_tlp_cfg_read [simp]: "valid_tlp (pcie_tlp_cfg_read a)"
  by (simp add: pcie_tlp_cfg_read_def)

lemma valid_tlp_cfg_write [simp]:
  "valid_tlp (pcie_tlp_cfg_write a len (Some bs)) \<longleftrightarrow> unat len \<le> length bs"
  by (simp add: valid_tlp_def pcie_tlp_cfg_write_def)

lemma tlp_type_val_inj: "inj tlp_type_val"
proof (rule injI)
  fix a b
  assume "tlp_type_val a = tlp_type_val b"
  then show "a = b" by (cases a; cases b) simp_all
qed

lemma tlp_type_val_byte: "tlp_type_val k < 0x100"
  by (cases k) simp_all

lemma from_code_tlp_type_val [simp]:
  "pcie_tlp_type_from_code (ucast (tlp_type_val k)) = k"
  by (cases k) (simp_all add: pcie_tlp_type_from_code_def)

lemma tlp_type_val_from_code:
  "tlp_type_val (pcie_tlp_type_from_code c) =
     (if pcie_tlp_type_from_code c = PCIE_TLP_UNKNOWN then 0xFF else ucast c)"
  by (simp add: pcie_tlp_type_from_code_def)

lemma filter_match_type_raw:
  "pcie_filter_match (PCIE_MATCH_TYPE v) t \<longleftrightarrow> tlp_type t AND 0xFF = v"
  by (simp add: pcie_filter_match_def PCIE_MATCH_TYPE_def)

lemma filter_match_type_enum:
  "tlp_type t = tlp_type_val j \<Longrightarrow>
     pcie_filter_match (PCIE_MATCH_TYPE (tlp_type_val k)) t \<longleftrightarrow> j = k"
  using tlp_type_val_byte [of j] inj_eq [OF tlp_type_val_inj, of j k]
  by (simp add: filter_match_type_raw byte_AND_mask)

lemma filter_match_subset_of_mask:
  "pcie_filter_match f t \<Longrightarrow> f_value f AND f_mask f = f_value f"
  by (auto simp: pcie_filter_match_def bit_eq_iff bit_simps)

section \<open>Decoding and filtering\<close>

text \<open>
  Decoding is the inverse of taking a packet apart: a packet whose type is one of the
  enumeration, handed to \<open>pcie_tlp_decode\<close> as its type code and its fields, comes back as it
  was.
\<close>

lemma tlp_decode_roundtrip:
  assumes "tlp_type t = tlp_type_val k"
  shows "pcie_tlp_decode (ucast (tlp_type t)) (requester_id t) (completer_id t) (tag t)
           (tlp_length t) (mem_addr t) (mem_data t) = t"
  by (simp add: pcie_tlp_decode_def assms tlp_zero_def)

text \<open>
  A type filter sees a decoded packet exactly when the packet's type code stands for the
  filter's type; a code outside the enumeration is seen by the filter for unknown packets only.
  The name the library prints tells the same types apart.
\<close>

lemma filter_decoded_type:
  "(pcie_filter_match (PCIE_MATCH_TYPE (tlp_type_val k)) (pcie_tlp_decode code req cpl tg len a p) \<longleftrightarrow>
      pcie_tlp_type_from_code code = k) \<and>
   (pcie_tlp_type_name (tlp_type (pcie_tlp_decode code req cpl tg len a p)) =
      pcie_tlp_type_name (tlp_type_val k) \<longleftrightarrow> pcie_tlp_type_from_code code = k)"
proof -
  have t: "tlp_type (pcie_tlp_decode code req cpl tg len a p) = tlp_type_val (pcie_tlp_type_from_code code)"
    by (simp add: pcie_tlp_decode_def)
  have "pcie_tlp_type_name (tlp_type_val j) = pcie_tlp_type_name (tlp_type_val k) \<longleftrightarrow> j = k" for j
    by (cases j; cases k) (simp_all add: pcie_tlp_type_name_def)
  with filter_match_type_enum [OF t] show ?thesis by (simp add: t)
qed

end
