(* ===== verification/Link.thy ===== *)
theory Link
  imports Prelude
begin

text \<open>
  Link speeds, generations and the records a backend fills in:
  \<open>include/pcapcie/pcapcie.h\<close> and the name and code tables of \<open>src/pcapcie.c\<close>.
\<close>

section \<open>Generations and speeds\<close>

datatype pcie_gen =
    PCIE_GEN_UNKNOWN
  | PCIE_GEN_1 | PCIE_GEN_2 | PCIE_GEN_3 | PCIE_GEN_4
  | PCIE_GEN_5 | PCIE_GEN_6 | PCIE_GEN_7 | PCIE_GEN_8

datatype pcie_link_speed =
    PCIE_LINK_SPEED_UNKNOWN
  | PCIE_LINK_SPEED_2_5_GT_S | PCIE_LINK_SPEED_5_0_GT_S
  | PCIE_LINK_SPEED_8_0_GT_S | PCIE_LINK_SPEED_16_0_GT_S
  | PCIE_LINK_SPEED_32_0_GT_S | PCIE_LINK_SPEED_64_0_GT_S
  | PCIE_LINK_SPEED_128_0_GT_S | PCIE_LINK_SPEED_256_0_GT_S

text \<open>The enumerators' integer values.\<close>

fun gen_val :: "pcie_gen \<Rightarrow> u32" where
  "gen_val PCIE_GEN_UNKNOWN = 0"
| "gen_val PCIE_GEN_1 = 1"
| "gen_val PCIE_GEN_2 = 2"
| "gen_val PCIE_GEN_3 = 3"
| "gen_val PCIE_GEN_4 = 4"
| "gen_val PCIE_GEN_5 = 5"
| "gen_val PCIE_GEN_6 = 6"
| "gen_val PCIE_GEN_7 = 7"
| "gen_val PCIE_GEN_8 = 8"

fun speed_val :: "pcie_link_speed \<Rightarrow> u32" where
  "speed_val PCIE_LINK_SPEED_UNKNOWN = 0"
| "speed_val PCIE_LINK_SPEED_2_5_GT_S = 1"
| "speed_val PCIE_LINK_SPEED_5_0_GT_S = 2"
| "speed_val PCIE_LINK_SPEED_8_0_GT_S = 3"
| "speed_val PCIE_LINK_SPEED_16_0_GT_S = 4"
| "speed_val PCIE_LINK_SPEED_32_0_GT_S = 5"
| "speed_val PCIE_LINK_SPEED_64_0_GT_S = 6"
| "speed_val PCIE_LINK_SPEED_128_0_GT_S = 7"
| "speed_val PCIE_LINK_SPEED_256_0_GT_S = 8"

fun pcie_gen_name :: "pcie_gen \<Rightarrow> string" where
  "pcie_gen_name PCIE_GEN_1 = ''PCIe Gen 1''"
| "pcie_gen_name PCIE_GEN_2 = ''PCIe Gen 2''"
| "pcie_gen_name PCIE_GEN_3 = ''PCIe Gen 3''"
| "pcie_gen_name PCIE_GEN_4 = ''PCIe Gen 4''"
| "pcie_gen_name PCIE_GEN_5 = ''PCIe Gen 5''"
| "pcie_gen_name PCIE_GEN_6 = ''PCIe Gen 6''"
| "pcie_gen_name PCIE_GEN_7 = ''PCIe Gen 7''"
| "pcie_gen_name PCIE_GEN_8 = ''PCIe Gen 8''"
| "pcie_gen_name PCIE_GEN_UNKNOWN = ''Unknown''"

fun pcie_link_speed_name :: "pcie_link_speed \<Rightarrow> string" where
  "pcie_link_speed_name PCIE_LINK_SPEED_2_5_GT_S = ''2.5 GT/s''"
| "pcie_link_speed_name PCIE_LINK_SPEED_5_0_GT_S = ''5.0 GT/s''"
| "pcie_link_speed_name PCIE_LINK_SPEED_8_0_GT_S = ''8.0 GT/s''"
| "pcie_link_speed_name PCIE_LINK_SPEED_16_0_GT_S = ''16.0 GT/s''"
| "pcie_link_speed_name PCIE_LINK_SPEED_32_0_GT_S = ''32.0 GT/s''"
| "pcie_link_speed_name PCIE_LINK_SPEED_64_0_GT_S = ''64.0 GT/s''"
| "pcie_link_speed_name PCIE_LINK_SPEED_128_0_GT_S = ''128.0 GT/s''"
| "pcie_link_speed_name PCIE_LINK_SPEED_256_0_GT_S = ''256.0 GT/s''"
| "pcie_link_speed_name PCIE_LINK_SPEED_UNKNOWN = ''Unknown''"

definition pcie_gen_from_speed_code :: "u8 \<Rightarrow> pcie_gen" where
  "pcie_gen_from_speed_code c =
     (if c = 1 then PCIE_GEN_1
      else if c = 2 then PCIE_GEN_2
      else if c = 3 then PCIE_GEN_3
      else if c = 4 then PCIE_GEN_4
      else if c = 5 then PCIE_GEN_5
      else if c = 6 then PCIE_GEN_6
      else if c = 7 then PCIE_GEN_7
      else if c = 8 then PCIE_GEN_8
      else PCIE_GEN_UNKNOWN)"

definition pcie_link_speed_from_code :: "u8 \<Rightarrow> pcie_link_speed" where
  "pcie_link_speed_from_code c =
     (if c = 1 then PCIE_LINK_SPEED_2_5_GT_S
      else if c = 2 then PCIE_LINK_SPEED_5_0_GT_S
      else if c = 3 then PCIE_LINK_SPEED_8_0_GT_S
      else if c = 4 then PCIE_LINK_SPEED_16_0_GT_S
      else if c = 5 then PCIE_LINK_SPEED_32_0_GT_S
      else if c = 6 then PCIE_LINK_SPEED_64_0_GT_S
      else if c = 7 then PCIE_LINK_SPEED_128_0_GT_S
      else if c = 8 then PCIE_LINK_SPEED_256_0_GT_S
      else PCIE_LINK_SPEED_UNKNOWN)"

text \<open>The generations are ordered as the integers behind them, as the C code compares them.\<close>

lemma gen_val_inj: "gen_val a = gen_val b \<Longrightarrow> a = b"
  by (cases a; cases b) simp_all

instantiation pcie_gen :: linorder
begin

definition less_eq_pcie_gen :: "pcie_gen \<Rightarrow> pcie_gen \<Rightarrow> bool" where
  "less_eq_pcie_gen a b \<longleftrightarrow> gen_val a \<le> gen_val b"

definition less_pcie_gen :: "pcie_gen \<Rightarrow> pcie_gen \<Rightarrow> bool" where
  "less_pcie_gen a b \<longleftrightarrow> gen_val a < gen_val b"

instance
  by standard (auto simp: less_eq_pcie_gen_def less_pcie_gen_def intro: gen_val_inj)

end

section \<open>What a backend reports\<close>

record link_status =
  max_link_speed :: pcie_link_speed
  negotiated_link_speed :: pcie_link_speed
  max_link_width :: u8
  negotiated_link_width :: u8
  max_gen :: pcie_gen
  negotiated_gen :: pcie_gen

record device_info =
  vendor_id :: u16
  device_id :: u16
  class_code :: u16
  revision_id :: u8
  has_pcie_capability :: u8

text \<open>The records after \<open>memset(.., 0, sizeof ..)\<close>.\<close>

definition link_status_zero :: link_status where
  "link_status_zero =
     \<lparr>max_link_speed = PCIE_LINK_SPEED_UNKNOWN,
      negotiated_link_speed = PCIE_LINK_SPEED_UNKNOWN,
      max_link_width = 0, negotiated_link_width = 0,
      max_gen = PCIE_GEN_UNKNOWN, negotiated_gen = PCIE_GEN_UNKNOWN\<rparr>"

definition device_info_zero :: device_info where
  "device_info_zero =
     \<lparr>vendor_id = 0, device_id = 0, class_code = 0, revision_id = 0,
      has_pcie_capability = 0\<rparr>"

section \<open>Lemmas\<close>

lemma gen_from_gen_val [simp]: "pcie_gen_from_speed_code (ucast (gen_val g)) = g"
  by (cases g) (simp_all add: pcie_gen_from_speed_code_def)

lemma speed_from_speed_val [simp]: "pcie_link_speed_from_code (ucast (speed_val s)) = s"
  by (cases s) (simp_all add: pcie_link_speed_from_code_def)

lemma gen_speed_agree:
  "gen_val (pcie_gen_from_speed_code c) = speed_val (pcie_link_speed_from_code c)"
  by (simp add: pcie_gen_from_speed_code_def pcie_link_speed_from_code_def)

lemma gen_unknown_iff:
  "pcie_gen_from_speed_code c = PCIE_GEN_UNKNOWN \<longleftrightarrow> c = 0 \<or> 8 < c"
  by (simp add: pcie_gen_from_speed_code_def word_unat_eq_iff word_less_nat_alt) arith

lemma gen_name_inj: "pcie_gen_name a = pcie_gen_name b \<Longrightarrow> a = b"
  by (cases a; cases b) simp_all

lemma speed_name_inj: "pcie_link_speed_name a = pcie_link_speed_name b \<Longrightarrow> a = b"
  by (cases a; cases b) simp_all

section \<open>The two tables\<close>

text \<open>
  The two speed-code tables agree: codes 1 to 8 give the generation and the speed of that
  number, every other code gives unknown in both, and the names printed for two codes are the
  same only when the codes stand for the same generation.
\<close>

lemma link_speed_codes:
  "gen_val (pcie_gen_from_speed_code c) = (if c = 0 \<or> 8 < c then 0 else ucast c) \<and>
   speed_val (pcie_link_speed_from_code c) = gen_val (pcie_gen_from_speed_code c) \<and>
   (pcie_gen_name (pcie_gen_from_speed_code c) = pcie_gen_name (pcie_gen_from_speed_code d) \<longleftrightarrow>
      pcie_gen_from_speed_code c = pcie_gen_from_speed_code d) \<and>
   (pcie_link_speed_name (pcie_link_speed_from_code c) = pcie_link_speed_name (pcie_link_speed_from_code d) \<longleftrightarrow>
      pcie_gen_from_speed_code c = pcie_gen_from_speed_code d)"
proof -
  have "gen_val (pcie_gen_from_speed_code c) = (if c = 0 \<or> 8 < c then 0 else ucast c)"
  proof (cases "c = 0 \<or> 8 < c")
    case True
    with gen_unknown_iff [of c] show ?thesis by simp
  next
    case False
    then have "unat c \<in> {1, 2, 3, 4, 5, 6, 7, 8}"
      by (simp add: word_unat_eq_iff word_less_nat_alt) arith
    then have "c = 1 \<or> c = 2 \<or> c = 3 \<or> c = 4 \<or> c = 5 \<or> c = 6 \<or> c = 7 \<or> c = 8"
      by (simp add: word_unat_eq_iff)
    then show ?thesis by (elim disjE) (simp_all add: pcie_gen_from_speed_code_def)
  qed
  moreover have "pcie_link_speed_from_code c = pcie_link_speed_from_code d \<longleftrightarrow>
      pcie_gen_from_speed_code c = pcie_gen_from_speed_code d"
    using gen_speed_agree [of c] gen_speed_agree [of d]
    by (metis gen_val_inj speed_from_speed_val)
  ultimately show ?thesis
    using gen_speed_agree [of c] gen_name_inj speed_name_inj by metis
qed

end
