(* ===== verification/Backend.thy ===== *)
theory Backend
  imports Tlp Link
begin

text \<open>
  The backend interface of \<open>include/pcapcie/backend.h\<close>: the table of function pointers
  through which \<open>src/pcapcie.c\<close> reaches a backend. A pointer field is an option, since
  some backends leave \<open>link_status\<close> and \<open>device_info\<close> \<open>NULL\<close>. Every operation takes
  the backend's whole state (its C statics and the environment it talks to) and returns the
  new one; a pointer argument comes back as the value of the object after the call.

  The locale \<open>pcie_backend\<close> is the contract \<open>src/pcapcie.c\<close> relies on; each backend
  theory interprets it on its own operation table.
\<close>

section \<open>The operation table\<close>

type_synonym 'b tlp_op = "tlp option \<Rightarrow> 'b \<Rightarrow> (int \<times> tlp option \<times> 'b) c_res"

type_synonym 'b link_op = "link_status option \<Rightarrow> 'b \<Rightarrow> (int \<times> link_status option \<times> 'b) c_res"

type_synonym 'b info_op = "device_info option \<Rightarrow> 'b \<Rightarrow> (int \<times> device_info option \<times> 'b) c_res"

record 'b pcie_backend_ops =
  ops_send :: "'b tlp_op option"
  ops_recv :: "'b tlp_op option"
  ops_link_status :: "'b link_op option"
  ops_device_info :: "'b info_op option"
  ops_close :: "('b \<Rightarrow> 'b c_res) option"

text \<open>A client that sends packets one after another, with the results.\<close>

fun send_all :: "'b tlp_op \<Rightarrow> tlp list \<Rightarrow> 'b \<Rightarrow> (int list \<times> 'b) c_res" where
  "send_all send [] b = Inr ([], b)"
| "send_all send (t # ts) b =
     cbind (send (Some t) b) (\<lambda>(rc, _, b').
     cbind (send_all send ts b') (\<lambda>(rcs, b''). Inr (rc # rcs, b'')))"

section \<open>The contract\<close>

text \<open>
  A backend may write into a packet's payload buffer, but keeps its header and the extent
  of the buffer.
\<close>

definition same_shape :: "tlp \<Rightarrow> tlp \<Rightarrow> bool" where
  "same_shape t t' \<longleftrightarrow>
     tlp_type t' = tlp_type t \<and> requester_id t' = requester_id t \<and>
     completer_id t' = completer_id t \<and> tag t' = tag t \<and> tlp_length t' = tlp_length t \<and>
     mem_addr t' = mem_addr t \<and>
     map_option length (mem_data t') = map_option length (mem_data t)"

lemma same_shape_refl [simp]: "same_shape t t"
  by (simp add: same_shape_def)

lemma same_shape_valid: "same_shape t t' \<Longrightarrow> valid_tlp t \<Longrightarrow> valid_tlp t'"
  by (cases "mem_data t"; cases "mem_data t'") (auto simp: same_shape_def valid_tlp_def)

lemma same_shape_data:
  "same_shape t t' \<Longrightarrow> mem_data t = Some bs \<Longrightarrow> \<exists>bs'. mem_data t' = Some bs' \<and> length bs' = length bs"
  by (auto simp: same_shape_def)

locale pcie_backend =
  fixes ops :: "'b pcie_backend_ops"
    and inv :: "'b \<Rightarrow> bool"
    and accepts :: "tlp \<Rightarrow> bool"
  assumes accepts_valid: "accepts t \<Longrightarrow> valid_tlp t"
    and send_contract:
      "\<lbrakk>inv b; accepts t\<rbrakk> \<Longrightarrow>
         \<exists>f rc t' b'. ops_send ops = Some f \<and> f (Some t) b = Inr (rc, Some t', b') \<and>
                      inv b' \<and> same_shape t t'"
    and recv_contract:
      "inv b \<Longrightarrow>
         \<exists>f rc t' b'. ops_recv ops = Some f \<and> f (Some t) b = Inr (rc, Some t', b') \<and>
                      inv b' \<and> (rc = 0 \<longrightarrow> valid_tlp t')"
    and link_contract:
      "\<lbrakk>ops_link_status ops = Some g; inv b\<rbrakk> \<Longrightarrow>
         \<exists>rc s' b'. g (Some s) b = Inr (rc, Some s', b') \<and> inv b'"
    and info_contract:
      "\<lbrakk>ops_device_info ops = Some h; inv b\<rbrakk> \<Longrightarrow>
         \<exists>rc i' b'. h (Some i) b = Inr (rc, Some i', b') \<and> inv b'"
    and close_contract: "\<exists>c. ops_close ops = Some c \<and> (\<forall>b. inv b \<longrightarrow> (\<exists>b'. c b = Inr b' \<and> inv b'))"

text \<open>
  A backend whose supply of packets runs out: every successful receive uses some of it up.
  This is what makes the receive loop of \<open>pcie_loop\<close> return.
\<close>

locale finite_backend = pcie_backend ops inv accepts
  for ops :: "'b pcie_backend_ops" and inv :: "'b \<Rightarrow> bool" and accepts :: "tlp \<Rightarrow> bool" +
  fixes remaining :: "'b \<Rightarrow> nat"
  assumes recv_consumes:
    "\<lbrakk>inv b; ops_recv ops = Some f; f (Some t) b = Inr (0, t', b')\<rbrakk> \<Longrightarrow>
       remaining b' < remaining b"


text \<open>
  A backend that delivers a known sequence of packets and then reports that there are none.
  It is finite: what remains is the sequence still to be delivered.
\<close>

locale scripted_backend = pcie_backend ops inv accepts
  for ops :: "'b pcie_backend_ops" and inv :: "'b \<Rightarrow> bool" and accepts :: "tlp \<Rightarrow> bool" +
  fixes upcoming :: "'b \<Rightarrow> tlp list"
  assumes recv_empty:
      "\<lbrakk>inv b; upcoming b = []; ops_recv ops = Some f; f (Some t) b = Inr (rc, t', b')\<rbrakk> \<Longrightarrow>
         rc \<noteq> 0 \<and> b' = b"
    and recv_next:
      "\<lbrakk>inv b; upcoming b = p # ps; ops_recv ops = Some f; f (Some t) b = Inr (rc, t', b')\<rbrakk> \<Longrightarrow>
         rc = 0 \<and> t' = Some p \<and> upcoming b' = ps"
begin

lemma recv_shrinks:
  assumes "inv b" and "ops_recv ops = Some f" and "f (Some t) b = Inr (0, t', b')"
  shows "length (upcoming b') < length (upcoming b)"
proof (cases "upcoming b")
  case Nil
  with recv_empty [OF assms(1) _ assms(2,3)] show ?thesis by simp
next
  case (Cons p ps)
  with recv_next [OF assms(1) _ assms(2,3)] show ?thesis by simp
qed

end

sublocale scripted_backend \<subseteq> finite_backend ops inv accepts "\<lambda>b. length (upcoming b)"
  by unfold_locales (rule recv_shrinks)

end
