(* ===== verification/Trace.thy ===== *)
theory Trace
  imports Backend "HOL-Library.Sublist"
begin

text \<open>
  The library context of \<open>src/pcapcie.c\<close> and its trace buffer: \<open>struct pcie_ctx\<close>, the
  growing array of \<open>pcie_trace_record_t\<close>, and the operations \<open>pcie_trace_record\<close>,
  \<open>pcie_trace_reset\<close>, \<open>pcie_trace_count\<close> and \<open>pcie_trace_append\<close>.

  The allocated array is the list \<open>trace_records\<close> of \<open>trace_capacity\<close> cells, a cell
  being \<open>None\<close> while its memory is uninitialised. The abstraction \<open>trace_of\<close> is the list
  of the first \<open>trace_count\<close> records; the lemmas show that the growing array implements
  appending to that list.
\<close>

section \<open>State\<close>

datatype pcie_trace_direction = PCIE_TRACE_TX | PCIE_TRACE_RX

fun direction_val :: "pcie_trace_direction \<Rightarrow> u32" where
  "direction_val PCIE_TRACE_TX = 1"
| "direction_val PCIE_TRACE_RX = 2"

record trace_record =
  rec_timestamp_ns :: u64
  rec_direction :: u32
  rec_type :: u8
  rec_requester_id :: u16
  rec_completer_id :: u16
  rec_tag :: u8
  rec_length :: u16
  rec_addr :: u64
  rec_payload :: "u8 list"

text \<open>
  \<open>struct sniff_entry\<close>: a filter, a callback and its \<open>user\<close> pointer. A callback gets the
  packet (which it may change), its user pointer and the caller's memory, of type \<open>'u\<close>.
\<close>

record 'u sniff_entry =
  se_filter :: pcie_filter
  se_cb :: "(tlp \<Rightarrow> nat \<Rightarrow> 'u \<Rightarrow> tlp \<times> 'u) option"
  se_user :: nat

record pcie_stats_t =
  sent :: u64
  received :: u64

record ('b, 'u) pcie_ctx =
  backend :: "'b pcie_backend_ops option"
  sniffers :: "'u sniff_entry list"
  sniffer_count :: nat
  rx_addr_min :: u64
  rx_addr_max :: u64
  trace_records :: "trace_record option list"
  trace_count :: u64
  trace_capacity :: u64
  stats :: pcie_stats_t

text \<open>What the environment supplies to one recording: the clock and the allocator's answer.\<close>

record rec_env =
  tv_sec :: u64
  tv_nsec :: u64
  realloc_ok :: "u64 \<Rightarrow> bool"

definition sizeof_trace_record :: nat where
  "sizeof_trace_record = 288"

definition sizeof_payload :: nat where
  "sizeof_payload = 256"

section \<open>Operations\<close>

definition timestamp_of :: "rec_env \<Rightarrow> u64" where
  "timestamp_of env = tv_sec env * 1000000000 + tv_nsec env"

text \<open>The bytes stored as payload: the first 256 at most, the rest of the array zero.\<close>

definition record_payload :: "tlp \<Rightarrow> u8 list c_res" where
  "record_payload t =
     (case mem_data t of
        None \<Rightarrow> Inr (replicate sizeof_payload 0)
      | Some bs \<Rightarrow>
          if tlp_length t > 0
          then let payload_len = min (unat (tlp_length t)) sizeof_payload
               in cbind (mem_read bs payload_len)
                    (\<lambda>src. mem_write (replicate sizeof_payload 0) 0 src)
          else Inr (replicate sizeof_payload 0))"

definition trace_entry :: "rec_env \<Rightarrow> tlp \<Rightarrow> u32 \<Rightarrow> trace_record c_res" where
  "trace_entry env t direction =
     cbind (record_payload t) (\<lambda>payload.
       Inr \<lparr>rec_timestamp_ns = timestamp_of env, rec_direction = direction,
            rec_type = ucast (tlp_type t), rec_requester_id = requester_id t,
            rec_completer_id = completer_id t, rec_tag = tag t, rec_length = tlp_length t,
            rec_addr = mem_addr t, rec_payload = payload\<rparr>)"

text \<open>\<open>realloc\<close>: the block keeps its old cells; new cells are uninitialised.\<close>

definition resize :: "nat \<Rightarrow> 'a option list \<Rightarrow> 'a option list" where
  "resize n xs = take n xs @ replicate (n - length xs) None"

definition new_capacity :: "u64 \<Rightarrow> u64" where
  "new_capacity cap = (if cap = 0 then 16 else cap * 2)"

text \<open>\<open>None\<close> when the array is full and \<open>realloc\<close> returns \<open>NULL\<close>.\<close>

definition trace_grow :: "rec_env \<Rightarrow> ('b, 'u) pcie_ctx \<Rightarrow> ('b, 'u) pcie_ctx option" where
  "trace_grow env c =
     (if trace_count c = trace_capacity c
      then let cap = new_capacity (trace_capacity c);
               bytes = cap * word_of_nat sizeof_trace_record
           in if realloc_ok env bytes
              then Some (c\<lparr>trace_records :=
                             resize (unat bytes div sizeof_trace_record) (trace_records c),
                           trace_capacity := cap\<rparr>)
              else None
      else Some c)"

definition trace_store :: "trace_record \<Rightarrow> ('b, 'u) pcie_ctx \<Rightarrow> ('b, 'u) pcie_ctx c_res" where
  "trace_store r c =
     (if unat (trace_count c) < length (trace_records c)
      then Inr (c\<lparr>trace_records := (trace_records c)[unat (trace_count c) := Some r],
                  trace_count := trace_count c + 1\<rparr>)
      else Inl OutOfBounds)"

definition pcie_trace_record ::
  "rec_env \<Rightarrow> ('b, 'u) pcie_ctx option \<Rightarrow> tlp option \<Rightarrow> u32 \<Rightarrow> ('b, 'u) pcie_ctx option c_res" where
  "pcie_trace_record env ctx tp direction =
     (case (ctx, tp) of
        (Some c, Some t) \<Rightarrow>
          (case trace_grow env c of
             None \<Rightarrow> Inr (Some c)
           | Some c' \<Rightarrow>
               cbind (trace_entry env t direction) (\<lambda>r.
               cbind (trace_store r c') (\<lambda>c''. Inr (Some c''))))
      | _ \<Rightarrow> Inr ctx)"

definition pcie_trace_reset :: "('b, 'u) pcie_ctx option \<Rightarrow> int \<times> ('b, 'u) pcie_ctx option" where
  "pcie_trace_reset ctx =
     (case ctx of None \<Rightarrow> (-1, None) | Some c \<Rightarrow> (0, Some (c\<lparr>trace_count := 0\<rparr>)))"

definition pcie_trace_count :: "('b, 'u) pcie_ctx option \<Rightarrow> u64" where
  "pcie_trace_count ctx = (case ctx of None \<Rightarrow> 0 | Some c \<Rightarrow> trace_count c)"

definition pcie_trace_append ::
  "rec_env \<Rightarrow> ('b, 'u) pcie_ctx option \<Rightarrow> tlp option \<Rightarrow> u32 \<Rightarrow>
   (int \<times> ('b, 'u) pcie_ctx option) c_res" where
  "pcie_trace_append env ctx tp direction =
     (if ctx = None \<or> tp = None then Inr (-1, ctx)
      else cbind (pcie_trace_record env ctx tp direction) (\<lambda>ctx'. Inr (0, ctx')))"

section \<open>The trace as a list\<close>

definition trace_of :: "('b, 'u) pcie_ctx \<Rightarrow> trace_record list" where
  "trace_of c = map the (take (unat (trace_count c)) (trace_records c))"

definition cell_ok :: "trace_record option \<Rightarrow> bool" where
  "cell_ok x = (case x of None \<Rightarrow> False | Some r \<Rightarrow> length (rec_payload r) = sizeof_payload)"

definition trace_ok :: "('b, 'u) pcie_ctx \<Rightarrow> bool" where
  "trace_ok c \<longleftrightarrow>
     length (trace_records c) = unat (trace_capacity c) \<and>
     trace_count c \<le> trace_capacity c \<and>
     unat (trace_capacity c) * sizeof_trace_record < 2 ^ 63 \<and>
     list_all cell_ok (take (unat (trace_count c)) (trace_records c))"

text \<open>
  The allocator never grants more than \<open>PTRDIFF_MAX\<close> bytes, as the C library documents.
\<close>

definition alloc_law :: "rec_env \<Rightarrow> bool" where
  "alloc_law env \<longleftrightarrow> (\<forall>n. realloc_ok env n \<longrightarrow> unat n < 2 ^ 63)"

text \<open>The specification of one record, as a value: what the packet looks like in a trace.\<close>

definition spec_payload :: "tlp \<Rightarrow> u8 list" where
  "spec_payload t =
     (let p = take sizeof_payload (tlp_payload t)
      in p @ replicate (sizeof_payload - length p) 0)"

definition spec_entry :: "rec_env \<Rightarrow> tlp \<Rightarrow> u32 \<Rightarrow> trace_record" where
  "spec_entry env t d =
     \<lparr>rec_timestamp_ns = timestamp_of env, rec_direction = d,
      rec_type = ucast (tlp_type t), rec_requester_id = requester_id t,
      rec_completer_id = completer_id t, rec_tag = tag t, rec_length = tlp_length t,
      rec_addr = mem_addr t, rec_payload = spec_payload t\<rparr>"

text \<open>The array is full and the allocator refuses to grow it: the record is dropped.\<close>

definition record_dropped :: "rec_env \<Rightarrow> ('b, 'u) pcie_ctx \<Rightarrow> bool" where
  "record_dropped env c \<longleftrightarrow>
     trace_count c = trace_capacity c \<and>
     \<not> realloc_ok env (new_capacity (trace_capacity c) * word_of_nat sizeof_trace_record)"

section \<open>One recording\<close>

lemma record_payload_valid: "valid_tlp t \<Longrightarrow> record_payload t = Inr (spec_payload t)"
proof (cases "mem_data t")
  case None
  then show ?thesis
    by (simp add: record_payload_def spec_payload_def tlp_payload_def)
next
  case (Some bs)
  assume "valid_tlp t"
  with Some have len: "unat (tlp_length t) \<le> length bs"
    by (simp add: valid_tlp_Some)
  show ?thesis
  proof (cases "tlp_length t = 0")
    case True
    with Some show ?thesis
      by (simp add: record_payload_def spec_payload_def tlp_payload_def)
  next
    case False
    with Some len show ?thesis
      by (simp add: record_payload_def spec_payload_def tlp_payload_def Let_def mem_read_def
          mem_write_def sizeof_payload_def word_neq_0_conv min.commute)
  qed
qed

lemma length_spec_payload [simp]: "length (spec_payload t) = sizeof_payload"
  by (simp add: spec_payload_def Let_def)

lemma trace_entry_valid: "valid_tlp t \<Longrightarrow> trace_entry env t d = Inr (spec_entry env t d)"
  by (simp add: trace_entry_def record_payload_valid spec_entry_def)

lemma unat_new_capacity:
  "unat cap * sizeof_trace_record < 2 ^ 63 \<Longrightarrow>
     unat (new_capacity cap) = (if cap = 0 then 16 else 2 * unat cap)"
  by (simp add: new_capacity_def sizeof_trace_record_def unat_mult_lem [THEN iffD1])

lemma unat_grow_bytes:
  assumes "unat cap * sizeof_trace_record < 2 ^ 63"
  shows "unat (new_capacity cap * word_of_nat sizeof_trace_record) =
           unat (new_capacity cap) * sizeof_trace_record"
proof -
  have "unat (new_capacity cap) * sizeof_trace_record < 2 ^ 64"
    using assms by (simp add: unat_new_capacity) (simp add: sizeof_trace_record_def)
  then show ?thesis
    by (simp add: unat_word_ariths unat_of_nat sizeof_trace_record_def)
qed

lemma length_resize [simp]: "length (resize n xs) = n"
  by (simp add: resize_def)

lemma take_resize: "k \<le> length xs \<Longrightarrow> k \<le> n \<Longrightarrow> take k (resize n xs) = take k xs"
  by (simp add: resize_def)

lemma trace_grow_ok:
  assumes ok: "trace_ok c" and law: "alloc_law env" and grow: "trace_grow env c = Some c'"
  shows "trace_ok c' \<and> trace_of c' = trace_of c \<and> trace_count c' = trace_count c \<and>
         trace_count c' < trace_capacity c'"
proof (cases "trace_count c = trace_capacity c")
  case False
  with ok grow show ?thesis
    by (auto simp: trace_grow_def trace_ok_def)
next
  case True
  let ?cap = "new_capacity (trace_capacity c)"
  let ?bytes = "?cap * word_of_nat sizeof_trace_record :: u64"
  from ok have cap: "unat (trace_capacity c) * sizeof_trace_record < 2 ^ 63"
    by (simp add: trace_ok_def)
  note bytes = unat_grow_bytes [OF cap]
  have c': "c' = c\<lparr>trace_records := resize (unat ?cap) (trace_records c), trace_capacity := ?cap\<rparr>"
    and granted: "realloc_ok env ?bytes"
    using grow True bytes
    by (auto simp: trace_grow_def Let_def sizeof_trace_record_def split: if_splits)
  from granted law have "unat ?cap * sizeof_trace_record < 2 ^ 63"
    using bytes by (auto simp: alloc_law_def)
  moreover have "trace_capacity c < ?cap"
    using unat_new_capacity [OF cap] by (auto simp: word_less_nat_alt unat_gt_0)
  moreover have "take (unat (trace_capacity c)) (trace_records c) = trace_records c"
      "length (trace_records c) = unat (trace_capacity c)" "list_all cell_ok (trace_records c)"
    using ok True by (auto simp: trace_ok_def)
  ultimately show ?thesis
    using True unfolding c' trace_ok_def trace_of_def
    by (simp add: take_resize word_less_nat_alt less_imp_le word_le_nat_alt)
qed

lemma trace_grow_None_iff: "trace_grow env c = None \<longleftrightarrow> record_dropped env c"
  by (simp add: trace_grow_def record_dropped_def Let_def)

lemma trace_store_ok:
  assumes ok: "trace_ok c" and room: "trace_count c < trace_capacity c"
    and r: "length (rec_payload r) = sizeof_payload"
  shows "\<exists>c'. trace_store r c = Inr c' \<and> trace_ok c' \<and> trace_of c' = trace_of c @ [r]"
proof -
  let ?n = "unat (trace_count c)"
  from ok room have lt: "?n < length (trace_records c)"
    by (simp add: trace_ok_def word_less_nat_alt)
  have succ: "unat (trace_count c + 1) = Suc ?n"
  proof -
    have "Suc ?n < 18446744073709551616"
      using room unat_u64_lt [of "trace_capacity c"]
      unfolding word_less_nat_alt by linarith
    then show ?thesis by (simp add: unat_word_ariths)
  qed
  have "trace_count c + 1 \<le> trace_capacity c"
    using room succ by (simp add: word_le_nat_alt word_less_nat_alt)
  then show ?thesis
    using ok lt r
    by (auto simp: trace_store_def trace_ok_def trace_of_def succ take_update_snoc cell_ok_def)
qed

text \<open>The outcome of one recording on a well-formed context: stored, or dropped unchanged.\<close>

lemma pcie_trace_record_ok:
  assumes ok: "trace_ok c" and law: "alloc_law env" and t: "valid_tlp t"
  shows "\<exists>c'. pcie_trace_record env (Some c) (Some t) d = Inr (Some c') \<and> trace_ok c' \<and>
           trace_of c' = (if record_dropped env c then trace_of c
                          else trace_of c @ [spec_entry env t d])"
proof (cases "trace_grow env c")
  case None
  then have "record_dropped env c" by (simp add: trace_grow_None_iff)
  with ok None show ?thesis by (simp add: pcie_trace_record_def)
next
  case (Some c1)
  note grown = trace_grow_ok [OF ok law Some]
  have "length (rec_payload (spec_entry env t d)) = sizeof_payload"
    by (simp add: spec_entry_def)
  with grown obtain c2 where "trace_store (spec_entry env t d) c1 = Inr c2" "trace_ok c2"
      "trace_of c2 = trace_of c1 @ [spec_entry env t d]"
    using trace_store_ok by blast
  moreover have "\<not> record_dropped env c"
    using Some by (simp flip: trace_grow_None_iff)
  ultimately show ?thesis
    using Some grown by (simp add: pcie_trace_record_def trace_entry_valid [OF t])
qed

text \<open>The frame: a recording touches the trace buffer alone.\<close>

lemma trace_grow_frame:
  "trace_grow env c = Some c' \<Longrightarrow>
     backend c' = backend c \<and> sniffers c' = sniffers c \<and> sniffer_count c' = sniffer_count c \<and>
     rx_addr_min c' = rx_addr_min c \<and> rx_addr_max c' = rx_addr_max c \<and> stats c' = stats c"
  by (auto simp: trace_grow_def Let_def split: if_splits)

lemma trace_store_frame:
  "trace_store r c = Inr c' \<Longrightarrow>
     backend c' = backend c \<and> sniffers c' = sniffers c \<and> sniffer_count c' = sniffer_count c \<and>
     rx_addr_min c' = rx_addr_min c \<and> rx_addr_max c' = rx_addr_max c \<and> stats c' = stats c"
  by (auto simp: trace_store_def split: if_splits)

lemma pcie_trace_record_frame:
  "pcie_trace_record env (Some c) tp d = Inr (Some c') \<Longrightarrow>
     backend c' = backend c \<and> sniffers c' = sniffers c \<and> sniffer_count c' = sniffer_count c \<and>
     rx_addr_min c' = rx_addr_min c \<and> rx_addr_max c' = rx_addr_max c \<and> stats c' = stats c"
  by (auto simp: pcie_trace_record_def c_simps dest!: trace_grow_frame trace_store_frame
      split: option.splits)

lemma pcie_trace_record_nonnull:
  "pcie_trace_record env (Some c) tp d = Inr ctx' \<Longrightarrow> \<exists>c'. ctx' = Some c'"
  by (auto simp: pcie_trace_record_def c_simps split: option.splits)

lemma trace_reset_ok:
  "trace_ok c \<Longrightarrow> \<exists>c'. pcie_trace_reset (Some c) = (0, Some c') \<and> trace_ok c' \<and> trace_of c' = [] \<and>
     trace_capacity c' = trace_capacity c"
  by (simp add: pcie_trace_reset_def trace_ok_def trace_of_def)

lemma trace_count_ok:
  "trace_ok c \<Longrightarrow> unat (pcie_trace_count (Some c)) = length (trace_of c)"
  by (simp add: pcie_trace_count_def trace_ok_def trace_of_def word_le_nat_alt)

lemma trace_of_payload:
  "trace_ok c \<Longrightarrow> r \<in> set (trace_of c) \<Longrightarrow> length (rec_payload r) = sizeof_payload"
  by (auto simp: trace_ok_def trace_of_def list_all_iff cell_ok_def split: option.splits)

section \<open>A log and its clients\<close>

text \<open>
  What the exporters and the session rely on: an append-only log, whose \<open>push\<close> may drop an
  entry but never reorders or alters what it holds, and which can be cleared.
\<close>

fun push_all :: "('e \<Rightarrow> 's \<Rightarrow> 's c_res) \<Rightarrow> 'e list \<Rightarrow> 's \<Rightarrow> 's c_res" where
  "push_all push [] s = Inr s"
| "push_all push (e # es) s = cbind (push e s) (push_all push es)"

locale trace_log =
  fixes contents :: "'s \<Rightarrow> 'r list"
    and invar :: "'s \<Rightarrow> bool"
    and push :: "'e \<Rightarrow> 's \<Rightarrow> 's c_res"
    and clear :: "'s \<Rightarrow> 's"
    and entry :: "'e \<Rightarrow> 'r"
    and fits :: "'e \<Rightarrow> bool"
    and dropped :: "'e \<Rightarrow> 's \<Rightarrow> bool"
  assumes push_law:
      "\<lbrakk>invar s; fits e\<rbrakk> \<Longrightarrow>
         \<exists>s'. push e s = Inr s' \<and> invar s' \<and>
              contents s' = (if dropped e s then contents s else contents s @ [entry e])"
    and clear_law: "invar s \<Longrightarrow> invar (clear s) \<and> contents (clear s) = []"
begin

lemma push_all_subseq:
  assumes "invar s" and "list_all fits es"
  shows "\<exists>s' rs. push_all push es s = Inr s' \<and> invar s' \<and>
           subseq rs (map entry es) \<and> contents s' = contents s @ rs"
  using assms
proof (induction es arbitrary: s)
  case Nil
  then show ?case by simp
next
  case (Cons e es)
  then obtain s1 where s1: "push e s = Inr s1" "invar s1"
      "contents s1 = (if dropped e s then contents s else contents s @ [entry e])"
    using push_law [of s e] by auto
  with Cons obtain s' rs where "push_all push es s1 = Inr s'" "invar s'"
      "subseq rs (map entry es)" "contents s' = contents s1 @ rs"
    by fastforce
  with s1 show ?case
    by (cases "dropped e s") (auto intro: exI [of _ "entry e # rs"])
qed

lemma push_all_complete:
  assumes "invar s" and "list_all fits es" and "length (contents s) + length es \<le> N"
    and room: "\<And>s e. invar s \<Longrightarrow> e \<in> set es \<Longrightarrow> length (contents s) < N \<Longrightarrow> \<not> dropped e s"
  shows "\<exists>s'. push_all push es s = Inr s' \<and> invar s' \<and> contents s' = contents s @ map entry es"
  using assms
proof (induction es arbitrary: s)
  case Nil
  then show ?case by simp
next
  case (Cons e es)
  then have "\<not> dropped e s" by simp
  with Cons.prems obtain s1 where s1: "push e s = Inr s1" "invar s1"
      "contents s1 = contents s @ [entry e]"
    using push_law [of s e] by auto
  moreover have "\<exists>s'. push_all push es s1 = Inr s' \<and> invar s' \<and>
      contents s' = contents s1 @ map entry es"
    using Cons.prems s1 by (intro Cons.IH) auto
  ultimately show ?case by auto
qed

end

text \<open>The context's trace is such a log.\<close>

definition trace_push :: "rec_env \<times> tlp \<times> u32 \<Rightarrow> ('b, 'u) pcie_ctx \<Rightarrow> ('b, 'u) pcie_ctx c_res" where
  "trace_push e c =
     (case e of (env, t, d) \<Rightarrow>
        cbind (pcie_trace_append env (Some c) (Some t) d) (\<lambda>(rc, ctx'). deref ctx'))"

definition trace_clear :: "('b, 'u) pcie_ctx \<Rightarrow> ('b, 'u) pcie_ctx" where
  "trace_clear c = the (snd (pcie_trace_reset (Some c)))"

fun spec_of :: "rec_env \<times> tlp \<times> u32 \<Rightarrow> trace_record" where
  "spec_of (env, t, d) = spec_entry env t d"

fun recordable :: "rec_env \<times> tlp \<times> u32 \<Rightarrow> bool" where
  "recordable (env, t, d) \<longleftrightarrow> alloc_law env \<and> valid_tlp t"

fun push_dropped :: "rec_env \<times> tlp \<times> u32 \<Rightarrow> ('b, 'u) pcie_ctx \<Rightarrow> bool" where
  "push_dropped (env, t, d) c \<longleftrightarrow> record_dropped env c"

interpretation tlog: trace_log trace_of trace_ok trace_push trace_clear spec_of recordable push_dropped
proof (unfold_locales, goal_cases)
  case (1 s e)
  obtain env t d where e: "e = (env, t, d)" by (cases e)
  with 1 have "alloc_law env" and "valid_tlp t" by simp_all
  from pcie_trace_record_ok [OF 1(1) this, of d] obtain c' where
      "pcie_trace_record env (Some s) (Some t) d = Inr (Some c')" "trace_ok c'"
      "trace_of c' = (if record_dropped env s then trace_of s else trace_of s @ [spec_entry env t d])"
    by blast
  with e show ?case
    by (auto simp: trace_push_def pcie_trace_append_def)
next
  case (2 s)
  then show ?case
    using trace_reset_ok by (fastforce simp: trace_clear_def)
qed

text \<open>
  A record is dropped only when the allocator refuses a block of twice the bytes in use (or
  the first block of 16 records).
\<close>

lemma not_dropped_if_granted:
  assumes ok: "trace_ok c"
    and grant: "\<And>n. unat n \<le> 4608 + 576 * length (trace_of c) \<Longrightarrow> realloc_ok env n"
  shows "\<not> record_dropped env c"
proof
  assume drop: "record_dropped env c"
  let ?n = "new_capacity (trace_capacity c) * word_of_nat sizeof_trace_record :: u64"
  from ok have cap: "unat (trace_capacity c) * sizeof_trace_record < 2 ^ 63"
    by (simp add: trace_ok_def)
  have "length (trace_of c) = unat (trace_capacity c)"
    using ok drop by (simp add: trace_ok_def trace_of_def record_dropped_def)
  then have "unat ?n \<le> 4608 + 576 * length (trace_of c)"
    unfolding unat_grow_bytes [OF cap] unat_new_capacity [OF cap]
    by (simp add: sizeof_trace_record_def)
  with grant drop show False by (simp add: record_dropped_def)
qed

end
