(* ===== verification/Pcapcie.thy ===== *)
theory Pcapcie
  imports Trace
begin

text \<open>
  The library interface of \<open>src/pcapcie.c\<close>: opening and closing a context, sending and
  receiving packets, sniffers and the receive loop, link status, device information and the
  link-target check. The calls of \<open>pcie_log\<close> write to standard error only and are left
  out; what \<open>pcie_send\<close> prints to standard output is in \<open>Console\<close>.

  The lemmas about the whole interface are proved once, for any backend that keeps the
  contract \<open>pcie_backend\<close>.
\<close>

section \<open>Opening and closing\<close>

text \<open>The constructors \<open>pcie_backend_golden()\<close> and so on, as \<open>backend.h\<close> declares them.\<close>

type_synonym 'b backend_ctor = "'b \<Rightarrow> ('b pcie_backend_ops option \<times> 'b) c_res"

record 'b backends =
  ctor_golden :: "'b backend_ctor"
  ctor_fpga :: "'b backend_ctor"
  ctor_armds :: "'b backend_ctor"
  ctor_xgig :: "'b backend_ctor"
  ctor_pci :: "'b backend_ctor"

definition sniff_zero :: "'u sniff_entry" where
  "sniff_zero = \<lparr>se_filter = \<lparr>f_mask = 0, f_value = 0\<rparr>, se_cb = None, se_user = 0\<rparr>"

definition max_sniffers :: nat where
  "max_sniffers = 8"

text \<open>\<open>calloc\<close> followed by the initialisation of the address range.\<close>

definition fresh_ctx :: "('b, 'u) pcie_ctx" where
  "fresh_ctx =
     \<lparr>backend = None, sniffers = replicate max_sniffers sniff_zero, sniffer_count = 0,
      rx_addr_min = - 1, rx_addr_max = 0, trace_records = [], trace_count = 0,
      trace_capacity = 0, stats = \<lparr>sent = 0, received = 0\<rparr>\<rparr>"

definition select_backend :: "'b backends \<Rightarrow> string \<Rightarrow> 'b backend_ctor option" where
  "select_backend bes name =
     (if name = ''dummy'' \<or> name = ''golden'' \<or> name = ''golden-standard'' \<or>
         name = ''golden_standard''
      then Some (ctor_golden bes)
      else if name = ''fpga'' then Some (ctor_fpga bes)
      else if name = ''armds'' then Some (ctor_armds bes)
      else if name = ''xgig'' then Some (ctor_xgig bes)
      else if name = ''pci'' then Some (ctor_pci bes)
      else None)"

definition pcie_open ::
  "'b backends \<Rightarrow> bool \<Rightarrow> string option \<Rightarrow> 'b \<Rightarrow> (('b, 'u) pcie_ctx option \<times> 'b) c_res" where
  "pcie_open bes calloc_ok backend_name b =
     (if \<not> calloc_ok then Inr (None, b)
      else cbind (deref backend_name) (\<lambda>name.
        case select_backend bes name of
          None \<Rightarrow> Inr (None, b)
        | Some ctor \<Rightarrow>
            cbind (ctor b) (\<lambda>(opsp, b').
              case opsp of
                None \<Rightarrow> Inr (None, b')
              | Some ops \<Rightarrow> Inr (Some (fresh_ctx\<lparr>backend := Some ops\<rparr>), b'))))"

definition pcie_close :: "('b, 'u) pcie_ctx option \<Rightarrow> 'b \<Rightarrow> 'b c_res" where
  "pcie_close ctx b =
     cbind (deref ctx) (\<lambda>c.
     cbind (deref (backend c)) (\<lambda>ops.
     cbind (deref (ops_close ops)) (\<lambda>close. close b)))"

section \<open>Sending and receiving\<close>

definition count_sent :: "('b, 'u) pcie_ctx \<Rightarrow> ('b, 'u) pcie_ctx" where
  "count_sent c = c\<lparr>stats := (stats c)\<lparr>sent := sent (stats c) + 1\<rparr>\<rparr>"

definition count_received :: "('b, 'u) pcie_ctx \<Rightarrow> ('b, 'u) pcie_ctx" where
  "count_received c = c\<lparr>stats := (stats c)\<lparr>received := received (stats c) + 1\<rparr>\<rparr>"

definition pcie_send ::
  "rec_env \<Rightarrow> ('b, 'u) pcie_ctx option \<Rightarrow> tlp option \<Rightarrow> 'b \<Rightarrow>
   (int \<times> tlp option \<times> ('b, 'u) pcie_ctx option \<times> 'b) c_res" where
  "pcie_send env ctx tp b =
     cbind (deref ctx) (\<lambda>c0.
       let c = count_sent c0 in
       case Option.bind (backend c) ops_send of
         None \<Rightarrow> Inr (-1, tp, Some c, b)
       | Some send \<Rightarrow>
           cbind (send tp b) (\<lambda>(rc, tp', b').
             if rc = 0 \<and> tp' \<noteq> None
             then cbind (pcie_trace_record env (Some c) tp' (direction_val PCIE_TRACE_TX))
                    (\<lambda>ctx'. Inr (rc, tp', ctx', b'))
             else Inr (rc, tp', Some c, b')))"

definition backend_recv :: "('b, 'u) pcie_ctx \<Rightarrow> 'b tlp_op c_res" where
  "backend_recv c = cbind (deref (backend c)) (\<lambda>ops. deref (ops_recv ops))"

definition pcie_recv ::
  "rec_env \<Rightarrow> ('b, 'u) pcie_ctx option \<Rightarrow> tlp option \<Rightarrow> 'b \<Rightarrow>
   (int \<times> tlp option \<times> ('b, 'u) pcie_ctx option \<times> 'b) c_res" where
  "pcie_recv env ctx tp b =
     cbind (deref ctx) (\<lambda>c.
     cbind (backend_recv c) (\<lambda>recv.
     cbind (recv tp b) (\<lambda>(result, tp', b').
       if result = 0
       then cbind (pcie_trace_record env (Some (count_received c)) tp'
                     (direction_val PCIE_TRACE_RX))
              (\<lambda>ctx'. Inr (result, tp', ctx', b'))
       else Inr (result, tp', Some c, b'))))"

section \<open>Sniffers and the receive loop\<close>

definition pcie_sniff ::
  "('b, 'u) pcie_ctx option \<Rightarrow> pcie_filter \<Rightarrow> (tlp \<Rightarrow> nat \<Rightarrow> 'u \<Rightarrow> tlp \<times> 'u) option \<Rightarrow> nat \<Rightarrow>
   (int \<times> ('b, 'u) pcie_ctx option) c_res" where
  "pcie_sniff ctx flt cb user =
     cbind (deref ctx) (\<lambda>c.
       let i = sniffer_count c in
       if i < length (sniffers c)
       then Inr (0, Some (c\<lparr>sniffer_count := i + 1,
                             sniffers := (sniffers c)[i := \<lparr>se_filter = flt, se_cb = cb,
                                                           se_user = user\<rparr>]\<rparr>))
       else Inl OutOfBounds)"

text \<open>
  The inner loop: the first \<open>n\<close> sniffers see the packet in order, each the packet its
  predecessors left.
\<close>

fun dispatch :: "nat \<Rightarrow> 'u sniff_entry list \<Rightarrow> tlp \<Rightarrow> 'u \<Rightarrow> (tlp \<times> 'u) c_res" where
  "dispatch 0 ss t u = Inr (t, u)"
| "dispatch (Suc n) [] t u = Inl OutOfBounds"
| "dispatch (Suc n) (s # ss) t u =
     (if pcie_filter_match (se_filter s) t
      then cbind (deref (se_cb s)) (\<lambda>cb.
             case cb t (se_user s) u of (t', u') \<Rightarrow> dispatch n ss t' u')
      else dispatch n ss t u)"

text \<open>
  The receive loop runs until the backend reports no packet, so it may not return: \<open>None\<close>
  is a loop that goes on for ever. \<open>t\<close> is the loop's uninitialised local packet.
\<close>

partial_function (option) recv_loop ::
  "'b tlp_op \<Rightarrow> tlp \<Rightarrow> ('b, 'u) pcie_ctx \<Rightarrow> 'b \<Rightarrow> 'u \<Rightarrow> (('b, 'u) pcie_ctx \<times> 'b \<times> 'u) c_res option" where
  "recv_loop recv t c b u =
     (case recv (Some t) b of
        Inl e \<Rightarrow> Some (Inl e)
      | Inr (rc, tp, b') \<Rightarrow>
          if rc = 0
          then (case dispatch (sniffer_count c) (sniffers c) (case tp of None \<Rightarrow> t | Some t' \<Rightarrow> t') u of
                  Inl e \<Rightarrow> Some (Inl e)
                | Inr (t'', u') \<Rightarrow> recv_loop recv t'' (count_received c) b' u')
          else Some (Inr (c, b', u)))"

definition pcie_loop ::
  "tlp \<Rightarrow> ('b, 'u) pcie_ctx option \<Rightarrow> 'b \<Rightarrow> 'u \<Rightarrow>
   (('b, 'u) pcie_ctx \<times> 'b \<times> 'u) c_res option" where
  "pcie_loop t ctx b u =
     (case cbind (deref ctx) (\<lambda>c. cbind (backend_recv c) (\<lambda>recv. Inr (c, recv))) of
        Inl e \<Rightarrow> Some (Inl e)
      | Inr (c, recv) \<Rightarrow> recv_loop recv t c b u)"

section \<open>Link status, device information and the link-target check\<close>

definition pcie_get_link_status ::
  "('b, 'u) pcie_ctx option \<Rightarrow> link_status option \<Rightarrow> 'b \<Rightarrow>
   (int \<times> link_status option \<times> 'b) c_res" where
  "pcie_get_link_status ctx status b =
     (case (ctx, status) of
        (Some c, Some s) \<Rightarrow>
          (case Option.bind (backend c) ops_link_status of
             None \<Rightarrow> Inr (-1, Some link_status_zero, b)
           | Some link_status \<Rightarrow> link_status (Some link_status_zero) b)
      | _ \<Rightarrow> Inr (-1, status, b))"

definition pcie_get_device_info ::
  "('b, 'u) pcie_ctx option \<Rightarrow> device_info option \<Rightarrow> 'b \<Rightarrow>
   (int \<times> device_info option \<times> 'b) c_res" where
  "pcie_get_device_info ctx info b =
     (case (ctx, info) of
        (Some c, Some i) \<Rightarrow>
          (case Option.bind (backend c) ops_device_info of
             None \<Rightarrow> Inr (-1, Some device_info_zero, b)
           | Some device_info \<Rightarrow> device_info (Some device_info_zero) b)
      | _ \<Rightarrow> Inr (-1, info, b))"

text \<open>The verdict on a link status, from the first to the last early return.\<close>

definition link_target_met :: "link_status \<Rightarrow> u32 \<Rightarrow> u8 \<Rightarrow> bool" where
  "link_target_met status min_gen min_width =
     (if min_gen \<noteq> gen_val PCIE_GEN_UNKNOWN \<and> negotiated_gen status \<noteq> PCIE_GEN_UNKNOWN \<and>
         gen_val (negotiated_gen status) < min_gen
      then False
      else if min_width > 0 \<and> negotiated_link_width status < min_width
      then False
      else True)"

definition pcie_check_link_target ::
  "('b, 'u) pcie_ctx option \<Rightarrow> u32 \<Rightarrow> u8 \<Rightarrow> int option \<Rightarrow> 'b \<Rightarrow> (int \<times> int option \<times> 'b) c_res" where
  "pcie_check_link_target ctx min_gen min_width pass b =
     (if ctx = None \<or> pass = None then Inr (-1, pass, b)
      else cbind (pcie_get_link_status ctx (Some link_status_zero) b) (\<lambda>(rc, status, b').
        if rc \<noteq> 0 then Inr (-1, Some 0, b')
        else cbind (deref status) (\<lambda>s.
          Inr (0, Some (if link_target_met s min_gen min_width then 1 else 0), b'))))"

section \<open>Accessors\<close>

definition pcie_stats :: "('b, 'u) pcie_ctx option \<Rightarrow> pcie_stats_t c_res" where
  "pcie_stats ctx = cbind (deref ctx) (\<lambda>c. Inr (stats c))"

definition pcie_rx_addr_min :: "('b, 'u) pcie_ctx option \<Rightarrow> u64 c_res" where
  "pcie_rx_addr_min ctx = cbind (deref ctx) (\<lambda>c. Inr (rx_addr_min c))"

definition pcie_rx_addr_max :: "('b, 'u) pcie_ctx option \<Rightarrow> u64 c_res" where
  "pcie_rx_addr_max ctx = cbind (deref ctx) (\<lambda>c. Inr (rx_addr_max c))"

section \<open>Well-formed contexts\<close>

text \<open>
  What \<open>pcie_open\<close> establishes and every operation keeps. Nothing in the library writes the
  received address range, so its initial value is part of the invariant.
\<close>

definition ctx_ok :: "'b pcie_backend_ops \<Rightarrow> ('b, 'u) pcie_ctx \<Rightarrow> bool" where
  "ctx_ok ops c \<longleftrightarrow>
     backend c = Some ops \<and> trace_ok c \<and>
     length (sniffers c) = max_sniffers \<and> sniffer_count c \<le> max_sniffers \<and>
     list_all (\<lambda>s. se_cb s \<noteq> None) (take (sniffer_count c) (sniffers c)) \<and>
     rx_addr_min c = - 1 \<and> rx_addr_max c = 0"

lemma ctx_ok_fresh: "ctx_ok ops (fresh_ctx\<lparr>backend := Some ops\<rparr>)"
  by (simp add: ctx_ok_def fresh_ctx_def trace_ok_def)

lemma trace_of_fresh [simp]: "trace_of (fresh_ctx\<lparr>backend := Some ops\<rparr>) = []"
  by (simp add: trace_of_def fresh_ctx_def)

lemma count_sent_simps [simp]:
  "ctx_ok ops (count_sent c) = ctx_ok ops c" "trace_ok (count_sent c) = trace_ok c"
  "trace_of (count_sent c) = trace_of c" "backend (count_sent c) = backend c"
  "record_dropped env (count_sent c) = record_dropped env c"
  "sniffers (count_sent c) = sniffers c" "sniffer_count (count_sent c) = sniffer_count c"
  "stats (count_sent c) = (stats c)\<lparr>sent := sent (stats c) + 1\<rparr>"
  by (simp_all add: count_sent_def ctx_ok_def trace_ok_def trace_of_def record_dropped_def)

lemma count_received_simps [simp]:
  "ctx_ok ops (count_received c) = ctx_ok ops c" "trace_ok (count_received c) = trace_ok c"
  "trace_of (count_received c) = trace_of c" "backend (count_received c) = backend c"
  "record_dropped env (count_received c) = record_dropped env c"
  "sniffers (count_received c) = sniffers c"
  "sniffer_count (count_received c) = sniffer_count c"
  "stats (count_received c) = (stats c)\<lparr>received := received (stats c) + 1\<rparr>"
  by (simp_all add: count_received_def ctx_ok_def trace_ok_def trace_of_def record_dropped_def)

lemma ctx_ok_record:
  assumes "ctx_ok ops c" and "alloc_law env" and "valid_tlp t"
  shows "\<exists>c'. pcie_trace_record env (Some c) (Some t) d = Inr (Some c') \<and> ctx_ok ops c' \<and>
           stats c' = stats c \<and> sniffers c' = sniffers c \<and> sniffer_count c' = sniffer_count c \<and>
           trace_of c' = trace_of c @ (if record_dropped env c then [] else [spec_entry env t d])"
proof -
  from assms obtain c' where c': "pcie_trace_record env (Some c) (Some t) d = Inr (Some c')"
      "trace_ok c'" "trace_of c' = (if record_dropped env c then trace_of c
                          else trace_of c @ [spec_entry env t d])"
    using pcie_trace_record_ok [of c env t d] by (auto simp: ctx_ok_def)
  from pcie_trace_record_frame [OF c'(1)] assms(1) c' show ?thesis
    by (auto simp: ctx_ok_def)
qed

lemma pcie_sniff_ok:
  assumes "ctx_ok ops c" and "cb \<noteq> None"
  shows "if sniffer_count c < max_sniffers
         then \<exists>c'. pcie_sniff (Some c) flt cb user = Inr (0, Some c') \<and> ctx_ok ops c' \<and>
                sniffer_count c' = sniffer_count c + 1 \<and> trace_of c' = trace_of c \<and>
                take (sniffer_count c') (sniffers c') =
                  take (sniffer_count c) (sniffers c) @
                    [\<lparr>se_filter = flt, se_cb = cb, se_user = user\<rparr>]
         else pcie_sniff (Some c) flt cb user = Inl OutOfBounds"
  using assms
  by (auto simp: pcie_sniff_def ctx_ok_def trace_ok_def trace_of_def take_update_snoc Let_def)

lemma dispatch_defined:
  "\<lbrakk>n \<le> length ss; list_all (\<lambda>s. se_cb s \<noteq> None) (take n ss)\<rbrakk> \<Longrightarrow>
     \<exists>t' u'. dispatch n ss t u = Inr (t', u')"
proof (induction n ss t u rule: dispatch.induct)
  case (3 n s ss t u)
  then show ?case
    by (cases "pcie_filter_match (se_filter s) t") (auto split: prod.splits)
qed auto

text \<open>
  When every matching callback leaves the packet as it is, dispatching is a fold of the
  matching callbacks over the caller's memory, in registration order.
\<close>

definition read_only :: "'u sniff_entry \<Rightarrow> bool" where
  "read_only s \<longleftrightarrow> (\<exists>cb. se_cb s = Some cb \<and> (\<forall>t n u. fst (cb t n u) = t))"

definition run_cb :: "tlp \<Rightarrow> 'u sniff_entry \<Rightarrow> 'u \<Rightarrow> 'u" where
  "run_cb t s u = snd (the (se_cb s) t (se_user s) u)"

lemma dispatch_fold:
  "\<lbrakk>n \<le> length ss; list_all read_only (take n ss)\<rbrakk> \<Longrightarrow>
     dispatch n ss t u =
       Inr (t, fold (run_cb t) (filter (\<lambda>s. pcie_filter_match (se_filter s) t) (take n ss)) u)"
proof (induction n ss t u rule: dispatch.induct)
  case (3 n s ss t u)
  then obtain cb where cb: "se_cb s = Some cb" "\<And>t n u. fst (cb t n u) = t"
    by (auto simp: read_only_def)
  obtain u' where "cb t (se_user s) u = (t, u')"
    using cb(2) [of t "se_user s" u] by (cases "cb t (se_user s) u") auto
  with 3 cb(1) show ?case
    by (cases "pcie_filter_match (se_filter s) t") (auto simp: run_cb_def)
qed auto

section \<open>The interface over a backend that keeps the contract\<close>

context pcie_backend
begin

lemma send_total:
  assumes c: "ctx_ok ops c" and b: "inv b" and t: "accepts t" and env: "alloc_law env"
  shows "\<exists>rc t' c' b'. pcie_send env (Some c) (Some t) b = Inr (rc, Some t', Some c', b') \<and>
           ctx_ok ops c' \<and> inv b' \<and> same_shape t t' \<and>
           stats c' = (stats c)\<lparr>sent := sent (stats c) + 1\<rparr> \<and>
           sniffers c' = sniffers c \<and> sniffer_count c' = sniffer_count c \<and>
           trace_of c' = trace_of c @
             (if rc = 0 \<and> \<not> record_dropped env c
              then [spec_entry env t' (direction_val PCIE_TRACE_TX)] else [])"
proof -
  obtain f rc t' b' where f: "ops_send ops = Some f" "f (Some t) b = Inr (rc, Some t', b')"
      "inv b'" "same_shape t t'"
    using send_contract [OF b t] by blast
  have bk: "Option.bind (backend c) ops_send = Some f"
    using c f(1) by (simp add: ctx_ok_def)
  show ?thesis
  proof (cases "rc = 0")
    case False
    with f c bk show ?thesis by (simp add: pcie_send_def Let_def)
  next
    case True
    have "valid_tlp t'" using same_shape_valid [OF f(4)] accepts_valid [OF t] .
    with c env obtain c' where
        "pcie_trace_record env (Some (count_sent c)) (Some t') (direction_val PCIE_TRACE_TX) = Inr (Some c')"
        "ctx_ok ops c'" "stats c' = stats (count_sent c)" "sniffers c' = sniffers c"
        "sniffer_count c' = sniffer_count c"
        "trace_of c' = trace_of c @ (if record_dropped env c then []
           else [spec_entry env t' (direction_val PCIE_TRACE_TX)])"
      using ctx_ok_record [of ops "count_sent c" env t' "direction_val PCIE_TRACE_TX"]
      by (auto simp del: direction_val.simps)
    with True f bk show ?thesis
      by (simp add: pcie_send_def Let_def del: direction_val.simps)
  qed
qed

lemma recv_total:
  assumes c: "ctx_ok ops c" and b: "inv b" and env: "alloc_law env"
  shows "\<exists>rc t' c' b'. pcie_recv env (Some c) (Some t) b = Inr (rc, Some t', Some c', b') \<and>
           ctx_ok ops c' \<and> inv b' \<and>
           stats c' = (if rc = 0 then (stats c)\<lparr>received := received (stats c) + 1\<rparr> else stats c) \<and>
           sniffers c' = sniffers c \<and> sniffer_count c' = sniffer_count c \<and>
           trace_of c' = trace_of c @
             (if rc = 0 \<and> \<not> record_dropped env c
              then [spec_entry env t' (direction_val PCIE_TRACE_RX)] else [])"
proof -
  obtain f rc t' b' where f: "ops_recv ops = Some f" "f (Some t) b = Inr (rc, Some t', b')"
      "inv b'" "rc = 0 \<longrightarrow> valid_tlp t'"
    using recv_contract [OF b] by blast
  have bk: "backend_recv c = Inr f"
    using c f(1) by (simp add: ctx_ok_def backend_recv_def)
  show ?thesis
  proof (cases "rc = 0")
    case False
    with f c bk show ?thesis by (simp add: pcie_recv_def)
  next
    case True
    with f have "valid_tlp t'" by simp
    with c env obtain c' where
        "pcie_trace_record env (Some (count_received c)) (Some t') (direction_val PCIE_TRACE_RX) = Inr (Some c')"
        "ctx_ok ops c'" "stats c' = stats (count_received c)" "sniffers c' = sniffers c"
        "sniffer_count c' = sniffer_count c"
        "trace_of c' = trace_of c @ (if record_dropped env c then []
           else [spec_entry env t' (direction_val PCIE_TRACE_RX)])"
      using ctx_ok_record [of ops "count_received c" env t' "direction_val PCIE_TRACE_RX"]
      by (auto simp del: direction_val.simps)
    with True f bk show ?thesis
      by (simp add: pcie_recv_def del: direction_val.simps)
  qed
qed

lemma link_status_total:
  assumes "ctx_ok ops c" and "inv b"
  shows "\<exists>rc s' b'. pcie_get_link_status (Some c) (Some s) b = Inr (rc, Some s', b') \<and> inv b'"
  using assms link_contract
  by (cases "ops_link_status ops") (fastforce simp: pcie_get_link_status_def ctx_ok_def)+

lemma device_info_total:
  assumes "ctx_ok ops c" and "inv b"
  shows "\<exists>rc i' b'. pcie_get_device_info (Some c) (Some i) b = Inr (rc, Some i', b') \<and> inv b'"
  using assms info_contract
  by (cases "ops_device_info ops") (fastforce simp: pcie_get_device_info_def ctx_ok_def)+

lemma check_link_target_total:
  assumes "ctx_ok ops c" and "inv b"
  shows "\<exists>rc p b'. pcie_check_link_target (Some c) g w (Some p0) b = Inr (rc, Some p, b') \<and> inv b' \<and>
           (rc = 0 \<or> rc = -1) \<and> (p = 0 \<or> p = 1) \<and> (rc = -1 \<longrightarrow> p = 0)"
proof -
  obtain rc s b' where "pcie_get_link_status (Some c) (Some link_status_zero) b = Inr (rc, Some s, b')"
      "inv b'"
    using link_status_total [OF assms] by blast
  then show ?thesis by (simp add: pcie_check_link_target_def)
qed

lemma close_total: "ctx_ok ops c \<Longrightarrow> inv b \<Longrightarrow> \<exists>b'. pcie_close (Some c) b = Inr b' \<and> inv b'"
  using close_contract by (auto simp: pcie_close_def ctx_ok_def)

end


text \<open>\<open>n\<close> packets received, nothing else changed.\<close>

definition add_received :: "nat \<Rightarrow> ('b, 'u) pcie_ctx \<Rightarrow> ('b, 'u) pcie_ctx" where
  "add_received n c = c\<lparr>stats := (stats c)\<lparr>received := received (stats c) + word_of_nat n\<rparr>\<rparr>"

lemma add_received_0 [simp]: "add_received 0 c = c"
  by (simp add: add_received_def)

lemma add_received_Suc [simp]: "add_received n (count_received c) = add_received (Suc n) c"
  by (simp add: add_received_def count_received_def)

lemma ctx_ok_add_received [simp]: "ctx_ok ops (add_received n c) = ctx_ok ops c"
  by (simp add: add_received_def ctx_ok_def trace_ok_def)

lemma trace_of_add_received [simp]: "trace_of (add_received n c) = trace_of c"
  by (simp add: add_received_def trace_of_def)

context finite_backend
begin

lemma recv_loop_returns:
  assumes recv: "ops_recv ops = Some f"
  shows "\<lbrakk>ctx_ok ops c; inv b\<rbrakk> \<Longrightarrow>
     \<exists>n b' u'. recv_loop f t c b u = Some (Inr (add_received n c, b', u')) \<and>
               n \<le> remaining b \<and> inv b'"
proof (induction b arbitrary: c t u rule: measure_induct_rule [of remaining])
  case (less b)
  obtain rc t1 b1 where f: "f (Some t) b = Inr (rc, Some t1, b1)" "inv b1"
    using recv_contract [OF less.prems(2), of t] recv by auto
  show ?case
  proof (cases "rc = 0")
    case False
    with f less.prems show ?thesis
      by (auto simp: recv_loop.simps [of f t] intro: exI [of _ 0])
  next
    case True
    with f have dec: "remaining b1 < remaining b"
      using recv_consumes [OF less.prems(2) recv] by blast
    obtain t2 u2 where d: "dispatch (sniffer_count c) (sniffers c) t1 u = Inr (t2, u2)"
      using dispatch_defined [of "sniffer_count c" "sniffers c" t1 u] less.prems(1)
      by (auto simp: ctx_ok_def)
    have step: "recv_loop f t c b u = recv_loop f t2 (count_received c) b1 u2"
      using f True d by (subst recv_loop.simps) simp
    have "ctx_ok ops (count_received c)" using less.prems(1) by simp
    from less.IH [OF dec this f(2)] obtain n b' u' where
        "recv_loop f t2 (count_received c) b1 u2 = Some (Inr (add_received n (count_received c), b', u'))"
        "n \<le> remaining b1" "inv b'"
      by blast
    with step dec show ?thesis by (auto intro!: exI [of _ "Suc n"])
  qed
qed

lemma loop_returns:
  assumes "ctx_ok ops c" and "inv b"
  shows "\<exists>n b' u'. pcie_loop t (Some c) b u = Some (Inr (add_received n c, b', u')) \<and>
           n \<le> remaining b \<and> inv b'"
proof -
  obtain f where "ops_recv ops = Some f" using recv_contract [OF assms(2)] by blast
  with recv_loop_returns [OF this assms] show ?thesis
    using assms(1) by (simp add: pcie_loop_def backend_recv_def ctx_ok_def)
qed

end

text \<open>What the registered sniffers do with one packet, when they only look at it.\<close>

definition show_packet :: "('b, 'u) pcie_ctx \<Rightarrow> tlp \<Rightarrow> 'u \<Rightarrow> 'u" where
  "show_packet c t u =
     fold (run_cb t)
       (filter (\<lambda>s. pcie_filter_match (se_filter s) t) (take (sniffer_count c) (sniffers c))) u"

lemma show_packet_received [simp]: "show_packet (count_received c) = show_packet c"
  by (simp add: show_packet_def fun_eq_iff)

lemma show_packet_alone:
  assumes "take (sniffer_count c) (sniffers c) = [s]"
  shows "show_packet c t u = (if pcie_filter_match (se_filter s) t then run_cb t s u else u)"
  by (simp add: show_packet_def assms)

context scripted_backend
begin

text \<open>
  With sniffers that only look, the loop shows every packet still to come to every matching
  sniffer: packets in arrival order, sniffers in registration order.
\<close>

lemma recv_loop_script:
  assumes recv: "ops_recv ops = Some f" and ro: "list_all read_only (take (sniffer_count c) (sniffers c))"
  shows "\<lbrakk>ctx_ok ops c; inv b; upcoming b = ps\<rbrakk> \<Longrightarrow>
     \<exists>b'. recv_loop f t c b u =
            Some (Inr (add_received (length ps) c, b', fold (show_packet c) ps u)) \<and>
          inv b' \<and> upcoming b' = []"
  using ro
proof (induction ps arbitrary: b c t u)
  case Nil
  obtain rc t1 b1 where f: "f (Some t) b = Inr (rc, Some t1, b1)"
    using recv_contract [OF Nil.prems(2), of t] recv by auto
  from recv_empty [OF Nil.prems(2,3) recv f] f Nil.prems show ?case
    by (simp add: recv_loop.simps [of f t])
next
  case (Cons p ps)
  obtain rc t1 b1 where f: "f (Some t) b = Inr (rc, Some t1, b1)" "inv b1"
    using recv_contract [OF Cons.prems(2), of t] recv by auto
  from recv_next [OF Cons.prems(2,3) recv f(1)]
  have p: "rc = 0" "t1 = p" "upcoming b1 = ps" by auto
  have len: "sniffer_count c \<le> length (sniffers c)" using Cons.prems(1) by (simp add: ctx_ok_def)
  have step: "recv_loop f t c b u = recv_loop f p (count_received c) b1 (show_packet c p u)"
    using f p dispatch_fold [OF len Cons.prems(4), of p u]
    by (subst recv_loop.simps) (simp add: show_packet_def)
  obtain b' where "recv_loop f p (count_received c) b1 (show_packet c p u) =
      Some (Inr (add_received (length ps) (count_received c), b',
        fold (show_packet (count_received c)) ps (show_packet c p u)))" "inv b'" "upcoming b' = []"
    using Cons.IH [OF _ f(2) p(3), of "count_received c" p "show_packet c p u"] Cons.prems by auto
  then show ?case by (simp add: step)
qed

lemma loop_script:
  assumes "ctx_ok ops c" and "inv b" and "list_all read_only (take (sniffer_count c) (sniffers c))"
  shows "\<exists>b'. pcie_loop t (Some c) b u =
           Some (Inr (add_received (length (upcoming b)) c, b', fold (show_packet c) (upcoming b) u)) \<and>
         inv b' \<and> upcoming b' = []"
proof -
  obtain f where f: "ops_recv ops = Some f" using recv_contract [OF assms(2)] by blast
  from recv_loop_script [OF f assms(3,1,2) refl, of t u] f show ?thesis
    using assms(1) by (simp add: pcie_loop_def backend_recv_def ctx_ok_def)
qed

end

end
