(* ===== verification/Session.thy ===== *)
theory Session
  imports Pcapcie
begin

text \<open>
  Sessions: any sequence of library calls on a context from \<open>pcie_open\<close>, over any
  backend whatever it does, as a step relation. The invariant of \<open>session_reachable\<close>
  is what the library alone guarantees, with no contract on the backend.
\<close>

type_synonym ('b, 'u) session = "('b, 'u) pcie_ctx \<times> 'b \<times> 'u"

inductive api_step :: "('b, 'u) session \<Rightarrow> ('b, 'u) session \<Rightarrow> bool" where
  call_send:
    "\<lbrakk>alloc_law env; pcie_send env (Some c) tp b = Inr (rc, tp', Some c', b')\<rbrakk> \<Longrightarrow>
       api_step (c, b, u) (c', b', u)"
| call_recv:
    "\<lbrakk>alloc_law env; pcie_recv env (Some c) tp b = Inr (rc, tp', Some c', b')\<rbrakk> \<Longrightarrow>
       api_step (c, b, u) (c', b', u)"
| call_append:
    "\<lbrakk>alloc_law env; pcie_trace_append env (Some c) tp d = Inr (rc, Some c')\<rbrakk> \<Longrightarrow>
       api_step (c, b, u) (c', b, u)"
| call_reset:
    "pcie_trace_reset (Some c) = (rc, Some c') \<Longrightarrow> api_step (c, b, u) (c', b, u)"
| call_sniff:
    "pcie_sniff (Some c) flt cb user = Inr (rc, Some c') \<Longrightarrow> api_step (c, b, u) (c', b, u)"
| call_loop:
    "pcie_loop t (Some c) b u = Some (Inr (c', b', u')) \<Longrightarrow> api_step (c, b, u) (c', b', u')"
| call_link_status:
    "pcie_get_link_status (Some c) s b = Inr (rc, s', b') \<Longrightarrow> api_step (c, b, u) (c, b', u)"
| call_device_info:
    "pcie_get_device_info (Some c) i b = Inr (rc, i', b') \<Longrightarrow> api_step (c, b, u) (c, b', u)"
| call_check:
    "pcie_check_link_target (Some c) g w p b = Inr (rc, p', b') \<Longrightarrow> api_step (c, b, u) (c, b', u)"

inductive session_reachable :: "'b backends \<Rightarrow> 'b \<Rightarrow> ('b, 'u) session \<Rightarrow> bool"
  for bes :: "'b backends" and b0 :: 'b where
  opened:
    "pcie_open bes calloc_ok name b0 = Inr (Some c, b) \<Longrightarrow> session_reachable bes b0 (c, b, u)"
| stepped:
    "\<lbrakk>session_reachable bes b0 s; api_step s s'\<rbrakk> \<Longrightarrow> session_reachable bes b0 s'"

inductive_cases api_stepE: "api_step (c, b, u) s'"

text \<open>The invariant on the context.\<close>

definition session_inv :: "('b, 'u) pcie_ctx \<Rightarrow> bool" where
  "session_inv c \<longleftrightarrow>
     trace_ok c \<and> length (sniffers c) = max_sniffers \<and> sniffer_count c \<le> max_sniffers \<and>
     rx_addr_min c = - 1 \<and> rx_addr_max c = 0"

lemma session_inv_counts [simp]:
  "session_inv (count_sent c) = session_inv c"
  "session_inv (count_received c) = session_inv c"
  "session_inv (add_received n c) = session_inv c"
  by (simp_all add: session_inv_def count_sent_def count_received_def add_received_def trace_ok_def)

lemma trace_entry_payload: "trace_entry env t d = Inr r \<Longrightarrow> length (rec_payload r) = sizeof_payload"
  by (auto simp: trace_entry_def record_payload_def c_simps Let_def split: option.splits if_splits)

lemma pcie_trace_record_inv:
  assumes "session_inv c" and "alloc_law env"
    and rec: "pcie_trace_record env (Some c) tp d = Inr (Some c')"
  shows "session_inv c'"
proof -
  from assms(1) have ok: "trace_ok c" by (simp add: session_inv_def)
  have "trace_ok c'"
  proof (cases "tp = None \<or> trace_grow env c = None")
    case True
    with rec ok show ?thesis by (auto simp: pcie_trace_record_def split: option.splits)
  next
    case False
    then obtain t c1 where t: "tp = Some t" and c1: "trace_grow env c = Some c1" by auto
    with rec obtain r where r: "trace_entry env t d = Inr r" "trace_store r c1 = Inr c'"
      by (auto simp: pcie_trace_record_def c_simps)
    from trace_grow_ok [OF ok assms(2) c1] have "trace_ok c1" "trace_count c1 < trace_capacity c1"
      by blast+
    from trace_store_ok [OF this trace_entry_payload [OF r(1)]] r(2) show ?thesis by auto
  qed
  with assms(1) pcie_trace_record_frame [OF rec] show ?thesis by (simp add: session_inv_def)
qed

lemma recv_loop_add_received:
  fixes f :: "'b tlp_op" and c :: "('b, 'u) pcie_ctx"
  assumes "recv_loop f t c b u = Some r"
  shows "\<forall>c' b' u'. r = Inr (c', b', u') \<longrightarrow> (\<exists>n. c' = add_received n c)"
proof (rule recv_loop.raw_induct
    [where P = "\<lambda>f t c b u r. \<forall>c' b' u'. r = Inr (c', b', u') \<longrightarrow> (\<exists>n. c' = add_received n c)",
      OF _ assms])
  fix rl and f :: "'b tlp_op" and t and c :: "('b, 'u) pcie_ctx" and b u r
  assume IH: "\<And>f t c b u r. rl f t c b u = Some r \<Longrightarrow>
      \<forall>c' b' u'. r = Inr (c', b', u') \<longrightarrow> (\<exists>n. c' = add_received n c)"
    and eq: "(case f (Some t) b of
        Inl e \<Rightarrow> Some (Inl e)
      | Inr (rc, tp, b') \<Rightarrow>
          if rc = 0
          then (case dispatch (sniffer_count c) (sniffers c) (case tp of None \<Rightarrow> t | Some t' \<Rightarrow> t') u of
                  Inl e \<Rightarrow> Some (Inl e)
                | Inr (t'', u') \<Rightarrow> rl f t'' (count_received c) b' u')
          else Some (Inr (c, b', u))) = Some r"
  show "\<forall>c' b' u'. r = Inr (c', b', u') \<longrightarrow> (\<exists>n. c' = add_received n c)"
    using eq
    by (auto split: sum.splits prod.splits if_splits option.splits
        dest!: IH intro: exI [of _ 0] exI [of _ "Suc n" for n])
qed

lemma pcie_loop_inv:
  "pcie_loop t (Some c) b u = Some (Inr (c', b', u')) \<Longrightarrow> session_inv c \<Longrightarrow> session_inv c'"
  by (auto simp: pcie_loop_def split: sum.splits prod.splits
      dest!: recv_loop_add_received simp: c_simps)

lemma pcie_send_inv:
  assumes "session_inv c" and "alloc_law env"
    and send: "pcie_send env (Some c) tp b = Inr (rc, tp', Some c', b')"
  shows "session_inv c'"
  using send assms(1,2) pcie_trace_record_inv [of "count_sent c" env]
  by (auto simp: pcie_send_def Let_def c_simps split: option.splits if_splits)

lemma pcie_recv_inv:
  assumes "session_inv c" and "alloc_law env"
    and recv: "pcie_recv env (Some c) tp b = Inr (rc, tp', Some c', b')"
  shows "session_inv c'"
  using recv assms(1,2) pcie_trace_record_inv [of "count_received c" env]
  by (auto simp: pcie_recv_def c_simps split: if_splits)

lemma pcie_append_inv:
  "\<lbrakk>session_inv c; alloc_law env; pcie_trace_append env (Some c) tp d = Inr (rc, Some c')\<rbrakk> \<Longrightarrow>
     session_inv c'"
  by (auto simp: pcie_trace_append_def c_simps split: if_splits intro: pcie_trace_record_inv)

lemma pcie_reset_inv:
  "\<lbrakk>session_inv c; pcie_trace_reset (Some c) = (rc, Some c')\<rbrakk> \<Longrightarrow> session_inv c'"
  by (auto simp: pcie_trace_reset_def session_inv_def trace_ok_def)

lemma pcie_sniff_inv:
  "\<lbrakk>session_inv c; pcie_sniff (Some c) flt cb user = Inr (rc, Some c')\<rbrakk> \<Longrightarrow> session_inv c'"
  by (auto simp: pcie_sniff_def session_inv_def trace_ok_def Let_def split: if_splits)

lemmas api_invs = pcie_send_inv pcie_recv_inv pcie_append_inv pcie_reset_inv pcie_sniff_inv pcie_loop_inv

lemma api_step_inv: "api_step (c, b, u) (c', b', u') \<Longrightarrow> session_inv c \<Longrightarrow> session_inv c'"
  by (erule api_stepE) (blast intro: api_invs)+

lemma pcie_open_fresh:
  assumes "pcie_open bes ok name b0 = Inr (Some c, b)"
  shows "\<exists>ops. c = fresh_ctx\<lparr>backend := Some ops\<rparr>"
proof -
  from assms obtain n ctor where n: "name = Some n" "select_backend bes n = Some ctor" "ok"
    by (auto simp: pcie_open_def c_simps split: if_splits option.splits)
  with assms show ?thesis by (auto simp: pcie_open_def c_simps split: option.splits)
qed

lemma session_opened_inv:
  "pcie_open bes ok name b0 = Inr (Some c, b) \<Longrightarrow> session_inv c"
  using pcie_open_fresh by (fastforce simp: session_inv_def fresh_ctx_def trace_ok_def)

lemma session_reachable_inv: "session_reachable bes b0 (c, b, u) \<Longrightarrow> session_inv c"
proof (induction "(c, b, u)" arbitrary: c b u rule: session_reachable.induct)
  case (opened calloc_ok name c b u)
  then show ?case by (rule session_opened_inv)
next
  case (stepped s c' b' u')
  obtain c b u where s: "s = (c, b, u)" by (cases s)
  with stepped.hyps have "session_inv c" and "api_step (c, b, u) (c', b', u')" by simp_all
  then show ?case by (rule api_step_inv [rotated])
qed

section \<open>Registering several sniffers\<close>

fun sniff_all :: "'u sniff_entry list \<Rightarrow> ('b, 'u) pcie_ctx \<Rightarrow> ('b, 'u) pcie_ctx c_res" where
  "sniff_all [] c = Inr c"
| "sniff_all (s # ss) c =
     cbind (pcie_sniff (Some c) (se_filter s) (se_cb s) (se_user s)) (\<lambda>(rc, ctx').
     cbind (deref ctx') (sniff_all ss))"

lemma pcie_sniff_step:
  assumes "ctx_ok ops c" and "se_cb s \<noteq> None" and "sniffer_count c < max_sniffers"
  obtains c' where "pcie_sniff (Some c) (se_filter s) (se_cb s) (se_user s) = Inr (0, Some c')"
    and "ctx_ok ops c'" and "sniffer_count c' = sniffer_count c + 1" and "trace_of c' = trace_of c"
    and "take (sniffer_count c') (sniffers c') = take (sniffer_count c) (sniffers c) @ [s]"
  using pcie_sniff_ok [OF assms(1,2), of "se_filter s" "se_user s"] assms(3) by auto

lemma pcie_sniff_full:
  "\<lbrakk>ctx_ok ops c; sniffer_count c = max_sniffers\<rbrakk> \<Longrightarrow> pcie_sniff (Some c) flt cb user = Inl OutOfBounds"
  by (simp add: pcie_sniff_def ctx_ok_def)

section \<open>Properties\<close>

text \<open>
  C29: Sniffers are kept in the order they are registered, behind those there already, and the
  context stays well formed; but there is no check against the capacity: registering a ninth
  one writes outside the array.
\<close>

theorem sniffers_registered:
  assumes "ctx_ok ops c" and "list_all (\<lambda>s. se_cb s \<noteq> None) ss"
  shows "if sniffer_count c + length ss \<le> 8
         then \<exists>c'. sniff_all ss c = Inr c' \<and> ctx_ok ops c' \<and> trace_of c' = trace_of c \<and>
                take (sniffer_count c') (sniffers c') = take (sniffer_count c) (sniffers c) @ ss
         else sniff_all ss c = Inl OutOfBounds"
  using assms
proof (induction ss arbitrary: c)
  case Nil
  then show ?case by (simp add: ctx_ok_def max_sniffers_def)
next
  case (Cons s ss)
  show ?case
  proof (cases "sniffer_count c < max_sniffers")
    case False
    with Cons.prems have "sniffer_count c = max_sniffers" by (simp add: ctx_ok_def)
    with pcie_sniff_full [OF Cons.prems(1)] show ?thesis by (simp add: max_sniffers_def)
  next
    case True
    with Cons.prems obtain c1 where
      c1: "pcie_sniff (Some c) (se_filter s) (se_cb s) (se_user s) = Inr (0, Some c1)"
        "ctx_ok ops c1" "sniffer_count c1 = sniffer_count c + 1" "trace_of c1 = trace_of c"
        "take (sniffer_count c1) (sniffers c1) = take (sniffer_count c) (sniffers c) @ [s]"
      using pcie_sniff_step [of ops c s] by auto
    from Cons.IH [OF c1(2)] Cons.prems(2) c1 show ?thesis
      by (cases "sniffer_count c + length ss \<le> 7") auto
  qed
qed

definition count_cb :: "'u sniff_entry" where
  "count_cb = \<lparr>se_filter = PCIE_MATCH_TYPE 0, se_cb = Some (\<lambda>t n u. (t, u)), se_user = 0\<rparr>"

definition null_ops :: "nat pcie_backend_ops" where
  "null_ops = \<lparr>ops_send = None, ops_recv = None, ops_link_status = None, ops_device_info = None,
               ops_close = None\<rparr>"

theorem sniffers_registered_witness:
  "(\<exists>c'. sniff_all (replicate 8 count_cb) (fresh_ctx\<lparr>backend := Some null_ops\<rparr>) = Inr c' \<and>
      take (sniffer_count c') (sniffers (c' :: (nat, nat) pcie_ctx)) = replicate 8 count_cb) \<and>
   sniff_all (replicate 9 count_cb) (fresh_ctx\<lparr>backend := Some null_ops\<rparr> :: (nat, nat) pcie_ctx) =
     Inl OutOfBounds"
  using sniffers_registered [OF ctx_ok_fresh, of "replicate 8 count_cb" null_ops]
    sniffers_registered [OF ctx_ok_fresh, of "replicate 9 count_cb" null_ops]
  by (auto simp: list_all_iff count_cb_def fresh_ctx_def)

text \<open>
  C12: The growing array implements an append-only list: a sequence of appends adds exactly
  the packets' records at the end, in order, each with the first 256 payload bytes and zeros
  behind, if the allocator grants blocks of up to twice what is in use.
\<close>

theorem trace_appends_kept:
  assumes "trace_ok c" and "list_all recordable es"
    and "\<And>env t d n. (env, t, d) \<in> set es \<Longrightarrow>
           unat n \<le> 4608 + 576 * (length (trace_of c) + length es) \<Longrightarrow> realloc_ok env n"
  shows "\<exists>c'. push_all trace_push es c = Inr c' \<and> trace_ok c' \<and>
           trace_of c' = trace_of c @ map spec_of es \<and>
           unat (pcie_trace_count (Some c')) = length (trace_of c) + length es"
proof -
  have room: "\<not> push_dropped e s" if "trace_ok s" "e \<in> set es"
    "length (trace_of s) < length (trace_of c) + length es" for s :: "('a, 'b) pcie_ctx" and e
  proof -
    obtain env t d where e: "e = (env, t, d)" by (cases e)
    have "realloc_ok env n" if "unat n \<le> 4608 + 576 * length (trace_of s)" for n
      using assms(3) [of env t d n] that \<open>e \<in> set es\<close> e
        \<open>length (trace_of s) < length (trace_of c) + length es\<close> by simp
    from not_dropped_if_granted [OF \<open>trace_ok s\<close> this] show ?thesis by (simp add: e)
  qed
  from tlog.push_all_complete [OF assms(1,2) order.refl room] obtain c' where
    "push_all trace_push es c = Inr c'" "trace_ok c'" "trace_of c' = trace_of c @ map spec_of es"
    by blast
  with trace_count_ok [of c'] show ?thesis by auto
qed

definition big_env :: rec_env where
  "big_env = \<lparr>tv_sec = 1, tv_nsec = 5, realloc_ok = \<lambda>n. unat n \<le> 20000\<rparr>"

theorem trace_appends_kept_witness:
  "\<exists>c'. push_all trace_push (replicate 17 (big_env, pcie_tlp_cfg_read 8, 1))
           (fresh_ctx :: (nat, nat) pcie_ctx) = Inr c' \<and>
         trace_of c' = replicate 17 (spec_entry big_env (pcie_tlp_cfg_read 8) 1)"
proof -
  have "trace_ok (fresh_ctx :: (nat, nat) pcie_ctx)" "trace_of (fresh_ctx :: (nat, nat) pcie_ctx) = []"
    by (simp_all add: trace_ok_def trace_of_def fresh_ctx_def)
  with trace_appends_kept [of "fresh_ctx :: (nat, nat) pcie_ctx"
      "replicate 17 (big_env, pcie_tlp_cfg_read 8, 1)"]
  show ?thesis by (auto simp: big_env_def alloc_law_def list_all_iff)
qed

text \<open>
  Whatever the allocator does, appending never fails, reorders or alters: the trace grows
  by a subsequence of the packets' records.
\<close>

lemma trace_appends_subsequence:
  assumes "trace_ok c" and "list_all recordable es"
  shows "\<exists>c' rs. push_all trace_push es c = Inr c' \<and> trace_ok c' \<and> subseq rs (map spec_of es) \<and>
           trace_of c' = trace_of c @ rs"
  using tlog.push_all_subseq [OF assms] by blast

end
