(* ===== verification/CText.thy ===== *)
theory CText
  imports Prelude "HOL-Library.Char_ord"
begin

text \<open>
  The parts of the C library's text functions the sources use, on strings without their
  terminating NUL: the unsigned conversions of \<open>printf\<close>, \<open>strtoul\<close>/\<open>strtoull\<close>,
  \<open>isspace\<close>, \<open>tolower\<close> (the \<open>"C"\<close> locale), \<open>strtok_r\<close> and the \<open>%u\<close> conversion of
  \<open>sscanf\<close>. The lemmas relate printing to parsing and say which characters a printed
  number consists of.
\<close>

section \<open>Character classes\<close>

abbreviation code :: "char \<Rightarrow> nat" where
  "code c \<equiv> of_char c"

definition c_isspace :: "char \<Rightarrow> bool" where
  "c_isspace c \<longleftrightarrow> code c = 32 \<or> (9 \<le> code c \<and> code c \<le> 13)"

definition c_tolower :: "char \<Rightarrow> char" where
  "c_tolower c = (if 65 \<le> code c \<and> code c \<le> 90 then char_of (code c + 32) else c)"

text \<open>The value of a digit character in bases up to 36, as \<open>strtoul\<close> reads it.\<close>

definition digit_val :: "char \<Rightarrow> nat option" where
  "digit_val c =
     (if 48 \<le> code c \<and> code c \<le> 57 then Some (code c - 48)
      else if 97 \<le> code c \<and> code c \<le> 122 then Some (code c - 87)
      else if 65 \<le> code c \<and> code c \<le> 90 then Some (code c - 55)
      else None)"

definition is_digit :: "nat \<Rightarrow> char \<Rightarrow> bool" where
  "is_digit base c = (case digit_val c of None \<Rightarrow> False | Some d \<Rightarrow> d < base)"

section \<open>Printing\<close>

definition digit_char :: "nat \<Rightarrow> char" where
  "digit_char d = char_of (if d < 10 then 48 + d else 87 + d)"

function print_base :: "nat \<Rightarrow> nat \<Rightarrow> string" where
  "print_base b n =
     (if b < 2 \<or> n < b then [digit_char n]
      else print_base b (n div b) @ [digit_char (n mod b)])"
  by pat_completeness auto
termination
  by (relation "measure snd") (auto intro: div_less_dividend)

declare print_base.simps [simp del]

text \<open>\<open>%u\<close>, \<open>%lu\<close>, \<open>%llu\<close>; \<open>%x\<close>, \<open>%llx\<close>; and the zero-padded \<open>%02x\<close>.\<close>

definition print_dec :: "nat \<Rightarrow> string" where
  "print_dec n = print_base 10 n"

definition print_hex :: "nat \<Rightarrow> string" where
  "print_hex n = print_base 16 n"

definition print_02x :: "nat \<Rightarrow> string" where
  "print_02x n = (let s = print_hex n in replicate (2 - length s) (CHR ''0'') @ s)"

text \<open>\<open>%0nx\<close> and the like: zeros up to the width.\<close>

definition zero_pad :: "nat \<Rightarrow> string \<Rightarrow> string" where
  "zero_pad width s = replicate (width - length s) (CHR ''0'') @ s"

section \<open>Parsing\<close>

text \<open>The longest prefix of digits, its value so far in \<open>acc\<close>.\<close>

fun scan_digits :: "nat \<Rightarrow> nat \<Rightarrow> string \<Rightarrow> nat \<times> string" where
  "scan_digits base acc [] = (acc, [])"
| "scan_digits base acc (c # cs) =
     (if is_digit base c then scan_digits base (acc * base + the (digit_val c)) cs
      else (acc, c # cs))"

text \<open>
  Base detection for base 0: \<open>0x\<close> needs a hexadecimal digit after it, or only the \<open>0\<close> is
  read.
\<close>

definition strip_prefix0 :: "string \<Rightarrow> nat \<times> string" where
  "strip_prefix0 s =
     (case s of
        z # x # h # _ \<Rightarrow>
          if z = CHR ''0'' \<and> (x = CHR ''x'' \<or> x = CHR ''X'') \<and> is_digit 16 h
          then (16, drop 2 s)
          else if z = CHR ''0'' then (8, s) else (10, s)
      | z # _ \<Rightarrow> if z = CHR ''0'' then (8, s) else (10, s)
      | [] \<Rightarrow> (10, s))"

definition scan_sign :: "string \<Rightarrow> bool \<times> string" where
  "scan_sign s =
     (case s of
        [] \<Rightarrow> (False, s)
      | c # cs \<Rightarrow> if c = CHR ''-'' then (True, cs) else if c = CHR ''+'' then (False, cs)
                  else (False, s))"

definition ulong_max :: nat where
  "ulong_max = 2 ^ 64 - 1"

text \<open>
  \<open>strtoul(s, &end, base)\<close> for a base of 0 or 10; \<open>strtoull\<close> is the same function on the
  64-bit targets. The result is the value and what \<open>end\<close> points to, or \<open>None\<close> when
  there is no number (then \<open>end\<close> is \<open>s\<close> itself and the value is 0). A value that does not
  fit becomes \<open>ULONG_MAX\<close>; a minus sign negates in the unsigned type.
\<close>

definition c_strtoul :: "nat \<Rightarrow> string \<Rightarrow> (u64 \<times> string) option" where
  "c_strtoul base0 s =
     (let (neg, s1) = scan_sign (dropWhile c_isspace s);
          (base, s2) = (if base0 = 0 then strip_prefix0 s1 else (base0, s1))
      in if s2 = [] \<or> \<not> is_digit base (hd s2) then None
         else let (v, rest) = scan_digits base 0 s2
              in Some (if v > ulong_max then word_of_nat ulong_max
                       else if neg then - word_of_nat v else word_of_nat v,
                       rest))"

text \<open>\<open>atoi\<close>, for a number in the range of \<open>int\<close>: the bits of the result.\<close>

definition c_atoi :: "string \<Rightarrow> u32" where
  "c_atoi s = (case c_strtoul 10 s of None \<Rightarrow> 0 | Some (v, _) \<Rightarrow> ucast v)"

text \<open>\<open>%u\<close> of \<open>sscanf\<close>: the value is stored in an \<open>unsigned int\<close>.\<close>

definition scan_u :: "string \<Rightarrow> (u32 \<times> string) option" where
  "scan_u s = map_option (\<lambda>(v, rest). (ucast v, rest)) (c_strtoul 10 s)"

fun scan_lit :: "string \<Rightarrow> string \<Rightarrow> string option" where
  "scan_lit [] s = Some s"
| "scan_lit (p # ps) [] = None"
| "scan_lit (p # ps) (c # cs) = (if p = c then scan_lit ps cs else None)"

section \<open>Tokens\<close>

text \<open>
  \<open>strtok_r\<close> with the delimiters \<open>d\<close> on the remaining text: the next token and the text
  the save pointer is left at.
\<close>

definition strtok :: "(char \<Rightarrow> bool) \<Rightarrow> string \<Rightarrow> (string \<times> string) option" where
  "strtok d s =
     (let s1 = dropWhile d s
      in if s1 = [] then None
         else Some (takeWhile (\<lambda>c. \<not> d c) s1, drop 1 (dropWhile (\<lambda>c. \<not> d c) s1)))"

text \<open>All tokens, as the loop over \<open>strtok_r\<close> visits them.\<close>

function tokens :: "(char \<Rightarrow> bool) \<Rightarrow> string \<Rightarrow> string list" where
  "tokens d s =
     (case strtok d s of None \<Rightarrow> [] | Some (tok, rest) \<Rightarrow> tok # tokens d rest)"
  by pat_completeness auto
termination
proof (relation "measure (\<lambda>(d, s). length s)", goal_cases)
  case 1
  then show ?case by simp
next
  case (2 d s x2 tok rest)
  then have ne: "dropWhile d s \<noteq> []"
    and rest: "rest = drop 1 (dropWhile (\<lambda>c. \<not> d c) (dropWhile d s))"
    by (auto simp: strtok_def Let_def split: if_splits)
  have "length (dropWhile (\<lambda>c. \<not> d c) (dropWhile d s)) \<le> length s"
    by (metis le_trans length_dropWhile_le)
  moreover have "length s > 0" using ne by auto
  ultimately have "length (dropWhile (\<lambda>c. \<not> d c) (dropWhile d s)) - 1 < length s" by linarith
  then show ?case using rest by simp
qed

declare tokens.simps [simp del]

section \<open>Printed numbers\<close>

lemma code_digit_char: "d < 16 \<Longrightarrow> code (digit_char d) = (if d < 10 then 48 + d else 87 + d)"
  by (simp add: digit_char_def)

lemma digit_val_digit_char [simp]: "d < 16 \<Longrightarrow> digit_val (digit_char d) = Some d"
  by (simp add: digit_val_def code_digit_char)

lemma is_digit_digit_char: "b \<le> 16 \<Longrightarrow> d < b \<Longrightarrow> is_digit b (digit_char d)"
  by (simp add: is_digit_def)

lemma print_base_digits:
  assumes "2 \<le> b" and "b \<le> 16"
  shows "list_all (is_digit b) (print_base b n)"
  using assms
proof (induction b n rule: print_base.induct)
  case (1 b n)
  then show ?case
    by (cases "n < b") (simp_all add: print_base.simps [of b n] is_digit_digit_char)
qed

lemma print_base_nonempty [simp]: "print_base b n \<noteq> []"
  by (subst print_base.simps) simp

lemma scan_digits_print:
  assumes "2 \<le> b" and "b \<le> 16" and "rest = [] \<or> \<not> is_digit b (hd rest)"
  shows "scan_digits b acc (print_base b n @ rest) =
           (acc * b ^ length (print_base b n) + n, rest)"
  using assms
proof (induction b n arbitrary: acc rest rule: print_base.induct)
  case (1 b n)
  have stop: "scan_digits b k rest = (k, rest)" for k
    using 1 by (cases rest) auto
  show ?case
  proof (cases "n < b")
    case True
    with 1 stop show ?thesis
      by (simp add: print_base.simps [of b n] is_digit_digit_char)
  next
    case False
    let ?p = "print_base b (n div b)"
    have app: "scan_digits b k (xs @ ys) = scan_digits b (fst (scan_digits b k xs)) ys"
      if "list_all (is_digit b) xs" for k xs ys
      using that by (induction xs arbitrary: k) auto
    have fst: "fst (scan_digits b acc ?p) = acc * b ^ length ?p + n div b"
      using "1.IH" [of "[]" acc] False 1 by simp
    have "n mod b < 16" using 1 mod_less_divisor [of b n] by linarith
    then have "scan_digits b acc (?p @ digit_char (n mod b) # rest) =
        ((acc * b ^ length ?p + n div b) * b + n mod b, rest)"
      using 1 app [OF print_base_digits] stop False
      by (simp add: fst is_digit_digit_char)
    with False 1 show ?thesis
      by (simp add: print_base.simps [of b n] algebra_simps)
  qed
qed

lemma print_base_inj:
  assumes "2 \<le> b" and "b \<le> 16"
  shows "print_base b m = print_base b n \<longleftrightarrow> m = n"
proof
  assume "print_base b m = print_base b n"
  with scan_digits_print [OF assms, of "[]" 0 m] scan_digits_print [OF assms, of "[]" 0 n]
  show "m = n" by simp
qed simp

lemma length_print_base:
  assumes "2 \<le> b" and "0 < k" and "n < b ^ k"
  shows "length (print_base b n) \<le> k"
  using assms
proof (induction b n arbitrary: k rule: print_base.induct)
  case (1 b n)
  show ?case
  proof (cases "n < b")
    case True
    with 1 show ?thesis by (simp add: print_base.simps [of b n])
  next
    case False
    obtain j where k: "k = Suc j" using 1 by (cases k) auto
    with False 1 have "0 < j" by (cases j) auto
    have "n div b < b ^ j" using 1 k by (simp add: less_mult_imp_div_less mult.commute)
    with "1.IH" [of j] False 1 \<open>0 < j\<close> have "length (print_base b (n div b)) \<le> j" by simp
    with False 1 k show ?thesis by (simp add: print_base.simps [of b n])
  qed
qed

lemma hd_print_base_pos:
  assumes "2 \<le> b" and "b \<le> 16" and "0 < n"
  shows "hd (print_base b n) \<noteq> CHR ''0''"
  using assms
proof (induction b n rule: print_base.induct)
  case (1 b n)
  have "digit_char d \<noteq> CHR ''0''" if "0 < d" "d < 16" for d
  proof
    assume "digit_char d = CHR ''0''"
    with code_digit_char [of d] that show False by (auto split: if_splits)
  qed
  with 1 show ?case
    by (cases "n < b") (auto simp: print_base.simps [of b n] div_greater_zero_iff)
qed

lemma print_dec_inj [simp]: "print_dec m = print_dec n \<longleftrightarrow> m = n"
  by (simp add: print_dec_def print_base_inj)

lemma print_dec_nonempty [simp]: "print_dec n \<noteq> []" "[] \<noteq> print_dec n"
  by (simp_all add: print_dec_def) (metis print_base_nonempty)

lemma print_hex_nonempty [simp]: "print_hex n \<noteq> []"
  by (simp add: print_hex_def)

lemma is_digit_mono: "is_digit 10 c \<Longrightarrow> is_digit 16 c"
  by (auto simp: is_digit_def split: option.splits)

lemma print_hex_digits: "list_all (is_digit 16) (print_hex n)"
  by (simp add: print_hex_def print_base_digits)

lemma print_dec_digits: "list_all (is_digit 10) (print_dec n)"
  by (simp add: print_dec_def print_base_digits)

text \<open>No digit is a space, a sign, a comma, a newline or an \<open>x\<close>.\<close>

lemma is_digit_neq:
  assumes "is_digit 16 c"
  shows "\<not> c_isspace c" "c \<noteq> CHR '',''" "c \<noteq> CHR 0x0A" "c \<noteq> CHR ''x''" "c \<noteq> CHR ''-''"
    "c \<noteq> CHR ''+''" "c \<noteq> CHR '';''" "c \<noteq> CHR ''=''" 
  using assms by (auto simp: is_digit_def digit_val_def c_isspace_def split: if_splits)


section \<open>Reading printed numbers back\<close>

lemma c_isspace_digit: "list_all (is_digit 16) s \<Longrightarrow> dropWhile c_isspace (s @ rest) = s @ rest \<or> s = []"
  using is_digit_neq(1) by (cases s) auto

lemma print_dec_Cons:
  obtains c cs where "print_dec n = c # cs" and "is_digit 10 c"
proof -
  obtain c cs where "print_dec n = c # cs" by (cases "print_dec n") auto
  with print_dec_digits [of n] that show ?thesis by auto
qed

lemma scan_sign_print_dec: "scan_sign (dropWhile c_isspace (print_dec n @ rest)) = (False, print_dec n @ rest)"
proof -
  obtain c cs where c: "print_dec n = c # cs" "is_digit 10 c" by (rule print_dec_Cons)
  from is_digit_neq [OF is_digit_mono [OF c(2)]] c(1) show ?thesis
    by (simp add: scan_sign_def)
qed

text \<open>\<open>strtoul\<close> in base 10 reads back what \<open>%u\<close> printed, up to saturation.\<close>

lemma c_strtoul_print_dec:
  assumes "rest = [] \<or> \<not> is_digit 10 (hd rest)" and "n \<le> ulong_max"
  shows "c_strtoul 10 (print_dec n @ rest) = Some (word_of_nat n, rest)"
proof -
  obtain c cs where c: "print_dec n = c # cs" "is_digit 10 c" by (rule print_dec_Cons)
  have "scan_digits 10 0 (print_dec n @ rest) = (n, rest)"
    using scan_digits_print [of 10 rest 0 n] assms(1) by (simp add: print_dec_def)
  with assms(2) c show ?thesis
    unfolding c_strtoul_def scan_sign_print_dec by simp
qed

lemma scan_u_print_dec:
  assumes "rest = [] \<or> \<not> is_digit 10 (hd rest)" and "n < 2 ^ 32"
  shows "scan_u (print_dec n @ rest) = Some (word_of_nat n, rest)"
proof -
  have "n \<le> ulong_max" using assms(2) by (simp add: ulong_max_def)
  then show ?thesis
    using assms by (simp add: scan_u_def c_strtoul_print_dec unsigned_of_nat
        take_bit_nat_eq_self flip: of_nat_take_bit)
qed

text \<open>In base 0 a printed number has no leading zero, so it is read as decimal.\<close>

lemma strip_prefix0_print_dec:
  "0 < n \<Longrightarrow> strip_prefix0 (print_dec n) = (10, print_dec n)"
  using hd_print_base_pos [of 10 n]
  by (cases "print_dec n" rule: remdups_adj.cases)
    (auto simp: strip_prefix0_def print_dec_def split: list.splits)

lemma c_strtoul0_print_dec:
  assumes "n \<le> ulong_max"
  shows "c_strtoul 0 (print_dec n) = Some (word_of_nat n, [])"
proof (cases "n = 0")
  case True
  have "print_dec 0 = ''0''" by code_simp
  with True show ?thesis
    by (simp add: c_strtoul_def scan_sign_def strip_prefix0_def c_isspace_def is_digit_def digit_val_def)
next
  case False
  obtain c cs where c: "print_dec n = c # cs" "is_digit 10 c" by (rule print_dec_Cons)
  have "scan_digits 10 0 (print_dec n) = (n, [])"
    using scan_digits_print [of 10 "[]" 0 n] by (simp add: print_dec_def)
  with assms c False show ?thesis
    unfolding c_strtoul_def using scan_sign_print_dec [of n "[]"] strip_prefix0_print_dec [of n]
    by simp
qed

section \<open>Tokens of a separated text\<close>

lemma strtok_token:
  assumes "tok \<noteq> []" and "list_all (\<lambda>c. \<not> d c) tok" and "d sep"
  shows "strtok d (tok @ sep # rest) = Some (tok, rest)"
proof -
  obtain c cs where tok: "tok = c # cs" using assms(1) by (cases tok) auto
  have "takeWhile (\<lambda>c. \<not> d c) (tok @ sep # rest) = tok"
    and "dropWhile (\<lambda>c. \<not> d c) (tok @ sep # rest) = sep # rest"
    using assms(2,3) by (induction tok) auto
  moreover have "dropWhile d (tok @ sep # rest) = tok @ sep # rest"
    using tok assms(2) by simp
  ultimately show ?thesis using tok by (simp add: strtok_def Let_def)
qed

lemma strtok_last:
  assumes "tok \<noteq> []" and "list_all (\<lambda>c. \<not> d c) tok"
  shows "strtok d tok = Some (tok, [])"
proof -
  have t: "takeWhile (\<lambda>c. \<not> d c) tok = tok" and e: "dropWhile (\<lambda>c. \<not> d c) tok = []"
    using assms(2) by (induction tok) auto
  have d: "dropWhile d tok = tok" using assms by (cases tok) auto
  show ?thesis using assms(1) unfolding strtok_def Let_def d t e by simp
qed

lemma strtok_skip: "d sep \<Longrightarrow> strtok d (sep # s) = strtok d s"
  by (simp add: strtok_def)

lemma strtok_Nil [simp]: "strtok d [] = None"
  by (simp add: strtok_def)

end
