(* ===== verification/TraceExport.thy ===== *)
theory TraceExport
  imports Trace CText
begin

text \<open>
  Writing a trace to a file: \<open>pcie_trace_write_pcap\<close> and \<open>pcie_trace_write_csv\<close> of
  \<open>src/pcapcie.c\<close>. A call returns its code and, when it opened the file, the bytes or
  characters it handed to the stream, in order. The sources ignore what \<open>fwrite\<close> and
  \<open>fprintf\<close> return, so a short write is not visible in the result.

  The lemmas give the exact layout of the pcap file, a decoder that inverts it, and the
  shape of a CSV line.
\<close>

section \<open>Reading the trace buffer\<close>

fun read_cells :: "nat \<Rightarrow> trace_record option list \<Rightarrow> trace_record list c_res" where
  "read_cells 0 xs = Inr []"
| "read_cells (Suc n) [] = Inl OutOfBounds"
| "read_cells (Suc n) (None # xs) = Inl OutOfBounds"
| "read_cells (Suc n) (Some r # xs) = cbind (read_cells n xs) (\<lambda>rs. Inr (r # rs))"

definition read_trace :: "('b, 'u) pcie_ctx \<Rightarrow> trace_record list c_res" where
  "read_trace c = read_cells (unat (trace_count c)) (trace_records c)"

lemma read_cells_ok:
  "\<lbrakk>n \<le> length xs; list_all cell_ok (take n xs)\<rbrakk> \<Longrightarrow>
     read_cells n xs = Inr (map the (take n xs))"
  by (induction n xs rule: read_cells.induct) (auto simp: cell_ok_def)

lemma read_trace_ok [simp]: "trace_ok c \<Longrightarrow> read_trace c = Inr (trace_of c)"
  by (simp add: read_trace_def trace_of_def trace_ok_def word_le_nat_alt read_cells_ok)

section \<open>The pcap file\<close>

definition pcap_header :: "u8 list" where
  "pcap_header =
     le_bytes 4 0xa1b2c3d4 @ le_bytes 4 2 @ le_bytes 4 4 @ le_bytes 4 0 @ le_bytes 4 0 @
     le_bytes 4 65535 @ le_bytes 4 1"

definition pcap_ts_sec :: "trace_record \<Rightarrow> u32" where
  "pcap_ts_sec r = ucast (rec_timestamp_ns r div 1000000000)"

definition pcap_ts_usec :: "trace_record \<Rightarrow> u32" where
  "pcap_ts_usec r = ucast ((rec_timestamp_ns r mod 1000000000) div 1000)"

definition pcap_incl_len :: u32 where
  "pcap_incl_len = word_of_nat (1 * 2 + 2 * 3 + 8 + sizeof_payload)"

definition pcap_body :: "trace_record \<Rightarrow> u8 list" where
  "pcap_body r =
     le_bytes 4 (unat (rec_direction r)) @ le_bytes 1 (unat (rec_type r)) @
     le_bytes 2 (unat (rec_requester_id r)) @ le_bytes 2 (unat (rec_completer_id r)) @
     le_bytes 1 (unat (rec_tag r)) @ le_bytes 2 (unat (rec_length r)) @
     le_bytes 8 (unat (rec_addr r)) @ rec_payload r"

definition pcap_record :: "trace_record \<Rightarrow> u8 list" where
  "pcap_record r =
     le_bytes 4 (unat (pcap_ts_sec r)) @ le_bytes 4 (unat (pcap_ts_usec r)) @
     le_bytes 4 (unat pcap_incl_len) @ le_bytes 4 (unat pcap_incl_len) @ pcap_body r"

definition pcap_file :: "trace_record list \<Rightarrow> u8 list" where
  "pcap_file rs = pcap_header @ concat (map pcap_record rs)"

definition pcie_trace_write_pcap ::
  "bool \<Rightarrow> ('b, 'u) pcie_ctx option \<Rightarrow> string option \<Rightarrow> (int \<times> u8 list option) c_res" where
  "pcie_trace_write_pcap fopen_ok ctx path =
     (case (ctx, path) of
        (Some c, Some p) \<Rightarrow>
          if fopen_ok
          then cbind (read_trace c) (\<lambda>rs. Inr (0, Some (pcap_file rs)))
          else Inr (-1, None)
      | _ \<Rightarrow> Inr (-1, None))"

section \<open>The CSV file\<close>

definition direction_name :: "u32 \<Rightarrow> string" where
  "direction_name d = (if d = 1 then ''TX'' else if d = 2 then ''RX'' else '''')"

text \<open>The payload column stops at the first zero byte.\<close>

definition payload_hex :: "u8 list \<Rightarrow> string" where
  "payload_hex payload =
     concat (map (\<lambda>b. print_02x (unat b)) (takeWhile (\<lambda>b. b \<noteq> 0) payload))"

definition csv_header :: string where
  "csv_header =
     ''timestamp_ns,direction,type,requester_id,completer_id,tag,length,addr,payload'' @ [CHR 0x0A]"

definition csv_row :: "trace_record \<Rightarrow> string" where
  "csv_row r =
     print_dec (unat (rec_timestamp_ns r)) @ '','' @ direction_name (rec_direction r) @ '','' @
     print_dec (unat (rec_type r)) @ '','' @ print_dec (unat (rec_requester_id r)) @ '','' @
     print_dec (unat (rec_completer_id r)) @ '','' @ print_dec (unat (rec_tag r)) @ '','' @
     print_dec (unat (rec_length r)) @ '',0x'' @ print_hex (unat (rec_addr r)) @ '','' @
     payload_hex (rec_payload r)"

definition csv_line :: "trace_record \<Rightarrow> string" where
  "csv_line r = csv_row r @ [CHR 0x0A]"

definition csv_file :: "trace_record list \<Rightarrow> string" where
  "csv_file rs = csv_header @ concat (map csv_line rs)"

definition pcie_trace_write_csv ::
  "bool \<Rightarrow> ('b, 'u) pcie_ctx option \<Rightarrow> string option \<Rightarrow> (int \<times> string option) c_res" where
  "pcie_trace_write_csv fopen_ok ctx path =
     (case (ctx, path) of
        (Some c, Some p) \<Rightarrow>
          if fopen_ok
          then cbind (read_trace c) (\<lambda>rs. Inr (0, Some (csv_file rs)))
          else Inr (-1, None)
      | _ \<Rightarrow> Inr (-1, None))"

section \<open>Layout of the pcap file\<close>

lemma length_pcap_header [byte_simps]: "length pcap_header = 28"
  by (simp add: pcap_header_def)

lemma length_pcap_body [byte_simps]:
  "length (rec_payload r) = sizeof_payload \<Longrightarrow> length (pcap_body r) = 276"
  by (simp add: pcap_body_def sizeof_payload_def)

lemma length_pcap_record [byte_simps]:
  "length (rec_payload r) = sizeof_payload \<Longrightarrow> length (pcap_record r) = 292"
  by (simp add: pcap_record_def byte_simps)

text \<open>A decoder of one record at its actual offsets, and of a whole file.\<close>

definition decode_record :: "u8 list \<Rightarrow> trace_record" where
  "decode_record bs =
     \<lparr>rec_timestamp_ns = word_of_nat (le_val (field bs 0 4) * 1000000000 + le_val (field bs 4 4) * 1000),
      rec_direction = word_of_nat (le_val (field bs 16 4)),
      rec_type = word_of_nat (le_val (field bs 20 1)),
      rec_requester_id = word_of_nat (le_val (field bs 21 2)),
      rec_completer_id = word_of_nat (le_val (field bs 23 2)),
      rec_tag = word_of_nat (le_val (field bs 25 1)),
      rec_length = word_of_nat (le_val (field bs 26 2)),
      rec_addr = word_of_nat (le_val (field bs 28 8)),
      rec_payload = field bs 36 256\<rparr>"

fun decode_records :: "nat \<Rightarrow> u8 list \<Rightarrow> trace_record list" where
  "decode_records 0 bs = []"
| "decode_records (Suc n) bs = decode_record (take 292 bs) # decode_records n (drop 292 bs)"

definition decode_pcap :: "u8 list \<Rightarrow> trace_record list" where
  "decode_pcap bs = decode_records ((length bs - 28) div 292) (drop 28 bs)"

text \<open>The file keeps microseconds.\<close>

definition round_us :: "trace_record \<Rightarrow> trace_record" where
  "round_us r = r\<lparr>rec_timestamp_ns := rec_timestamp_ns r - rec_timestamp_ns r mod 1000\<rparr>"

lemma record_fields:
  assumes "length (rec_payload r) = sizeof_payload"
  shows "field (pcap_record r) 0 4 = le_bytes 4 (unat (pcap_ts_sec r))"
    "field (pcap_record r) 4 4 = le_bytes 4 (unat (pcap_ts_usec r))"
    "field (pcap_record r) 8 4 = le_bytes 4 (unat pcap_incl_len)"
    "field (pcap_record r) 16 4 = le_bytes 4 (unat (rec_direction r))"
    "field (pcap_record r) 20 1 = le_bytes 1 (unat (rec_type r))"
    "field (pcap_record r) 21 2 = le_bytes 2 (unat (rec_requester_id r))"
    "field (pcap_record r) 23 2 = le_bytes 2 (unat (rec_completer_id r))"
    "field (pcap_record r) 25 1 = le_bytes 1 (unat (rec_tag r))"
    "field (pcap_record r) 26 2 = le_bytes 2 (unat (rec_length r))"
    "field (pcap_record r) 28 8 = le_bytes 8 (unat (rec_addr r))"
    "field (pcap_record r) 36 256 = rec_payload r"
  using assms by (simp_all add: pcap_record_def pcap_body_def byte_simps sizeof_payload_def)

lemma pcap_times:
  assumes "unat (rec_timestamp_ns r) < 4294967296 * 1000000000"
  shows "unat (pcap_ts_sec r) * 1000000000 + unat (pcap_ts_usec r) * 1000 =
           unat (rec_timestamp_ns r) - unat (rec_timestamp_ns r) mod 1000"
proof -
  let ?n = "unat (rec_timestamp_ns r)"
  have s: "unat (pcap_ts_sec r) = ?n div 1000000000"
    using assms by (simp add: pcap_ts_sec_def unsigned_ucast_eq unat_div take_bit_nat_eq_self
        less_mult_imp_div_less)
  have u: "unat (pcap_ts_usec r) = ?n mod 1000000000 div 1000"
  proof -
    have "?n mod 1000000000 div 1000 < 2 ^ 32" by (simp add: less_mult_imp_div_less)
    then show ?thesis
      by (simp add: pcap_ts_usec_def unsigned_ucast_eq unat_div unat_mod take_bit_nat_eq_self)
  qed
  have "?n mod 1000000000 div 1000 * 1000 = ?n mod 1000000000 - ?n mod 1000"
    using minus_mod_eq_div_mult [of "?n mod 1000000000" 1000]
    by (simp add: mod_mod_cancel)
  moreover have "?n mod 1000 \<le> ?n mod 1000000000"
    using mod_less_eq_dividend [of "?n mod 1000000000" 1000] by (simp add: mod_mod_cancel)
  moreover have "?n div 1000000000 * 1000000000 + ?n mod 1000000000 = ?n"
    by (rule div_mult_mod_eq)
  ultimately show ?thesis unfolding s u by linarith
qed

lemma decode_encode_record:
  assumes "length (rec_payload r) = sizeof_payload"
    and "unat (rec_timestamp_ns r) < 4294967296 * 1000000000"
  shows "decode_record (pcap_record r) = round_us r"
proof -
  have "word_of_nat (unat (rec_timestamp_ns r) - unat (rec_timestamp_ns r) mod 1000) =
        rec_timestamp_ns r - rec_timestamp_ns r mod 1000"
    by (simp add: word_unat_eq_iff unat_of_nat unat_sub_if' unat_mod word_le_nat_alt)
  then show ?thesis
    unfolding decode_record_def record_fields [OF assms(1)] round_us_def
    using pcap_times [OF assms(2)] by (intro trace_record.equality) simp_all
qed

lemma decode_records_concat:
  assumes "\<And>r. r \<in> set rs \<Longrightarrow> length (rec_payload r) = sizeof_payload"
  shows "decode_records (length rs) (concat (map pcap_record rs)) = map (decode_record \<circ> pcap_record) rs"
  using assms by (induction rs) (auto simp: byte_simps)

lemma length_pcap_file:
  assumes "\<And>r. r \<in> set rs \<Longrightarrow> length (rec_payload r) = sizeof_payload"
  shows "length (pcap_file rs) = 28 + 292 * length rs"
  using assms by (induction rs) (auto simp: pcap_file_def byte_simps)

lemma decode_pcap_file:
  assumes "\<And>r. r \<in> set rs \<Longrightarrow> length (rec_payload r) = sizeof_payload"
    and "\<And>r. r \<in> set rs \<Longrightarrow> unat (rec_timestamp_ns r) < 4294967296 * 1000000000"
  shows "decode_pcap (pcap_file rs) = map round_us rs"
proof -
  have "decode_pcap (pcap_file rs) = map (decode_record \<circ> pcap_record) rs"
    using decode_records_concat [OF assms(1)] length_pcap_file [OF assms(1)]
    by (simp add: decode_pcap_def pcap_file_def length_pcap_header)
  also have "\<dots> = map round_us rs" using decode_encode_record assms by simp
  finally show ?thesis .
qed

section \<open>Lines of the CSV file\<close>

lemma length_print_02x: "length (print_02x (unat (b :: u8))) = 2"
proof -
  have "length (print_hex (unat b)) \<le> 2"
    unfolding print_hex_def by (rule length_print_base) simp_all
  then show ?thesis by (simp add: print_02x_def Let_def)
qed

lemma length_payload_hex: "length (payload_hex p) = 2 * length (takeWhile (\<lambda>b. b \<noteq> 0) p)"
proof -
  have "length (concat (map (\<lambda>b :: u8. print_02x (unat b)) q)) = 2 * length q" for q
    by (induction q) (simp_all add: length_print_02x)
  then show ?thesis by (simp add: payload_hex_def)
qed

text \<open>The local buffer of 769 characters always holds the column and its NUL.\<close>

lemma payload_hex_fits:
  "length p = sizeof_payload \<Longrightarrow> length (payload_hex p) < sizeof_payload * 3 + 1"
  using length_takeWhile_le [of "\<lambda>b. b \<noteq> 0" p]
  by (simp add: length_payload_hex sizeof_payload_def)

lemma payload_hex_cut: "payload_hex (xs @ 0 # ys) = payload_hex xs"
proof -
  have "takeWhile (\<lambda>b. b \<noteq> 0) (xs @ 0 # ys) = takeWhile (\<lambda>b. b \<noteq> 0) xs"
    by (induction xs) auto
  then show ?thesis by (simp add: payload_hex_def)
qed

section \<open>Properties\<close>

text \<open>
  C26: A trace written with \<open>pcie_trace_write_pcap\<close> can be read back: the file is a header of 28
  bytes and 292 bytes per record, and a reader that uses the actual offsets recovers every
  record of the trace in order, with times rounded down to microseconds.
\<close>

theorem pcap_export_roundtrip:
  assumes "trace_ok c"
    and "\<And>r. r \<in> set (trace_of c) \<Longrightarrow> unat (rec_timestamp_ns r) < 4294967296 * 1000000000"
  shows "\<exists>bs. pcie_trace_write_pcap True (Some c) (Some path) = Inr (0, Some bs) \<and>
           length bs = 28 + 292 * length (trace_of c) \<and> decode_pcap bs = map round_us (trace_of c)"
  using decode_pcap_file [OF trace_of_payload [OF assms(1)] assms(2)]
    length_pcap_file [OF trace_of_payload [OF assms(1)]] assms(1)
  by (simp add: pcie_trace_write_pcap_def)

definition sample_record :: trace_record where
  "sample_record =
     \<lparr>rec_timestamp_ns = 1500002999, rec_direction = 1, rec_type = 1, rec_requester_id = 0x0102,
      rec_completer_id = 0, rec_tag = 7, rec_length = 3, rec_addr = 0x1000,
      rec_payload = [9, 0, 8] @ replicate 253 0\<rparr>"

definition sample_ctx :: "(nat, nat) pcie_ctx" where
  "sample_ctx =
     \<lparr>backend = None, sniffers = [], sniffer_count = 0, rx_addr_min = - 1, rx_addr_max = 0,
      trace_records = [Some sample_record, Some (sample_record\<lparr>rec_direction := 2, rec_type := 10\<rparr>)],
      trace_count = 2, trace_capacity = 2, stats = \<lparr>sent = 1, received = 1\<rparr>\<rparr>"

lemma sample_ctx_trace:
  "trace_ok sample_ctx"
  "trace_of sample_ctx = [sample_record, sample_record\<lparr>rec_direction := 2, rec_type := 10\<rparr>]"
  by (simp_all add: trace_ok_def trace_of_def sample_ctx_def cell_ok_def sample_record_def
      sizeof_payload_def sizeof_trace_record_def)

theorem pcap_export_roundtrip_witness:
  "\<exists>bs. pcie_trace_write_pcap True (Some sample_ctx) (Some ''t.pcap'') = Inr (0, Some bs) \<and>
     length bs = 612 \<and>
     decode_pcap bs = [round_us sample_record, round_us (sample_record\<lparr>rec_direction := 2, rec_type := 10\<rparr>)]"
proof -
  have ts: "rec_timestamp_ns r = 1500002999" if "r \<in> set (trace_of sample_ctx)" for r
    using that by (auto simp: sample_ctx_trace(2) sample_record_def)
  then have "unat (rec_timestamp_ns r) < 4294967296 * 1000000000" if "r \<in> set (trace_of sample_ctx)" for r
    using that by simp
  from pcap_export_roundtrip [OF sample_ctx_trace(1) this, of "''t.pcap''"] obtain bs where
    bs: "pcie_trace_write_pcap True (Some sample_ctx) (Some ''t.pcap'') = Inr (0, Some bs)"
      "length bs = 28 + 292 * length (trace_of sample_ctx)"
      "decode_pcap bs = map round_us (trace_of sample_ctx)" by blast
  with bs show ?thesis by (simp add: sample_ctx_trace(2))
qed

text \<open>
  The lengths in the pcap file are wrong: each record announces 272 captured bytes and is
  followed by 276, so a reader that goes by the announced length starts the second record four
  bytes early, in the last payload bytes of the first.
\<close>

lemma pcap_announced_length:
  assumes "length (rec_payload r) = sizeof_payload"
  shows "le_val (field (pcap_record r) 8 4) = 272 \<and> length (pcap_record r) = 16 + 276 \<and>
         take 4 (drop (16 + le_val (field (pcap_record r) 8 4)) (pcap_record r @ rest)) =
           drop 252 (rec_payload r)"
proof -
  have len: "le_val (field (pcap_record r) 8 4) = 272"
    unfolding record_fields [OF assms] by (simp add: pcap_incl_len_def sizeof_payload_def le_bytes_unroll)
  have "drop 288 (pcap_record r) = drop 252 (rec_payload r)"
    using assms by (simp add: pcap_record_def pcap_body_def byte_simps sizeof_payload_def)
  with len length_pcap_record [OF assms] assms show ?thesis by (simp add: sizeof_payload_def)
qed

lemma scan_zeros: "scan_digits 16 0 (replicate k (CHR ''0'') @ s) = scan_digits 16 0 s"
proof (induction k)
  case (Suc k)
  have "is_digit 16 (CHR ''0'')" "digit_val (CHR ''0'') = Some 0"
    by (simp_all add: is_digit_def digit_val_def)
  with Suc show ?case by simp
qed simp

lemma scan_02x: "scan_digits 16 0 (print_02x k) = (k, [])"
  unfolding print_02x_def Let_def scan_zeros print_hex_def
  using scan_digits_print [of 16 "[]" 0 k] by simp

lemma print_02x_inj: "print_02x m = print_02x n \<longleftrightarrow> m = n"
  using scan_02x [of m] scan_02x [of n] by (metis fst_conv)

lemma payload_hex_inj:
  "payload_hex p = payload_hex q \<longleftrightarrow> takeWhile (\<lambda>b. b \<noteq> 0) p = takeWhile (\<lambda>b. b \<noteq> 0) q"
proof -
  have ne: "print_02x (unat b) \<noteq> []" for b :: u8
    using length_print_02x [of b] by force
  have "concat (map (\<lambda>b :: u8. print_02x (unat b)) xs) = concat (map (\<lambda>b. print_02x (unat b)) ys) \<longleftrightarrow>
      xs = ys" for xs ys
  proof (induction xs arbitrary: ys)
    case Nil
    show ?case using ne by (cases ys) simp_all
  next
    case (Cons x xs)
    show ?case using ne Cons
      by (cases ys) (simp_all add: length_print_02x print_02x_inj word_unat_eq_iff)
  qed
  then show ?thesis by (simp add: payload_hex_def)
qed

text \<open>
  C31: Two trace records that differ in their payload only give the same CSV line exactly when
  the payloads agree up to the first zero byte: the export loses everything from there on.
\<close>

theorem csv_payload_cut:
  "csv_line (r\<lparr>rec_payload := p\<rparr>) = csv_line (r\<lparr>rec_payload := q\<rparr>) \<longleftrightarrow>
     takeWhile (\<lambda>b. b \<noteq> 0) p = takeWhile (\<lambda>b. b \<noteq> 0) q"
  by (simp add: csv_line_def csv_row_def payload_hex_inj)

end
