(* ===== verification/Pshark.thy ===== *)
theory Pshark
  imports TraceExport
begin

text \<open>
  The trace viewer \<open>examples/pshark.c\<close>: \<open>fgets\<close> lines of at most 4095 characters, splits
  each with \<open>strtok_r\<close>, and prints either one row per packet or the counts of a summary.
  The lemmas connect it to the CSV exporter: what the summary counts when it reads a file
  the library wrote.
\<close>

section \<open>Lines\<close>

definition MAX_LINE :: nat where
  "MAX_LINE = 4096"

text \<open>\<open>fgets(line, n, fp)\<close> on the unread text: the line, with its newline if it fits.\<close>

definition c_fgets :: "nat \<Rightarrow> string \<Rightarrow> (string \<times> string) option" where
  "c_fgets n s =
     (if s = [] then None
      else let body = takeWhile (\<lambda>c. c \<noteq> CHR 0x0A) s;
               line = take (n - 1) (take (length body + 1) s)
           in Some (line, drop (length line) s))"

function file_lines :: "string \<Rightarrow> string list" where
  "file_lines s =
     (case c_fgets MAX_LINE s of None \<Rightarrow> [] | Some (line, rest) \<Rightarrow> line # file_lines rest)"
  by pat_completeness auto
termination
  by (relation "measure length")
    (auto simp: c_fgets_def MAX_LINE_def Let_def split: if_splits)

declare file_lines.simps [simp del]

section \<open>Fields\<close>

record csv_fields =
  fld_timestamp :: "string option"
  fld_direction :: "string option"
  fld_type :: "string option"
  fld_requester :: "string option"
  fld_completer :: "string option"
  fld_tag :: "string option"
  fld_length :: "string option"
  fld_addr :: "string option"
  fld_payload :: "string option"

text \<open>One call of \<open>strtok_r\<close>: after the last token the save pointer stays at the end.\<close>

definition next_tok :: "(char \<Rightarrow> bool) \<Rightarrow> string \<Rightarrow> string option \<times> string" where
  "next_tok d s = (case strtok d s of None \<Rightarrow> (None, []) | Some (tok, rest) \<Rightarrow> (Some tok, rest))"

abbreviation comma :: "char \<Rightarrow> bool" where
  "comma c \<equiv> c = CHR '',''"

abbreviation newline :: "char \<Rightarrow> bool" where
  "newline c \<equiv> c = CHR 0x0A"

definition split_line :: "string \<Rightarrow> csv_fields" where
  "split_line line =
     (let (timestamp, s1) = next_tok comma line;
          (direction, s2) = next_tok comma s1;
          (type_f, s3) = next_tok comma s2;
          (requester, s4) = next_tok comma s3;
          (completer, s5) = next_tok comma s4;
          (tag_f, s6) = next_tok comma s5;
          (length_f, s7) = next_tok comma s6;
          (addr, s8) = next_tok comma s7;
          (payload, s9) = next_tok newline s8
      in \<lparr>fld_timestamp = timestamp, fld_direction = direction, fld_type = type_f,
          fld_requester = requester, fld_completer = completer, fld_tag = tag_f,
          fld_length = length_f, fld_addr = addr, fld_payload = payload\<rparr>)"

section \<open>The summary\<close>

record summary =
  total :: u64
  tx_count :: u64
  rx_count :: u64
  cfg_read :: u64
  cfg_write :: u64
  mem_read :: u64
  mem_write :: u64
  cpl_count :: u64

definition summary_zero :: summary where
  "summary_zero = \<lparr>total = 0, tx_count = 0, rx_count = 0, cfg_read = 0, cfg_write = 0,
                   mem_read = 0, mem_write = 0, cpl_count = 0\<rparr>"

definition count_direction :: "string \<Rightarrow> summary \<Rightarrow> summary" where
  "count_direction d s =
     (if d = ''TX'' then s\<lparr>tx_count := tx_count s + 1\<rparr>
      else if d = ''RX'' then s\<lparr>rx_count := rx_count s + 1\<rparr>
      else s)"

definition count_type :: "string \<Rightarrow> summary \<Rightarrow> summary" where
  "count_type t s =
     (if t = ''5'' then s\<lparr>cfg_write := cfg_write s + 1\<rparr>
      else if t = ''4'' then s\<lparr>cfg_read := cfg_read s + 1\<rparr>
      else if t = ''1'' then s\<lparr>mem_write := mem_write s + 1\<rparr>
      else if t = ''0'' then s\<lparr>mem_read := mem_read s + 1\<rparr>
      else if t = ''10'' then s\<lparr>cpl_count := cpl_count s + 1\<rparr>
      else s)"

definition summary_line :: "string \<Rightarrow> summary \<Rightarrow> summary" where
  "summary_line line s =
     (case (fld_direction (split_line line), fld_type (split_line line)) of
        (Some d, Some t) \<Rightarrow> count_type t (count_direction d (s\<lparr>total := total s + 1\<rparr>))
      | _ \<Rightarrow> s)"

definition summarize :: "string \<Rightarrow> summary" where
  "summarize text = fold summary_line (file_lines text) summary_zero"

definition print_summary :: "string \<Rightarrow> string \<Rightarrow> string" where
  "print_summary path text =
     (let s = summarize text; n = (\<lambda>w :: u64. print_dec (unat w) @ [CHR 0x0A])
      in ''PCIe trace summary for '' @ path @ [CHR 0x0A] @
         ''Total TLPs: '' @ n (total s) @ ''TX: '' @ n (tx_count s) @ ''RX: '' @ n (rx_count s) @
         ''Config read: '' @ n (cfg_read s) @ ''Config write: '' @ n (cfg_write s) @
         ''Memory read: '' @ n (mem_read s) @ ''Memory write: '' @ n (mem_write s) @
         ''Completion: '' @ n (cpl_count s))"

section \<open>The packet list\<close>

definition pcie_type_name :: "string option \<Rightarrow> string" where
  "pcie_type_name tp =
     (case tp of
        None \<Rightarrow> ''UNKNOWN''
      | Some t \<Rightarrow>
          if t = ''0'' then ''MemRd''
          else if t = ''1'' then ''MemWr''
          else if t = ''4'' then ''CfgRd''
          else if t = ''5'' then ''CfgWr''
          else if t = ''10'' then ''Cpl''
          else ''Other'')"

text \<open>\<open>%-ns\<close>.\<close>

definition pad :: "nat \<Rightarrow> string \<Rightarrow> string" where
  "pad n s = s @ replicate (n - length s) (CHR '' '')"

definition or_else :: "string option \<Rightarrow> string \<Rightarrow> string" where
  "or_else p d = (case p of None \<Rightarrow> d | Some s \<Rightarrow> s)"

text \<open>
  The format string has nine conversions and the call ten arguments: \<open>printf\<close> evaluates the
  last one, the payload, and ignores it.
\<close>

definition packet_row :: "nat \<Rightarrow> csv_fields \<Rightarrow> string" where
  "packet_row row f =
     print_dec row @ ''    '' @ pad 15 (or_else (fld_timestamp f) '''') @ '' '' @
     pad 9 (or_else (fld_direction f) '''') @ '' '' @ pad 6 (pcie_type_name (fld_type f)) @ '' '' @
     pad 6 (or_else (fld_requester f) ''0'') @ '' '' @ pad 5 (or_else (fld_completer f) ''0'') @ '' '' @
     pad 4 (or_else (fld_tag f) ''0'') @ '' '' @ pad 8 (or_else (fld_length f) ''0'') @ '' '' @
     or_else (fld_addr f) ''0'' @ [CHR 0x0A]"

text \<open>\<open>row\<close> is an \<open>int\<close> that starts at 0: counting beyond its maximum is undefined.\<close>

fun packet_rows :: "nat \<Rightarrow> string list \<Rightarrow> string c_res" where
  "packet_rows row [] = Inr []"
| "packet_rows row (line # ls) =
     (let f = split_line line in
      if fld_direction f = None \<or> fld_type f = None \<or> fld_timestamp f = None
      then packet_rows row ls
      else if row = INT_MAX then Inl IntOverflow
      else cbind (packet_rows (row + 1) ls) (\<lambda>out. Inr (packet_row (row + 1) f @ out)))"

definition print_packet_list :: "string \<Rightarrow> string \<Rightarrow> string c_res" where
  "print_packet_list path text =
     cbind (packet_rows 0 (file_lines text)) (\<lambda>rows.
       Inr (''PCIe trace: '' @ path @ [CHR 0x0A] @
            ''No.  Time(ns)  Direction  Type  ReqID  CplID  Tag  Len  Addr  Payload'' @ [CHR 0x0A] @
            rows))"

text \<open>
  \<open>main\<close>: exit code and standard output, for the arguments after the program's name and a
  file system that maps a path to the text of a readable file.
\<close>

definition pshark_main :: "(string \<rightharpoonup> string) \<Rightarrow> string list \<Rightarrow> (int \<times> string) c_res" where
  "pshark_main fs args =
     (case args of
        [] \<Rightarrow> Inr (1, [])
      | path # opts \<Rightarrow>
          (case fs path of
             None \<Rightarrow> Inr (2, [])
           | Some text \<Rightarrow>
               if c_fgets MAX_LINE text = None then Inr (3, [])
               else if opts \<noteq> [] \<and> hd opts = ''--summary'' then Inr (0, print_summary path text)
               else cbind (print_packet_list path text) (\<lambda>out. Inr (0, out))))"

section \<open>Splitting what the exporter wrote\<close>

text \<open>A field that survives the splitting: not empty, no comma, no newline.\<close>

definition plain :: "string \<Rightarrow> bool" where
  "plain s \<longleftrightarrow> s \<noteq> [] \<and> list_all (\<lambda>c. \<not> comma c \<and> \<not> newline c) s"

lemma digits_plain: "s \<noteq> [] \<Longrightarrow> list_all (is_digit 16) s \<Longrightarrow> plain s"
  by (auto simp: plain_def list_all_iff dest: is_digit_neq)

lemma plain_print_hex [simp]: "plain (print_hex n)"
  by (simp add: digits_plain print_hex_digits)

lemma plain_print_dec [simp]: "plain (print_dec n)"
  using print_dec_digits [of n] is_digit_mono
  by (intro digits_plain) (auto simp: list_all_iff)

lemma plain_0x [simp]: "plain (CHR ''0'' # CHR ''x'' # print_hex n)"
  using plain_print_hex [of n] by (simp add: plain_def)

lemma next_tok_plain:
  "plain tok \<Longrightarrow> next_tok comma (tok @ CHR '','' # rest) = (Some tok, rest)"
  using strtok_token [of tok comma "CHR '',''" rest]
  by (auto simp: next_tok_def plain_def list_all_iff)

lemma payload_hex_digits: "list_all (is_digit 16) (payload_hex p)"
proof -
  have "list_all (is_digit 16) (print_02x n)" for n
  proof -
    have "is_digit 16 (CHR ''0'')" by (simp add: is_digit_def digit_val_def)
    then show ?thesis
      using print_hex_digits [of n] by (auto simp: print_02x_def Let_def list_all_iff)
  qed
  then have "list_all (is_digit 16) (concat (map (\<lambda>b :: u8. print_02x (unat b)) q))" for q
    by (induction q) simp_all
  then show ?thesis by (simp add: payload_hex_def)
qed

lemma payload_no_newline: "list_all (\<lambda>c. \<not> newline c) (payload_hex p)"
  using payload_hex_digits [of p] by (auto simp: list_all_iff dest: is_digit_neq)

lemma next_tok_payload:
  "next_tok newline (payload_hex p @ [CHR 0x0A]) =
     (if payload_hex p = [] then None else Some (payload_hex p), [])"
  using strtok_token [of "payload_hex p" newline "CHR 0x0A" "[]"] payload_no_newline
  by (auto simp: next_tok_def strtok_skip)

definition known_direction :: "trace_record \<Rightarrow> bool" where
  "known_direction r \<longleftrightarrow> rec_direction r = 1 \<or> rec_direction r = 2"

lemma plain_direction: "known_direction r \<Longrightarrow> plain (direction_name (rec_direction r))"
  by (auto simp: known_direction_def direction_name_def plain_def)

lemma split_csv_line:
  assumes "known_direction r"
  shows "split_line (csv_line r) =
    \<lparr>fld_timestamp = Some (print_dec (unat (rec_timestamp_ns r))),
     fld_direction = Some (direction_name (rec_direction r)),
     fld_type = Some (print_dec (unat (rec_type r))),
     fld_requester = Some (print_dec (unat (rec_requester_id r))),
     fld_completer = Some (print_dec (unat (rec_completer_id r))),
     fld_tag = Some (print_dec (unat (rec_tag r))),
     fld_length = Some (print_dec (unat (rec_length r))),
     fld_addr = Some (''0x'' @ print_hex (unat (rec_addr r))),
     fld_payload = (if payload_hex (rec_payload r) = [] then None
                    else Some (payload_hex (rec_payload r)))\<rparr>"
proof -
  have "next_tok comma (CHR ''0'' # CHR ''x'' # print_hex n @ CHR '','' # rest) =
      (Some (''0x'' @ print_hex n), rest)" for n rest
    using next_tok_plain [OF plain_0x] by simp
  then show ?thesis
    using next_tok_plain [OF plain_print_dec] next_tok_plain [OF plain_direction [OF assms]]
    by (simp add: split_line_def csv_line_def csv_row_def next_tok_payload)
qed

section \<open>Lines of the exported file\<close>

definition text_line :: "string \<Rightarrow> bool" where
  "text_line l \<longleftrightarrow>
     (\<exists>body. l = body @ [CHR 0x0A] \<and> list_all (\<lambda>c. \<not> newline c) body \<and> length l < MAX_LINE)"

lemma c_fgets_line:
  assumes "text_line l"
  shows "c_fgets MAX_LINE (l @ rest) = Some (l, rest)"
proof -
  from assms obtain body where l: "l = body @ [CHR 0x0A]" "list_all (\<lambda>c. \<not> newline c) body"
      "length l < MAX_LINE" by (auto simp: text_line_def)
  have "takeWhile (\<lambda>c. \<not> newline c) (body @ CHR 0x0A # rest) = body"
    using l(2) by (induction body) auto
  with l show ?thesis by (simp add: c_fgets_def MAX_LINE_def Let_def)
qed

lemma file_lines_concat: "list_all text_line ls \<Longrightarrow> file_lines (concat ls) = ls"
proof (induction ls)
  case Nil
  then show ?case by (simp add: file_lines.simps c_fgets_def)
next
  case (Cons l ls)
  then have "c_fgets MAX_LINE (l @ concat ls) = Some (l, concat ls)"
    by (simp add: c_fgets_line)
  with Cons show ?case by (subst file_lines.simps) simp
qed

lemma plain_no_newline: "plain s \<Longrightarrow> list_all (\<lambda>c. \<not> newline c) s"
  by (auto simp: plain_def list_all_iff)

lemma direction_no_newline: "list_all (\<lambda>c. \<not> newline c) (direction_name d)"
  by (simp add: direction_name_def)

lemma length_print_dec_u64: "length (print_dec (unat (w :: u64))) \<le> 20"
  unfolding print_dec_def
proof (rule length_print_base)
  show "unat w < 10 ^ 20" using unat_u64_lt [of w] by (simp del: unat_u64_lt)
qed simp_all

lemma length_print_dec_u16: "length (print_dec (unat (w :: u16))) \<le> 5"
  unfolding print_dec_def
proof (rule length_print_base)
  show "unat w < 10 ^ 5" using unat_u16_lt [of w] by (simp del: unat_u16_lt)
qed simp_all

lemma length_print_dec_u8: "length (print_dec (unat (w :: u8))) \<le> 3"
  unfolding print_dec_def
proof (rule length_print_base)
  show "unat w < 10 ^ 3" using unat_u8_lt [of w] by (simp del: unat_u8_lt)
qed simp_all

lemma length_print_hex_u64: "length (print_hex (unat (w :: u64))) \<le> 16"
  unfolding print_hex_def
proof (rule length_print_base)
  show "unat w < 16 ^ 16" using unat_u64_lt [of w] by (simp del: unat_u64_lt)
qed simp_all

lemma length_csv_line:
  assumes "length (rec_payload r) = sizeof_payload"
  shows "length (csv_line r) \<le> 582"
proof -
  have "length (payload_hex (rec_payload r)) \<le> 512"
    using assms length_takeWhile_le [of "\<lambda>b. b \<noteq> 0" "rec_payload r"]
    by (simp add: length_payload_hex sizeof_payload_def)
  moreover have "length (direction_name (rec_direction r)) \<le> 2"
    by (simp add: direction_name_def)
  ultimately show ?thesis
    using length_print_dec_u64 [of "rec_timestamp_ns r"] length_print_dec_u8 [of "rec_type r"]
      length_print_dec_u16 [of "rec_requester_id r"] length_print_dec_u16 [of "rec_completer_id r"]
      length_print_dec_u8 [of "rec_tag r"] length_print_dec_u16 [of "rec_length r"]
      length_print_hex_u64 [of "rec_addr r"]
    by (simp add: csv_line_def csv_row_def)
qed

lemma text_line_csv:
  assumes "length (rec_payload r) = sizeof_payload"
  shows "text_line (csv_line r)"
proof -
  have "list_all (\<lambda>c. \<not> newline c) (csv_row r)"
    by (simp add: csv_row_def plain_no_newline direction_no_newline payload_no_newline)
  with length_csv_line [OF assms] show ?thesis by (simp add: text_line_def csv_line_def MAX_LINE_def)
qed

lemma text_line_header: "text_line csv_header"
  by (simp add: text_line_def csv_header_def MAX_LINE_def)

lemma file_lines_csv:
  assumes "\<And>r. r \<in> set rs \<Longrightarrow> length (rec_payload r) = sizeof_payload"
  shows "file_lines (csv_file rs) = csv_header # map csv_line rs"
proof -
  have "list_all text_line (csv_header # map csv_line rs)"
    using assms text_line_csv text_line_header by (auto simp: list_all_iff)
  from file_lines_concat [OF this] show ?thesis by (simp add: csv_file_def)
qed

section \<open>The summary of an exported file\<close>

lemma digit_names:
  "print_dec n = ''0'' \<longleftrightarrow> n = 0" "print_dec n = ''1'' \<longleftrightarrow> n = 1"
  "print_dec n = ''4'' \<longleftrightarrow> n = 4" "print_dec n = ''5'' \<longleftrightarrow> n = 5"
  "print_dec n = ''10'' \<longleftrightarrow> n = 10"
proof -
  have eqs: "''0'' = print_dec 0" "''1'' = print_dec 1" "''4'' = print_dec 4"
      "''5'' = print_dec 5" "''10'' = print_dec 10"
    by code_simp+
  show "print_dec n = ''0'' \<longleftrightarrow> n = 0" by (simp only: eqs(1) print_dec_inj)
  show "print_dec n = ''1'' \<longleftrightarrow> n = 1" by (simp only: eqs(2) print_dec_inj)
  show "print_dec n = ''4'' \<longleftrightarrow> n = 4" by (simp only: eqs(3) print_dec_inj)
  show "print_dec n = ''5'' \<longleftrightarrow> n = 5" by (simp only: eqs(4) print_dec_inj)
  show "print_dec n = ''10'' \<longleftrightarrow> n = 10" by (simp only: eqs(5) print_dec_inj)
qed

text \<open>The counts the summary should show: one field per packet kind.\<close>

definition count_recs :: "(trace_record \<Rightarrow> bool) \<Rightarrow> trace_record list \<Rightarrow> u64" where
  "count_recs P rs = word_of_nat (length (filter P rs))"

definition spec_summary :: "trace_record list \<Rightarrow> summary" where
  "spec_summary rs =
     \<lparr>total = word_of_nat (length rs),
      tx_count = count_recs (\<lambda>r. rec_direction r = direction_val PCIE_TRACE_TX) rs,
      rx_count = count_recs (\<lambda>r. rec_direction r = direction_val PCIE_TRACE_RX) rs,
      cfg_read = count_recs (\<lambda>r. pcie_tlp_type_from_code (rec_type r) = PCIE_TLP_CFG_READ) rs,
      cfg_write = count_recs (\<lambda>r. pcie_tlp_type_from_code (rec_type r) = PCIE_TLP_CFG_WRITE) rs,
      mem_read = count_recs (\<lambda>r. pcie_tlp_type_from_code (rec_type r) = PCIE_TLP_MEM_READ) rs,
      mem_write = count_recs (\<lambda>r. pcie_tlp_type_from_code (rec_type r) = PCIE_TLP_MEM_WRITE) rs,
      cpl_count = count_recs (\<lambda>r. pcie_tlp_type_from_code (rec_type r) = PCIE_TLP_CPL) rs\<rparr>"

definition add_summary :: "summary \<Rightarrow> summary \<Rightarrow> summary" where
  "add_summary a b =
     \<lparr>total = total a + total b, tx_count = tx_count a + tx_count b,
      rx_count = rx_count a + rx_count b, cfg_read = cfg_read a + cfg_read b,
      cfg_write = cfg_write a + cfg_write b, mem_read = mem_read a + mem_read b,
      mem_write = mem_write a + mem_write b, cpl_count = cpl_count a + cpl_count b\<rparr>"

lemma add_summary_assoc: "add_summary (add_summary a b) c = add_summary a (add_summary b c)"
  by (simp add: add_summary_def add.assoc)

lemma add_summary_empty [simp]: "add_summary s (spec_summary []) = s"
  by (simp add: add_summary_def spec_summary_def count_recs_def)

lemma spec_summary_Cons: "spec_summary (r # rs) = add_summary (spec_summary [r]) (spec_summary rs)"
  by (simp add: spec_summary_def add_summary_def count_recs_def)

lemma type_code_names:
  "print_dec (unat (c :: u8)) = ''0'' \<longleftrightarrow> c = 0" "print_dec (unat c) = ''1'' \<longleftrightarrow> c = 1"
  "print_dec (unat c) = ''4'' \<longleftrightarrow> c = 4" "print_dec (unat c) = ''5'' \<longleftrightarrow> c = 5"
  "print_dec (unat c) = ''10'' \<longleftrightarrow> c = 10"
  by (simp_all add: digit_names word_unat_eq_iff)

lemma count_type_code:
  "count_type (print_dec (unat (rec_type r))) s =
     s\<lparr>cfg_read := cfg_read s + cfg_read (spec_summary [r]),
       cfg_write := cfg_write s + cfg_write (spec_summary [r]),
       mem_read := mem_read s + mem_read (spec_summary [r]),
       mem_write := mem_write s + mem_write (spec_summary [r]),
       cpl_count := cpl_count s + cpl_count (spec_summary [r])\<rparr>"
  unfolding count_type_def type_code_names
  by (simp add: spec_summary_def count_recs_def pcie_tlp_type_from_code_def)

lemma count_direction_code:
  "known_direction r \<Longrightarrow> count_direction (direction_name (rec_direction r)) s =
     s\<lparr>tx_count := tx_count s + tx_count (spec_summary [r]),
       rx_count := rx_count s + rx_count (spec_summary [r])\<rparr>"
  by (auto simp: known_direction_def count_direction_def direction_name_def spec_summary_def
      count_recs_def)

lemma summary_line_csv:
  "known_direction r \<Longrightarrow> summary_line (csv_line r) s = add_summary s (spec_summary [r])"
  by (simp add: summary_line_def split_csv_line count_type_code count_direction_code add_summary_def)
    (simp add: spec_summary_def)

lemma fold_summary_csv:
  "list_all known_direction rs \<Longrightarrow>
     fold summary_line (map csv_line rs) s = add_summary s (spec_summary rs)"
proof (induction rs arbitrary: s)
  case (Cons r rs)
  then show ?case
    by (simp add: summary_line_csv add_summary_assoc) (simp flip: spec_summary_Cons)
qed simp

lemma summary_line_header: "summary_line csv_header s = s\<lparr>total := total s + 1\<rparr>"
proof -
  have "fld_direction (split_line csv_header) = Some ''direction''"
    and "fld_type (split_line csv_header) = Some ''type''"
    by code_simp+
  then show ?thesis
    by (simp add: summary_line_def count_direction_def count_type_def)
qed

lemma summarize_csv:
  assumes "list_all known_direction rs"
    and "\<And>r. r \<in> set rs \<Longrightarrow> length (rec_payload r) = sizeof_payload"
  shows "summarize (csv_file rs) = (spec_summary rs)\<lparr>total := word_of_nat (length rs) + 1\<rparr>"
proof -
  have "file_lines (csv_file rs) = csv_header # map csv_line rs"
    by (rule file_lines_csv [OF assms(2)])
  then have "summarize (csv_file rs) = add_summary (summary_zero\<lparr>total := 1\<rparr>) (spec_summary rs)"
    by (simp add: summarize_def summary_line_header fold_summary_csv [OF assms(1)] summary_zero_def)
  then show ?thesis
    by (simp add: add_summary_def spec_summary_def summary_zero_def)
qed

section \<open>The packet list of an exported file\<close>

lemma packet_row_ignores_payload: "packet_row n (f\<lparr>fld_payload := p\<rparr>) = packet_row n f"
  by (simp add: packet_row_def)

lemma packet_row_csv:
  assumes "known_direction r"
  shows "packet_row n (split_line (csv_line r)) =
    print_dec n @ ''    '' @ pad 15 (print_dec (unat (rec_timestamp_ns r))) @ '' '' @
    pad 9 (direction_name (rec_direction r)) @ '' '' @
    pad 6 (pcie_type_name (Some (print_dec (unat (rec_type r))))) @ '' '' @
    pad 6 (print_dec (unat (rec_requester_id r))) @ '' '' @
    pad 5 (print_dec (unat (rec_completer_id r))) @ '' '' @
    pad 4 (print_dec (unat (rec_tag r))) @ '' '' @ pad 8 (print_dec (unat (rec_length r))) @ '' '' @
    ''0x'' @ print_hex (unat (rec_addr r)) @ [CHR 0x0A]"
  by (simp add: packet_row_def split_csv_line [OF assms] or_else_def)

section \<open>Properties\<close>

text \<open>
  C27: The exporter and the trace viewer together: on the CSV file of a trace, the summary
  counts every record in the right direction and under the right type, but its total is one
  too large, because the header line is counted as a packet.
\<close>

theorem pshark_summary_of_export:
  assumes "trace_ok c" and "list_all known_direction (trace_of c)"
  shows "\<exists>text. pcie_trace_write_csv True (Some c) (Some path) = Inr (0, Some text) \<and>
           pshark_main [path \<mapsto> text] [path, ''--summary''] = Inr (0, print_summary path text) \<and>
           summarize text = (spec_summary (trace_of c))\<lparr>total := word_of_nat (length (trace_of c)) + 1\<rparr>"
proof -
  have "c_fgets MAX_LINE (csv_file (trace_of c)) \<noteq> None"
    by (simp add: c_fgets_def csv_file_def csv_header_def Let_def)
  then show ?thesis
    using assms(1) summarize_csv [OF assms(2) trace_of_payload [OF assms(1)]]
    by (simp add: pcie_trace_write_csv_def pshark_main_def)
qed

theorem pshark_summary_of_export_witness:
  "\<exists>text. pcie_trace_write_csv True (Some sample_ctx) (Some ''t.csv'') = Inr (0, Some text) \<and>
     pshark_main [''t.csv'' \<mapsto> text] [''t.csv'', ''--summary''] = Inr (0, print_summary ''t.csv'' text) \<and>
     summarize text = \<lparr>total = 3, tx_count = 1, rx_count = 1, cfg_read = 0, cfg_write = 0,
                       mem_read = 0, mem_write = 1, cpl_count = 1\<rparr>"
proof -
  have dir: "list_all known_direction (trace_of sample_ctx)"
    by (simp add: sample_ctx_trace(2) known_direction_def sample_record_def)
  have "(spec_summary (trace_of sample_ctx))\<lparr>total := word_of_nat (length (trace_of sample_ctx)) + 1\<rparr> =
      \<lparr>total = 3, tx_count = 1, rx_count = 1, cfg_read = 0, cfg_write = 0,
       mem_read = 0, mem_write = 1, cpl_count = 1\<rparr>"
    by (simp add: sample_ctx_trace(2) spec_summary_def count_recs_def sample_record_def
        pcie_tlp_type_from_code_def)
  with pshark_summary_of_export [OF sample_ctx_trace(1) dir, of "''t.csv''"] show ?thesis by simp
qed

text \<open>A row of the packet list as it is printed: it ends with the address.\<close>

definition listing_row :: "nat \<Rightarrow> trace_record \<Rightarrow> string" where
  "listing_row n r =
     print_dec n @ ''    '' @ pad 15 (print_dec (unat (rec_timestamp_ns r))) @ '' '' @
     pad 9 (direction_name (rec_direction r)) @ '' '' @
     pad 6 (pcie_type_name (Some (print_dec (unat (rec_type r))))) @ '' '' @
     pad 6 (print_dec (unat (rec_requester_id r))) @ '' '' @
     pad 5 (print_dec (unat (rec_completer_id r))) @ '' '' @
     pad 4 (print_dec (unat (rec_tag r))) @ '' '' @ pad 8 (print_dec (unat (rec_length r))) @ '' '' @
     ''0x'' @ print_hex (unat (rec_addr r)) @ [CHR 0x0A]"

fun listing_rows :: "nat \<Rightarrow> trace_record list \<Rightarrow> string" where
  "listing_rows n [] = []"
| "listing_rows n (r # rs) = listing_row n r @ listing_rows (n + 1) rs"

lemma packet_rows_shown:
  assumes "fld_direction (split_line l) = Some d" and "fld_type (split_line l) = Some t"
    and "fld_timestamp (split_line l) = Some ts"
  shows "packet_rows n (l # ls) =
    (if n = INT_MAX then Inl IntOverflow
     else cbind (packet_rows (n + 1) ls) (\<lambda>out. Inr (packet_row (n + 1) (split_line l) @ out)))"
  by (simp add: assms Let_def)

lemma packet_rows_csv:
  "list_all known_direction rs \<Longrightarrow> n \<le> INT_MAX \<Longrightarrow>
     packet_rows n (map csv_line rs) =
       (if n + length rs \<le> INT_MAX then Inr (listing_rows (n + 1) rs) else Inl IntOverflow)"
proof (induction rs arbitrary: n)
  case (Cons r rs)
  then have r: "known_direction r" by simp
  have row: "packet_row k (split_line (csv_line r)) = listing_row k r" for k
    unfolding listing_row_def by (rule packet_row_csv [OF r])
  have "packet_rows n (csv_line r # ls) =
      (if n = INT_MAX then Inl IntOverflow
       else cbind (packet_rows (n + 1) ls) (\<lambda>out. Inr (packet_row (n + 1) (split_line (csv_line r)) @ out)))" for ls
    by (rule packet_rows_shown; simp add: split_csv_line [OF r])
  then have "packet_rows n (csv_line r # ls) =
      (if n = INT_MAX then Inl IntOverflow
       else cbind (packet_rows (n + 1) ls) (\<lambda>out. Inr (listing_row (n + 1) r @ out)))" for ls
    by (simp only: row)
  with Cons show ?case by simp
qed simp

lemma packet_rows_header:
  "packet_rows 0 (csv_header # ls) =
     cbind (packet_rows 1 ls) (\<lambda>out. Inr (packet_row 1 (split_line csv_header) @ out))"
proof -
  have "fld_direction (split_line csv_header) = Some ''direction''"
    "fld_type (split_line csv_header) = Some ''type''"
    "fld_timestamp (split_line csv_header) = Some ''timestamp_ns''"
    by code_simp+
  from packet_rows_shown [OF this, of 0 ls] show ?thesis by (simp add: INT_MAX_def)
qed

text \<open>
  C30: The packet list the viewer prints for an exported trace: the file's header line as row
  1, then one row per record in order, numbered from 2, and no row shows its payload, although
  the title line announces the column. With 2147483647 records or more the row counter
  overflows.
\<close>

theorem pshark_listing_of_export:
  assumes "trace_ok c" and "list_all known_direction (trace_of c)"
  shows "\<exists>text. pcie_trace_write_csv True (Some c) (Some path) = Inr (0, Some text) \<and>
           pshark_main [path \<mapsto> text] [path] =
             (if length (trace_of c) < 2147483647
              then Inr (0, ''PCIe trace: '' @ path @ [CHR 0x0A] @
                 ''No.  Time(ns)  Direction  Type  ReqID  CplID  Tag  Len  Addr  Payload'' @ [CHR 0x0A] @
                 packet_row 1 (split_line csv_header) @
                 listing_rows 2 (trace_of c))
              else Inl IntOverflow)"
proof -
  have "c_fgets MAX_LINE (csv_file (trace_of c)) \<noteq> None"
    by (simp add: c_fgets_def csv_file_def csv_header_def Let_def)
  moreover have lines: "file_lines (csv_file (trace_of c)) = csv_header # map csv_line (trace_of c)"
    by (rule file_lines_csv [OF trace_of_payload [OF assms(1)]])
  have "packet_rows 0 (file_lines (csv_file (trace_of c))) =
      (if length (trace_of c) < 2147483647
       then Inr (packet_row 1 (split_line csv_header) @ listing_rows 2 (trace_of c)) else Inl IntOverflow)"
    using packet_rows_csv [OF assms(2), of 1] lines packet_rows_header
    by (simp add: INT_MAX_def one_add_one [symmetric] del: One_nat_def one_add_one)
  ultimately show ?thesis
    unfolding pshark_main_def print_packet_list_def
    using assms(1) by (simp add: pcie_trace_write_csv_def del: One_nat_def)
qed

theorem pshark_listing_of_export_witness:
  "\<exists>text. pcie_trace_write_csv True (Some sample_ctx) (Some ''t.csv'') = Inr (0, Some text) \<and>
     pshark_main [''t.csv'' \<mapsto> text] [''t.csv''] =
       Inr (0, ''PCIe trace: t.csv'' @ [CHR 0x0A] @
           ''No.  Time(ns)  Direction  Type  ReqID  CplID  Tag  Len  Addr  Payload'' @ [CHR 0x0A] @
           packet_row 1 (split_line csv_header) @ listing_row 2 sample_record @
           listing_row 3 (sample_record\<lparr>rec_direction := 2, rec_type := 10\<rparr>))"
proof -
  have dir: "list_all known_direction (trace_of sample_ctx)"
    by (simp add: sample_ctx_trace(2) known_direction_def sample_record_def)
  from pshark_listing_of_export [OF sample_ctx_trace(1) dir, of "''t.csv''"] show ?thesis
    by (simp add: sample_ctx_trace(2) del: One_nat_def)
qed

end
