(* ===== verification/DummyConfig.thy ===== *)
theory DummyConfig
  imports CText
begin

text \<open>
  Configuration of the dummy backend, \<open>src/backend_dummy.c\<close>: parsing of numbers, durations
  and profile names, the scenario string, and the runtime configuration read from the
  environment variables. The environment is a map from names to values, as \<open>getenv\<close> sees
  it. Strings are without their NUL.

  The drop rate is stored by the code and never read again; the model keeps the text that
  \<open>strtod\<close> is given.
\<close>

section \<open>Numbers and durations\<close>

definition dummy_parse_u32 :: "string option \<Rightarrow> u32 \<Rightarrow> u32" where
  "dummy_parse_u32 value def =
     (case value of
        None \<Rightarrow> def
      | Some s \<Rightarrow>
          if s = [] then def
          else (case c_strtoul 0 s of
                  None \<Rightarrow> def
                | Some (v, end) \<Rightarrow> if end = [] then ucast v else def))"

definition dummy_parse_duration_ns :: "string option \<Rightarrow> u64 \<Rightarrow> u64" where
  "dummy_parse_duration_ns value def =
     (case value of
        None \<Rightarrow> def
      | Some s \<Rightarrow>
          if s = [] then def
          else (case c_strtoul 10 s of
                  None \<Rightarrow> def
                | Some (v, []) \<Rightarrow> v
                | Some (v, c # _) \<Rightarrow>
                    if c_tolower c = CHR ''n'' then v
                    else if c_tolower c = CHR ''u'' then v * 1000
                    else if c_tolower c = CHR ''m'' then v * 1000000
                    else if c_tolower c = CHR ''s'' then v * 1000000000
                    else def))"

section \<open>Strings\<close>

text \<open>The two loops of \<open>dummy_trim_whitespace\<close>: leading, then trailing white space.\<close>

definition dummy_trim_whitespace :: "string \<Rightarrow> string" where
  "dummy_trim_whitespace s = rev (dropWhile c_isspace (rev (dropWhile c_isspace s)))"

definition dummy_tolower_copy :: "nat \<Rightarrow> string \<Rightarrow> string" where
  "dummy_tolower_copy out_size s = map c_tolower (take (out_size - 1) s)"

section \<open>Profiles\<close>

text \<open>\<open>sscanf(s, prefix "%ux%u", &speed, &width) == 2\<close>.\<close>

definition scan_profile :: "string \<Rightarrow> string \<Rightarrow> (u32 \<times> u32) option" where
  "scan_profile prefix s =
     Option.bind (scan_lit prefix s) (\<lambda>s1.
     Option.bind (scan_u s1) (\<lambda>(speed, s2).
     Option.bind (scan_lit ''x'' s2) (\<lambda>s3.
     Option.bind (scan_u s3) (\<lambda>(width, _). Some (speed, width)))))"

text \<open>\<open>Some (speed, width)\<close> when the function returns 0 and stores them in its outputs.\<close>

definition dummy_profile_from_name :: "string \<Rightarrow> (u32 \<times> u32) option" where
  "dummy_profile_from_name name =
     (let key = dummy_tolower_copy 32 name;
          found =
            (if key = ''gen5x1'' \<or> key = ''5x1'' then Some (5, 1)
             else if key = ''gen6x4'' \<or> key = ''6x4'' then Some (6, 4)
             else if key = ''gen7x8'' \<or> key = ''7x8'' then Some (7, 8)
             else if key = ''gen8x16'' \<or> key = ''8x16'' then Some (8, 16)
             else if key = ''gen8x8'' \<or> key = ''8x8'' then Some (8, 8)
             else case scan_profile ''gen'' key of
                    Some p \<Rightarrow> Some p
                  | None \<Rightarrow> scan_profile [] key)
      in case found of
           None \<Rightarrow> None
         | Some (speed, width) \<Rightarrow>
             if speed < 1 \<or> speed > 8 \<or> width < 1 \<or> width > 16 then None
             else Some (speed, width))"

section \<open>The runtime configuration\<close>

record dummy_config =
  cfg_max_speed :: u32
  cfg_neg_speed :: u32
  cfg_max_width :: u32
  cfg_neg_width :: u32
  cfg_latency_ns :: u64
  cfg_jitter_ns :: u64
  cfg_tokens_per_second :: u32
  cfg_burst_size :: u32
  cfg_drop_rate :: string

definition use_profile :: "string \<Rightarrow> dummy_config \<Rightarrow> dummy_config" where
  "use_profile name cfg =
     (case dummy_profile_from_name name of
        None \<Rightarrow> cfg
      | Some (speed, width) \<Rightarrow>
          cfg\<lparr>cfg_max_speed := speed, cfg_neg_speed := speed,
              cfg_max_width := width, cfg_neg_width := width\<rparr>)"

text \<open>
  One token of the scenario: a setting \<open>key=value\<close>, or a bare profile name, of which the
  first counts. The state is the configuration and the profile name seen so far.
\<close>

definition scenario_setting ::
  "string \<Rightarrow> string \<Rightarrow> dummy_config \<times> string option \<Rightarrow> dummy_config \<times> string option" where
  "scenario_setting key val st =
     (case st of (cfg, profile) \<Rightarrow>
        if key = ''profile'' \<or> key = ''name'' then (cfg, Some val)
        else if key = ''latency'' \<or> key = ''latency_ns''
        then (cfg\<lparr>cfg_latency_ns := dummy_parse_duration_ns (Some val) (cfg_latency_ns cfg)\<rparr>, profile)
        else if key = ''jitter'' \<or> key = ''jitter_ns''
        then (cfg\<lparr>cfg_jitter_ns := dummy_parse_duration_ns (Some val) (cfg_jitter_ns cfg)\<rparr>, profile)
        else if key = ''tps'' \<or> key = ''tokens_per_second''
        then (cfg\<lparr>cfg_tokens_per_second :=
                    dummy_parse_u32 (Some val) (cfg_tokens_per_second cfg)\<rparr>, profile)
        else if key = ''burst'' \<or> key = ''burst_size''
        then (cfg\<lparr>cfg_burst_size := dummy_parse_u32 (Some val) (cfg_burst_size cfg)\<rparr>, profile)
        else if key = ''drop_rate'' then (cfg\<lparr>cfg_drop_rate := val\<rparr>, profile)
        else (cfg, profile))"

definition scenario_token ::
  "string \<Rightarrow> dummy_config \<times> string option \<Rightarrow> dummy_config \<times> string option" where
  "scenario_token tok st =
     (let part = dummy_trim_whitespace tok in
      if part = [] then st
      else if CHR ''='' \<in> set part
      then scenario_setting
             (dummy_trim_whitespace (takeWhile (\<lambda>c. c \<noteq> CHR ''='') part))
             (dummy_trim_whitespace (drop 1 (dropWhile (\<lambda>c. c \<noteq> CHR ''='') part))) st
      else (case st of
              (cfg, None) \<Rightarrow> (cfg, Some part)
            | (cfg, Some p) \<Rightarrow> (cfg, Some p)))"

definition scenario_sep :: "char \<Rightarrow> bool" where
  "scenario_sep c \<longleftrightarrow> c = CHR '','' \<or> c = CHR '';''"

definition dummy_apply_scenario_values :: "string \<Rightarrow> dummy_config \<Rightarrow> dummy_config" where
  "dummy_apply_scenario_values scenario cfg =
     (if scenario = [] then cfg
      else let buffer = take 255 scenario
           in case fold scenario_token (tokens scenario_sep buffer) (cfg, None) of
                (cfg', None) \<Rightarrow> cfg'
              | (cfg', Some name) \<Rightarrow> if name = [] then cfg' else use_profile name cfg')"

type_synonym environ = "string \<rightharpoonup> string"

definition env_config :: "environ \<Rightarrow> dummy_config" where
  "env_config getenv =
     \<lparr>cfg_max_speed = dummy_parse_u32 (getenv ''PCIE_DUMMY_MAX_SPEED'') 5,
      cfg_neg_speed = dummy_parse_u32 (getenv ''PCIE_DUMMY_NEG_SPEED'') 0,
      cfg_max_width = dummy_parse_u32 (getenv ''PCIE_DUMMY_MAX_WIDTH'') 16,
      cfg_neg_width = dummy_parse_u32 (getenv ''PCIE_DUMMY_NEG_WIDTH'') 0,
      cfg_latency_ns = dummy_parse_duration_ns (getenv ''PCIE_DUMMY_LATENCY_NS'') 0,
      cfg_jitter_ns = dummy_parse_duration_ns (getenv ''PCIE_DUMMY_JITTER_NS'') 0,
      cfg_tokens_per_second = dummy_parse_u32 (getenv ''PCIE_DUMMY_TOKENS_PER_SEC'') 0,
      cfg_burst_size = dummy_parse_u32 (getenv ''PCIE_DUMMY_BURST_SIZE'') 16,
      cfg_drop_rate = (case getenv ''PCIE_DUMMY_DROP_RATE'' of None \<Rightarrow> ''0'' | Some s \<Rightarrow> s)\<rparr>"

definition default_negotiated :: "dummy_config \<Rightarrow> dummy_config" where
  "default_negotiated cfg =
     (let cfg1 = (if cfg_neg_speed cfg = 0 then cfg\<lparr>cfg_neg_speed := cfg_max_speed cfg\<rparr> else cfg)
      in if cfg_neg_width cfg1 = 0 then cfg1\<lparr>cfg_neg_width := cfg_max_width cfg1\<rparr> else cfg1)"

definition dummy_read_runtime_config :: "environ \<Rightarrow> dummy_config" where
  "dummy_read_runtime_config getenv =
     (let cfg0 = env_config getenv;
          cfg1 = (case getenv ''PCIE_DUMMY_PROFILE'' of
                    None \<Rightarrow> cfg0
                  | Some name \<Rightarrow> if name = [] then cfg0 else use_profile name cfg0);
          cfg2 = (case getenv ''PCIE_DUMMY_SCENARIO'' of
                    None \<Rightarrow> cfg1
                  | Some s \<Rightarrow> if s = [] then cfg1 else dummy_apply_scenario_values s cfg1)
      in default_negotiated cfg2)"

section \<open>Reading printed settings back\<close>

lemma dummy_parse_u32_print_dec:
  "n < 2 ^ 32 \<Longrightarrow> dummy_parse_u32 (Some (print_dec n)) d = word_of_nat n"
proof -
  assume n: "n < 2 ^ 32"
  then have "c_strtoul 0 (print_dec n) = Some (word_of_nat n, [])"
    by (intro c_strtoul0_print_dec) (simp add: ulong_max_def)
  moreover have "ucast (word_of_nat n :: u64) = (word_of_nat n :: u32)"
    by (simp add: word_unat_eq_iff unsigned_ucast_eq unat_of_nat take_bit_nat_eq_self n
        take_bit_eq_mod mod_mod_cancel)
  ultimately show ?thesis by (simp add: dummy_parse_u32_def)
qed

lemma dummy_parse_u32_unset: "dummy_parse_u32 None d = d" "dummy_parse_u32 (Some []) d = d"
  by (simp_all add: dummy_parse_u32_def)

lemma c_strtoul10_print_dec_suffix:
  "n \<le> ulong_max \<Longrightarrow> \<not> is_digit 10 c \<Longrightarrow>
     c_strtoul 10 (print_dec n @ c # cs) = Some (word_of_nat n, c # cs)"
  by (rule c_strtoul_print_dec) auto

text \<open>What one unit of a duration is worth, by the first character after the number.\<close>

definition unit_ns :: "char \<Rightarrow> u64 option" where
  "unit_ns c =
     (if c_tolower c = CHR ''n'' then Some 1
      else if c_tolower c = CHR ''u'' then Some 1000
      else if c_tolower c = CHR ''m'' then Some 1000000
      else if c_tolower c = CHR ''s'' then Some 1000000000
      else None)"

lemma unit_not_digit: "unit_ns c = Some k \<Longrightarrow> \<not> is_digit 10 c"
  by (auto simp: unit_ns_def is_digit_def digit_val_def c_tolower_def split: if_splits)

lemma dummy_parse_duration_suffix:
  assumes "n \<le> ulong_max" and "unit_ns c = Some k"
  shows "dummy_parse_duration_ns (Some (print_dec n @ c # cs)) d = word_of_nat n * k"
  using assms(2) c_strtoul10_print_dec_suffix [OF assms(1) unit_not_digit [OF assms(2)], of cs]
  by (auto simp: dummy_parse_duration_ns_def unit_ns_def split: if_splits)

lemma dummy_parse_duration_plain:
  "n \<le> ulong_max \<Longrightarrow> dummy_parse_duration_ns (Some (print_dec n)) d = word_of_nat n"
  using c_strtoul_print_dec [of "[]" n] by (simp add: dummy_parse_duration_ns_def)

section \<open>Profiles\<close>

lemma dummy_profile_range:
  "dummy_profile_from_name name = Some (speed, width) \<Longrightarrow>
     speed \<noteq> 0 \<and> speed \<le> 8 \<and> width \<noteq> 0 \<and> width \<le> 16"
  by (auto simp: dummy_profile_from_name_def Let_def not_less split: option.splits if_splits prod.splits)

lemma scan_profile_print:
  assumes "n < 2 ^ 32" and "m < 2 ^ 32"
  shows "scan_profile [] (print_dec n @ ''x'' @ print_dec m) = Some (word_of_nat n, word_of_nat m)"
    and "scan_profile ''gen'' (''gen'' @ print_dec n @ ''x'' @ print_dec m) =
           Some (word_of_nat n, word_of_nat m)"
proof -
  have x: "\<not> is_digit 10 (CHR ''x'')" by (simp add: is_digit_def digit_val_def)
  have 1: "scan_u (print_dec n @ CHR ''x'' # print_dec m) = Some (word_of_nat n, CHR ''x'' # print_dec m)"
    using scan_u_print_dec [of "CHR ''x'' # print_dec m" n] x assms by simp
  have 2: "scan_u (print_dec m) = Some (word_of_nat m, [])"
    using scan_u_print_dec [of "[]" m] assms by simp
  show "scan_profile [] (print_dec n @ ''x'' @ print_dec m) = Some (word_of_nat n, word_of_nat m)"
    and "scan_profile ''gen'' (''gen'' @ print_dec n @ ''x'' @ print_dec m) =
           Some (word_of_nat n, word_of_nat m)"
    by (simp_all add: scan_profile_def 1 2)
qed


text \<open>The name of a profile: \<open>5x1\<close>, or \<open>gen5x1\<close>.\<close>

definition profile_text :: "bool \<Rightarrow> nat \<Rightarrow> nat \<Rightarrow> string" where
  "profile_text gen n m = (if gen then ''gen'' else []) @ print_dec n @ ''x'' @ print_dec m"

lemma hd_print_dec_neq: "print_dec n @ rest \<noteq> CHR ''g'' # cs"
proof -
  obtain c cs' where c: "print_dec n = c # cs'" "is_digit 10 c" by (rule print_dec_Cons)
  then show ?thesis by (auto simp: is_digit_def digit_val_def)
qed

lemma scan_gen_digits: "scan_profile ''gen'' (print_dec n @ rest) = None"
proof -
  obtain c cs where c: "print_dec n = c # cs" "is_digit 10 c" by (rule print_dec_Cons)
  then have "c \<noteq> CHR ''g''" by (auto simp: is_digit_def digit_val_def)
  with c show ?thesis by (simp add: scan_profile_def)
qed

lemma profile_text_inj:
  assumes "n < 2 ^ 32" "m < 2 ^ 32" "n' < 2 ^ 32" "m' < 2 ^ 32"
    and eq: "profile_text g n m = profile_text g' n' m'"
  shows "g = g' \<and> n = n' \<and> m = m'"
proof -
  have g: "g = g'"
    using eq hd_print_dec_neq hd_print_dec_neq [symmetric]
    by (auto simp: profile_text_def split: if_splits)
  with eq have "print_dec n @ ''x'' @ print_dec m = print_dec n' @ ''x'' @ print_dec m'"
    by (auto simp: profile_text_def split: if_splits)
  with scan_profile_print(1) [of n m] scan_profile_print(1) [of n' m'] assms(1-4)
  have "(word_of_nat n :: u32) = word_of_nat n'" "(word_of_nat m :: u32) = word_of_nat m'"
    by simp_all
  then have "unat (word_of_nat n :: u32) = unat (word_of_nat n' :: u32)"
    "unat (word_of_nat m :: u32) = unat (word_of_nat m' :: u32)" by simp_all
  with assms(1-4) g show ?thesis by (simp add: unat_of_nat)
qed

lemma c_tolower_digits: "list_all (is_digit 10) s \<Longrightarrow> map c_tolower s = s"
  by (induction s) (auto simp: c_tolower_def is_digit_def digit_val_def split: if_splits)

lemma tolower_profile_text:
  assumes "n < 100" "m < 100"
  shows "dummy_tolower_copy 32 (profile_text g n m) = profile_text g n m"
proof -
  have "length (print_dec n) \<le> 2" "length (print_dec m) \<le> 2"
    unfolding print_dec_def by (rule length_print_base; use assms in simp)+
  then have "length (profile_text g n m) \<le> 31"
    by (simp add: profile_text_def)
  then have "take 31 (profile_text g n m) = profile_text g n m" by simp
  moreover have "map c_tolower (profile_text g n m) = profile_text g n m"
    by (simp add: profile_text_def c_tolower_digits print_dec_digits) (simp add: c_tolower_def)
  ultimately show ?thesis by (simp add: dummy_tolower_copy_def)
qed

lemma profile_keys:
  "''gen5x1'' = profile_text True 5 1" "''5x1'' = profile_text False 5 1"
  "''gen6x4'' = profile_text True 6 4" "''6x4'' = profile_text False 6 4"
  "''gen7x8'' = profile_text True 7 8" "''7x8'' = profile_text False 7 8"
  "''gen8x16'' = profile_text True 8 16" "''8x16'' = profile_text False 8 16"
  "''gen8x8'' = profile_text True 8 8" "''8x8'' = profile_text False 8 8"
  by code_simp+

lemma dummy_profile_roundtrip:
  assumes "1 \<le> n" "n \<le> 8" "1 \<le> m" "m \<le> 16"
  shows "dummy_profile_from_name (profile_text g n m) = Some (word_of_nat n, word_of_nat m)"
proof -
  have key: "dummy_tolower_copy 32 (profile_text g n m) = profile_text g n m"
    using assms by (intro tolower_profile_text) auto
  have eq: "profile_text g n m = profile_text g' n' m' \<longleftrightarrow> g = g' \<and> n = n' \<and> m = m'"
    if "n' < 2 ^ 32" "m' < 2 ^ 32" for g' n' m'
    using that assms profile_text_inj [of n m n' m' g g'] by auto
  have scan: "(case scan_profile ''gen'' (profile_text g n m) of
                Some p \<Rightarrow> Some p | None \<Rightarrow> scan_profile [] (profile_text g n m)) =
              Some (word_of_nat n, word_of_nat m)"
    using assms scan_profile_print [of n m] scan_gen_digits [of n "''x'' @ print_dec m"]
    by (cases g) (simp_all add: profile_text_def)
  have range: "\<not> ((word_of_nat n :: u32) < 1 \<or> (word_of_nat n :: u32) > 8 \<or>
      (word_of_nat m :: u32) < 1 \<or> (word_of_nat m :: u32) > 16)"
    using assms by (simp add: word_unat_eq_iff word_less_nat_alt unat_of_nat)
  note keys = eq [of 5 1 True] eq [of 5 1 False] eq [of 6 4 True] eq [of 6 4 False]
    eq [of 7 8 True] eq [of 7 8 False] eq [of 8 16 True] eq [of 8 16 False]
    eq [of 8 8 True] eq [of 8 8 False]
  have "(if profile_text g n m = ''gen5x1'' \<or> profile_text g n m = ''5x1'' then Some (5, 1)
      else if profile_text g n m = ''gen6x4'' \<or> profile_text g n m = ''6x4'' then Some (6, 4)
      else if profile_text g n m = ''gen7x8'' \<or> profile_text g n m = ''7x8'' then Some (7, 8)
      else if profile_text g n m = ''gen8x16'' \<or> profile_text g n m = ''8x16'' then Some (8, 16)
      else if profile_text g n m = ''gen8x8'' \<or> profile_text g n m = ''8x8'' then Some (8, 8)
      else Some (word_of_nat n, word_of_nat m)) = Some (word_of_nat n :: u32, word_of_nat m :: u32)"
    using keys [folded profile_keys] by simp
  with range show ?thesis
    unfolding dummy_profile_from_name_def key scan Let_def by simp
qed

section \<open>The runtime configuration\<close>

lemma default_negotiated_speed:
  "cfg_neg_speed (default_negotiated cfg) =
     (if cfg_neg_speed cfg = 0 then cfg_max_speed cfg else cfg_neg_speed cfg)"
  "cfg_neg_width (default_negotiated cfg) =
     (if cfg_neg_width cfg = 0 then cfg_max_width cfg else cfg_neg_width cfg)"
  "cfg_max_speed (default_negotiated cfg) = cfg_max_speed cfg"
  "cfg_max_width (default_negotiated cfg) = cfg_max_width cfg"
  by (simp_all add: default_negotiated_def Let_def)

text \<open>The settings a name of the four negotiated and maximum values can take.\<close>

lemma use_profile_some:
  "dummy_profile_from_name name = Some (speed, width) \<Longrightarrow>
     use_profile name cfg = cfg\<lparr>cfg_max_speed := speed, cfg_neg_speed := speed,
                                cfg_max_width := width, cfg_neg_width := width\<rparr>"
  by (simp add: use_profile_def)

lemma runtime_config_profile:
  assumes "getenv ''PCIE_DUMMY_PROFILE'' = Some name" and "getenv ''PCIE_DUMMY_SCENARIO'' = None"
    and prof: "dummy_profile_from_name name = Some (speed, width)"
  shows "dummy_read_runtime_config getenv =
           (env_config getenv)\<lparr>cfg_max_speed := speed, cfg_neg_speed := speed,
                              cfg_max_width := width, cfg_neg_width := width\<rparr>"
proof -
  have "dummy_profile_from_name [] = None"
    by (simp add: dummy_profile_from_name_def dummy_tolower_copy_def scan_profile_def scan_u_def
        c_strtoul_def scan_sign_def)
  with prof have "name \<noteq> []" by auto
  with assms dummy_profile_range [OF prof] show ?thesis
    by (simp add: dummy_read_runtime_config_def use_profile_some default_negotiated_def Let_def)
qed

lemma runtime_config_unset:
  "dummy_read_runtime_config Map.empty =
     \<lparr>cfg_max_speed = 5, cfg_neg_speed = 5, cfg_max_width = 16, cfg_neg_width = 16,
      cfg_latency_ns = 0, cfg_jitter_ns = 0, cfg_tokens_per_second = 0, cfg_burst_size = 16,
      cfg_drop_rate = ''0''\<rparr>"
  by (simp add: dummy_read_runtime_config_def env_config_def default_negotiated_def Let_def
      dummy_parse_u32_unset dummy_parse_duration_ns_def)

text \<open>The negotiated link never stays unset while a maximum is configured.\<close>

lemma runtime_config_negotiated:
  "cfg_neg_speed (dummy_read_runtime_config getenv) = 0 \<Longrightarrow>
     cfg_max_speed (dummy_read_runtime_config getenv) = 0"
  "cfg_neg_width (dummy_read_runtime_config getenv) = 0 \<Longrightarrow>
     cfg_max_width (dummy_read_runtime_config getenv) = 0"
  by (auto simp: dummy_read_runtime_config_def Let_def default_negotiated_speed
      split: option.splits if_splits)

section \<open>Scenarios\<close>

text \<open>A key or a value that trimming and splitting leave alone.\<close>

definition clean :: "string \<Rightarrow> bool" where
  "clean s \<longleftrightarrow> s \<noteq> [] \<and> list_all (\<lambda>c. \<not> c_isspace c \<and> c \<noteq> CHR ''='' \<and> \<not> scenario_sep c) s"

lemma trim_clean [simp]: "clean s \<Longrightarrow> dummy_trim_whitespace s = s"
proof -
  have id: "dropWhile c_isspace t = t" if "list_all (\<lambda>c. \<not> c_isspace c) t" for t
    using that by (cases t) auto
  assume "clean s"
  then have "list_all (\<lambda>c. \<not> c_isspace c) s" by (auto simp: clean_def list_all_iff)
  then show ?thesis by (simp add: dummy_trim_whitespace_def id)
qed

lemma clean_append: "clean s \<Longrightarrow> clean t \<Longrightarrow> clean (s @ t)"
  by (simp add: clean_def)

lemma clean_digits: "list_all (is_digit 10) s \<Longrightarrow> s \<noteq> [] \<Longrightarrow> clean s"
  by (auto simp: clean_def list_all_iff is_digit_def digit_val_def c_isspace_def scenario_sep_def
      split: if_splits)

lemma clean_print_dec [simp]: "clean (print_dec n)"
  by (simp add: clean_digits print_dec_digits)

lemma clean_profile_text [simp]: "clean (profile_text g n m)"
proof -
  have "clean ''x''" "clean ''gen''" by (simp_all add: clean_def c_isspace_def scenario_sep_def)
  then show ?thesis by (cases g) (auto simp: profile_text_def simp del: append_Cons intro!: clean_append)
qed

lemma clean_no_eq: "clean s \<Longrightarrow> list_all (\<lambda>c. c \<noteq> CHR ''='') s"
  by (auto simp: clean_def list_all_iff)

text \<open>A token \<open>key=value\<close> is a setting.\<close>

lemma scenario_token_setting:
  assumes "clean key" and "clean val"
  shows "scenario_token (key @ CHR ''='' # val) st = scenario_setting key val st"
proof -
  have k: "takeWhile (\<lambda>c. c \<noteq> CHR ''='') (key @ CHR ''='' # val) = key"
    "dropWhile (\<lambda>c. c \<noteq> CHR ''='') (key @ CHR ''='' # val) = CHR ''='' # val"
    using clean_no_eq [OF assms(1)] by (induction key) auto
  have sp: "list_all (\<lambda>c. \<not> c_isspace c) (key @ CHR ''='' # val)"
    using assms by (auto simp: clean_def list_all_iff c_isspace_def)
  have id: "dropWhile c_isspace t = t" if "list_all (\<lambda>c. \<not> c_isspace c) t" for t
    using that by (cases t) auto
  have trim: "dummy_trim_whitespace (key @ CHR ''='' # val) = key @ CHR ''='' # val"
    using sp id [of "key @ CHR ''='' # val"] id [of "rev (key @ CHR ''='' # val)"]
    by (simp add: dummy_trim_whitespace_def)
  show ?thesis using assms
    unfolding scenario_token_def trim Let_def k by simp
qed

text \<open>Settings joined by a separator come apart again.\<close>

fun join_text :: "char \<Rightarrow> string list \<Rightarrow> string" where
  "join_text sep [] = []"
| "join_text sep [t] = t"
| "join_text sep (t # ts) = t @ sep # join_text sep ts"

lemma tokens_join:
  "d sep \<Longrightarrow> list_all (\<lambda>t. t \<noteq> [] \<and> list_all (\<lambda>c. \<not> d c) t) ts \<Longrightarrow> tokens d (join_text sep ts) = ts"
proof (induction sep ts rule: join_text.induct)
  case (1 sep)
  then show ?case by (simp add: tokens.simps [of d "[]"])
next
  case (2 sep t)
  then show ?case
    using strtok_last [of t d] by (simp add: tokens.simps [of d t] tokens.simps [of d "[]"])
next
  case (3 sep t u us)
  then have "strtok d (t @ sep # join_text sep (u # us)) = Some (t, join_text sep (u # us))"
    using 3 by (intro strtok_token) auto
  with 3 show ?case by (simp add: tokens.simps [of d "t @ sep # join_text sep (u # us)"])
qed

lemma clean_no_sep: "clean s \<Longrightarrow> list_all (\<lambda>c. \<not> scenario_sep c) s"
  by (auto simp: clean_def list_all_iff)

definition setting_text :: "string \<times> string \<Rightarrow> string" where
  "setting_text kv = (case kv of (k, v) \<Rightarrow> k @ CHR ''='' # v)"

definition clean_setting :: "string \<times> string \<Rightarrow> bool" where
  "clean_setting kv \<longleftrightarrow> clean (fst kv) \<and> clean (snd kv)"

lemma setting_text_no_sep:
  "clean_setting kv \<Longrightarrow> setting_text kv \<noteq> [] \<and> list_all (\<lambda>c. \<not> scenario_sep c) (setting_text kv)"
  using clean_no_sep [of "fst kv"] clean_no_sep [of "snd kv"]
  by (cases kv) (simp add: clean_setting_def setting_text_def scenario_sep_def)

lemma fold_scenario_tokens:
  "list_all clean_setting kvs \<Longrightarrow>
     fold scenario_token (map setting_text kvs) st = fold (\<lambda>(k, v). scenario_setting k v) kvs st"
proof (induction kvs arbitrary: st)
  case (Cons kv kvs)
  then have "scenario_token (setting_text kv) st = (case kv of (k, v) \<Rightarrow> scenario_setting k v st)"
    using scenario_token_setting [of "fst kv" "snd kv" st]
    by (cases kv) (simp add: clean_setting_def setting_text_def)
  with Cons show ?case by (cases kv) simp
qed simp

lemma scenario_settings:
  assumes clean: "list_all clean_setting kvs" and ne: "kvs \<noteq> []"
    and len: "length (join_text (CHR '','') (map setting_text kvs)) \<le> 255"
  shows "dummy_apply_scenario_values (join_text (CHR '','') (map setting_text kvs)) cfg =
           (case fold (\<lambda>(k, v). scenario_setting k v) kvs (cfg, None) of
              (cfg', None) \<Rightarrow> cfg'
            | (cfg', Some name) \<Rightarrow> if name = [] then cfg' else use_profile name cfg')"
proof -
  let ?s = "join_text (CHR '','') (map setting_text kvs)"
  have "tokens scenario_sep ?s = map setting_text kvs"
    using clean setting_text_no_sep
    by (intro tokens_join) (auto simp: scenario_sep_def list_all_iff)
  moreover have "?s \<noteq> []"
  proof
    assume "?s = []"
    with calculation have "map setting_text kvs = []" by (simp add: tokens.simps)
    with ne show False by simp
  qed
  ultimately show ?thesis
    using len by (simp add: dummy_apply_scenario_values_def fold_scenario_tokens [OF clean])
qed

section \<open>Properties\<close>

text \<open>
  A duration written as a decimal number and a unit, whatever follows the unit's first
  letter and in either case, is read as that many nanoseconds, as long as it fits 64 bits.
\<close>

lemma dummy_duration_units:
  assumes "unit_ns c = Some k" and "n * unat k < 2 ^ 64" and "n < 2 ^ 64"
  shows "unat (dummy_parse_duration_ns (Some (print_dec n @ c # cs)) d) = n * unat k"
proof -
  have "n \<le> ulong_max" using assms(3) by (simp add: ulong_max_def)
  then have "dummy_parse_duration_ns (Some (print_dec n @ c # cs)) d = word_of_nat n * k"
    by (rule dummy_parse_duration_suffix) (rule assms(1))
  then show ?thesis using assms(2,3) by (simp add: unat_word_ariths unat_of_nat)
qed

text \<open>
  C40: Profile names are read back exactly: \<open>n\<close> and \<open>m\<close> written as \<open>genNxM\<close> or \<open>NxM\<close> give
  speed \<open>n\<close> and width \<open>m\<close> for every supported pair, and whatever name is
  accepted lies in the supported range.
\<close>

theorem dummy_profile_names:
  assumes "1 \<le> n" "n \<le> 8" "1 \<le> m" "m \<le> 16"
  shows "dummy_profile_from_name (profile_text g n m) = Some (word_of_nat n, word_of_nat m) \<and>
         (\<forall>name speed width. dummy_profile_from_name name = Some (speed, width) \<longrightarrow>
            0 < speed \<and> speed \<le> 8 \<and> 0 < width \<and> width \<le> 16)"
  using dummy_profile_roundtrip [OF assms] dummy_profile_range by (auto simp: word_neq_0_conv)

theorem dummy_profile_names_witness:
  "dummy_profile_from_name (profile_text True 7 8) = Some (7, 8)"
  using dummy_profile_names [of 7 8 True] by simp

end
