(* ===== verification/DummyBackend.thy ===== *)
theory DummyBackend
  imports DummyConfig Pcapcie
begin

text \<open>
  The operations of the dummy backend, \<open>src/backend_dummy.c\<close>. Its state holds the
  environment variables, the function's statics \<open>count\<close> and \<open>next_tx_ns\<close>, and the
  monotonic clock, which \<open>nanosleep\<close> advances by the time asked for and which the code's own
  running time does not move. The static \<open>next_rx_ns\<close> is never used by the code, and
  messages to the log are left out.
\<close>

section \<open>State and operations\<close>

record dummy_state =
  dm_environ :: environ
  dm_count :: nat
  dm_next_tx_ns :: u64
  dm_clock_ns :: u64

definition dummy_time_ns :: "dummy_state \<Rightarrow> u64" where
  "dummy_time_ns st = dm_clock_ns st"

definition dummy_apply_latency :: "u64 \<Rightarrow> dummy_state \<Rightarrow> dummy_state" where
  "dummy_apply_latency latency_ns st =
     (if latency_ns = 0 then st
      else let sec = latency_ns div 1000000000; nsec = latency_ns mod 1000000000
           in st\<lparr>dm_clock_ns := dm_clock_ns st + (sec * 1000000000 + nsec)\<rparr>)"

definition dummy_apply_throttle :: "u32 \<Rightarrow> dummy_state \<Rightarrow> dummy_state" where
  "dummy_apply_throttle tokens_per_second st =
     (let now = dummy_time_ns st in
      if tokens_per_second = 0 then st
      else let st' = (if now < dm_next_tx_ns st
                      then dummy_apply_latency (dm_next_tx_ns st - now) st
                      else st)
           in st'\<lparr>dm_next_tx_ns := now + 1000000000 div ucast tokens_per_second\<rparr>)"

definition dummy_device_info :: "dummy_state info_op" where
  "dummy_device_info info st =
     (let getenv = dm_environ st;
          vid = ucast (dummy_parse_u32 (getenv ''PCIE_DUMMY_VENDOR_ID'') 0x1AE0);
          did = ucast (dummy_parse_u32 (getenv ''PCIE_DUMMY_DEVICE_ID'') 0x0001);
          cls = ucast (dummy_parse_u32 (getenv ''PCIE_DUMMY_CLASS_CODE'') 0x060400);
          rev_id = ucast (dummy_parse_u32 (getenv ''PCIE_DUMMY_REVISION'') 0x01)
      in case info of
           None \<Rightarrow> Inr (-1, None, st)
         | Some _ \<Rightarrow>
             Inr (0, Some (device_info_zero\<lparr>vendor_id := vid, device_id := did, class_code := cls,
                                           revision_id := rev_id, has_pcie_capability := 1\<rparr>), st))"

text \<open>The link status of a configuration.\<close>

definition dummy_status :: "dummy_config \<Rightarrow> link_status" where
  "dummy_status cfg =
     link_status_zero\<lparr>
       max_link_speed := pcie_link_speed_from_code (ucast (cfg_max_speed cfg)),
       negotiated_link_speed := pcie_link_speed_from_code (ucast (cfg_neg_speed cfg)),
       max_link_width := ucast (if cfg_max_width cfg > 0 then cfg_max_width cfg else 1),
       negotiated_link_width := ucast (if cfg_neg_width cfg > 0 then cfg_neg_width cfg else 1),
       max_gen := pcie_gen_from_speed_code (ucast (cfg_max_speed cfg)),
       negotiated_gen := pcie_gen_from_speed_code (ucast (cfg_neg_speed cfg))\<rparr>"

definition dummy_link_status :: "dummy_state link_op" where
  "dummy_link_status status st =
     (case status of
        None \<Rightarrow> Inr (-1, None, st)
      | Some _ \<Rightarrow> Inr (0, Some (dummy_status (dummy_read_runtime_config (dm_environ st))), st))"

text \<open>The waiting that precedes every packet in either direction.\<close>

definition dummy_pace :: "dummy_state \<Rightarrow> dummy_state" where
  "dummy_pace st =
     (let cfg = dummy_read_runtime_config (dm_environ st)
      in dummy_apply_throttle (cfg_tokens_per_second cfg)
           (dummy_apply_latency (cfg_latency_ns cfg) st))"

definition dummy_send :: "dummy_state tlp_op" where
  "dummy_send t st = (case t of None \<Rightarrow> Inr (-1, None, st) | Some _ \<Rightarrow> Inr (0, t, dummy_pace st))"

definition dummy_packet :: "nat \<Rightarrow> tlp" where
  "dummy_packet count =
     tlp_zero\<lparr>tlp_type := tlp_type_val PCIE_TLP_MEM_READ, tlp_length := 4,
              mem_addr := word_of_nat (0x1000 + count * 4)\<rparr>"

definition dummy_recv :: "dummy_state tlp_op" where
  "dummy_recv t st =
     (if dm_count st \<ge> 1000 then Inr (-1, t, st)
      else let st' = dummy_pace st
           in cbind (deref t) (\<lambda>_.
                Inr (0, Some (dummy_packet (dm_count st')),
                     st'\<lparr>dm_count := dm_count st' + 1\<rparr>)))"

definition dummy_close :: "dummy_state \<Rightarrow> dummy_state c_res" where
  "dummy_close st = Inr st"

definition dummy_ops :: "dummy_state pcie_backend_ops" where
  "dummy_ops =
     \<lparr>ops_send = Some dummy_send, ops_recv = Some dummy_recv,
      ops_link_status = Some dummy_link_status, ops_device_info = Some dummy_device_info,
      ops_close = Some dummy_close\<rparr>"

definition pcie_backend_dummy :: "dummy_state backend_ctor" where
  "pcie_backend_dummy st = Inr (Some dummy_ops, st)"

section \<open>Pacing\<close>

lemma dummy_latency_clock:
  "dm_clock_ns (dummy_apply_latency n st) = dm_clock_ns st + n"
  by (simp add: dummy_apply_latency_def Let_def div_mult_mod_eq)

lemma dummy_pace_frame [simp]:
  "dm_environ (dummy_pace st) = dm_environ st" "dm_count (dummy_pace st) = dm_count st"
  by (simp_all add: dummy_pace_def dummy_apply_throttle_def dummy_apply_latency_def Let_def)

text \<open>Two sends in a row: the second waits one period, and leaves no debt for a third.\<close>

lemma throttle_twice:
  fixes tps :: u32
  defines "p \<equiv> 1000000000 div ucast tps :: u64"
  assumes tps: "tps \<noteq> 0" and ready: "dm_next_tx_ns st \<le> dm_clock_ns st"
    and fits: "unat (dm_clock_ns st) + unat p < 2 ^ 64"
  shows "dm_clock_ns (dummy_apply_throttle tps (dummy_apply_throttle tps st)) = dm_clock_ns st + p"
    and "dm_next_tx_ns (dummy_apply_throttle tps (dummy_apply_throttle tps st)) = dm_clock_ns st + p"
proof -
  let ?n = "dm_clock_ns st"
  have 1: "dummy_apply_throttle tps st = st\<lparr>dm_next_tx_ns := ?n + p\<rparr>"
    using tps ready by (simp add: dummy_apply_throttle_def dummy_time_ns_def p_def Let_def not_less [symmetric])
  have le: "?n \<le> ?n + p"
    using fits by (simp add: word_le_nat_alt unat_word_ariths)
  have 2: "dummy_apply_throttle tps (st\<lparr>dm_next_tx_ns := ?n + p\<rparr>) =
      (if p = 0 then st\<lparr>dm_next_tx_ns := ?n + p\<rparr>
       else (dummy_apply_latency p (st\<lparr>dm_next_tx_ns := ?n + p\<rparr>))\<lparr>dm_next_tx_ns := ?n + p\<rparr>)"
    using tps le
    by (auto simp: dummy_apply_throttle_def dummy_time_ns_def Let_def p_def [symmetric]
        order.strict_iff_order)
  show "dm_clock_ns (dummy_apply_throttle tps (dummy_apply_throttle tps st)) = ?n + p"
    and "dm_next_tx_ns (dummy_apply_throttle tps (dummy_apply_throttle tps st)) = ?n + p"
    by (simp_all add: 1 2 dummy_latency_clock)
qed

lemma throttle_twice_k:
  fixes tps :: u32
  defines "p \<equiv> 1000000000 div ucast tps :: u64"
  assumes tps: "tps \<noteq> 0" and ready: "dm_next_tx_ns st \<le> dm_clock_ns st"
    and fits: "unat (dm_clock_ns st) + k * unat p < 2 ^ 64"
  shows "dm_clock_ns ((dummy_apply_throttle tps ^^ (2 * k)) st) = dm_clock_ns st + of_nat k * p \<and>
         dm_next_tx_ns ((dummy_apply_throttle tps ^^ (2 * k)) st) \<le>
           dm_clock_ns ((dummy_apply_throttle tps ^^ (2 * k)) st)"
  using fits
proof (induction k)
  case 0
  with ready show ?case by simp
next
  case (Suc k)
  let ?s = "(dummy_apply_throttle tps ^^ (2 * k)) st"
  have IH: "dm_clock_ns ?s = dm_clock_ns st + of_nat k * p" "dm_next_tx_ns ?s \<le> dm_clock_ns ?s"
    using Suc by auto
  have "unat (of_nat k * p) = k * unat p"
  proof -
    have "unat (of_nat k * p) = (k * unat p) mod 2 ^ 64"
      by (simp add: unat_word_ariths unat_of_nat mod_mult_left_eq)
    then show ?thesis using Suc.prems by simp
  qed
  then have "unat (dm_clock_ns ?s) = unat (dm_clock_ns st) + k * unat p"
    using Suc.prems IH(1) by (simp add: unat_word_ariths)
  then have fit: "unat (dm_clock_ns ?s) + unat p < 2 ^ 64" using Suc.prems by simp
  have step: "(dummy_apply_throttle tps ^^ (2 * Suc k)) st =
      dummy_apply_throttle tps (dummy_apply_throttle tps ?s)" by simp
  from throttle_twice [OF tps IH(2)] fit show ?case
    unfolding step p_def [symmetric] IH(1) by (simp add: algebra_simps)
qed

section \<open>The contract\<close>

definition dummy_script :: "dummy_state \<Rightarrow> tlp list" where
  "dummy_script st = map dummy_packet [dm_count st ..< 1000]"

lemma dummy_packet_valid [simp]: "valid_tlp (dummy_packet n)"
  by (simp add: dummy_packet_def tlp_zero_def)

lemma dummy_ops_simps [simp]:
  "ops_send dummy_ops = Some dummy_send" "ops_recv dummy_ops = Some dummy_recv"
  "ops_link_status dummy_ops = Some dummy_link_status"
  "ops_device_info dummy_ops = Some dummy_device_info" "ops_close dummy_ops = Some dummy_close"
  by (simp_all add: dummy_ops_def)

interpretation dummy: scripted_backend dummy_ops "\<lambda>_. True" valid_tlp dummy_script
proof (unfold_locales, goal_cases)
  case 7
  then show ?case by (auto simp: dummy_script_def dummy_recv_def)
next
  case (8 st p ps f t rc t' st')
  then have "dm_count st < 1000" by (cases "dm_count st < 1000") (simp_all add: dummy_script_def)
  with 8 show ?case by (auto simp: dummy_script_def dummy_recv_def Let_def upt_conv_Cons)
qed (auto simp: dummy_send_def dummy_recv_def dummy_link_status_def dummy_device_info_def dummy_close_def Let_def)

section \<open>Properties\<close>

lemma ucast_gen_profile:
  "n \<le> 8 \<Longrightarrow> unat (gen_val (pcie_gen_from_speed_code (ucast (word_of_nat n :: u32)))) = n"
proof -
  assume "n \<le> 8"
  then have "n = 0 \<or> n = 1 \<or> n = 2 \<or> n = 3 \<or> n = 4 \<or> n = 5 \<or> n = 6 \<or> n = 7 \<or> n = 8" by linarith
  then show ?thesis by (elim disjE) (simp_all add: pcie_gen_from_speed_code_def)
qed

lemma dummy_status_of_profile:
  assumes "dm_environ st ''PCIE_DUMMY_PROFILE'' = Some (profile_text g n m)"
    and "dm_environ st ''PCIE_DUMMY_SCENARIO'' = None"
    and "1 \<le> n" "n \<le> 8" "1 \<le> m" "m \<le> 16"
  shows "\<exists>s. dummy_link_status (Some s0) st = Inr (0, Some s, st) \<and>
           unat (gen_val (negotiated_gen s)) = n \<and> unat (gen_val (max_gen s)) = n \<and>
           unat (negotiated_link_width s) = m \<and> unat (max_link_width s) = m"
proof -
  have m: "unat (ucast (word_of_nat m :: u32) :: u8) = m" "(word_of_nat m :: u32) > 0"
    using assms by (simp_all add: unsigned_ucast_eq unat_of_nat take_bit_nat_eq_self word_less_nat_alt)
  show ?thesis
    unfolding dummy_link_status_def
    using runtime_config_profile [OF assms(1,2) dummy_profile_roundtrip [OF assms(3-6)]] m
      ucast_gen_profile [OF assms(4)]
    by (simp add: dummy_status_def)
qed

lemma dummy_check_profile:
  assumes "ctx_ok dummy_ops c"
    and "dm_environ st ''PCIE_DUMMY_PROFILE'' = Some (profile_text g n m)"
    and "dm_environ st ''PCIE_DUMMY_SCENARIO'' = None"
    and "1 \<le> n" "n \<le> 8" "1 \<le> m" "m \<le> 16"
  shows "pcie_check_link_target (Some c) min_gen min_width (Some p) st =
           Inr (0, Some (if unat min_gen \<le> n \<and> unat min_width \<le> m then 1 else 0), st)"
proof -
  obtain s where s: "dummy_link_status (Some link_status_zero) st = Inr (0, Some s, st)"
      "unat (gen_val (negotiated_gen s)) = n" "unat (negotiated_link_width s) = m"
    using dummy_status_of_profile [OF assms(2-7), of link_status_zero] by blast
  have "pcie_get_link_status (Some c) (Some link_status_zero) st = Inr (0, Some s, st)"
    using assms(1) s(1) by (simp add: pcie_get_link_status_def ctx_ok_def)
  moreover have "link_target_met s min_gen min_width \<longleftrightarrow> unat min_gen \<le> n \<and> unat min_width \<le> m"
    using s(2,3) assms(4) by (auto simp: link_target_met_def word_less_nat_alt)
  ultimately show ?thesis by (simp add: pcie_check_link_target_def)
qed

text \<open>
  C24: The link-target check on the dummy backend with a profile name in the environment: a
  profile of \<open>n\<close> and \<open>m\<close> lanes passes exactly the targets of at most generation \<open>n\<close> and at
  most \<open>m\<close> lanes. Setting, name parser, code table, backend and library check are composed
  as the code composes them.
\<close>

theorem dummy_profile_meets_target:
  assumes "ctx_ok dummy_ops c"
    and "dm_environ st ''PCIE_DUMMY_PROFILE'' = Some (profile_text g n m)"
    and "dm_environ st ''PCIE_DUMMY_SCENARIO'' = None"
    and "1 \<le> n" "n \<le> 8" "1 \<le> m" "m \<le> 16"
  shows "pcie_check_link_target (Some c) min_gen min_width (Some p) st =
           Inr (0, Some (if unat min_gen \<le> n \<and> unat min_width \<le> m then 1 else 0), st)"
  by (rule dummy_check_profile [OF assms])

definition profile_state :: "string \<Rightarrow> dummy_state" where
  "profile_state name =
     \<lparr>dm_environ = [''PCIE_DUMMY_PROFILE'' \<mapsto> name], dm_count = 0, dm_next_tx_ns = 0,
      dm_clock_ns = 5\<rparr>"

theorem dummy_profile_meets_target_witness:
  "pcie_check_link_target (Some (fresh_ctx\<lparr>backend := Some dummy_ops\<rparr> :: (dummy_state, nat) pcie_ctx))
     5 16 (Some 0) (profile_state ''gen6x8'') = Inr (0, Some 0, profile_state ''gen6x8'') \<and>
   pcie_check_link_target (Some (fresh_ctx\<lparr>backend := Some dummy_ops\<rparr> :: (dummy_state, nat) pcie_ctx))
     6 4 (Some 0) (profile_state ''gen6x8'') = Inr (0, Some 1, profile_state ''gen6x8'')"
proof -
  have "profile_text True 6 8 = ''gen6x8''" by code_simp
  then show ?thesis
    using dummy_profile_meets_target [OF ctx_ok_fresh, of "profile_state ''gen6x8''" True 6 8 5 16 0]
      dummy_profile_meets_target [OF ctx_ok_fresh, of "profile_state ''gen6x8''" True 6 8 6 4 0]
    by (simp add: profile_state_def)
qed

text \<open>
  C11: \<open>pcie_loop\<close> on the dummy backend returns, and by then it has shown to the registered
  sniffers, when they only look at packets, every packet the backend still had to deliver:
  4-byte memory reads at consecutive addresses from 0x1000, up to the thousandth, in order,
  each to the sniffers whose filter matches in registration order. Exactly those packets are
  counted as received, and the trace is unchanged.
\<close>

theorem dummy_loop_delivers_all:
  assumes "ctx_ok dummy_ops c" and "list_all read_only (take (sniffer_count c) (sniffers c))"
  shows "\<exists>st'. pcie_loop t (Some c) st u =
           Some (Inr (add_received (1000 - dm_count st) c, st',
                      fold (show_packet c) (map dummy_packet [dm_count st ..< 1000]) u)) \<and>
         1000 \<le> dm_count st'"
proof -
  from dummy.loop_script [OF assms(1) TrueI assms(2), of t st u] obtain st' where
      "pcie_loop t (Some c) st u = Some (Inr (add_received (length (dummy_script st)) c, st',
         fold (show_packet c) (dummy_script st) u))" "dummy_script st' = []" by blast
  then show ?thesis by (simp add: dummy_script_def)
qed

theorem dummy_loop_delivers_all_witness:
  "\<exists>st' c'. pcie_loop tlp_zero (Some (fresh_ctx\<lparr>backend := Some dummy_ops, sniffer_count := 1,
       sniffers := \<lparr>se_filter = PCIE_MATCH_TYPE (tlp_type_val PCIE_TLP_MEM_READ),
                    se_cb = Some (\<lambda>t n seen. (t, mem_addr t # seen)), se_user = 0\<rparr> #
                   replicate 7 sniff_zero\<rparr>))
     ((profile_state ''gen6x8'')\<lparr>dm_count := 997\<rparr>) [] =
   Some (Inr (c', st', [0x1F9C, 0x1F98, 0x1F94])) \<and> received (stats c') = 3 \<and> 1000 \<le> dm_count st'"
  (is "\<exists>st' c'. pcie_loop tlp_zero (Some ?c) ?st [] = _ \<and> _ \<and> _")
proof -
  have ok: "ctx_ok dummy_ops ?c"
    by (simp add: ctx_ok_def trace_ok_def fresh_ctx_def max_sniffers_def)
  have ro: "list_all read_only (take (sniffer_count ?c) (sniffers ?c))"
    by (simp add: read_only_def)
  have "[997..<1000] = [997, 998, 999::nat]" by (simp add: upt_conv_Cons)
  then have "fold (show_packet ?c) (map dummy_packet [dm_count ?st ..< 1000]) [] =
      [0x1F9C, 0x1F98, 0x1F94]"
    by (simp add: show_packet_def dummy_packet_def pcie_filter_match_def PCIE_MATCH_TYPE_def run_cb_def
        tlp_zero_def)
  with dummy_loop_delivers_all [OF ok ro, of tlp_zero ?st "[]"] show ?thesis
    by (fastforce simp: add_received_def fresh_ctx_def)
qed

text \<open>
  C39: The throttle of the dummy backend lets through twice the configured rate: \<open>2 * k\<close>
  back-to-back packets at \<open>tps\<close> tokens per second take \<open>k\<close> periods of \<open>10^9 / tps\<close>
  nanoseconds, since the next slot is computed from the time before the wait.
\<close>

theorem throttle_double_rate:
  assumes "tps \<noteq> 0" and "dm_next_tx_ns st \<le> dm_clock_ns st"
    and "unat (dm_clock_ns st) + k * (1000000000 div unat tps) < 2 ^ 64"
  shows "unat (dm_clock_ns ((dummy_apply_throttle tps ^^ (2 * k)) st)) =
           unat (dm_clock_ns st) + k * (1000000000 div unat tps)"
proof -
  let ?p = "1000000000 div ucast tps :: u64"
  have p: "unat ?p = 1000000000 div unat tps"
    by (simp add: unat_div)
  have "dm_clock_ns ((dummy_apply_throttle tps ^^ (2 * k)) st) = dm_clock_ns st + of_nat k * ?p"
    using throttle_twice_k [OF assms(1,2)] assms(3) by (simp add: p)
  then have "dm_clock_ns ((dummy_apply_throttle tps ^^ (2 * k)) st) =
      word_of_nat (unat (dm_clock_ns st) + k * unat ?p)" by simp
  then have "unat (dm_clock_ns ((dummy_apply_throttle tps ^^ (2 * k)) st)) =
      (unat (dm_clock_ns st) + k * unat ?p) mod 2 ^ 64"
    by (simp add: unat_of_nat del: of_nat_add of_nat_mult)
  then show ?thesis using assms(3) by (simp add: p)
qed

theorem throttle_double_rate_witness:
  "unat (dm_clock_ns ((dummy_apply_throttle 1000 ^^ 6) (profile_state ''gen6x8''))) = 3000005"
  using throttle_double_rate [of 1000 "profile_state ''gen6x8''" 3]
  by (simp add: profile_state_def)

end
