(* ===== verification/Pci.thy ===== *)
theory Pci
  imports Pcapcie
begin

text \<open>
  The PCI configuration backend, \<open>src/backend_pci.c\<close>: reads and writes of a device's sysfs
  config file, the walk along the capability list, device information, link status and the
  two packet types it can send. The operating system is a parameter: the record \<open>pci_os\<close>
  holds the calls the code makes, on a state of the caller's choice. A call returns what the
  C call returns; \<open>None\<close> is a negative result. What the code relies on is stated by
  \<open>config_device\<close> and, for writes, \<open>config_writes\<close> in \<open>PciDevice\<close>.
\<close>

section \<open>The operating system\<close>

record 's pci_os =
  os_open :: "bool \<Rightarrow> string \<Rightarrow> 's \<Rightarrow> int \<times> 's"
  os_pread :: "int \<Rightarrow> nat \<Rightarrow> u64 \<Rightarrow> 's \<Rightarrow> u8 list option \<times> 's"
  os_pwrite :: "int \<Rightarrow> u8 list \<Rightarrow> u64 \<Rightarrow> 's \<Rightarrow> nat option \<times> 's"
  os_close :: "int \<Rightarrow> 's \<Rightarrow> 's"
  os_calloc :: "nat \<Rightarrow> 's \<Rightarrow> bool \<times> 's"

text \<open>The backend's state: the environment variable naming the device, and the system.\<close>

record 's pci_world =
  pw_device :: "string option"
  pw_os :: 's

section \<open>Access to the configuration space\<close>

definition PCI_DEVICE_ID :: string where
  "PCI_DEVICE_ID = ''0000:00:03.0''"

definition pci_device_id :: "'s pci_world \<Rightarrow> string" where
  "pci_device_id w =
     (case pw_device w of
        None \<Rightarrow> PCI_DEVICE_ID
      | Some device \<Rightarrow> if device = [] then PCI_DEVICE_ID else device)"

definition pci_config_path :: "string \<Rightarrow> string" where
  "pci_config_path device = take 255 (''/sys/bus/pci/devices/'' @ device @ ''/config'')"

text \<open>
  The transfer loops. \<open>pos\<close> is the cursor in the buffer, \<open>n\<close> what remains. \<open>pread\<close> and
  \<open>pwrite\<close> transfer at most what they are asked for, which the \<open>take\<close> and \<open>min\<close> make
  explicit. The result is the code, the buffer and the system.
\<close>

function read_loop ::
  "'s pci_os \<Rightarrow> int \<Rightarrow> u64 \<Rightarrow> nat \<Rightarrow> nat \<Rightarrow> u8 list \<Rightarrow> 's \<Rightarrow> (int \<times> u8 list \<times> 's) c_res" where
  "read_loop os fd off pos n buf s =
     (if n = 0 then Inr (0, buf, s)
      else case os_pread os fd n off s of
             (None, s') \<Rightarrow> Inr (-1, buf, s')
           | (Some got, s') \<Rightarrow>
               let bs = take n got
               in if bs = [] then Inr (-1, buf, s')
                  else cbind (mem_write buf pos bs) (\<lambda>buf'.
                         read_loop os fd (off + word_of_nat (length bs)) (pos + length bs)
                           (n - length bs) buf' s'))"
  by pat_completeness auto
termination
  by (relation "measure (\<lambda>(os, fd, off, pos, n, buf, s). n)") auto

function write_loop ::
  "'s pci_os \<Rightarrow> int \<Rightarrow> u64 \<Rightarrow> nat \<Rightarrow> nat \<Rightarrow> u8 list \<Rightarrow> 's \<Rightarrow> (int \<times> 's) c_res" where
  "write_loop os fd off pos n buf s =
     (if n = 0 then Inr (0, s)
      else cbind (mem_read (drop pos buf) n) (\<lambda>bs.
             case os_pwrite os fd bs off s of
               (None, s') \<Rightarrow> Inr (-1, s')
             | (Some put, s') \<Rightarrow>
                 let k = min put n
                 in if k = 0 then Inr (-1, s')
                    else write_loop os fd (off + word_of_nat k) (pos + k) (n - k) buf s'))"
  by pat_completeness auto
termination
  by (relation "measure (\<lambda>(os, fd, off, pos, n, buf, s). n)") auto

declare read_loop.simps [simp del] write_loop.simps [simp del]

definition pci_access_config ::
  "'s pci_os \<Rightarrow> u64 \<Rightarrow> u8 list \<Rightarrow> nat \<Rightarrow> bool \<Rightarrow> 's pci_world \<Rightarrow>
   (int \<times> u8 list \<times> 's pci_world) c_res" where
  "pci_access_config os off buf len is_write w =
     (case os_open os is_write (pci_config_path (pci_device_id w)) (pw_os w) of
        (fd, s) \<Rightarrow>
          if fd < 0 then Inr (-1, buf, w\<lparr>pw_os := s\<rparr>)
          else cbind (if is_write
                      then cbind (write_loop os fd off 0 len buf s) (\<lambda>(rc, s'). Inr (rc, buf, s'))
                      else read_loop os fd off 0 len buf s)
                 (\<lambda>(rc, buf', s'). Inr (rc, buf', w\<lparr>pw_os := os_close os fd s'\<rparr>)))"

section \<open>The capability list\<close>

text \<open>The loop over the list: at most \<open>k\<close> headers are read.\<close>

fun cap_walk ::
  "nat \<Rightarrow> 's pci_os \<Rightarrow> u8 \<Rightarrow> 's pci_world \<Rightarrow> (u32 option \<times> 's pci_world) c_res" where
  "cap_walk 0 os cap_ptr w = Inr (None, w)"
| "cap_walk (Suc k) os cap_ptr w =
     (if cap_ptr = 0 then Inr (None, w)
      else cbind (pci_access_config os (ucast cap_ptr) (replicate 2 0) 2 False w)
             (\<lambda>(rc, cap_hdr, w').
                if rc \<noteq> 0 then Inr (None, w')
                else if cap_hdr ! 0 = 0x10 then Inr (Some (ucast cap_ptr), w')
                else if cap_hdr ! 1 = 0 then Inr (None, w')
                else cap_walk k os (cap_hdr ! 1) w'))"

text \<open>\<open>Some\<close> of the offset when the function returns 0.\<close>

definition pci_find_pcie_capability ::
  "'s pci_os \<Rightarrow> 's pci_world \<Rightarrow> (u32 option \<times> 's pci_world) c_res" where
  "pci_find_pcie_capability os w =
     cbind (pci_access_config os 0 (replicate 256 0) 256 False w) (\<lambda>(rc, cfg, w').
       if rc \<noteq> 0 then Inr (None, w')
       else if cfg ! 0x06 AND 0x10 = 0 then Inr (None, w')
       else cap_walk 48 os (cfg ! 0x34) w')"

section \<open>The operations\<close>

definition pci_header_info :: "u8 list \<Rightarrow> device_info" where
  "pci_header_info hdr =
     device_info_zero\<lparr>
       vendor_id := ucast (hdr ! 0x00) OR push_bit 8 (ucast (hdr ! 0x01)),
       device_id := ucast (hdr ! 0x02) OR push_bit 8 (ucast (hdr ! 0x03)),
       class_code := ucast ((push_bit 16 (ucast (hdr ! 0x0B)) OR push_bit 8 (ucast (hdr ! 0x0A)) OR
                             ucast (hdr ! 0x09)) :: u32),
       revision_id := hdr ! 0x08\<rparr>"

definition pci_device_info :: "'s pci_os \<Rightarrow> 's pci_world info_op" where
  "pci_device_info os info w =
     (case info of
        None \<Rightarrow> Inr (-1, None, w)
      | Some _ \<Rightarrow>
          cbind (pci_access_config os 0 (replicate 16 0) 16 False w) (\<lambda>(rc, hdr, w1).
            if rc \<noteq> 0 then Inr (-1, Some device_info_zero, w1)
            else cbind (pci_find_pcie_capability os w1) (\<lambda>(cap, w2).
              Inr (0, Some ((pci_header_info hdr)\<lparr>has_pcie_capability :=
                              (if cap \<noteq> None then 1 else 0)\<rparr>), w2))))"

text \<open>Link capabilities and link status registers to a status record.\<close>

definition reg16 :: "u8 list \<Rightarrow> u16" where
  "reg16 raw = ucast (raw ! 0) OR push_bit 8 (ucast (raw ! 1))"

definition pci_status_of :: "u16 \<Rightarrow> u16 \<Rightarrow> link_status" where
  "pci_status_of lnkcap lnksta =
     (let max_speed_code = ucast (lnkcap AND 0x0F) :: u8;
          neg_speed_code = ucast (lnksta AND 0x0F) :: u8
      in link_status_zero\<lparr>
           max_link_speed := pcie_link_speed_from_code max_speed_code,
           negotiated_link_speed := pcie_link_speed_from_code neg_speed_code,
           max_link_width := ucast (drop_bit 4 lnkcap AND 0x3F),
           negotiated_link_width := ucast (drop_bit 4 lnksta AND 0x3F),
           max_gen := pcie_gen_from_speed_code max_speed_code,
           negotiated_gen := pcie_gen_from_speed_code neg_speed_code\<rparr>)"

definition pci_link_status :: "'s pci_os \<Rightarrow> 's pci_world link_op" where
  "pci_link_status os status w =
     (case status of
        None \<Rightarrow> Inr (-1, None, w)
      | Some _ \<Rightarrow>
          cbind (pci_find_pcie_capability os w) (\<lambda>(cap, w1).
            case cap of
              None \<Rightarrow> Inr (-1, Some link_status_zero, w1)
            | Some cap_offset \<Rightarrow>
                cbind (pci_access_config os (ucast (cap_offset + 0x0C)) (replicate 2 0) 2 False w1)
                  (\<lambda>(rc1, lnkcap_raw, w2).
                if rc1 \<noteq> 0 then Inr (-1, Some link_status_zero, w2)
                else cbind (pci_access_config os (ucast (cap_offset + 0x12)) (replicate 2 0) 2 False w2)
                  (\<lambda>(rc2, lnksta_raw, w3).
                if rc2 \<noteq> 0 then Inr (-1, Some link_status_zero, w3)
                else let s = pci_status_of (reg16 lnkcap_raw) (reg16 lnksta_raw)
                     in if max_link_speed s = PCIE_LINK_SPEED_UNKNOWN \<or>
                           negotiated_link_speed s = PCIE_LINK_SPEED_UNKNOWN
                        then Inr (-1, Some s, w3)
                        else Inr (0, Some s, w3)))))"

text \<open>The two branches of \<open>pci_send\<close>.\<close>

definition pci_cfg_write :: "'s pci_os \<Rightarrow> tlp \<Rightarrow> 's pci_world \<Rightarrow> (int \<times> tlp option \<times> 's pci_world) c_res" where
  "pci_cfg_write os t w =
     (case mem_data t of
        None \<Rightarrow> Inr (-1, Some t, w)
      | Some data \<Rightarrow>
          if tlp_length t = 0 then Inr (-1, Some t, w)
          else cbind (pci_access_config os (mem_addr t) data (unat (tlp_length t)) True w)
                 (\<lambda>(rc, _, w'). Inr (rc, Some t, w')))"

definition pci_cfg_read :: "'s pci_os \<Rightarrow> tlp \<Rightarrow> 's pci_world \<Rightarrow> (int \<times> tlp option \<times> 's pci_world) c_res" where
  "pci_cfg_read os t w =
     (let len = (if tlp_length t \<noteq> 0 then tlp_length t else 4) in
      if len > 256 then Inr (-1, Some t, w)
      else case mem_data t of
             None \<Rightarrow>
               (case os_calloc os (unat len) (pw_os w) of
                  (False, s) \<Rightarrow> Inr (-1, Some t, w\<lparr>pw_os := s\<rparr>)
                | (True, s) \<Rightarrow>
                    cbind (pci_access_config os (mem_addr t) (replicate (unat len) 0) (unat len) False
                             (w\<lparr>pw_os := s\<rparr>))
                      (\<lambda>(rc, _, w'). Inr (if rc \<noteq> 0 then -1 else 0, Some t, w')))
           | Some data \<Rightarrow>
               cbind (pci_access_config os (mem_addr t) data (unat len) False w)
                 (\<lambda>(rc, data', w').
                    Inr (if rc \<noteq> 0 then -1 else 0, Some (t\<lparr>mem_data := Some data'\<rparr>), w')))"

definition pci_send :: "'s pci_os \<Rightarrow> 's pci_world tlp_op" where
  "pci_send os tp w =
     (case tp of
        None \<Rightarrow> Inr (-1, None, w)
      | Some t \<Rightarrow>
          if tlp_type t = tlp_type_val PCIE_TLP_CFG_WRITE then pci_cfg_write os t w
          else if tlp_type t = tlp_type_val PCIE_TLP_CFG_READ then pci_cfg_read os t w
          else Inr (-1, Some t, w))"

definition pci_recv :: "'s pci_world tlp_op" where
  "pci_recv t w = Inr (-1, t, w)"

definition pci_close :: "'s pci_world \<Rightarrow> 's pci_world c_res" where
  "pci_close w = Inr w"

definition pci_ops :: "'s pci_os \<Rightarrow> 's pci_world pcie_backend_ops" where
  "pci_ops os =
     \<lparr>ops_send = Some (pci_send os), ops_recv = Some pci_recv,
      ops_link_status = Some (pci_link_status os), ops_device_info = Some (pci_device_info os),
      ops_close = Some pci_close\<rparr>"

definition pcie_backend_pci :: "'s pci_os \<Rightarrow> 's pci_world backend_ctor" where
  "pcie_backend_pci os w = Inr (Some (pci_ops os), w)"

section \<open>Accesses stay inside the buffer\<close>

lemma read_loop_done [simp]: "read_loop os fd off pos 0 buf s = Inr (0, buf, s)"
  by (simp add: read_loop.simps)

lemma read_loop_fail:
  "\<lbrakk>0 < n; os_pread os fd n off s = (r, s'); r = None \<or> r = Some []\<rbrakk> \<Longrightarrow>
     read_loop os fd off pos n buf s = Inr (-1, buf, s')"
  by (subst read_loop.simps) auto

lemma read_loop_step:
  "\<lbrakk>os_pread os fd n off s = (Some got, s'); take n got \<noteq> []; mem_write buf pos (take n got) = Inr buf'\<rbrakk> \<Longrightarrow>
     read_loop os fd off pos n buf s =
       read_loop os fd (off + word_of_nat (length (take n got))) (pos + length (take n got))
         (n - length (take n got)) buf' s'"
  by (subst read_loop.simps) (simp add: Let_def)

lemma write_loop_done [simp]: "write_loop os fd off pos 0 buf s = Inr (0, s)"
  by (simp add: write_loop.simps)

lemma write_loop_fail:
  "\<lbrakk>0 < n; pos + n \<le> length buf; os_pwrite os fd (take n (drop pos buf)) off s = (r, s');
    r = None \<or> r = Some 0\<rbrakk> \<Longrightarrow>
     write_loop os fd off pos n buf s = Inr (-1, s')"
  by (subst write_loop.simps) (auto simp: mem_read_def)

lemma write_loop_step:
  "\<lbrakk>pos + n \<le> length buf; os_pwrite os fd (take n (drop pos buf)) off s = (Some put, s'); 0 < min put n\<rbrakk> \<Longrightarrow>
     write_loop os fd off pos n buf s =
       write_loop os fd (off + word_of_nat (min put n)) (pos + min put n) (n - min put n) buf s'"
  by (subst write_loop.simps) (auto simp: mem_read_def Let_def)

lemma read_loop_total:
  "pos + n \<le> length buf \<Longrightarrow>
     \<exists>rc buf' s'. read_loop os fd off pos n buf s = Inr (rc, buf', s') \<and>
       length buf' = length buf \<and> (rc = 0 \<or> rc = -1)"
proof (induction os fd off pos n buf s rule: read_loop.induct)
  case (1 os fd off pos n buf s)
  show ?case
  proof (cases "n = 0")
    case True
    then show ?thesis by (simp add: read_loop.simps)
  next
    case False
    obtain r s' where r: "os_pread os fd n off s = (r, s')" by (cases "os_pread os fd n off s")
    show ?thesis
    proof (cases "r = None \<or> r = Some []")
      case True
      then show ?thesis using read_loop_fail [OF _ r True] False by simp
    next
      case some: False
      then obtain got where got: "r = Some got" "take n got \<noteq> []" using False by auto
      let ?bs = "take n got"
      have "pos + length ?bs \<le> length buf" using 1(2) by simp
      then obtain buf1 where b1: "mem_write buf pos ?bs = Inr buf1" "length buf1 = length buf"
        by (simp add: mem_write_def)
      have "pos + length ?bs + (n - length ?bs) \<le> length buf1" using 1(2) b1 by simp
      from "1.IH" [OF False r [symmetric] got(1) refl got(2) b1(1) this]
      show ?thesis
        unfolding read_loop_step [OF r [unfolded got(1)] got(2) b1(1)] b1(2) .
    qed
  qed
qed

lemma write_loop_total:
  "pos + n \<le> length buf \<Longrightarrow>
     \<exists>rc s'. write_loop os fd off pos n buf s = Inr (rc, s') \<and> (rc = 0 \<or> rc = -1)"
proof (induction os fd off pos n buf s rule: write_loop.induct)
  case (1 os fd off pos n buf s)
  show ?case
  proof (cases "n = 0")
    case True
    then show ?thesis by (simp add: write_loop.simps)
  next
    case False
    let ?bs = "take n (drop pos buf)"
    have rd: "mem_read (drop pos buf) n = Inr ?bs" using 1(2) by (simp add: mem_read_def)
    obtain r s' where r: "os_pwrite os fd ?bs off s = (r, s')" by (cases "os_pwrite os fd ?bs off s")
    show ?thesis
    proof (cases "r = None \<or> r = Some 0")
      case True
      then show ?thesis using write_loop_fail [OF _ 1(2) r True] False by simp
    next
      case some: False
      then obtain put where put: "r = Some put" "min put n \<noteq> 0" using False by auto
      have "pos + min put n + (n - min put n) \<le> length buf" using 1(2) by simp
      from "1.IH" [OF False rd r [symmetric] put(1) refl put(2) this] put(2)
      show ?thesis using write_loop_step [OF 1(2) r [unfolded put(1)]] by simp
    qed
  qed
qed

lemma access_total:
  assumes "len \<le> length buf"
  shows "\<exists>rc buf' w'. pci_access_config os off buf len wr w = Inr (rc, buf', w') \<and>
           length buf' = length buf \<and> (rc = 0 \<or> rc = -1)"
proof -
  obtain fd s where "os_open os wr (pci_config_path (pci_device_id w)) (pw_os w) = (fd, s)"
    by (cases "os_open os wr (pci_config_path (pci_device_id w)) (pw_os w)")
  with read_loop_total [of 0 len buf os fd off s] write_loop_total [of 0 len buf os fd off s] assms
  show ?thesis by (cases wr) (auto simp: pci_access_config_def)
qed

lemma cap_walk_total: "\<exists>cap w'. cap_walk k os p w = Inr (cap, w')"
proof (induction k arbitrary: p w)
  case (Suc k)
  show ?case
  proof (cases "p = 0")
    case False
    obtain rc hdr w1 where "pci_access_config os (ucast p) (replicate 2 0) 2 False w = Inr (rc, hdr, w1)"
      using access_total [of 2 "replicate 2 0" os "ucast p" False w] by auto
    with Suc [of "hdr ! 1" w1] False show ?thesis by (auto simp: numeral_2_eq_2)
  qed simp
qed simp

lemma find_capability_total: "\<exists>cap w'. pci_find_pcie_capability os w = Inr (cap, w')"
proof -
  obtain rc cfg w1 where "pci_access_config os 0 (replicate 256 0) 256 False w = Inr (rc, cfg, w1)"
    using access_total [of 256 "replicate 256 0" os 0 False w] by auto
  with cap_walk_total [of 48 os "cfg ! 0x34" w1] show ?thesis
    by (auto simp: pci_find_pcie_capability_def)
qed

section \<open>The contract\<close>

text \<open>
  A configuration read of length 0 reads 4 bytes, so its buffer, when there is one, must
  hold 4; every other packet needs a buffer of its own length only.
\<close>

definition pci_accepts :: "tlp \<Rightarrow> bool" where
  "pci_accepts t \<longleftrightarrow>
     valid_tlp t \<and>
     (tlp_type t = tlp_type_val PCIE_TLP_CFG_READ \<and> tlp_length t = 0 \<longrightarrow>
        (case mem_data t of None \<Rightarrow> True | Some bs \<Rightarrow> 4 \<le> length bs))"

lemma pci_cfg_write_total:
  assumes "valid_tlp t"
  shows "\<exists>rc w'. pci_cfg_write os t w = Inr (rc, Some t, w')"
proof (cases "mem_data t")
  case (Some data)
  with assms have "unat (tlp_length t) \<le> length data" by (simp add: valid_tlp_Some)
  with access_total [OF this, of os "mem_addr t" True w] Some show ?thesis
    by (auto simp: pci_cfg_write_def)
qed (simp add: pci_cfg_write_def)

lemma pci_cfg_read_total:
  assumes "pci_accepts t" and ty: "tlp_type t = tlp_type_val PCIE_TLP_CFG_READ"
  shows "\<exists>rc t' w'. pci_cfg_read os t w = Inr (rc, Some t', w') \<and> same_shape t t'"
proof -
  let ?len = "if tlp_length t \<noteq> 0 then tlp_length t else 4"
  show ?thesis
  proof (cases "?len > 256")
    case True
    then show ?thesis by (simp add: pci_cfg_read_def Let_def)
  next
    case small: False
    show ?thesis
    proof (cases "mem_data t")
      case None
      obtain g s where "os_calloc os (unat ?len) (pw_os w) = (g, s)"
        by (cases "os_calloc os (unat ?len) (pw_os w)")
      with None small access_total [of "unat ?len" "replicate (unat ?len) 0" os "mem_addr t" False "w\<lparr>pw_os := s\<rparr>"]
      show ?thesis by (cases g) (auto simp: pci_cfg_read_def Let_def)
    next
      case (Some data)
      with assms have "unat ?len \<le> length data" by (auto simp: pci_accepts_def valid_tlp_Some)
      from access_total [OF this, of os "mem_addr t" False w] Some small show ?thesis
        by (auto simp: pci_cfg_read_def Let_def same_shape_def)
    qed
  qed
qed

lemma pci_ops_simps [simp]:
  "ops_send (pci_ops os) = Some (pci_send os)" "ops_recv (pci_ops os) = Some pci_recv"
  "ops_link_status (pci_ops os) = Some (pci_link_status os)"
  "ops_device_info (pci_ops os) = Some (pci_device_info os)" "ops_close (pci_ops os) = Some pci_close"
  by (simp_all add: pci_ops_def)

lemma pci_link_status_total: "\<exists>rc s' w'. pci_link_status os (Some s) w = Inr (rc, Some s', w')"
proof -
  obtain cap w1 where c: "pci_find_pcie_capability os w = Inr (cap, w1)"
    using find_capability_total by blast
  have acc: "\<exists>rc raw w'. pci_access_config os off (replicate 2 0) 2 False w = Inr (rc, raw, w')" for off w
    using access_total [of 2 "replicate 2 0" os off False w] by auto
  show ?thesis
  proof (cases cap)
    case None
    with c show ?thesis by (simp add: pci_link_status_def)
  next
    case (Some p)
    obtain rc1 raw1 w2 where 1: "pci_access_config os (ucast (p + 0x0C)) (replicate 2 0) 2 False w1 = Inr (rc1, raw1, w2)"
      using acc by blast
    obtain rc2 raw2 w3 where 2: "pci_access_config os (ucast (p + 0x12)) (replicate 2 0) 2 False w2 = Inr (rc2, raw2, w3)"
      using acc by blast
    from c Some 1 2 show ?thesis by (auto simp: pci_link_status_def Let_def)
  qed
qed

lemma pci_device_info_total: "\<exists>rc i' w'. pci_device_info os (Some i) w = Inr (rc, Some i', w')"
proof -
  obtain rc hdr w1 where 1: "pci_access_config os 0 (replicate 16 0) 16 False w = Inr (rc, hdr, w1)"
    using access_total [of 16 "replicate 16 0" os 0 False w] by auto
  obtain cap w2 where "pci_find_pcie_capability os w1 = Inr (cap, w2)"
    using find_capability_total by blast
  with 1 show ?thesis by (cases "rc = 0") (auto simp: pci_device_info_def)
qed

interpretation pci: finite_backend "pci_ops os" "\<lambda>_. True" pci_accepts "\<lambda>_. 0" for os
proof (unfold_locales, goal_cases)
  case (2 w t)
  with pci_cfg_write_total [of t os w] pci_cfg_read_total [of t os w] show ?case
    by (auto simp: pci_send_def pci_accepts_def)
qed (auto simp: pci_accepts_def pci_recv_def pci_link_status_total pci_device_info_total pci_close_def)

end
