(* ===== verification/PciDevice.thy ===== *)
theory PciDevice
  imports Pci
begin

text \<open>
  The PCI backend in front of a device: what its accesses, its capability search, its link
  status and its two packet types do when the system calls behave as documented, short
  transfers included.
\<close>

section \<open>A device behind the system calls\<close>

text \<open>
  A device as the system shows it: the path of its config file, and, in each state of the system,
  the bytes of its configuration space, whether it is there and may be accessed, the
  descriptors that are open on the file and those among them that may write. \<open>cd_rw\<close> are the
  offsets of registers that are plain storage, those the PCI specification calls read-write without
  side effects.
\<close>

record 's config_dev =
  cd_path :: string
  cd_mem :: "'s \<Rightarrow> u8 list"
  cd_up :: "'s \<Rightarrow> bool"
  cd_fds :: "'s \<Rightarrow> int set"
  cd_wfds :: "'s \<Rightarrow> int set"
  cd_rw :: "nat \<Rightarrow> bool"

text \<open>
  What the documentation of the sysfs files and of the system calls promises, as long as the
  device is there: its file opens for reading; a read with an open descriptor inside the file
  transfers at least one byte, perhaps fewer than asked for; reading leaves the configuration space
  as it is.
\<close>

definition config_opens :: "'s pci_os \<Rightarrow> 's config_dev \<Rightarrow> bool" where
  "config_opens os D \<longleftrightarrow>
     (\<forall>s. cd_up D s \<longrightarrow>
        (case os_open os False (cd_path D) s of
           (fd, s') \<Rightarrow> 0 \<le> fd \<and> fd \<notin> cd_fds D s \<and> cd_fds D s' = insert fd (cd_fds D s) \<and>
             cd_up D s' \<and> cd_mem D s' = cd_mem D s)) \<and>
     (\<forall>s fd. cd_up D s \<longrightarrow> fd \<in> cd_fds D s \<longrightarrow>
        cd_up D (os_close os fd s) \<and> cd_mem D (os_close os fd s) = cd_mem D s \<and>
        cd_fds D (os_close os fd s) = cd_fds D s - {fd})"

definition config_reads :: "'s pci_os \<Rightarrow> 's config_dev \<Rightarrow> bool" where
  "config_reads os D \<longleftrightarrow>
     (\<forall>s n off fd. cd_up D s \<longrightarrow> fd \<in> cd_fds D s \<longrightarrow> 0 < n \<longrightarrow> unat off + n \<le> length (cd_mem D s) \<longrightarrow>
        (\<exists>k s'. os_pread os fd n off s = (Some (field (cd_mem D s) (unat off) k), s') \<and>
           0 < k \<and> k \<le> n \<and> cd_up D s' \<and> cd_mem D s' = cd_mem D s \<and> cd_fds D s' = cd_fds D s))"

definition config_device :: "'s pci_os \<Rightarrow> 's config_dev \<Rightarrow> bool" where
  "config_device os D \<longleftrightarrow>
     (\<forall>s. cd_up D s \<longrightarrow> length (cd_mem D s) \<le> 4096) \<and> config_opens os D \<and> config_reads os D"

text \<open>
  Writes: the file opens for reading and writing, as it does for a privileged process; of the
  writes only those to plain storage are promised to leave the bytes written, or the first few
  of them, and to change nothing else.
\<close>

definition patch :: "'a list \<Rightarrow> nat \<Rightarrow> 'a list \<Rightarrow> 'a list" where
  "patch dst k bs = take k dst @ bs @ drop (k + length bs) dst"

definition config_writes :: "'s pci_os \<Rightarrow> 's config_dev \<Rightarrow> bool" where
  "config_writes os D \<longleftrightarrow>
     (\<forall>s. cd_up D s \<longrightarrow>
        (case os_open os True (cd_path D) s of
           (fd, s') \<Rightarrow> 0 \<le> fd \<and> fd \<notin> cd_fds D s \<and> cd_fds D s' = insert fd (cd_fds D s) \<and>
             fd \<in> cd_wfds D s' \<and> cd_up D s' \<and> cd_mem D s' = cd_mem D s)) \<and>
     (\<forall>s bs off fd. cd_up D s \<longrightarrow> fd \<in> cd_wfds D s \<longrightarrow> bs \<noteq> [] \<longrightarrow> unat off + length bs \<le> length (cd_mem D s) \<longrightarrow>
        (\<forall>i. unat off \<le> i \<and> i < unat off + length bs \<longrightarrow> cd_rw D i) \<longrightarrow>
        (\<exists>k s'. os_pwrite os fd bs off s = (Some k, s') \<and> 0 < k \<and> k \<le> length bs \<and>
           cd_up D s' \<and> cd_mem D s' = patch (cd_mem D s) (unat off) (take k bs) \<and>
           cd_fds D s' = cd_fds D s \<and> cd_wfds D s' = cd_wfds D s))"

lemma config_deviceD:
  assumes "config_device os D"
  shows "cd_up D s \<Longrightarrow> length (cd_mem D s) \<le> 4096" and "config_opens os D" and "config_reads os D"
  using assms by (simp_all add: config_device_def)

lemma device_open:
  assumes "config_device os D" and "cd_up D s"
  obtains fd s' where "os_open os False (cd_path D) s = (fd, s')" "0 \<le> fd" "fd \<notin> cd_fds D s"
    "cd_fds D s' = insert fd (cd_fds D s)" "cd_up D s'" "cd_mem D s' = cd_mem D s"
proof -
  obtain fd s' where "os_open os False (cd_path D) s = (fd, s')" by (cases "os_open os False (cd_path D) s")
  with config_deviceD(2) [OF assms(1), unfolded config_opens_def, THEN conjunct1, rule_format,
      OF assms(2)] that
  show ?thesis by simp
qed

lemma device_open_write:
  assumes "config_writes os D" and "cd_up D s"
  obtains fd s' where "os_open os True (cd_path D) s = (fd, s')" "0 \<le> fd" "fd \<notin> cd_fds D s"
    "cd_fds D s' = insert fd (cd_fds D s)" "cd_up D s'" "cd_mem D s' = cd_mem D s" "fd \<in> cd_wfds D s'"
proof -
  obtain fd s' where "os_open os True (cd_path D) s = (fd, s')" by (cases "os_open os True (cd_path D) s")
  with assms(1) [unfolded config_writes_def, THEN conjunct1, rule_format, OF assms(2)] that
  show ?thesis by simp
qed

lemma device_close:
  "\<lbrakk>config_device os D; cd_up D s; fd \<in> cd_fds D s\<rbrakk> \<Longrightarrow>
     cd_up D (os_close os fd s) \<and> cd_mem D (os_close os fd s) = cd_mem D s \<and>
     cd_fds D (os_close os fd s) = cd_fds D s - {fd}"
  using config_deviceD(2) [of os D, unfolded config_opens_def] by blast

lemmas device_read = config_deviceD(3) [unfolded config_reads_def, rule_format]

lemma device_write:
  "\<lbrakk>config_writes os D; cd_up D s; fd \<in> cd_wfds D s; bs \<noteq> []; unat off + length bs \<le> length (cd_mem D s);
    \<And>i. unat off \<le> i \<Longrightarrow> i < unat off + length bs \<Longrightarrow> cd_rw D i\<rbrakk> \<Longrightarrow>
     \<exists>k s'. os_pwrite os fd bs off s = (Some k, s') \<and> 0 < k \<and> k \<le> length bs \<and>
       cd_up D s' \<and> cd_mem D s' = patch (cd_mem D s) (unat off) (take k bs) \<and>
       cd_fds D s' = cd_fds D s \<and> cd_wfds D s' = cd_wfds D s"
  unfolding config_writes_def by blast

text \<open>The backend in front of the device its environment variable names.\<close>

definition at_device :: "'s config_dev \<Rightarrow> 's pci_world \<Rightarrow> bool" where
  "at_device D w \<longleftrightarrow> cd_up D (pw_os w) \<and> pci_config_path (pci_device_id w) = cd_path D"

definition config_of :: "'s config_dev \<Rightarrow> 's pci_world \<Rightarrow> u8 list" where
  "config_of D w = cd_mem D (pw_os w)"

definition fds_of :: "'s config_dev \<Rightarrow> 's pci_world \<Rightarrow> int set" where
  "fds_of D w = cd_fds D (pw_os w)"

lemma at_device_os:
  "at_device D w \<Longrightarrow> at_device D (w\<lparr>pw_os := s\<rparr>) \<longleftrightarrow> cd_up D s"
  by (simp add: at_device_def pci_device_id_def)

lemma config_of_os [simp]: "config_of D (w\<lparr>pw_os := s\<rparr>) = cd_mem D s" "fds_of D (w\<lparr>pw_os := s\<rparr>) = cd_fds D s"
  by (simp_all add: config_of_def fds_of_def)

lemma length_patch [simp]: "k + length bs \<le> length dst \<Longrightarrow> length (patch dst k bs) = length dst"
  by (simp add: patch_def)

lemma mem_write_patch: "k + length bs \<le> length dst \<Longrightarrow> mem_write dst k bs = Inr (patch dst k bs)"
  by (simp add: mem_write_def patch_def)

lemma patch_patch:
  "k + length xs + length ys \<le> length dst \<Longrightarrow>
     patch (patch dst k xs) (k + length xs) ys = patch dst k (xs @ ys)"
  by (simp add: patch_def add.commute add.left_commute)

lemma patch_Nil [simp]: "patch dst k [] = dst"
  by (simp add: patch_def)

lemma length_field [simp]: "k + n \<le> length xs \<Longrightarrow> length (field xs k n) = n"
  by (simp add: field_def)

lemma field_split: "j \<le> n \<Longrightarrow> field xs k j @ field xs (k + j) (n - j) = field xs k n"
  by (simp add: field_def add.commute flip: take_add drop_drop)

lemma field_patch: "k + length bs \<le> length dst \<Longrightarrow> field (patch dst k bs) k (length bs) = bs"
  by (simp add: field_def patch_def)

lemma nth_field: "i < n \<Longrightarrow> k + n \<le> length xs \<Longrightarrow> field xs k n ! i = xs ! (k + i)"
  by (simp add: field_def)

lemma unat_advance:
  "unat (off :: u64) + n \<le> 4096 \<Longrightarrow> k \<le> n \<Longrightarrow> unat (off + word_of_nat k) = unat off + k"
  by (simp add: unat_word_ariths unat_of_nat)

lemma read_loop_device:
  assumes dev: "config_device os D"
  shows "\<lbrakk>cd_up D s; fd \<in> cd_fds D s; unat off + n \<le> length (cd_mem D s); pos + n \<le> length buf\<rbrakk> \<Longrightarrow>
     \<exists>s'. read_loop os fd off pos n buf s = Inr (0, patch buf pos (field (cd_mem D s) (unat off) n), s') \<and>
          cd_up D s' \<and> cd_mem D s' = cd_mem D s \<and> cd_fds D s' = cd_fds D s"
proof (induction n arbitrary: off pos buf s rule: less_induct)
  case (less n)
  show ?case
  proof (cases "n = 0")
    case True
    with less.prems show ?thesis by (simp add: field_0)
  next
    case False
    then obtain k s1 where r: "os_pread os fd n off s = (Some (field (cd_mem D s) (unat off) k), s1)"
        and k: "0 < k" "k \<le> n" and s1: "cd_up D s1" "cd_mem D s1 = cd_mem D s" "cd_fds D s1 = cd_fds D s"
      using device_read [OF dev less.prems(1,2) _ less.prems(3)] by auto
    let ?bs = "field (cd_mem D s) (unat off) k"
    have len: "length ?bs = k" using k less.prems by simp
    then have bs: "take n ?bs = ?bs" "take n ?bs \<noteq> []" using k by auto
    have "length (cd_mem D s) \<le> 4096" by (rule config_deviceD(1) [OF dev less.prems(1)])
    then have off: "unat (off + word_of_nat k) = unat off + k"
      using unat_advance [of off n k] less.prems(3) k(2) by simp
    have w: "mem_write buf pos ?bs = Inr (patch buf pos ?bs)"
      using mem_write_patch [of pos ?bs buf] len k less.prems by simp
    have "\<exists>s'. read_loop os fd (off + word_of_nat k) (pos + k) (n - k) (patch buf pos ?bs) s1 =
        Inr (0, patch (patch buf pos ?bs) (pos + k) (field (cd_mem D s1) (unat (off + word_of_nat k)) (n - k)), s') \<and>
        cd_up D s' \<and> cd_mem D s' = cd_mem D s1 \<and> cd_fds D s' = cd_fds D s1"
      using k s1 less.prems off len by (intro less.IH) auto
    moreover have "patch (patch buf pos ?bs) (pos + k) (field (cd_mem D s) (unat off + k) (n - k)) =
        patch buf pos (field (cd_mem D s) (unat off) n)"
      using patch_patch [of pos ?bs "field (cd_mem D s) (unat off + k) (n - k)" buf] len k less.prems
      by (simp add: field_split)
    ultimately show ?thesis
      using read_loop_step [OF r, where pos = pos and buf = buf and buf' = "patch buf pos ?bs"] bs w len off s1 by simp
  qed
qed

lemma write_loop_device:
  assumes dev: "config_device os D" and wr: "config_writes os D"
  shows "\<lbrakk>cd_up D s; fd \<in> cd_wfds D s; unat off + n \<le> length (cd_mem D s); pos + n \<le> length buf;
      \<And>i. unat off \<le> i \<Longrightarrow> i < unat off + n \<Longrightarrow> cd_rw D i\<rbrakk> \<Longrightarrow>
     \<exists>s'. write_loop os fd off pos n buf s = Inr (0, s') \<and>
          cd_up D s' \<and> cd_mem D s' = patch (cd_mem D s) (unat off) (field buf pos n) \<and> cd_fds D s' = cd_fds D s"
proof (induction n arbitrary: off pos s rule: less_induct)
  case (less n)
  show ?case
  proof (cases "n = 0")
    case True
    with less.prems show ?thesis by (simp add: field_0)
  next
    case False
    let ?bs = "field buf pos n"
    have bs: "length ?bs = n" using less.prems by simp
    then have "?bs \<noteq> []" using False by auto
    then obtain k s1 where r: "os_pwrite os fd ?bs off s = (Some k, s1)"
        and k: "0 < k" "k \<le> n" and s1: "cd_up D s1" "cd_mem D s1 = patch (cd_mem D s) (unat off) (take k ?bs)"
          "cd_fds D s1 = cd_fds D s" "cd_wfds D s1 = cd_wfds D s"
      using device_write [OF wr less.prems(1,2), of ?bs off] less.prems(3,5) bs by auto
    have tk: "take k ?bs = field buf pos k" using k(2) by (simp add: field_def min_def)
    have "length (cd_mem D s) \<le> 4096" by (rule config_deviceD(1) [OF dev less.prems(1)])
    then have off: "unat (off + word_of_nat k) = unat off + k"
      using unat_advance [of off n k] less.prems(3) k(2) by simp
    have lk: "length (field buf pos k) = k" using k less.prems by simp
    have "\<exists>s'. write_loop os fd (off + word_of_nat k) (pos + k) (n - k) buf s1 = Inr (0, s') \<and>
        cd_up D s' \<and> cd_mem D s' = patch (cd_mem D s1) (unat (off + word_of_nat k)) (field buf (pos + k) (n - k)) \<and>
        cd_fds D s' = cd_fds D s1"
      using k s1 less.prems off tk lk by (intro less.IH) auto
    moreover have "patch (cd_mem D s1) (unat off + k) (field buf (pos + k) (n - k)) =
        patch (cd_mem D s) (unat off) ?bs"
      using patch_patch [of "unat off" "field buf pos k" "field buf (pos + k) (n - k)" "cd_mem D s"]
        lk k less.prems s1(2) tk by (simp add: field_split)
    ultimately show ?thesis
      using write_loop_step [where pos = pos and n = n and buf = buf and os = os and fd = fd and off = off and s = s and put = k and s' = s1] r k s1 off less.prems(4)
      by (simp add: field_def [symmetric] min_def)
  qed
qed

lemma access_read_device:
  assumes dev: "config_device os D" and w: "at_device D w"
    and "unat off + n \<le> length (config_of D w)" and "n \<le> length buf"
  shows "\<exists>w'. pci_access_config os off buf n False w =
           Inr (0, field (config_of D w) (unat off) n @ drop n buf, w') \<and>
         at_device D w' \<and> config_of D w' = config_of D w \<and> fds_of D w' = fds_of D w"
proof -
  have up: "cd_up D (pw_os w)" and path: "pci_config_path (pci_device_id w) = cd_path D"
    using w by (simp_all add: at_device_def)
  obtain fd s where o: "os_open os False (cd_path D) (pw_os w) = (fd, s)"
      "0 \<le> fd" "fd \<notin> cd_fds D (pw_os w)" "cd_fds D s = insert fd (cd_fds D (pw_os w))"
      "cd_up D s" "cd_mem D s = config_of D w"
    by (rule device_open [OF dev up]) (simp add: config_of_def)
  obtain s' where "read_loop os fd off 0 n buf s =
      Inr (0, patch buf 0 (field (cd_mem D s) (unat off) n), s')" "cd_up D s'" "cd_mem D s' = cd_mem D s"
      "cd_fds D s' = cd_fds D s"
    using read_loop_device [OF dev o(5), of fd off n 0 buf] assms(3,4) o(4,6) by auto
  moreover have "patch buf 0 (field (cd_mem D s) (unat off) n) = field (config_of D w) (unat off) n @ drop n buf"
    using assms(3) o(6) by (simp add: patch_def)
  ultimately show ?thesis
    using o device_close [OF dev, of s' fd] at_device_os [OF w]
    by (simp add: pci_access_config_def path) (simp add: fds_of_def)
qed

lemma access_write_device:
  assumes dev: "config_device os D" and wr: "config_writes os D" and w: "at_device D w"
    and "unat off + n \<le> length (config_of D w)" and "n \<le> length buf"
    and rw: "\<And>i. unat off \<le> i \<Longrightarrow> i < unat off + n \<Longrightarrow> cd_rw D i"
  shows "\<exists>w'. pci_access_config os off buf n True w = Inr (0, buf, w') \<and>
         at_device D w' \<and> config_of D w' = patch (config_of D w) (unat off) (take n buf) \<and>
         fds_of D w' = fds_of D w"
proof -
  have up: "cd_up D (pw_os w)" and path: "pci_config_path (pci_device_id w) = cd_path D"
    using w by (simp_all add: at_device_def)
  obtain fd s where o: "os_open os True (cd_path D) (pw_os w) = (fd, s)"
      "0 \<le> fd" "fd \<notin> cd_fds D (pw_os w)" "cd_fds D s = insert fd (cd_fds D (pw_os w))"
      "cd_up D s" "cd_mem D s = config_of D w" "fd \<in> cd_wfds D s"
    by (rule device_open_write [OF wr up]) (simp add: config_of_def)
  obtain s' where "write_loop os fd off 0 n buf s = Inr (0, s')" "cd_up D s'"
      "cd_mem D s' = patch (cd_mem D s) (unat off) (field buf 0 n)" "cd_fds D s' = cd_fds D s"
    using write_loop_device [OF dev wr o(5,7), of off n 0 buf] assms(4,5) o(4,6) rw by auto
  then show ?thesis
    using o device_close [OF dev, of s' fd] at_device_os [OF w]
    by (simp add: pci_access_config_def path field_def) (simp add: fds_of_def)
qed

section \<open>The capability list\<close>

text \<open>The capabilities a configuration space lists: pointers reachable from offset 0x34.\<close>

definition cap_next :: "u8 list \<Rightarrow> u8 \<Rightarrow> u8" where
  "cap_next m p = m ! (unat p + 1)"

inductive cap_listed :: "u8 list \<Rightarrow> u8 \<Rightarrow> bool" for m where
  first: "m ! 0x34 \<noteq> 0 \<Longrightarrow> cap_listed m (m ! 0x34)"
| later: "\<lbrakk>cap_listed m p; cap_next m p \<noteq> 0\<rbrakk> \<Longrightarrow> cap_listed m (cap_next m p)"

text \<open>The first \<open>k\<close> entries of the list, and the reference search over them.\<close>

fun cap_chain :: "nat \<Rightarrow> u8 list \<Rightarrow> u8 \<Rightarrow> u8 list" where
  "cap_chain 0 m p = []"
| "cap_chain (Suc k) m p = (if p = 0 then [] else p # cap_chain k m (cap_next m p))"

lemma cap_walk_device:
  assumes dev: "config_device os D" and big: "257 \<le> length m"
  shows "\<lbrakk>at_device D w; config_of D w = m\<rbrakk> \<Longrightarrow>
     \<exists>w'. cap_walk k os p w =
            Inr (map_option ucast (List.find (\<lambda>q. m ! unat q = 0x10) (cap_chain k m p)), w') \<and>
          at_device D w' \<and> config_of D w' = m \<and> fds_of D w' = fds_of D w"
proof (induction k arbitrary: p w)
  case 0
  then show ?case by simp
next
  case (Suc k)
  show ?case
  proof (cases "p = 0")
    case True
    with Suc.prems show ?thesis by simp
  next
    case False
    have lt: "unat p + 2 \<le> length m" using unat_u8_lt [of p] big by linarith
    let ?hdr = "field m (unat p) 2"
    obtain w1 where w1: "pci_access_config os (ucast p) (replicate 2 0) 2 False w = Inr (0, ?hdr, w1)"
        "at_device D w1" "config_of D w1 = m" "fds_of D w1 = fds_of D w"
      using access_read_device [OF dev Suc.prems(1), of "ucast p" 2 "replicate 2 0"] lt Suc.prems(2)
      by auto
    have nth: "?hdr ! 0 = m ! unat p" "?hdr ! 1 = cap_next m p"
      using nth_field [of 0 2 "unat p" m] nth_field [of 1 2 "unat p" m] lt by (simp_all add: cap_next_def)
    have end_chain: "cap_chain k m 0 = []" by (cases k) simp_all
    show ?thesis
    proof (cases "m ! unat p = 0x10 \<or> cap_next m p = 0")
      case True
      with w1 nth False end_chain show ?thesis by (auto simp: numeral_2_eq_2)
    next
      case cont: False
      with Suc.IH [OF w1(2,3), of "cap_next m p"] w1 nth False show ?thesis
        by (auto simp: numeral_2_eq_2)
    qed
  qed
qed

lemma find_capability_device:
  assumes dev: "config_device os D" and w: "at_device D w" "config_of D w = m"
    and big: "257 \<le> length m"
  shows "\<exists>w'. pci_find_pcie_capability os w =
           Inr (if m ! 6 AND 0x10 = 0 then None
                else map_option ucast (List.find (\<lambda>q. m ! unat q = 0x10) (cap_chain 48 m (m ! 0x34))), w') \<and>
         at_device D w' \<and> config_of D w' = m \<and> fds_of D w' = fds_of D w"
proof -
  let ?cfg = "field m 0 256"
  obtain w1 where w1: "pci_access_config os 0 (replicate 256 0) 256 False w = Inr (0, ?cfg, w1)"
      "at_device D w1" "config_of D w1 = m" "fds_of D w1 = fds_of D w"
    using access_read_device [OF dev w(1), of 0 256 "replicate 256 0"] big w(2) by auto
  have nth: "?cfg ! 0x06 = m ! 6" "?cfg ! 0x34 = m ! 0x34"
    using nth_field [of 6 256 0 m] nth_field [of 52 256 0 m] big by simp_all
  show ?thesis
  proof (cases "m ! 6 AND 0x10 = 0")
    case True
    with w1 nth show ?thesis by (simp add: pci_find_pcie_capability_def)
  next
    case False
    with cap_walk_device [OF dev big w1(2,3), of 48 "m ! 0x34"] w1 nth show ?thesis
      by (auto simp: pci_find_pcie_capability_def)
  qed
qed

section \<open>Forty-eight steps are enough\<close>

lemma cap_listed_iter:
  "cap_listed m p \<Longrightarrow> \<exists>j. p = (cap_next m ^^ j) (m ! 0x34) \<and> (\<forall>i\<le>j. (cap_next m ^^ i) (m ! 0x34) \<noteq> 0)"
proof (induction rule: cap_listed.induct)
  case first
  then show ?case by (intro exI [of _ 0]) simp
next
  case (later p)
  then obtain j where "p = (cap_next m ^^ j) (m ! 0x34)"
      "\<forall>i\<le>j. (cap_next m ^^ i) (m ! 0x34) \<noteq> 0" by blast
  with later.hyps(2) show ?case by (intro exI [of _ "Suc j"]) (auto simp: le_Suc_eq)
qed

lemma iter_cap_listed:
  "\<forall>i\<le>j. (cap_next m ^^ i) (m ! 0x34) \<noteq> 0 \<Longrightarrow> cap_listed m ((cap_next m ^^ j) (m ! 0x34))"
proof (induction j)
  case 0
  then show ?case by (simp add: cap_listed.first)
next
  case (Suc j)
  then have "cap_listed m ((cap_next m ^^ j) (m ! 0x34))" by simp
  moreover have "cap_next m ((cap_next m ^^ j) (m ! 0x34)) \<noteq> 0"
    using Suc.prems [rule_format, of "Suc j"] by simp
  ultimately show ?case by (simp add: cap_listed.later)
qed

lemma cap_chain_iter:
  "j < k \<Longrightarrow> \<forall>i\<le>j. (cap_next m ^^ i) p \<noteq> 0 \<Longrightarrow> (cap_next m ^^ j) p \<in> set (cap_chain k m p)"
proof (induction k arbitrary: j p)
  case (Suc k)
  have p: "p \<noteq> 0" using Suc.prems(2) by (auto dest: spec [of _ 0])
  show ?case
  proof (cases j)
    case (Suc j')
    have "(cap_next m ^^ i) (cap_next m p) \<noteq> 0" if "i \<le> j'" for i
      using Suc.prems(2) [rule_format, of "Suc i"] Suc that by (simp add: funpow_swap1)
    with Suc.IH [of j' "cap_next m p"] Suc.prems(1) Suc p show ?thesis
      by (simp add: funpow_swap1)
  qed (use p in simp)
qed simp

lemma cap_chain_listed: "cap_listed m p \<or> p = 0 \<Longrightarrow> set (cap_chain k m p) \<subseteq> Collect (cap_listed m)"
proof (induction k arbitrary: p)
  case (Suc k)
  show ?case
  proof (cases "p = 0")
    case False
    with Suc.prems have p: "cap_listed m p" by simp
    with Suc.IH [of "cap_next m p"] False show ?thesis
      
      by (cases "cap_next m p = 0"; cases k) (auto intro: cap_listed.later)
  qed simp
qed simp

text \<open>Pointers to the dwords behind the header: there are 48 of them.\<close>

definition cap_slots :: "u8 set" where
  "cap_slots = word_of_nat ` ((\<lambda>i. 0x40 + 4 * i) ` {..<48})"

lemma card_cap_slots: "card cap_slots \<le> 48"
  unfolding cap_slots_def by (metis card_image_le card_lessThan finite_imageI finite_lessThan le_trans)

lemma finite_cap_slots: "finite cap_slots"
  by (simp add: cap_slots_def)

lemma cap_listed_chain:
  assumes slots: "\<And>p. cap_listed m p \<Longrightarrow> p \<in> cap_slots" and q: "cap_listed m q"
  shows "q \<in> set (cap_chain 48 m (m ! 0x34))"
proof -
  let ?f = "\<lambda>i. (cap_next m ^^ i) (m ! 0x34)"
  define P where "P j \<longleftrightarrow> q = ?f j \<and> (\<forall>i\<le>j. ?f i \<noteq> 0)" for j
  have "\<exists>j. P j" using cap_listed_iter [OF q] by (simp add: P_def)
  then obtain j where j: "P j" and least: "\<And>i. P i \<Longrightarrow> j \<le> i"
    by (metis LeastI Least_le)
  have "inj_on ?f {..j}"
  proof (rule linorder_inj_onI)
    fix a b assume ab: "a < b" "a \<in> {..j}" "b \<in> {..j}"
    show "?f a \<noteq> ?f b"
    proof
      assume eq: "?f a = ?f b"
      have shift: "?f (a + i) = ?f (b + i)" for i
        using eq by (induction i) simp_all
      have "?f (a + (j - b)) = q" using shift [of "j - b"] ab j by (simp add: P_def)
      moreover have "\<forall>i\<le>a + (j - b). ?f i \<noteq> 0" using j ab by (simp add: P_def)
      ultimately have "P (a + (j - b))" by (simp add: P_def)
      from least [OF this] ab show False by simp
    qed
  qed auto
  moreover have "?f ` {..j} \<subseteq> cap_slots"
    using j iter_cap_listed slots by (fastforce simp: P_def)
  ultimately have "card {..j} \<le> 48"
    using card_cap_slots card_inj_on_le [OF _ _ finite_cap_slots] by (metis le_trans)
  then have "j < 48" by simp
  with cap_chain_iter [of j 48 m "m ! 0x34"] j show ?thesis by (simp add: P_def)
qed

lemma find_chain_iff:
  assumes slots: "\<And>p. cap_listed m p \<Longrightarrow> p \<in> cap_slots"
  shows "List.find P (cap_chain 48 m (m ! 0x34)) = None \<longleftrightarrow> (\<forall>p. cap_listed m p \<longrightarrow> \<not> P p)"
    and "List.find P (cap_chain 48 m (m ! 0x34)) = Some p \<Longrightarrow> cap_listed m p \<and> P p"
proof -
  have sub: "set (cap_chain 48 m (m ! 0x34)) \<subseteq> Collect (cap_listed m)"
    by (rule cap_chain_listed) (auto intro: cap_listed.first)
  with cap_listed_chain [OF slots] show
    "List.find P (cap_chain 48 m (m ! 0x34)) = None \<longleftrightarrow> (\<forall>p. cap_listed m p \<longrightarrow> \<not> P p)"
    by (auto simp: find_None_iff)
  assume "List.find P (cap_chain 48 m (m ! 0x34)) = Some p"
  with sub show "cap_listed m p \<and> P p"
    by (auto simp: find_Some_iff) (metis mem_Collect_eq nth_mem subsetD)
qed

lemma aligned_cap_slots:
  assumes "0x40 \<le> (p :: u8)" and "4 dvd unat p"
  shows "p \<in> cap_slots"
proof -
  have p: "64 \<le> unat p" "unat p < 256" using assms(1) by (simp_all add: word_le_nat_alt)
  from assms(2) obtain k where k: "unat p = 4 * k" by (elim dvdE)
  with p have "unat p = 0x40 + 4 * (k - 16)" and lt: "k - 16 < 48" by simp_all
  moreover have "word_of_nat (unat p) = p" by simp
  ultimately have "p = word_of_nat (0x40 + 4 * (k - 16))" by metis
  with lt show ?thesis unfolding cap_slots_def by blast
qed

section \<open>Registers\<close>

lemma unat_AND_nibble: "unat ((w :: u16) AND 0x0F) = unat w mod 16"
proof -
  have "w AND 0x0F = take_bit 4 w" by (simp add: take_bit_eq_mask mask_numeral)
  then show ?thesis by (simp add: unat_mod take_bit_eq_mod)
qed

lemma unat_width_field: "unat (drop_bit 4 (w :: u16) AND 0x3F) = unat w div 16 mod 64"
proof -
  have "drop_bit 4 w AND 0x3F = take_bit 6 (drop_bit 4 w)" by (simp add: take_bit_eq_mask mask_numeral)
  then show ?thesis by (simp add: unat_mod unat_div take_bit_eq_mod drop_bit_eq_div)
qed

lemma unat_ucast_small: "unat (w :: u16) < 256 \<Longrightarrow> unat (ucast w :: u8) = unat w"
  by (simp add: unsigned_ucast_eq take_bit_nat_eq_self)

lemma gen_code_val:
  "unat (gen_val (pcie_gen_from_speed_code c)) = (if unat c \<le> 8 then unat c else 0)"
proof -
  have "unat c = 0 \<or> unat c = 1 \<or> unat c = 2 \<or> unat c = 3 \<or> unat c = 4 \<or> unat c = 5 \<or>
      unat c = 6 \<or> unat c = 7 \<or> unat c = 8 \<or> 8 < unat c" by linarith
  then show ?thesis
    by (elim disjE) (auto simp: pcie_gen_from_speed_code_def word_unat_eq_iff)
qed

lemma speed_unknown_iff:
  "pcie_link_speed_from_code c = PCIE_LINK_SPEED_UNKNOWN \<longleftrightarrow> unat c = 0 \<or> 8 < unat c"
proof -
  have "unat c = 0 \<or> unat c = 1 \<or> unat c = 2 \<or> unat c = 3 \<or> unat c = 4 \<or> unat c = 5 \<or>
      unat c = 6 \<or> unat c = 7 \<or> unat c = 8 \<or> 8 < unat c" by linarith
  then show ?thesis
    by (elim disjE) (auto simp: pcie_link_speed_from_code_def word_unat_eq_iff)
qed

text \<open>A 16-bit register of the device, read little-endian.\<close>

definition reg_at :: "u8 list \<Rightarrow> nat \<Rightarrow> nat" where
  "reg_at m k = unat (m ! k) + 256 * unat (m ! (k + 1))"

lemma unat_reg16: "unat (reg16 [a, b]) = unat a + 256 * unat b"
proof -
  have "ucast a AND push_bit 8 (ucast b) = (0 :: u16)"
    by (auto simp: bit_eq_iff bit_simps dest: bit_imp_le_length)
  then have "(ucast a :: u16) OR push_bit 8 (ucast b) = ucast a + push_bit 8 (ucast b)"
    by (simp add: disjunctive_add_eq_or)
  also have "unat \<dots> = unat a + 256 * unat b"
    using unat_u8_lt [of a] unat_u8_lt [of b]
    by (simp add: push_bit_eq_mult unat_word_ariths del: unat_u8_lt)
  finally show ?thesis by (simp add: reg16_def)
qed

lemma field_two: "k + 2 \<le> length m \<Longrightarrow> field m k 2 = [m ! k, m ! (k + 1)]"
  by (rule nth_equalityI) (auto simp: nth_field less_2_cases_iff)

lemma unat_reg16_field: "k + 2 \<le> length m \<Longrightarrow> unat (reg16 (field m k 2)) = reg_at m k"
  by (simp add: field_two unat_reg16 reg_at_def)

text \<open>The status record in numbers.\<close>

lemma pci_status_of_nat:
  "unat (gen_val (max_gen (pci_status_of a b))) = (if unat a mod 16 \<le> 8 then unat a mod 16 else 0)"
  "unat (gen_val (negotiated_gen (pci_status_of a b))) = (if unat b mod 16 \<le> 8 then unat b mod 16 else 0)"
  "unat (max_link_width (pci_status_of a b)) = unat a div 16 mod 64"
  "unat (negotiated_link_width (pci_status_of a b)) = unat b div 16 mod 64"
  "max_link_speed (pci_status_of a b) = PCIE_LINK_SPEED_UNKNOWN \<longleftrightarrow> unat a mod 16 = 0 \<or> 8 < unat a mod 16"
  "negotiated_link_speed (pci_status_of a b) = PCIE_LINK_SPEED_UNKNOWN \<longleftrightarrow> unat b mod 16 = 0 \<or> 8 < unat b mod 16"
proof -
  have nib: "unat (ucast (w AND 0x0F) :: u8) = unat w mod 16" for w :: u16
    using unat_ucast_small [of "w AND 0x0F"] unat_AND_nibble [of w] mod_less_divisor [of 16 "unat w"]
    by simp
  have wid: "unat (ucast (drop_bit 4 w AND 0x3F) :: u8) = unat w div 16 mod 64" for w :: u16
    using unat_ucast_small [of "drop_bit 4 w AND 0x3F"] unat_width_field [of w]
      mod_less_divisor [of 64 "unat w div 16"] by simp
  show "unat (gen_val (max_gen (pci_status_of a b))) = (if unat a mod 16 \<le> 8 then unat a mod 16 else 0)"
    "unat (gen_val (negotiated_gen (pci_status_of a b))) = (if unat b mod 16 \<le> 8 then unat b mod 16 else 0)"
    "unat (max_link_width (pci_status_of a b)) = unat a div 16 mod 64"
    "unat (negotiated_link_width (pci_status_of a b)) = unat b div 16 mod 64"
    "max_link_speed (pci_status_of a b) = PCIE_LINK_SPEED_UNKNOWN \<longleftrightarrow> unat a mod 16 = 0 \<or> 8 < unat a mod 16"
    "negotiated_link_speed (pci_status_of a b) = PCIE_LINK_SPEED_UNKNOWN \<longleftrightarrow> unat b mod 16 = 0 \<or> 8 < unat b mod 16"
    by (simp_all add: pci_status_of_def Let_def gen_code_val speed_unknown_iff nib wid)
qed

lemma link_status_device:
  assumes dev: "config_device os D" and w: "at_device D w" "config_of D w = m"
    and big: "275 \<le> length m" and cap: "pci_find_pcie_capability os w = Inr (Some (ucast (p :: u8)), w1)"
    and w1: "at_device D w1" "config_of D w1 = m"
  shows "\<exists>w'. pci_link_status os (Some s0) w =
           (let s = pci_status_of (reg16 (field m (unat p + 0x0C) 2)) (reg16 (field m (unat p + 0x12) 2))
            in Inr (if max_link_speed s = PCIE_LINK_SPEED_UNKNOWN \<or>
                       negotiated_link_speed s = PCIE_LINK_SPEED_UNKNOWN then -1 else 0, Some s, w'))"
proof -
  have off: "unat (ucast (ucast p + k :: u32) :: u64) = unat p + unat k" if "unat k < 256" for k
    using that unat_u8_lt [of p] by (simp add: unat_word_ariths del: unat_u8_lt)
  have lt: "unat p + 0x14 \<le> length m" using unat_u8_lt [of p] big by linarith
  obtain w2 where w2: "pci_access_config os (ucast (ucast p + 0x0C :: u32)) (replicate 2 0) 2 False w1 =
      Inr (0, field m (unat p + 0x0C) 2, w2)" "at_device D w2" "config_of D w2 = m"
    using access_read_device [OF dev w1(1), of "ucast (ucast p + 0x0C :: u32)" 2 "replicate 2 0"]
      off [of 12] lt w1(2) by auto
  obtain w3 where w3: "pci_access_config os (ucast (ucast p + 0x12 :: u32)) (replicate 2 0) 2 False w2 =
      Inr (0, field m (unat p + 0x12) 2, w3)"
    using access_read_device [OF dev w2(2), of "ucast (ucast p + 0x12 :: u32)" 2 "replicate 2 0"]
      off [of 18] lt w2(3) by auto
  from cap w2(1) w3 show ?thesis
    by (auto simp: pci_link_status_def Let_def)
qed

section \<open>A buffer that is too short\<close>

lemma read_loop_overflow:
  assumes dev: "config_device os D"
  shows "\<lbrakk>cd_up D s; fd \<in> cd_fds D s; unat off + n \<le> length (cd_mem D s); pos \<le> length buf; length buf < pos + n\<rbrakk> \<Longrightarrow>
     read_loop os fd off pos n buf s = Inl OutOfBounds"
proof (induction n arbitrary: off pos buf s rule: less_induct)
  case (less n)
  then have n: "0 < n" by simp
  obtain k s1 where r: "os_pread os fd n off s = (Some (field (cd_mem D s) (unat off) k), s1)"
      and k: "0 < k" "k \<le> n" and s1: "cd_up D s1" "cd_mem D s1 = cd_mem D s" "cd_fds D s1 = cd_fds D s"
    using device_read [OF dev less.prems(1,2) n less.prems(3)] by auto
  let ?bs = "field (cd_mem D s) (unat off) k"
  have len: "length ?bs = k" using k less.prems by simp
  then have bs: "take n ?bs = ?bs" "?bs \<noteq> []" using k by auto
  show ?case
  proof (cases "pos + k \<le> length buf")
    case False
    then have "mem_write buf pos ?bs = Inl OutOfBounds" using len by (simp add: mem_write_def)
    with r bs n show ?thesis by (subst read_loop.simps) (simp add: Let_def)
  next
    case True
    have "length (cd_mem D s) \<le> 4096" by (rule config_deviceD(1) [OF dev less.prems(1)])
    then have off: "unat (off + word_of_nat k) = unat off + k"
      using unat_advance [of off n k] less.prems(3) k(2) by simp
    have w: "mem_write buf pos ?bs = Inr (patch buf pos ?bs)"
      using mem_write_patch [of pos ?bs buf] len True by simp
    have "read_loop os fd (off + word_of_nat k) (pos + k) (n - k) (patch buf pos ?bs) s1 = Inl OutOfBounds"
      using k s1 less.prems off len True by (intro less.IH) auto
    with read_loop_step [OF r, where pos = pos and buf = buf and buf' = "patch buf pos ?bs"] bs w len
    show ?thesis by simp
  qed
qed

section \<open>A concrete device\<close>

text \<open>
  A system with one device, for the instances below: reads transfer at most three bytes at a
  time and writes two. The registers from 0x40 to 0x5F and the interrupt line are plain storage;
  writes to other bytes are lost.
\<close>

record image =
  im_bytes :: "u8 list"
  im_fds :: "int list"
  im_wfds :: "int list"

definition image_path :: string where
  "image_path = pci_config_path PCI_DEVICE_ID"

definition image_rw :: "nat \<Rightarrow> bool" where
  "image_rw i \<longleftrightarrow> i = 0x3C \<or> 0x40 \<le> i \<and> i < 0x60"

text \<open>The bytes after a write at an offset.\<close>

definition image_store :: "nat \<Rightarrow> u8 list \<Rightarrow> u8 list \<Rightarrow> u8 list" where
  "image_store off bs m =
     map (\<lambda>i. if off \<le> i \<and> i < off + length bs \<and> image_rw i then bs ! (i - off) else m ! i) [0..<length m]"

definition image_os :: "image pci_os" where
  "image_os =
     \<lparr>os_open = (\<lambda>wr path s.
        if path = image_path
        then let fd = 3 + fold max (im_fds s) 0 in (fd, s\<lparr>im_fds := fd # im_fds s, im_wfds := (if wr then fd # im_wfds s else im_wfds s)\<rparr>)
        else (-1, s)),
      os_pread = (\<lambda>fd n off s.
        (if fd \<in> set (im_fds s) then Some (field (im_bytes s) (unat off) (min n 3)) else None, s)),
      os_pwrite = (\<lambda>fd bs off s.
        if fd \<in> set (im_wfds s)
        then (Some (min (length bs) 2), s\<lparr>im_bytes := image_store (unat off) (take 2 bs) (im_bytes s)\<rparr>)
        else (None, s)),
      os_close = (\<lambda>fd s. 
        s\<lparr>im_fds := removeAll fd (im_fds s), im_wfds := removeAll fd (im_wfds s)\<rparr>), os_calloc = (\<lambda>n s. (True, s))\<rparr>"

definition image_dev :: "image config_dev" where
  "image_dev =
     \<lparr>cd_path = image_path, cd_mem = im_bytes, cd_up = (\<lambda>s. length (im_bytes s) \<le> 4096),
      cd_fds = (\<lambda>s. set (im_fds s)), cd_wfds = (\<lambda>s. set (im_wfds s)), cd_rw = image_rw\<rparr>"

lemma fold_max_ge: "(z :: int) \<le> fold max xs z" "x \<in> set xs \<Longrightarrow> x \<le> fold max xs z"
proof -
  have ge: "z \<le> fold max xs z" for z :: int and xs
  proof (induction xs arbitrary: z)
    case (Cons x xs)
    from Cons [of "max x z"] show ?case by simp
  qed simp
  then show "z \<le> fold max xs z" .
  show "x \<in> set xs \<Longrightarrow> x \<le> fold max xs z"
  proof (induction xs arbitrary: z)
    case (Cons y xs)
    with ge [of "max y z" xs] show ?case by (cases "x = y") simp_all
  qed simp
qed

lemma image_store_patch:
  assumes "off + length bs \<le> length m" and "\<And>i. off \<le> i \<Longrightarrow> i < off + length bs \<Longrightarrow> image_rw i"
  shows "image_store off bs m = patch m off bs"
  using assms by (auto intro!: nth_equalityI simp: image_store_def patch_def nth_append)

lemma image_device: "config_device image_os image_dev" "config_writes image_os image_dev"
proof -
  have "config_opens image_os image_dev"
    using fold_max_ge(1) [of 0] fold_max_ge(2) [where z = 0]
    by (fastforce simp: config_opens_def image_os_def image_dev_def Let_def)
  moreover have "config_reads image_os image_dev"
    by (auto simp: config_reads_def image_os_def image_dev_def intro!: exI [of _ "min n 3" for n])
  ultimately show "config_device image_os image_dev" by (simp add: config_device_def image_dev_def)
  show "config_writes image_os image_dev"
    unfolding config_writes_def
  proof (intro conjI allI impI)
    fix s :: image and bs :: "u8 list" and off :: u64 and fd
    assume s: "cd_up image_dev s" "fd \<in> cd_wfds image_dev s" "bs \<noteq> []"
      "unat off + length bs \<le> length (cd_mem image_dev s)"
      "\<forall>i. unat off \<le> i \<and> i < unat off + length bs \<longrightarrow> cd_rw image_dev i"
    have "take (min (length bs) 2) bs = take 2 bs" by (simp add: min_def)
    moreover have "image_store (unat off) (take 2 bs) (im_bytes s) = patch (im_bytes s) (unat off) (take 2 bs)"
      using s by (intro image_store_patch) (auto simp: image_dev_def)
    ultimately show "\<exists>k s'. os_pwrite image_os fd bs off s = (Some k, s') \<and> 0 < k \<and> k \<le> length bs \<and>
        cd_up image_dev s' \<and> cd_mem image_dev s' = patch (cd_mem image_dev s) (unat off) (take k bs) \<and>
        cd_fds image_dev s' = cd_fds image_dev s \<and> cd_wfds image_dev s' = cd_wfds image_dev s"
      using s by (intro exI [of _ "min (length bs) 2"]) (simp add: image_os_def image_dev_def image_store_def)
  next
    fix s assume "cd_up image_dev s"
    then show "case os_open image_os True (cd_path image_dev) s of
      (fd, s') \<Rightarrow> 0 \<le> fd \<and> fd \<notin> cd_fds image_dev s \<and> cd_fds image_dev s' = insert fd (cd_fds image_dev s) \<and>
        fd \<in> cd_wfds image_dev s' \<and> cd_up image_dev s' \<and> cd_mem image_dev s' = cd_mem image_dev s"
      using fold_max_ge(1) [of 0] fold_max_ge(2) [where z = 0]
      by (fastforce simp: image_os_def image_dev_def Let_def)
  qed
qed

definition image_world :: "u8 list \<Rightarrow> image pci_world" where
  "image_world m = \<lparr>pw_device = None, pw_os = \<lparr>im_bytes = m, im_fds = [], im_wfds = []\<rparr>\<rparr>"

lemma image_world_at:
  "length m \<le> 4096 \<Longrightarrow> at_device image_dev (image_world m)" "config_of image_dev (image_world m) = m"
  "fds_of image_dev (image_world m) = {}"
  by (simp_all add: at_device_def config_of_def fds_of_def image_world_def image_dev_def image_path_def pci_device_id_def)

text \<open>A Gen 4 x8 device trained to Gen 3 x4: a power capability at 0x40, PCI Express at 0x60.\<close>

definition image_backends :: "image pci_world backends" where
  "image_backends =
     \<lparr>ctor_golden = (\<lambda>b. Inr (None, b)), ctor_fpga = (\<lambda>b. Inr (None, b)),
      ctor_armds = (\<lambda>b. Inr (None, b)), ctor_xgig = (\<lambda>b. Inr (None, b)),
      ctor_pci = pcie_backend_pci image_os\<rparr>"

definition sample_config :: "u8 list" where
  "sample_config =
     (replicate 4096 0)[0x06 := 0x10, 0x34 := 0x40, 0x40 := 0x01, 0x41 := 0x60, 0x60 := 0x10,
                        0x6C := 0x84, 0x72 := 0x43]"

lemma sample_world: "at_device image_dev (image_world sample_config)"
  "config_of image_dev (image_world sample_config) = sample_config" "275 \<le> length sample_config"
  by (simp_all add: image_world_at sample_config_def)

lemma sample_listed: "cap_listed sample_config p \<Longrightarrow> p = 0x40 \<or> p = 0x60"
proof (induction rule: cap_listed.induct)
  case first
  then show ?case by (simp add: sample_config_def nth_list_update)
next
  case (later p)
  then show ?case by (auto simp: cap_next_def sample_config_def nth_list_update)
qed

lemma sample_listed_pcie: "cap_listed sample_config 0x60"
proof -
  have "cap_listed sample_config (sample_config ! 0x34)"
    by (rule cap_listed.first) (simp add: sample_config_def nth_list_update)
  then have "cap_listed sample_config 0x40" by (simp add: sample_config_def nth_list_update)
  from cap_listed.later [OF this] show ?thesis
    by (simp add: cap_next_def sample_config_def nth_list_update)
qed

section \<open>Properties\<close>

text \<open>
  C3: The capability search of the PCI backend, on a device whose listed capabilities sit at
  dword-aligned offsets behind the header, as the PCI specification demands: it fails exactly
  when no listed capability has the PCI Express identifier, even on a cyclic list, and
  otherwise returns the offset of a listed one. The bound of 48 steps loses nothing, and
  transfers may be short.
\<close>

theorem pci_capability_search:
  assumes dev: "config_device os D" and w: "at_device D w" "config_of D w = m"
    and big: "257 \<le> length m" and caps: "m ! 6 AND 0x10 \<noteq> 0"
    and aligned: "\<And>p. cap_listed m p \<Longrightarrow> 0x40 \<le> p \<and> 4 dvd unat p"
  shows "\<exists>cap w'. pci_find_pcie_capability os w = Inr (cap, w') \<and> config_of D w' = m \<and>
           (cap = None \<longleftrightarrow> (\<forall>p. cap_listed m p \<longrightarrow> m ! unat p \<noteq> 0x10)) \<and>
           (\<forall>c. cap = Some c \<longrightarrow> (\<exists>p. cap_listed m p \<and> m ! unat p = 0x10 \<and> c = ucast p))"
proof -
  have slots: "p \<in> cap_slots" if "cap_listed m p" for p
    using aligned [OF that] aligned_cap_slots by blast
  let ?r = "List.find (\<lambda>q. m ! unat q = 0x10) (cap_chain 48 m (m ! 0x34))"
  obtain w' where "pci_find_pcie_capability os w = Inr (map_option ucast ?r, w')" "config_of D w' = m"
    using find_capability_device [OF dev w big] caps by auto
  moreover have "?r = None \<longleftrightarrow> (\<forall>p. cap_listed m p \<longrightarrow> m ! unat p \<noteq> 0x10)"
    and "\<And>p. ?r = Some p \<Longrightarrow> cap_listed m p \<and> m ! unat p = 0x10"
    using find_chain_iff [OF slots, where P = "\<lambda>q. m ! unat q = 0x10"] by blast+
  ultimately show ?thesis by (cases ?r) auto
qed

theorem pci_capability_search_witness:
  "\<exists>w'. pci_find_pcie_capability image_os (image_world sample_config) = Inr (Some 0x60, w')"
proof -
  have m: "257 \<le> length sample_config" "sample_config ! 6 AND 0x10 \<noteq> 0"
    by (simp_all add: sample_config_def nth_list_update)
  have al: "0x40 \<le> p \<and> 4 dvd unat p" if "cap_listed sample_config p" for p
    using sample_listed [OF that] by (auto simp: word_le_nat_alt)
  have id: "sample_config ! unat (0x60 :: u8) = 0x10" "sample_config ! unat (0x40 :: u8) \<noteq> 0x10"
    by (simp_all add: sample_config_def nth_list_update)
  from pci_capability_search [OF image_device(1) sample_world(1,2) m al] sample_listed_pcie id obtain p w' where
    "pci_find_pcie_capability image_os (image_world sample_config) = Inr (Some (ucast p), w')"
    "cap_listed sample_config p" "sample_config ! unat p = 0x10" by blast
  with sample_listed [of p] id show ?thesis by auto
qed

lemma sample_find_capability:
  "\<exists>w1. pci_find_pcie_capability image_os (image_world sample_config) = Inr (Some (ucast (0x60 :: u8)), w1)"
proof -
  have m: "257 \<le> length sample_config" by (simp add: sample_config_def)
  have bytes: "sample_config ! 6 AND 0x10 \<noteq> 0" "sample_config ! 0x34 = 0x40"
    "sample_config ! 0x40 = 1" "sample_config ! 0x60 = 0x10"
    "cap_next sample_config 0x40 = 0x60" "cap_next sample_config 0x60 = 0"
    by (simp_all add: sample_config_def nth_list_update cap_next_def)
  have "48 = Suc (Suc (Suc 45))" by simp
  then have "cap_chain 48 sample_config 0x40 = [0x40, 0x60]"
    using bytes by (simp only: cap_chain.simps) simp
  with bytes have "sample_config ! 6 AND 0x10 \<noteq> 0"
    "List.find (\<lambda>q. sample_config ! unat q = 0x10) (cap_chain 48 sample_config (sample_config ! 0x34)) = Some 0x60"
    by simp_all
  with find_capability_device [OF image_device(1) sample_world(1,2) m] show ?thesis by auto
qed

text \<open>
  The link status of a PCI Express device whose capability the search finds at \<open>p\<close>: the
  generations and widths are the fields of the Link Capabilities and Link Status registers at
  \<open>p + 0x0C\<close> and \<open>p + 0x12\<close>, and the call succeeds exactly when both speed codes are known.
\<close>

lemma pci_link_status_registers:
  assumes dev: "config_device os D" and w: "at_device D w" "config_of D w = m"
    and big: "275 \<le> length m"
    and cap: "pci_find_pcie_capability os w = Inr (Some (ucast (p :: u8)), w1)"
  shows "\<exists>rc s w'. pci_link_status os (Some s0) w = Inr (rc, Some s, w') \<and>
           (let lnkcap = reg_at m (unat p + 0x0C); lnksta = reg_at m (unat p + 0x12)
            in unat (max_link_width s) = lnkcap div 16 mod 64 \<and>
               unat (negotiated_link_width s) = lnksta div 16 mod 64 \<and>
               (rc = 0 \<longleftrightarrow> lnkcap mod 16 \<in> {1..8} \<and> lnksta mod 16 \<in> {1..8}) \<and>
               (rc = 0 \<longrightarrow> unat (gen_val (max_gen s)) = lnkcap mod 16 \<and>
                           unat (gen_val (negotiated_gen s)) = lnksta mod 16))"
proof -
  have w1: "at_device D w1" "config_of D w1 = m"
    using find_capability_device [OF dev w] big cap by auto
  have lt: "unat p + 0x14 \<le> length m" using unat_u8_lt [of p] big by linarith
  then have regs: "unat (reg16 (field m (unat p + 0x0C) 2)) = reg_at m (unat p + 0x0C)"
    "unat (reg16 (field m (unat p + 0x12) 2)) = reg_at m (unat p + 0x12)"
    by (simp_all add: unat_reg16_field)
  obtain w' where "pci_link_status os (Some s0) w =
      (let s = pci_status_of (reg16 (field m (unat p + 0x0C) 2)) (reg16 (field m (unat p + 0x12) 2))
       in Inr (if max_link_speed s = PCIE_LINK_SPEED_UNKNOWN \<or>
                  negotiated_link_speed s = PCIE_LINK_SPEED_UNKNOWN then -1 else 0, Some s, w'))"
    using link_status_device [OF dev w big cap w1, of s0] by blast
  then show ?thesis
    by (auto simp: Let_def pci_status_of_nat regs not_less_eq_eq)
qed

lemma pci_cfg_write_device:
  assumes dev: "config_device os D" and wr: "config_writes os D" and w: "at_device D w"
    and inside: "unat addr + unat len \<le> length (config_of D w)"
    and rw: "\<forall>i. unat addr \<le> i \<and> i < unat addr + unat len \<longrightarrow> cd_rw D i"
    and len: "0 < len" "unat len \<le> length bs"
  shows "\<exists>w'. pci_send os (Some (pcie_tlp_cfg_write addr len (Some bs))) w =
            Inr (0, Some (pcie_tlp_cfg_write addr len (Some bs)), w') \<and>
          at_device D w' \<and> config_of D w' = patch (config_of D w) (unat addr) (take (unat len) bs) \<and>
          fds_of D w' = fds_of D w"
  using access_write_device [OF dev wr w, of "ucast addr" "unat len" bs] inside len rw
  by (auto simp: pci_send_def pci_cfg_write_def pcie_tlp_cfg_write_def)

lemma pci_cfg_read_device:
  assumes dev: "config_device os D" and w: "at_device D w"
    and inside: "unat addr + unat len \<le> length (config_of D w)"
    and len: "0 < len" "unat len \<le> 256" "unat len \<le> length buf"
  shows "\<exists>w'. pci_send os (Some ((pcie_tlp_cfg_read addr)\<lparr>tlp_length := len, mem_data := Some buf\<rparr>)) w =
            Inr (0, Some ((pcie_tlp_cfg_read addr)\<lparr>tlp_length := len,
                    mem_data := Some (field (config_of D w) (unat addr) (unat len) @ drop (unat len) buf)\<rparr>), w') \<and>
          at_device D w' \<and> config_of D w' = config_of D w \<and> fds_of D w' = fds_of D w"
  using access_read_device [OF dev w, of "ucast addr" "unat len" buf] inside len
  by (auto simp: pci_send_def pci_cfg_read_def pcie_tlp_cfg_read_def Let_def word_less_nat_alt)

lemma pcie_send_pci:
  assumes "ctx_ok (pci_ops os) c" and "alloc_law env"
    and "pci_send os (Some t) w = Inr (0, Some t', w')" and "valid_tlp t'"
  shows "\<exists>c'. pcie_send env (Some c) (Some t) w = Inr (0, Some t', Some c', w') \<and> ctx_ok (pci_ops os) c' \<and>
           trace_of c' = trace_of c @ (if record_dropped env c then []
              else [spec_entry env t' (direction_val PCIE_TRACE_TX)])"
  using ctx_ok_record [of "pci_ops os" "count_sent c" env t' "direction_val PCIE_TRACE_TX"] assms
  by (auto simp: pcie_send_def Let_def ctx_ok_def [of _ c] simp del: direction_val.simps)

text \<open>
  C2: A configuration write sent through the library to registers that are plain storage,
  followed by a configuration read of the same range, gives the bytes written, for any such
  range inside the device's space and in spite of short transfers. Both packets report
  success, no other byte of the space changes, both calls are in the trace in this order
  unless recording dropped them, and no descriptor stays open.
\<close>

theorem pci_write_then_read:
  assumes dev: "config_device os D" and wr: "config_writes os D" and w: "at_device D w"
    and c: "ctx_ok (pci_ops os) c" and env: "alloc_law env"
    and inside: "unat addr + unat len \<le> length (config_of D w)"
    and rw: "\<forall>i. unat addr \<le> i \<and> i < unat addr + unat len \<longrightarrow> cd_rw D i"
    and len: "0 < len" "unat len \<le> 256" "unat len = length bs" "unat len = length buf"
  shows "\<exists>c1 w1 t c2 w2.
      pcie_send env (Some c) (Some (pcie_tlp_cfg_write addr len (Some bs))) w =
        Inr (0, Some (pcie_tlp_cfg_write addr len (Some bs)), Some c1, w1) \<and>
      pcie_send env (Some c1) (Some ((pcie_tlp_cfg_read addr)\<lparr>tlp_length := len, mem_data := Some buf\<rparr>)) w1 =
        Inr (0, Some t, Some c2, w2) \<and>
      mem_data t = Some bs \<and>
      config_of D w2 = take (unat addr) (config_of D w) @ bs @ drop (unat addr + unat len) (config_of D w) \<and>
      fds_of D w2 = fds_of D w \<and>
      trace_of c2 = trace_of c
        @ (if record_dropped env c then []
           else [spec_entry env (pcie_tlp_cfg_write addr len (Some bs)) (direction_val PCIE_TRACE_TX)])
        @ (if record_dropped env c1 then [] else [spec_entry env t (direction_val PCIE_TRACE_TX)])"
proof -
  let ?wr = "pcie_tlp_cfg_write addr len (Some bs)"
  let ?rd = "(pcie_tlp_cfg_read addr)\<lparr>tlp_length := len, mem_data := Some buf\<rparr>"
  let ?m = "patch (config_of D w) (unat addr) bs"
  obtain w1 where w1: "pci_send os (Some ?wr) w = Inr (0, Some ?wr, w1)" "at_device D w1"
      "config_of D w1 = ?m" "fds_of D w1 = fds_of D w"
    using pci_cfg_write_device [OF dev wr w inside rw, of bs] len by auto
  have "valid_tlp ?wr" using len by (simp add: pcie_tlp_cfg_write_def valid_tlp_Some)
  from pcie_send_pci [OF c env w1(1) this] obtain c1 where
    c1: "pcie_send env (Some c) (Some ?wr) w = Inr (0, Some ?wr, Some c1, w1)" "ctx_ok (pci_ops os) c1"
      "trace_of c1 = trace_of c @ (if record_dropped env c then []
         else [spec_entry env ?wr (direction_val PCIE_TRACE_TX)])" by blast
  let ?t = "(pcie_tlp_cfg_read addr)\<lparr>tlp_length := len, mem_data := Some bs\<rparr>"
  have f: "field ?m (unat addr) (unat len) = bs" "drop (unat len) buf = []" "length ?m = length (config_of D w)"
    using field_patch [of "unat addr" bs "config_of D w"] inside len by simp_all
  obtain w2 where w2: "pci_send os (Some ?rd) w1 = Inr (0, Some ?t, w2)" "config_of D w2 = ?m"
      "fds_of D w2 = fds_of D w"
    using pci_cfg_read_device [OF dev w1(2), of addr len buf] w1(3,4) inside len f by auto
  have "valid_tlp ?t" using len by (simp add: valid_tlp_Some)
  from pcie_send_pci [OF c1(2) env w2(1) this] c1(1,3) w2(2,3) len show ?thesis
    by (fastforce simp: patch_def)
qed

theorem pci_write_then_read_witness:
  "let env = \<lparr>tv_sec = 1, tv_nsec = 0, realloc_ok = \<lambda>n. n < 4096\<rparr>;
       c = fresh_ctx\<lparr>backend := Some (pci_ops image_os)\<rparr> :: (image pci_world, nat) pcie_ctx in
   \<exists>c1 w1 t c2 w2.
     pcie_send env (Some c) (Some (pcie_tlp_cfg_write 0x50 5 (Some [1, 2, 3, 4, 5]))) (image_world sample_config) =
       Inr (0, Some (pcie_tlp_cfg_write 0x50 5 (Some [1, 2, 3, 4, 5])), Some c1, w1) \<and>
     pcie_send env (Some c1)
       (Some ((pcie_tlp_cfg_read 0x50)\<lparr>tlp_length := 5, mem_data := Some [0, 0, 0, 0, 0]\<rparr>)) w1 =
       Inr (0, Some t, Some c2, w2) \<and> mem_data t = Some [1, 2, 3, 4, 5] \<and>
     config_of image_dev w2 = take 80 sample_config @ [1, 2, 3, 4, 5] @ drop 85 sample_config \<and>
     fds_of image_dev w2 = {}"
proof -
  let ?env = "\<lparr>tv_sec = 1, tv_nsec = 0, realloc_ok = \<lambda>n. n < 4096\<rparr>"
  have inside: "unat (80 :: u32) + unat (5 :: u16) \<le> length (config_of image_dev (image_world sample_config))"
    using sample_world by simp
  have rw: "\<forall>i. unat (80 :: u32) \<le> i \<and> i < unat (80 :: u32) + unat (5 :: u16) \<longrightarrow> cd_rw image_dev i"
    by (simp add: image_dev_def image_rw_def)
  have env: "alloc_law ?env" by (simp add: alloc_law_def word_less_nat_alt)
  from pci_write_then_read [OF image_device sample_world(1) ctx_ok_fresh env inside rw,
      of "[1, 2, 3, 4, 5]" "[0, 0, 0, 0, 0]"]
  show ?thesis using image_world_at(3) sample_world(2) by (fastforce simp: Let_def)
qed

text \<open>
  C37: A configuration read of length 0 is read as one of 4 bytes, into the packet's own
  buffer: with a buffer of fewer than 4 bytes the backend writes past its end.
\<close>

theorem pci_cfg_read_overflow:
  assumes dev: "config_device os D" and w: "at_device D w"
    and "unat addr + 4 \<le> length (config_of D w)" and "length buf < 4"
  shows "pci_send os (Some ((pcie_tlp_cfg_read addr)\<lparr>mem_data := Some buf\<rparr>)) w = Inl OutOfBounds"
proof -
  have up: "cd_up D (pw_os w)" and path: "pci_config_path (pci_device_id w) = cd_path D"
    using w by (simp_all add: at_device_def)
  obtain fd s where o: "os_open os False (cd_path D) (pw_os w) = (fd, s)" "0 \<le> fd"
      "cd_fds D s = insert fd (cd_fds D (pw_os w))" "cd_up D s" "cd_mem D s = config_of D w"
    by (rule device_open [OF dev up]) (simp add: config_of_def)
  with read_loop_overflow [OF dev o(4), of fd "ucast addr" 4 0 buf] assms(3,4) path show ?thesis
    by (simp add: pci_send_def pci_cfg_read_def pcie_tlp_cfg_read_def tlp_zero_def pci_access_config_def)
qed

theorem pci_cfg_read_overflow_witness:
  "pci_send image_os (Some ((pcie_tlp_cfg_read 0)\<lparr>mem_data := Some [0, 0]\<rparr>)) (image_world sample_config) =
     Inl OutOfBounds"
  using pci_cfg_read_overflow [OF image_device(1) sample_world(1), of 0 "[0, 0]"] sample_world(2,3) by simp

end
