(* ===== verification/PciRing.thy ===== *)
theory PciRing
  imports Tlp
begin

text \<open>
  The completion queue of \<open>src/backend_pci.c\<close>: a ring of 16 slots, each a packet header and
  256 bytes of payload, with \<open>pci_enqueue_completion\<close> and \<open>pci_dequeue_completion\<close>. A
  packet's payload pointer into its own slot is the value of the slot's bytes at the time.
  \<open>malloc_ok\<close> is the allocator's answer.

  The locale \<open>bounded_queue\<close> is the first-in first-out contract; the ring is an instance for
  the packets it can hold, those whose payload is there and at most 256 bytes long.
\<close>

section \<open>State and operations\<close>

definition MAX_COMPLETIONS :: nat where
  "MAX_COMPLETIONS = 16"

record completion =
  cpl_tlp :: tlp
  cpl_data :: "u8 list"

record pci_ring =
  completions :: "completion list"
  head :: nat
  tail :: nat
  cpl_pending :: nat

text \<open>\<open>static pci_backend_state_t pci_state = {0}\<close>.\<close>

definition pci_ring_init :: pci_ring where
  "pci_ring_init =
     \<lparr>completions = replicate MAX_COMPLETIONS \<lparr>cpl_tlp = tlp_zero, cpl_data = replicate 256 0\<rparr>,
      head = 0, tail = 0, cpl_pending = 0\<rparr>"

definition store_completion :: "tlp \<Rightarrow> completion \<Rightarrow> completion c_res" where
  "store_completion cpl slot =
     (case mem_data cpl of
        None \<Rightarrow> Inr (slot\<lparr>cpl_tlp := cpl\<rparr>)
      | Some bs \<Rightarrow>
          if tlp_length cpl > 0
          then cbind (mem_read bs (unat (tlp_length cpl))) (\<lambda>src.
               cbind (mem_write (cpl_data slot) 0 src) (\<lambda>d.
                 Inr \<lparr>cpl_tlp = cpl\<lparr>mem_data := Some d\<rparr>, cpl_data = d\<rparr>))
          else Inr (slot\<lparr>cpl_tlp := cpl\<rparr>))"

definition pci_enqueue_completion :: "tlp \<Rightarrow> pci_ring \<Rightarrow> (int \<times> pci_ring) c_res" where
  "pci_enqueue_completion cpl r =
     (if cpl_pending r \<ge> MAX_COMPLETIONS then Inr (-1, r)
      else cbind (store_completion cpl (completions r ! tail r)) (\<lambda>slot.
             Inr (0, r\<lparr>completions := (completions r)[tail r := slot],
                       tail := (tail r + 1) mod MAX_COMPLETIONS,
                       cpl_pending := cpl_pending r + 1\<rparr>)))"

text \<open>The packet handed out for a slot; \<open>None\<close> when \<open>malloc\<close> fails.\<close>

definition load_completion :: "bool \<Rightarrow> completion \<Rightarrow> tlp option c_res" where
  "load_completion malloc_ok slot =
     (let t = cpl_tlp slot in
      if tlp_length t > 0
      then if malloc_ok
           then cbind (mem_read (cpl_data slot) (unat (tlp_length t)))
                  (\<lambda>bs. Inr (Some (t\<lparr>mem_data := Some bs\<rparr>)))
           else Inr None
      else Inr (Some t))"

definition pci_dequeue_completion ::
  "bool \<Rightarrow> tlp \<Rightarrow> pci_ring \<Rightarrow> (int \<times> tlp \<times> pci_ring) c_res" where
  "pci_dequeue_completion malloc_ok t r =
     (if cpl_pending r = 0 then Inr (-1, t, r)
      else let slot = completions r ! head r
           in cbind (load_completion malloc_ok slot) (\<lambda>got.
                case got of
                  None \<Rightarrow> Inr (-1, (cpl_tlp slot)\<lparr>mem_data := None\<rparr>, r)
                | Some t' \<Rightarrow> Inr (0, t', r\<lparr>head := (head r + 1) mod MAX_COMPLETIONS,
                                         cpl_pending := cpl_pending r - 1\<rparr>)))"

section \<open>First in, first out\<close>

text \<open>
  A queue of bounded capacity. Enqueueing answers whether there was room and keeps the
  element's \<open>view\<close>; dequeueing gives the oldest element, unless that one \<open>needs\<close> memory and
  there is none.
\<close>

locale bounded_queue =
  fixes abs :: "'q \<Rightarrow> 'a list"
    and invar :: "'q \<Rightarrow> bool"
    and fits :: "'a \<Rightarrow> bool"
    and needs :: "'a \<Rightarrow> bool"
    and view :: "'a \<Rightarrow> 'a"
    and capacity :: nat
    and enq :: "'a \<Rightarrow> 'q \<Rightarrow> (bool \<times> 'q) c_res"
    and deq :: "bool \<Rightarrow> 'q \<Rightarrow> ('a option \<times> 'q) c_res"
  assumes enq_law:
      "\<lbrakk>invar q; fits x\<rbrakk> \<Longrightarrow>
         \<exists>q'. enq x q = Inr (length (abs q) < capacity, q') \<and> invar q' \<and>
              abs q' = (if length (abs q) < capacity then abs q @ [view x] else abs q)"
    and deq_empty: "\<lbrakk>invar q; abs q = []\<rbrakk> \<Longrightarrow> deq m q = Inr (None, q)"
    and deq_starved: "\<lbrakk>invar q; abs q = x # xs; needs x\<rbrakk> \<Longrightarrow> deq False q = Inr (None, q)"
    and deq_oldest:
      "\<lbrakk>invar q; abs q = x # xs; m \<or> \<not> needs x\<rbrakk> \<Longrightarrow>
         \<exists>q'. deq m q = Inr (Some x, q') \<and> invar q' \<and> abs q' = xs"

text \<open>
  A client that calls the two operations in any order, and the answers it gets; the flag of a
  \<open>Dequeue\<close> is the allocator's answer.
\<close>

datatype 'a queue_call = Enqueue 'a | Dequeue bool

datatype 'a queue_answer = Room bool | Element "'a option"

fun run_queue ::
  "('a \<Rightarrow> 'q \<Rightarrow> (bool \<times> 'q) c_res) \<Rightarrow> (bool \<Rightarrow> 'q \<Rightarrow> ('a option \<times> 'q) c_res) \<Rightarrow> 'a queue_call list \<Rightarrow> 'q \<Rightarrow>
   ('a queue_answer list \<times> 'q) c_res" where
  "run_queue enq deq [] q = Inr ([], q)"
| "run_queue enq deq (Enqueue x # cs) q =
     cbind (enq x q) (\<lambda>(ok, q'). cbind (run_queue enq deq cs q') (\<lambda>(as, q''). Inr (Room ok # as, q'')))"
| "run_queue enq deq (Dequeue m # cs) q =
     cbind (deq m q) (\<lambda>(x, q'). cbind (run_queue enq deq cs q') (\<lambda>(as, q''). Inr (Element x # as, q'')))"

text \<open>The reference: a list, oldest element first.\<close>

fun list_queue ::
  "('a \<Rightarrow> bool) \<Rightarrow> ('a \<Rightarrow> 'a) \<Rightarrow> nat \<Rightarrow> 'a queue_call list \<Rightarrow> 'a list \<Rightarrow> 'a queue_answer list \<times> 'a list" where
  "list_queue needs view n [] xs = ([], xs)"
| "list_queue needs view n (Enqueue x # cs) xs =
     (case list_queue needs view n cs (if length xs < n then xs @ [view x] else xs) of
        (as, ys) \<Rightarrow> (Room (length xs < n) # as, ys))"
| "list_queue needs view n (Dequeue m # cs) xs =
     (case xs of
        [] \<Rightarrow> (case list_queue needs view n cs [] of (as, ys) \<Rightarrow> (Element None # as, ys))
      | x # xs' \<Rightarrow>
          if needs x \<and> \<not> m
          then (case list_queue needs view n cs xs of (as, ys) \<Rightarrow> (Element None # as, ys))
          else (case list_queue needs view n cs xs' of (as, ys) \<Rightarrow> (Element (Some x) # as, ys)))"

definition calls_fit :: "('a \<Rightarrow> bool) \<Rightarrow> 'a queue_call list \<Rightarrow> bool" where
  "calls_fit fits cs \<longleftrightarrow> list_all (\<lambda>c. case c of Enqueue x \<Rightarrow> fits x | Dequeue m \<Rightarrow> True) cs"

lemma calls_fit_simps [simp]:
  "calls_fit fits []" "calls_fit fits (Enqueue x # cs) \<longleftrightarrow> fits x \<and> calls_fit fits cs"
  "calls_fit fits (Dequeue m # cs) \<longleftrightarrow> calls_fit fits cs"
  by (simp_all add: calls_fit_def)

context bounded_queue
begin

lemma run_queue_list:
  "\<lbrakk>invar q; calls_fit fits cs\<rbrakk> \<Longrightarrow>
     \<exists>q'. run_queue enq deq cs q = Inr (fst (list_queue needs view capacity cs (abs q)), q') \<and>
       invar q' \<and> abs q' = snd (list_queue needs view capacity cs (abs q))"
proof (induction cs arbitrary: q)
  case Nil
  then show ?case by simp
next
  case (Cons c cs)
  show ?case
  proof (cases c)
    case (Enqueue x)
    with Cons.prems obtain q1 where q1: "enq x q = Inr (length (abs q) < capacity, q1)" "invar q1"
        "abs q1 = (if length (abs q) < capacity then abs q @ [view x] else abs q)"
      using enq_law [of q x] by auto
    with Cons.IH [OF q1(2)] Cons.prems Enqueue show ?thesis by (auto split: prod.split)
  next
    case (Dequeue m)
    consider "abs q = []" | x xs where "abs q = x # xs" "needs x" "\<not> m"
      | x xs where "abs q = x # xs" "m \<or> \<not> needs x" by (cases "abs q") auto
    then show ?thesis
    proof cases
      case 1
      then show ?thesis using Cons.IH [of q] Cons.prems Dequeue deq_empty [of q m] by (auto split: prod.split)
    next
      case 2
      then show ?thesis using Cons.IH [of q] Cons.prems Dequeue deq_starved [of q x xs] by (auto split: prod.split)
    next
      case 3
      then obtain q1 where "deq m q = Inr (Some x, q1)" "invar q1" "abs q1 = xs"
        using deq_oldest [OF Cons.prems(1)] by blast
      with 3 Cons.IH [of q1] Cons.prems Dequeue show ?thesis by (auto split: prod.split)
    qed
  qed
qed

end

section \<open>The ring is a bounded queue\<close>

text \<open>What a packet carries through the queue: its header and its first \<open>length\<close> bytes.\<close>

definition carried :: "tlp \<Rightarrow> tlp" where
  "carried t =
     (if tlp_length t > 0
      then t\<lparr>mem_data := map_option (take (unat (tlp_length t))) (mem_data t)\<rparr> else t)"

definition holdable :: "tlp \<Rightarrow> bool" where
  "holdable t \<longleftrightarrow>
     tlp_length t = 0 \<or> (mem_data t \<noteq> None \<and> valid_tlp t \<and> unat (tlp_length t) \<le> 256)"

definition slot_packet :: "completion \<Rightarrow> tlp" where
  "slot_packet c =
     (let t = cpl_tlp c in
      if tlp_length t > 0 then t\<lparr>mem_data := Some (take (unat (tlp_length t)) (cpl_data c))\<rparr> else t)"

definition ring_abs :: "pci_ring \<Rightarrow> tlp list" where
  "ring_abs r =
     map (\<lambda>i. slot_packet (completions r ! ((head r + i) mod MAX_COMPLETIONS))) [0..<cpl_pending r]"

definition ring_ok :: "pci_ring \<Rightarrow> bool" where
  "ring_ok r \<longleftrightarrow>
     length (completions r) = MAX_COMPLETIONS \<and> head r < MAX_COMPLETIONS \<and>
     tail r = (head r + cpl_pending r) mod MAX_COMPLETIONS \<and> cpl_pending r \<le> MAX_COMPLETIONS \<and>
     list_all (\<lambda>c. length (cpl_data c) = 256) (completions r) \<and>
     (\<forall>i<cpl_pending r.
        unat (tlp_length (cpl_tlp (completions r ! ((head r + i) mod MAX_COMPLETIONS)))) \<le> 256)"

lemma ring_ok_init: "ring_ok pci_ring_init"
  by (simp add: ring_ok_def pci_ring_init_def MAX_COMPLETIONS_def list_all_length)

lemma ring_abs_init: "ring_abs pci_ring_init = []"
  by (simp add: ring_abs_def pci_ring_init_def)

lemma length_ring_abs [simp]: "length (ring_abs r) = cpl_pending r"
  by (simp add: ring_abs_def)

lemma mod_offset_inj:
  "\<lbrakk>i < MAX_COMPLETIONS; j < MAX_COMPLETIONS;
    (h + i) mod MAX_COMPLETIONS = (h + j) mod MAX_COMPLETIONS\<rbrakk> \<Longrightarrow> i = j"
proof (induction i j rule: linorder_wlog)
  case (le i j)
  then have "MAX_COMPLETIONS dvd (h + j) - (h + i)"
    by (subst mod_eq_dvd_iff_nat [symmetric]) simp_all
  with le show ?case by (auto dest: dvd_imp_le)
next
  case (sym i j)
  then show ?case by simp
qed

lemma mod_lt [simp]: "i mod MAX_COMPLETIONS < MAX_COMPLETIONS"
  by (simp add: MAX_COMPLETIONS_def)

lemma store_completion_ok:
  assumes "holdable t" and "length (cpl_data c) = 256"
  shows "\<exists>c'. store_completion t c = Inr c' \<and> length (cpl_data c') = 256 \<and>
           slot_packet c' = carried t \<and> tlp_length (cpl_tlp c') = tlp_length t"
proof (cases "tlp_length t > 0")
  case False
  with assms show ?thesis
    by (cases "mem_data t") (simp_all add: store_completion_def slot_packet_def carried_def)
next
  case True
  with assms obtain bs where "mem_data t = Some bs" "unat (tlp_length t) \<le> length bs"
      "unat (tlp_length t) \<le> 256"
    by (auto simp: holdable_def valid_tlp_def)
  with True assms show ?thesis
    by (simp add: store_completion_def mem_read_def mem_write_def slot_packet_def carried_def)
qed

lemma enqueue_ok:
  assumes ok: "ring_ok r" and t: "holdable t"
  shows "\<exists>rc r'. pci_enqueue_completion t r = Inr (rc, r') \<and> ring_ok r' \<and>
           (rc = 0 \<longleftrightarrow> cpl_pending r < MAX_COMPLETIONS) \<and>
           ring_abs r' = (if cpl_pending r < MAX_COMPLETIONS then ring_abs r @ [carried t] else ring_abs r)"
proof (cases "cpl_pending r < MAX_COMPLETIONS")
  case False
  with ok show ?thesis by (simp add: pci_enqueue_completion_def)
next
  case True
  let ?n = "cpl_pending r" and ?h = "head r" and ?cs = "completions r"
  have tail: "tail r = (?h + ?n) mod MAX_COMPLETIONS" "tail r < length ?cs"
      "length ?cs = MAX_COMPLETIONS" using ok by (simp_all add: ring_ok_def)
  then have "length (cpl_data (?cs ! tail r)) = 256" using ok by (simp add: ring_ok_def list_all_length)
  from store_completion_ok [OF t this] obtain c where
    c: "store_completion t (?cs ! tail r) = Inr c" "length (cpl_data c) = 256"
      "slot_packet c = carried t" "tlp_length (cpl_tlp c) = tlp_length t" by blast
  let ?r = "r\<lparr>completions := ?cs[tail r := c], tail := (tail r + 1) mod MAX_COMPLETIONS,
              cpl_pending := ?n + 1\<rparr>"
  have old: "?cs[tail r := c] ! ((?h + i) mod MAX_COMPLETIONS) = ?cs ! ((?h + i) mod MAX_COMPLETIONS)"
    if "i < ?n" for i
    using mod_offset_inj [of i ?n ?h] that True unfolding tail(1)
    by (metis less_trans nat_neq_iff nth_list_update_neq)
  have new: "?cs[tail r := c] ! ((?h + ?n) mod MAX_COMPLETIONS) = c" using tail by simp
  have "unat (tlp_length t) \<le> 256" using t by (auto simp: holdable_def)
  then have "ring_ok ?r"
    using ok True c old new tail
    by (auto simp: ring_ok_def less_Suc_eq mod_Suc_eq list_all_length nth_list_update)
  moreover have "ring_abs ?r = ring_abs r @ [carried t]"
    using old new c(3) by (simp add: ring_abs_def)
  ultimately show ?thesis using True c(1) by (simp add: pci_enqueue_completion_def)
qed

definition needs_memory :: "tlp \<Rightarrow> bool" where
  "needs_memory t \<longleftrightarrow> tlp_length t > 0"

lemma dequeue_empty: "ring_abs r = [] \<Longrightarrow> pci_dequeue_completion m t r = Inr (-1, t, r)"
  by (simp add: pci_dequeue_completion_def ring_abs_def)

lemma dequeue_ok:
  assumes ok: "ring_ok r" and head: "ring_abs r = x # xs"
  shows "m \<or> \<not> needs_memory x \<Longrightarrow>
           \<exists>r'. pci_dequeue_completion m t r = Inr (0, x, r') \<and> ring_ok r' \<and> ring_abs r' = xs"
    and "needs_memory x \<Longrightarrow> \<exists>t'. pci_dequeue_completion False t r = Inr (-1, t', r)"
proof -
  obtain n where Suc: "cpl_pending r = Suc n"
    using head by (cases "cpl_pending r") (simp_all add: ring_abs_def)
  let ?c = "completions r ! head r"
  have h: "head r < MAX_COMPLETIONS" "length (completions r) = MAX_COMPLETIONS" using ok by (simp_all add: ring_ok_def)
  then have "unat (tlp_length (cpl_tlp ?c)) \<le> 256"
    using ok Suc by (auto simp: ring_ok_def dest: spec [of _ 0])
  moreover have "length (cpl_data ?c) = 256" using ok h by (simp add: ring_ok_def list_all_length)
  ultimately have load: "load_completion m' ?c =
      Inr (if m' \<or> \<not> needs_memory (slot_packet ?c) then Some (slot_packet ?c) else None)" for m'
    by (auto simp: load_completion_def slot_packet_def mem_read_def needs_memory_def Let_def)
  let ?r = "r\<lparr>head := (head r + 1) mod MAX_COMPLETIONS, cpl_pending := n\<rparr>"
  have shift: "(Suc (head r) mod MAX_COMPLETIONS + i) mod MAX_COMPLETIONS =
      Suc (head r + i) mod MAX_COMPLETIONS" for i
    by (simp add: mod_add_left_eq)
  have "ring_ok ?r"
    using ok Suc unfolding ring_ok_def by (auto simp: shift)
  moreover have "ring_abs r = slot_packet ?c # ring_abs ?r"
    using Suc h by (simp add: ring_abs_def shift upt_conv_Cons comp_def del: upt_Suc flip: map_Suc_upt)
  ultimately show "m \<or> \<not> needs_memory x \<Longrightarrow>
      \<exists>r'. pci_dequeue_completion m t r = Inr (0, x, r') \<and> ring_ok r' \<and> ring_abs r' = xs"
    and "needs_memory x \<Longrightarrow> \<exists>t'. pci_dequeue_completion False t r = Inr (-1, t', r)"
    using Suc load head by (auto simp: pci_dequeue_completion_def Let_def)
qed

text \<open>The two operations with their C result read as success or failure.\<close>

definition ring_enq :: "tlp \<Rightarrow> pci_ring \<Rightarrow> (bool \<times> pci_ring) c_res" where
  "ring_enq t r = cbind (pci_enqueue_completion t r) (\<lambda>(rc, r'). Inr (rc = 0, r'))"

definition ring_deq :: "bool \<Rightarrow> pci_ring \<Rightarrow> (tlp option \<times> pci_ring) c_res" where
  "ring_deq malloc_ok r =
     cbind (pci_dequeue_completion malloc_ok tlp_zero r)
       (\<lambda>(rc, t, r'). Inr (if rc = 0 then Some t else None, r'))"

interpretation ring: bounded_queue ring_abs ring_ok holdable needs_memory carried MAX_COMPLETIONS ring_enq ring_deq
proof (unfold_locales, goal_cases)
  case (1 q x)
  with enqueue_ok [OF 1] show ?case by (auto simp: ring_enq_def)
next
  case (2 q m)
  then show ?case by (simp add: ring_deq_def dequeue_empty)
next
  case (3 q x xs)
  then show ?case using dequeue_ok(2) [OF 3(1,2), of tlp_zero] by (auto simp: ring_deq_def)
next
  case (4 q x xs m)
  then show ?case using dequeue_ok(1) [OF 4(1,2,3), of tlp_zero] by (auto simp: ring_deq_def)
qed

section \<open>Properties\<close>

text \<open>
  C13: The completion queue is a first-in first-out queue of 16 packets: whatever calls are made
  on it, in whatever order and however often the ring is gone round, every answer is that of a
  list of packets, oldest first. An enqueue finds room exactly when fewer than 16 are waiting; a
  dequeue gives the oldest packet with its header and its payload, nothing when none is waiting,
  and nothing, keeping the packet, when there is no memory for its payload.
\<close>

theorem completions_fifo:
  assumes "calls_fit holdable cs"
  shows "\<exists>r. run_queue ring_enq ring_deq cs pci_ring_init =
           Inr (fst (list_queue needs_memory carried 16 cs []), r) \<and>
         ring_abs r = snd (list_queue needs_memory carried 16 cs [])"
  using ring.run_queue_list [OF ring_ok_init assms] by (auto simp: ring_abs_init MAX_COMPLETIONS_def)

text \<open>Seventeen packets, each enqueued and taken out again, and the first one once more.\<close>

theorem completions_fifo_witness:
  "\<exists>r. run_queue ring_enq ring_deq
         (concat (replicate 17 [Enqueue (pcie_tlp_mem_write 8 2 (Some [7, 9, 11])), Dequeue True]) @
          [Enqueue (pcie_tlp_cfg_read 4), Dequeue False, Dequeue True]) pci_ring_init =
       Inr (concat (replicate 17 [Room True, Element (Some (pcie_tlp_mem_write 8 2 (Some [7, 9])))]) @
            [Room True, Element (Some (pcie_tlp_cfg_read 4)), Element None], r)"
proof -
  let ?t = "pcie_tlp_mem_write 8 2 (Some [7, 9, 11])" and ?t' = "pcie_tlp_mem_write 8 2 (Some [7, 9])"
  have round: "list_queue needs_memory carried 16 (Enqueue ?t # Dequeue True # cs) [] =
      (case list_queue needs_memory carried 16 cs [] of (as, ys) \<Rightarrow> (Room True # Element (Some ?t') # as, ys))" for cs
    by (simp add: carried_def pcie_tlp_mem_write_def tlp_zero_def split: prod.split)
  have last: "list_queue needs_memory carried 16 [Enqueue (pcie_tlp_cfg_read 4), Dequeue False, Dequeue True] [] =
      ([Room True, Element (Some (pcie_tlp_cfg_read 4)), Element None], [])"
    by (simp add: carried_def needs_memory_def pcie_tlp_cfg_read_def tlp_zero_def)
  have rounds: "list_queue needs_memory carried 16 (concat (replicate n [Enqueue ?t, Dequeue True]) @
      [Enqueue (pcie_tlp_cfg_read 4), Dequeue False, Dequeue True]) [] =
      (concat (replicate n [Room True, Element (Some ?t')]) @
       [Room True, Element (Some (pcie_tlp_cfg_read 4)), Element None], [])" for n
    by (induction n) (simp_all add: last round del: list_queue.simps)
  have "calls_fit holdable (concat (replicate n [Enqueue ?t, Dequeue True]) @
      [Enqueue (pcie_tlp_cfg_read 4), Dequeue False, Dequeue True])" for n
    by (induction n)
      (simp_all add: holdable_def valid_tlp_def pcie_tlp_mem_write_def pcie_tlp_cfg_read_def tlp_zero_def)
  from completions_fifo [OF this, of 17] show ?thesis unfolding rounds fst_conv by blast
qed

text \<open>
  A completion that announces a payload without carrying one is accepted, and comes out
  with the bytes an earlier completion left in its slot.
\<close>

lemma completion_stale_payload:
  assumes "ring_ok r" and "cpl_pending r = 0" and "mem_data t = None" and "0 < tlp_length t"
    and "unat (tlp_length t) \<le> 256"
  shows "\<exists>r1 r2. pci_enqueue_completion t r = Inr (0, r1) \<and>
           pci_dequeue_completion True t r1 =
             Inr (0, t\<lparr>mem_data := Some (take (unat (tlp_length t))
                                         (cpl_data (completions r ! head r)))\<rparr>, r2)"
proof -
  have h: "tail r = head r" "head r < length (completions r)"
    using assms(1,2) by (simp_all add: ring_ok_def)
  then have "length (cpl_data (completions r ! head r)) = 256"
    using assms(1) by (simp add: ring_ok_def list_all_length)
  with assms h show ?thesis
    by (simp add: pci_enqueue_completion_def store_completion_def pci_dequeue_completion_def
        load_completion_def mem_read_def Let_def MAX_COMPLETIONS_def)
qed

end
