(* ===== verification/Fpga.thy ===== *)
theory Fpga
  imports Pcapcie
begin

text \<open>
  The FPGA backend, \<open>src/backend_fpga.c\<close>: packets written to and read from the registers of a
  memory-mapped BAR. The hardware and the system calls are a parameter, the record
  \<open>fpga_hw\<close> over a state of the caller's choice; reading a register may change that state.

  \<open>fpga_regs\<close> is the static of the same name: \<open>NULL\<close>, the mapping, or \<open>MAP_FAILED\<close>, which a
  failed \<open>mmap\<close> leaves behind and which must not be dereferenced.

  The operation table is a compound literal with automatic storage duration, whose address
  \<open>pcie_backend_fpga\<close> returns: by then the literal's lifetime has ended and the pointer is
  indeterminate. Its only caller, \<open>pcie_open\<close>, tests it and stores it, so opening this backend
  is undefined as soon as the FPGA has started; \<open>fpga_ops\<close> is what the literal holds.
\<close>

section \<open>Hardware and state\<close>

record 's fpga_hw =
  hw_open :: "'s \<Rightarrow> int \<times> 's"
  hw_mmap :: "'s \<Rightarrow> bool \<times> 's"
  hw_munmap :: "'s \<Rightarrow> 's"
  hw_close :: "'s \<Rightarrow> 's"
  hw_usleep :: "nat \<Rightarrow> 's \<Rightarrow> 's"
  hw_malloc :: "nat \<Rightarrow> 's \<Rightarrow> u8 list option \<times> 's"
  hw_read :: "u32 \<Rightarrow> 's \<Rightarrow> u32 \<times> 's"
  hw_write :: "u32 \<Rightarrow> u32 \<Rightarrow> 's \<Rightarrow> 's"

datatype bar_ptr = RegsNull | RegsMapped | RegsFailed

record 's fpga_world =
  fpga_fd :: int
  fpga_regs :: bar_ptr
  fw_hw :: 's

definition FPGA_BAR_SIZE :: u32 where "FPGA_BAR_SIZE = 4 * 1024 * 1024"
definition FPGA_REG_TLP_SEND :: u32 where "FPGA_REG_TLP_SEND = 0x0000"
definition FPGA_REG_TLP_STATUS :: u32 where "FPGA_REG_TLP_STATUS = 0x0004"
definition FPGA_REG_TLP_RECV :: u32 where "FPGA_REG_TLP_RECV = 0x0008"
definition FPGA_REG_CONTROL :: u32 where "FPGA_REG_CONTROL = 0x000C"
definition STATUS_READY :: u32 where "STATUS_READY = 1"
definition STATUS_DATA_AVAIL :: u32 where "STATUS_DATA_AVAIL = 2"
definition CTRL_RESET :: u32 where "CTRL_RESET = 1"
definition CTRL_ENABLE :: u32 where "CTRL_ENABLE = 2"

lemmas fpga_regs_defs = FPGA_BAR_SIZE_def FPGA_REG_TLP_SEND_def FPGA_REG_TLP_STATUS_def
  FPGA_REG_TLP_RECV_def FPGA_REG_CONTROL_def STATUS_READY_def STATUS_DATA_AVAIL_def
  CTRL_RESET_def CTRL_ENABLE_def

section \<open>Registers\<close>

text \<open>The register behind an offset is the one of its dword, \<open>fpga_regs[offset / 4]\<close>.\<close>

definition reg_offset :: "u32 \<Rightarrow> u32" where
  "reg_offset off = 4 * (off div 4)"

definition fpga_write_reg :: "'s fpga_hw \<Rightarrow> u32 \<Rightarrow> u32 \<Rightarrow> 's fpga_world \<Rightarrow> 's fpga_world c_res" where
  "fpga_write_reg hw off val w =
     (if fpga_regs w \<noteq> RegsNull \<and> off < FPGA_BAR_SIZE
      then if fpga_regs w = RegsFailed then Inl OutOfBounds
           else Inr (w\<lparr>fw_hw := hw_write hw (reg_offset off) val (fw_hw w)\<rparr>)
      else Inr w)"

definition fpga_read_reg :: "'s fpga_hw \<Rightarrow> u32 \<Rightarrow> 's fpga_world \<Rightarrow> (u32 \<times> 's fpga_world) c_res" where
  "fpga_read_reg hw off w =
     (if fpga_regs w \<noteq> RegsNull \<and> off < FPGA_BAR_SIZE
      then if fpga_regs w = RegsFailed then Inl OutOfBounds
           else case hw_read hw (reg_offset off) (fw_hw w) of (v, s) \<Rightarrow> Inr (v, w\<lparr>fw_hw := s\<rparr>)
      else Inr (0, w))"

definition fpga_usleep :: "'s fpga_hw \<Rightarrow> nat \<Rightarrow> 's fpga_world \<Rightarrow> 's fpga_world" where
  "fpga_usleep hw us w = w\<lparr>fw_hw := hw_usleep hw us (fw_hw w)\<rparr>"

text \<open>The polling loop, with the number of polls left.\<close>

fun wait_loop :: "nat \<Rightarrow> 's fpga_hw \<Rightarrow> 's fpga_world \<Rightarrow> (int \<times> 's fpga_world) c_res" where
  "wait_loop 0 hw w = Inr (-1, w)"
| "wait_loop (Suc n) hw w =
     cbind (fpga_read_reg hw FPGA_REG_TLP_STATUS w) (\<lambda>(v, w').
       if v AND STATUS_READY \<noteq> 0 then Inr (0, w')
       else wait_loop n hw (fpga_usleep hw 1 w'))"

definition fpga_wait_ready :: "'s fpga_hw \<Rightarrow> 's fpga_world \<Rightarrow> (int \<times> 's fpga_world) c_res" where
  "fpga_wait_ready hw w = wait_loop 1000000 hw w"

section \<open>Sending\<close>

definition fpga_word0 :: "tlp \<Rightarrow> u32" where
  "fpga_word0 t =
     push_bit 24 (tlp_type t) OR push_bit 16 (ucast (tlp_length t)) OR ucast (requester_id t)"

definition fpga_word1 :: "tlp \<Rightarrow> u32" where
  "fpga_word1 t = ucast (mem_addr t AND 0xFFFFFFFF)"

definition fpga_word2 :: "tlp \<Rightarrow> u32" where
  "fpga_word2 t = ucast (drop_bit 32 (mem_addr t) AND 0xFFFFFFFF)"

definition fpga_word3 :: "tlp \<Rightarrow> u32" where
  "fpga_word3 t = ucast (tag t)"

text \<open>The payload loop from index \<open>i\<close>: four bytes per register, at most 64 in all.\<close>

function write_payload ::
  "'s fpga_hw \<Rightarrow> nat \<Rightarrow> nat \<Rightarrow> u8 list \<Rightarrow> 's fpga_world \<Rightarrow> 's fpga_world c_res" where
  "write_payload hw i len data w =
     (if i < len \<and> i < 64
      then cbind (mem_read (drop i data) (if len - i \<ge> 4 then 4 else len - i)) (\<lambda>bs.
           cbind (fpga_write_reg hw (FPGA_REG_TLP_SEND + 16 + word_of_nat i) (word_of_nat (le_val bs)) w)
             (write_payload hw (i + 4) len data))
      else Inr w)"
  by pat_completeness auto
termination
  by (relation "measure (\<lambda>(hw, i, len, data, w). 64 - i)") auto

declare write_payload.simps [simp del]

definition write_header :: "'s fpga_hw \<Rightarrow> tlp \<Rightarrow> 's fpga_world \<Rightarrow> 's fpga_world c_res" where
  "write_header hw t w =
     cbind (fpga_write_reg hw FPGA_REG_TLP_SEND (fpga_word0 t) w) (\<lambda>w.
     cbind (fpga_write_reg hw (FPGA_REG_TLP_SEND + 4) (fpga_word1 t) w) (\<lambda>w.
     cbind (fpga_write_reg hw (FPGA_REG_TLP_SEND + 8) (fpga_word2 t) w) (\<lambda>w.
     fpga_write_reg hw (FPGA_REG_TLP_SEND + 12) (fpga_word3 t) w)))"

definition fpga_send :: "'s fpga_hw \<Rightarrow> 's fpga_world tlp_op" where
  "fpga_send hw tp w =
     (if fpga_regs w = RegsNull then Inr (-1, tp, w)
      else cbind (deref tp) (\<lambda>t.
           cbind (fpga_wait_ready hw w) (\<lambda>(rc, w1).
             if rc \<noteq> 0 then Inr (-1, tp, w1)
             else cbind (write_header hw t w1) (\<lambda>w2.
                  case mem_data t of
                    None \<Rightarrow> Inr (0, tp, w2)
                  | Some data \<Rightarrow>
                      if tlp_length t > 0
                      then cbind (write_payload hw 0 (unat (tlp_length t)) data w2) (\<lambda>w3. Inr (0, tp, w3))
                      else Inr (0, tp, w2)))))"

section \<open>Receiving\<close>

definition fpga_unpack :: "u32 \<Rightarrow> u32 \<Rightarrow> u32 \<Rightarrow> u32 \<Rightarrow> tlp \<Rightarrow> tlp" where
  "fpga_unpack w0 w1 w2 w3 t =
     t\<lparr>tlp_type := drop_bit 24 w0 AND 0xFF, tlp_length := ucast (drop_bit 16 w0 AND 0xFF),
       requester_id := ucast (w0 AND 0xFFFF),
       mem_addr := push_bit 32 (ucast w2) OR ucast w1, tag := ucast (w3 AND 0xFF)\<rparr>"

function read_payload ::
  "'s fpga_hw \<Rightarrow> nat \<Rightarrow> nat \<Rightarrow> u8 list \<Rightarrow> 's fpga_world \<Rightarrow> (u8 list \<times> 's fpga_world) c_res" where
  "read_payload hw i len buf w =
     (if i < len \<and> i < 64
      then cbind (fpga_read_reg hw (FPGA_REG_TLP_RECV + 16 + word_of_nat i) w) (\<lambda>(v, w').
           cbind (mem_write buf i (take (if len - i \<ge> 4 then 4 else len - i) (le_bytes 4 (unat v))))
             (\<lambda>buf'. read_payload hw (i + 4) len buf' w'))
      else Inr (buf, w))"
  by pat_completeness auto
termination
  by (relation "measure (\<lambda>(hw, i, len, buf, w). 64 - i)") auto

declare read_payload.simps [simp del]

definition fpga_recv :: "'s fpga_hw \<Rightarrow> 's fpga_world tlp_op" where
  "fpga_recv hw tp w =
     (if fpga_regs w = RegsNull then Inr (-1, tp, w)
      else cbind (fpga_read_reg hw FPGA_REG_TLP_STATUS w) (\<lambda>(status, w).
        if status AND STATUS_DATA_AVAIL = 0 then Inr (-1, tp, w)
        else cbind (fpga_read_reg hw FPGA_REG_TLP_RECV w) (\<lambda>(w0, w).
             cbind (fpga_read_reg hw (FPGA_REG_TLP_RECV + 4) w) (\<lambda>(w1, w).
             cbind (fpga_read_reg hw (FPGA_REG_TLP_RECV + 8) w) (\<lambda>(w2, w).
             cbind (fpga_read_reg hw (FPGA_REG_TLP_RECV + 12) w) (\<lambda>(w3, w).
             cbind (deref tp) (\<lambda>t0.
             let t = fpga_unpack w0 w1 w2 w3 t0; n = unat (tlp_length t) in
             if n > 0
             then case hw_malloc hw n (fw_hw w) of
                    (None, s) \<Rightarrow> Inr (0, Some (t\<lparr>mem_data := None\<rparr>), w\<lparr>fw_hw := s\<rparr>)
                  | (Some xs, s) \<Rightarrow>
                      cbind (read_payload hw 0 n (block n xs) (w\<lparr>fw_hw := s\<rparr>)) (\<lambda>(buf, w).
                        Inr (0, Some (t\<lparr>mem_data := Some buf\<rparr>), w))
             else Inr (0, Some t, w))))))))"

section \<open>Opening and closing\<close>

definition fpga_close :: "'s fpga_hw \<Rightarrow> 's fpga_world \<Rightarrow> 's fpga_world c_res" where
  "fpga_close hw w =
     cbind (if fpga_regs w \<noteq> RegsNull
            then cbind (fpga_write_reg hw FPGA_REG_CONTROL CTRL_RESET w) (\<lambda>w.
                   Inr (w\<lparr>fw_hw := hw_munmap hw (fw_hw w), fpga_regs := RegsNull\<rparr>))
            else Inr w)
       (\<lambda>w. Inr (if fpga_fd w \<ge> 0 then w\<lparr>fw_hw := hw_close hw (fw_hw w), fpga_fd := -1\<rparr> else w))"

definition fpga_init :: "'s fpga_hw \<Rightarrow> 's fpga_world \<Rightarrow> (int \<times> 's fpga_world) c_res" where
  "fpga_init hw w =
     (case hw_open hw (fw_hw w) of
        (fd, s) \<Rightarrow>
          if fd < 0 then Inr (-1, w\<lparr>fpga_fd := fd, fw_hw := s\<rparr>)
          else (case hw_mmap hw s of
                  (False, s) \<Rightarrow> Inr (-1, w\<lparr>fpga_regs := RegsFailed, fw_hw := hw_close hw s, fpga_fd := -1\<rparr>)
                | (True, s) \<Rightarrow>
                    cbind (fpga_write_reg hw FPGA_REG_CONTROL CTRL_RESET
                             (w\<lparr>fpga_fd := fd, fpga_regs := RegsMapped, fw_hw := s\<rparr>)) (\<lambda>w.
                    cbind (fpga_write_reg hw FPGA_REG_CONTROL CTRL_ENABLE (fpga_usleep hw 1000 w)) (\<lambda>w.
                    cbind (fpga_wait_ready hw w) (\<lambda>(rc, w).
                      if rc \<noteq> 0 then cbind (fpga_close hw w) (\<lambda>w. Inr (-1, w))
                      else Inr (0, w))))))"

definition fpga_ops :: "'s fpga_hw \<Rightarrow> 's fpga_world pcie_backend_ops" where
  "fpga_ops hw =
     \<lparr>ops_send = Some (fpga_send hw), ops_recv = Some (fpga_recv hw), ops_link_status = None,
      ops_device_info = None, ops_close = Some (fpga_close hw)\<rparr>"

definition pcie_backend_fpga :: "'s fpga_hw \<Rightarrow> 's fpga_world backend_ctor" where
  "pcie_backend_fpga hw w =
     cbind (fpga_init hw w) (\<lambda>(rc, w'). if rc \<noteq> 0 then Inr (None, w') else Inl LifetimeEnd)"

section \<open>The contract\<close>

text \<open>A BAR that is mapped or unmapped, but not a failed mapping.\<close>

definition fpga_ok :: "'s fpga_world \<Rightarrow> bool" where
  "fpga_ok w \<longleftrightarrow> fpga_regs w \<noteq> RegsFailed"

lemma fpga_write_reg_total:
  "fpga_ok w \<Longrightarrow> \<exists>w'. fpga_write_reg hw off v w = Inr w' \<and> fpga_ok w' \<and> fpga_regs w' = fpga_regs w"
  by (simp add: fpga_write_reg_def fpga_ok_def)

lemma fpga_read_reg_total:
  "fpga_ok w \<Longrightarrow> \<exists>v w'. fpga_read_reg hw off w = Inr (v, w') \<and> fpga_ok w' \<and> fpga_regs w' = fpga_regs w"
  by (cases "hw_read hw (reg_offset off) (fw_hw w)") (simp add: fpga_read_reg_def fpga_ok_def)

lemma wait_loop_total:
  "fpga_ok w \<Longrightarrow> \<exists>rc w'. wait_loop n hw w = Inr (rc, w') \<and> fpga_ok w' \<and> fpga_regs w' = fpga_regs w \<and>
     (rc = 0 \<or> rc = -1)"
proof (induction n arbitrary: w)
  case (Suc n)
  obtain v w1 where r: "fpga_read_reg hw FPGA_REG_TLP_STATUS w = Inr (v, w1)" "fpga_ok w1"
      "fpga_regs w1 = fpga_regs w"
    using fpga_read_reg_total [OF Suc.prems] by blast
  then have "fpga_ok (fpga_usleep hw 1 w1)" "fpga_regs (fpga_usleep hw 1 w1) = fpga_regs w"
    by (simp_all add: fpga_ok_def fpga_usleep_def)
  with Suc.IH [of "fpga_usleep hw 1 w1"] r show ?case
    by (cases "v AND STATUS_READY = 0") auto
qed simp

lemma write_payload_total:
  "fpga_ok w \<Longrightarrow> len \<le> length data \<Longrightarrow> \<exists>w'. write_payload hw i len data w = Inr w' \<and> fpga_ok w'"
proof (induction hw i len data w rule: write_payload.induct)
  case (1 hw i len data w)
  show ?case
  proof (cases "i < len \<and> i < 64")
    case True
    let ?k = "if len - i \<ge> 4 then 4 else len - i"
    have rd: "mem_read (drop i data) ?k = Inr (take ?k (drop i data))"
      using True 1(3) by (auto simp: mem_read_def)
    obtain w1 where w1: "fpga_write_reg hw (FPGA_REG_TLP_SEND + 16 + word_of_nat i)
        (word_of_nat (le_val (take ?k (drop i data)))) w = Inr w1" "fpga_ok w1"
      using fpga_write_reg_total [OF 1(2)] by blast
    from "1.IH" [OF True rd w1 1(3)] show ?thesis
      using True rd w1 by (subst write_payload.simps) simp
  next
    case False
    with 1(2) show ?thesis by (subst write_payload.simps) auto
  qed
qed

lemma read_payload_total:
  "fpga_ok w \<Longrightarrow> len \<le> length buf \<Longrightarrow>
     \<exists>buf' w'. read_payload hw i len buf w = Inr (buf', w') \<and> fpga_ok w' \<and> length buf' = length buf"
proof (induction hw i len buf w rule: read_payload.induct)
  case (1 hw i len buf w)
  show ?case
  proof (cases "i < len \<and> i < 64")
    case True
    let ?k = "if len - i \<ge> 4 then 4 else len - i"
    obtain v w1 where r: "fpga_read_reg hw (FPGA_REG_TLP_RECV + 16 + word_of_nat i) w = Inr (v, w1)" "fpga_ok w1"
      using fpga_read_reg_total [OF 1(2)] by blast
    have "i + length (take ?k (le_bytes 4 (unat v))) \<le> length buf" using True 1(3) by auto
    then obtain buf1 where b: "mem_write buf i (take ?k (le_bytes 4 (unat v))) = Inr buf1"
      by (simp add: mem_write_def)
    have l: "length buf1 = length buf" by (rule length_mem_write [OF b])
    with 1(3) have "len \<le> length buf1" by simp
    from "1.IH" [OF True r(1) refl b r(2) this] l True r b show ?thesis
      by (subst read_payload.simps) auto
  next
    case False
    with 1(2) show ?thesis by (subst read_payload.simps) auto
  qed
qed

lemma write_header_total:
  assumes "fpga_ok w"
  shows "\<exists>w'. write_header hw t w = Inr w' \<and> fpga_ok w' \<and> fpga_regs w' = fpga_regs w"
proof -
  obtain w1 where 1: "fpga_write_reg hw FPGA_REG_TLP_SEND (fpga_word0 t) w = Inr w1" "fpga_ok w1"
      "fpga_regs w1 = fpga_regs w" using fpga_write_reg_total [OF assms] by blast
  obtain w2 where 2: "fpga_write_reg hw (FPGA_REG_TLP_SEND + 4) (fpga_word1 t) w1 = Inr w2" "fpga_ok w2"
      "fpga_regs w2 = fpga_regs w" using fpga_write_reg_total [OF 1(2)] 1(3) by metis
  obtain w3 where 3: "fpga_write_reg hw (FPGA_REG_TLP_SEND + 8) (fpga_word2 t) w2 = Inr w3" "fpga_ok w3"
      "fpga_regs w3 = fpga_regs w" using fpga_write_reg_total [OF 2(2)] 2(3) by metis
  from 1(1) 2(1) 3 fpga_write_reg_total [OF 3(2), of hw "FPGA_REG_TLP_SEND + 12" "fpga_word3 t"] show ?thesis
    by (auto simp: write_header_def)
qed

lemma fpga_send_total:
  assumes "fpga_ok w" and "valid_tlp t"
  shows "\<exists>rc w'. fpga_send hw (Some t) w = Inr (rc, Some t, w') \<and> fpga_ok w'"
proof (cases "fpga_regs w = RegsNull")
  case False
  obtain rc w1 where 1: "fpga_wait_ready hw w = Inr (rc, w1)" "fpga_ok w1"
    using wait_loop_total [OF assms(1)] unfolding fpga_wait_ready_def by blast
  obtain w2 where 2: "write_header hw t w1 = Inr w2" "fpga_ok w2"
    using write_header_total [OF 1(2)] by blast
  show ?thesis
  proof (cases "mem_data t")
    case None
    with False 1 2 show ?thesis by (simp add: fpga_send_def)
  next
    case (Some data)
    with assms(2) have "unat (tlp_length t) \<le> length data" by (simp add: valid_tlp_Some)
    from write_payload_total [OF 2(2) this, of hw 0] False 1 2 Some show ?thesis
      by (auto simp: fpga_send_def)
  qed
qed (use assms(1) in \<open>simp add: fpga_send_def\<close>)

lemma fpga_recv_total:
  assumes "fpga_ok w"
  shows "\<exists>rc t' w'. fpga_recv hw (Some t) w = Inr (rc, Some t', w') \<and> fpga_ok w' \<and> (rc = 0 \<longrightarrow> valid_tlp t')"
proof (cases "fpga_regs w = RegsNull")
  case False
  note rd = fpga_read_reg_total [where hw = hw]
  obtain v w1 where 1: "fpga_read_reg hw FPGA_REG_TLP_STATUS w = Inr (v, w1)" "fpga_ok w1"
    using rd [OF assms] by blast
  show ?thesis
  proof (cases "v AND STATUS_DATA_AVAIL = 0")
    case True
    with False 1 show ?thesis by (simp add: fpga_recv_def)
  next
    case avail: False
    obtain r0 w2 where 2: "fpga_read_reg hw FPGA_REG_TLP_RECV w1 = Inr (r0, w2)" "fpga_ok w2"
      using rd [OF 1(2)] by blast
    obtain r1 w3 where 3: "fpga_read_reg hw (FPGA_REG_TLP_RECV + 4) w2 = Inr (r1, w3)" "fpga_ok w3"
      using rd [OF 2(2)] by blast
    obtain r2 w4 where 4: "fpga_read_reg hw (FPGA_REG_TLP_RECV + 8) w3 = Inr (r2, w4)" "fpga_ok w4"
      using rd [OF 3(2)] by blast
    obtain r3 w5 where 5: "fpga_read_reg hw (FPGA_REG_TLP_RECV + 12) w4 = Inr (r3, w5)" "fpga_ok w5"
      using rd [OF 4(2)] by blast
    let ?t = "fpga_unpack r0 r1 r2 r3 t"
    let ?n = "unat (tlp_length ?t)"
    obtain m s where m: "hw_malloc hw ?n (fw_hw w5) = (m, s)" by (cases "hw_malloc hw ?n (fw_hw w5)")
    have ok: "fpga_ok (w5\<lparr>fw_hw := s\<rparr>)" using 5(2) by (simp add: fpga_ok_def)
    show ?thesis
    proof (cases "?n > 0 \<and> m \<noteq> None")
      case True
      then obtain xs where "m = Some xs" by blast
      with read_payload_total [OF ok, of ?n "block ?n xs" hw 0] True False avail 1 2 3 4 5(1) m show ?thesis
        by (auto simp: fpga_recv_def Let_def valid_tlp_Some)
    next
      case other: False
      then consider "?n = 0" | "?n > 0" "m = None" by blast
      then show ?thesis
        using False avail 1(1) 2(1) 3(1) 4(1) 5 m ok
        by cases (auto simp: fpga_recv_def Let_def valid_tlp_def split: option.splits)
    qed
  qed
qed (use assms in \<open>simp add: fpga_recv_def\<close>)

lemma fpga_close_total:
  assumes "fpga_ok w"
  shows "\<exists>w'. fpga_close hw w = Inr w' \<and> fpga_ok w' \<and> fpga_regs w' = RegsNull"
  using fpga_write_reg_total [OF assms, of hw FPGA_REG_CONTROL CTRL_RESET] assms
  by (cases "fpga_regs w = RegsNull") (auto simp: fpga_close_def fpga_ok_def)

lemma fpga_ops_simps [simp]:
  "ops_send (fpga_ops hw) = Some (fpga_send hw)" "ops_recv (fpga_ops hw) = Some (fpga_recv hw)"
  "ops_link_status (fpga_ops hw) = None" "ops_device_info (fpga_ops hw) = None"
  "ops_close (fpga_ops hw) = Some (fpga_close hw)"
  by (simp_all add: fpga_ops_def)

interpretation fpga: pcie_backend "fpga_ops hw" fpga_ok valid_tlp for hw
proof (unfold_locales, goal_cases)
  case (2 w t)
  with fpga_send_total [OF 2, of hw] show ?case by fastforce
next
  case (3 w t)
  with fpga_recv_total [OF 3, of hw t] show ?case by simp
next
  case 6
  then show ?case using fpga_close_total [where hw = hw] by auto
qed auto

section \<open>What the registers carry\<close>

lemmas word_bits = bit_eq_iff bit_simps AND_255 AND_65535 AND_low_dword

lemma word0_type:
  "drop_bit 24 (fpga_word0 t) AND 0xFF = (tlp_type t OR ucast (drop_bit 8 (tlp_length t))) AND 0xFF"
  by (auto simp: fpga_word0_def word_bits dest: bit_imp_le_length)

lemma word0_length: "ucast (drop_bit 16 (fpga_word0 t) AND 0xFF) = tlp_length t AND 0xFF"
proof -
  have "(tlp_length t AND 0xFF) = take_bit 8 (tlp_length t)" by (simp add: take_bit_eq_mask mask_numeral)
  then show ?thesis
    by (auto simp: fpga_word0_def word_bits dest: bit_imp_le_length)
qed

lemma word0_requester: "ucast (fpga_word0 t AND 0xFFFF) = requester_id t"
  by (auto simp: fpga_word0_def word_bits dest: bit_imp_le_length)

lemma words_addr: "push_bit 32 (ucast (fpga_word2 t)) OR ucast (fpga_word1 t) = mem_addr t"
proof (rule bit_word_eqI)
  fix n :: nat
  assume "n < LENGTH(64)"
  then show "bit (push_bit 32 (ucast (fpga_word2 t)) OR ucast (fpga_word1 t) :: u64) n = bit (mem_addr t) n"
    by (cases "n < 32") (auto simp: fpga_word1_def fpga_word2_def bit_simps AND_low_dword)
qed

lemma word3_tag: "ucast (fpga_word3 t AND 0xFF) = tag t"
  by (auto simp: fpga_word3_def word_bits dest: bit_imp_le_length)

section \<open>The writes of one packet\<close>

definition header_writes :: "tlp \<Rightarrow> (u32 \<times> u32) list" where
  "header_writes t =
     [(FPGA_REG_TLP_SEND, fpga_word0 t), (FPGA_REG_TLP_STATUS, fpga_word1 t),
      (FPGA_REG_TLP_RECV, fpga_word2 t), (FPGA_REG_CONTROL, fpga_word3 t)]"

text \<open>One write per four bytes of the first 64.\<close>

definition payload_writes :: "u8 list \<Rightarrow> (u32 \<times> u32) list" where
  "payload_writes p =
     map (\<lambda>j. (word_of_nat (16 + 4 * j), word_of_nat (le_val (take 4 (drop (4 * j) p)))))
       [0..<min 16 ((length p + 3) div 4)]"

definition do_writes :: "'s fpga_hw \<Rightarrow> (u32 \<times> u32) list \<Rightarrow> 's \<Rightarrow> 's" where
  "do_writes hw ws s = fold (\<lambda>(r, v). hw_write hw r v) ws s"

lemma reg_offset_dword: "4 * k < 2 ^ 32 \<Longrightarrow> reg_offset (word_of_nat (4 * k)) = word_of_nat (4 * k)"
proof -
  assume k: "4 * k < 2 ^ 32"
  then have "unat (word_of_nat (4 * k) :: u32) = 4 * k"
    by (simp add: unat_of_nat del: of_nat_mult)
  then have "unat (word_of_nat (4 * k) div 4 :: u32) = k" by (simp add: unat_div)
  then have "word_of_nat (4 * k) div 4 = (word_of_nat k :: u32)"
    using k by (simp add: word_unat_eq_iff unat_of_nat)
  then show ?thesis by (simp add: reg_offset_def)
qed

lemma payload_loop_cond: "j < min 16 ((len + 3) div 4) \<longleftrightarrow> 4 * j < len \<and> 4 * j < (64 :: nat)"
  by auto

lemma fpga_write_reg_mapped:
  "fpga_regs w = RegsMapped \<Longrightarrow> off < FPGA_BAR_SIZE \<Longrightarrow>
     fpga_write_reg hw off v w = Inr (w\<lparr>fw_hw := hw_write hw (reg_offset off) v (fw_hw w)\<rparr>)"
  by (simp add: fpga_write_reg_def)

lemma do_writes_append: "do_writes hw (xs @ ys) s = do_writes hw ys (do_writes hw xs s)"
  by (simp add: do_writes_def)

lemma write_payload_from:
  assumes "len \<le> length data"
  shows "\<lbrakk>fpga_regs w = RegsMapped; j \<le> min 16 ((len + 3) div 4)\<rbrakk> \<Longrightarrow>
     write_payload hw (4 * j) len data w =
       Inr (w\<lparr>fw_hw := do_writes hw (drop j (payload_writes (take len data))) (fw_hw w)\<rparr>)"
proof (induction "min 16 ((len + 3) div 4) - j" arbitrary: j w)
  case 0
  then have "\<not> j < min 16 ((len + 3) div 4)" by simp
  then have "\<not> (4 * j < len \<and> 4 * j < 64)" using payload_loop_cond [of j len] by blast
  moreover have "drop j (payload_writes (take len data)) = []"
    using 0 assms by (simp add: payload_writes_def)
  ultimately show ?case by (subst write_payload.simps) (auto simp: do_writes_def)
next
  case (Suc d)
  then have j: "j < min 16 ((len + 3) div 4)" by linarith
  then have c: "4 * j < len \<and> 4 * j < 64" by (simp only: payload_loop_cond)
  let ?k = "if len - 4 * j \<ge> 4 then 4 else len - 4 * j"
  let ?v = "word_of_nat (le_val (take 4 (drop (4 * j) (take len data)))) :: u32"
  let ?r = "word_of_nat (16 + 4 * j) :: u32"
  have bs: "take ?k (drop (4 * j) data) = take 4 (drop (4 * j) (take len data))"
    by (simp add: drop_take)
  have rd: "mem_read (drop (4 * j) data) ?k = Inr (take 4 (drop (4 * j) (take len data)))"
    using c assms bs by (auto simp: mem_read_def)
  have "unat ?r = 16 + 4 * j" using c by (simp add: unat_of_nat del: of_nat_add of_nat_mult)
  then have "?r < FPGA_BAR_SIZE" using c by (simp add: word_less_nat_alt FPGA_BAR_SIZE_def)
  moreover have "reg_offset ?r = ?r"
    using reg_offset_dword [of "4 + j"] c by (simp add: algebra_simps)
  moreover have "FPGA_REG_TLP_SEND + 16 + word_of_nat (4 * j) = ?r"
    by (simp add: FPGA_REG_TLP_SEND_def)
  ultimately have wr: "fpga_write_reg hw (FPGA_REG_TLP_SEND + 16 + word_of_nat (4 * j)) ?v w =
      Inr (w\<lparr>fw_hw := hw_write hw ?r ?v (fw_hw w)\<rparr>)"
    using fpga_write_reg_mapped [OF Suc.prems(1)] by metis
  let ?w = "w\<lparr>fw_hw := hw_write hw ?r ?v (fw_hw w)\<rparr>"
  have rest: "write_payload hw (4 * Suc j) len data ?w =
      Inr (?w\<lparr>fw_hw := do_writes hw (drop (Suc j) (payload_writes (take len data))) (fw_hw ?w)\<rparr>)"
    using Suc j by (intro Suc.hyps(1)) auto
  have len: "length (payload_writes (take len data)) = min 16 ((len + 3) div 4)"
    using assms by (simp add: payload_writes_def)
  have nth: "payload_writes (take len data) ! j = (?r, ?v)"
    using j assms by (simp add: payload_writes_def)
  have "drop j (payload_writes (take len data)) =
      (?r, ?v) # drop (Suc j) (payload_writes (take len data))"
    using Cons_nth_drop_Suc [of j "payload_writes (take len data)"] j len nth by simp
  moreover have "4 * Suc j = 4 * j + 4" by simp
  ultimately show ?case
    using rest [unfolded \<open>4 * Suc j = 4 * j + 4\<close>] c rd wr by (subst write_payload.simps) (simp add: do_writes_def)
qed

lemma header_offsets:
  "reg_offset FPGA_REG_TLP_SEND = FPGA_REG_TLP_SEND"
  "FPGA_REG_TLP_SEND + 4 = FPGA_REG_TLP_STATUS" "reg_offset FPGA_REG_TLP_STATUS = FPGA_REG_TLP_STATUS"
  "FPGA_REG_TLP_SEND + 8 = FPGA_REG_TLP_RECV" "reg_offset FPGA_REG_TLP_RECV = FPGA_REG_TLP_RECV"
  "FPGA_REG_TLP_SEND + 12 = FPGA_REG_CONTROL" "reg_offset FPGA_REG_CONTROL = FPGA_REG_CONTROL"
  "FPGA_REG_TLP_SEND < FPGA_BAR_SIZE" "FPGA_REG_TLP_STATUS < FPGA_BAR_SIZE"
  "FPGA_REG_TLP_RECV < FPGA_BAR_SIZE" "FPGA_REG_CONTROL < FPGA_BAR_SIZE"
  by (simp_all add: fpga_regs_defs reg_offset_def)

lemma write_header_mapped:
  "fpga_regs w = RegsMapped \<Longrightarrow>
     write_header hw t w = Inr (w\<lparr>fw_hw := do_writes hw (header_writes t) (fw_hw w)\<rparr>)"
  by (simp add: write_header_def header_offsets fpga_write_reg_mapped do_writes_def header_writes_def)

text \<open>\<open>i\<close> polls of a status register that shows no readiness.\<close>

definition polled :: "'s fpga_hw \<Rightarrow> nat \<Rightarrow> 's \<Rightarrow> 's" where
  "polled hw i s = ((\<lambda>s. hw_usleep hw 1 (snd (hw_read hw FPGA_REG_TLP_STATUS s))) ^^ i) s"

definition ready_after :: "'s fpga_hw \<Rightarrow> nat \<Rightarrow> 's \<Rightarrow> bool" where
  "ready_after hw i s \<longleftrightarrow> fst (hw_read hw FPGA_REG_TLP_STATUS (polled hw i s)) AND STATUS_READY \<noteq> 0"

lemma polled_Suc: "polled hw (Suc i) s = polled hw i (hw_usleep hw 1 (snd (hw_read hw FPGA_REG_TLP_STATUS s)))"
  unfolding polled_def by (simp add: funpow_Suc_right del: funpow.simps)

lemma ready_after_0: "ready_after hw 0 s \<longleftrightarrow> fst (hw_read hw FPGA_REG_TLP_STATUS s) AND STATUS_READY \<noteq> 0"
  by (simp add: ready_after_def polled_def)

lemma ready_after_Suc:
  "ready_after hw (Suc i) s \<longleftrightarrow> ready_after hw i (hw_usleep hw 1 (snd (hw_read hw FPGA_REG_TLP_STATUS s)))"
  by (simp add: ready_after_def polled_Suc)

text \<open>The first poll that shows readiness.\<close>

definition first_ready :: "'s fpga_hw \<Rightarrow> nat \<Rightarrow> 's \<Rightarrow> bool" where
  "first_ready hw i s \<longleftrightarrow> ready_after hw i s \<and> (\<forall>j<i. \<not> ready_after hw j s)"

lemma first_ready_0: "first_ready hw 0 s \<longleftrightarrow> ready_after hw 0 s"
  by (simp add: first_ready_def)

lemma first_ready_Suc:
  "first_ready hw (Suc i) s \<longleftrightarrow>
     \<not> ready_after hw 0 s \<and> first_ready hw i (hw_usleep hw 1 (snd (hw_read hw FPGA_REG_TLP_STATUS s)))"
  by (auto simp: first_ready_def ready_after_Suc All_less_Suc2)

lemma wait_loop_polls:
  "fpga_regs w = RegsMapped \<Longrightarrow>
     (\<exists>i<n. first_ready hw i (fw_hw w) \<and>
        wait_loop n hw w =
          Inr (0, w\<lparr>fw_hw := snd (hw_read hw FPGA_REG_TLP_STATUS (polled hw i (fw_hw w)))\<rparr>)) \<or>
     (\<forall>i<n. \<not> ready_after hw i (fw_hw w)) \<and>
        wait_loop n hw w = Inr (-1, w\<lparr>fw_hw := polled hw n (fw_hw w)\<rparr>)"
proof (induction n arbitrary: w)
  case 0
  then show ?case by (simp add: polled_def)
next
  case (Suc n)
  obtain v s where r: "hw_read hw FPGA_REG_TLP_STATUS (fw_hw w) = (v, s)"
    by (cases "hw_read hw FPGA_REG_TLP_STATUS (fw_hw w)")
  have rd: "fpga_read_reg hw FPGA_REG_TLP_STATUS w = Inr (v, w\<lparr>fw_hw := s\<rparr>)"
    using Suc.prems r by (simp add: fpga_read_reg_def header_offsets)
  show ?case
  proof (cases "v AND STATUS_READY = 0")
    case False
    with rd r show ?thesis
      by (intro disjI1 exI [of _ 0]) (simp add: first_ready_0 ready_after_0 polled_def)
  next
    case True
    let ?w = "fpga_usleep hw 1 (w\<lparr>fw_hw := s\<rparr>)"
    have w: "fpga_regs ?w = RegsMapped" "fw_hw ?w = hw_usleep hw 1 s" "\<And>s'. ?w\<lparr>fw_hw := s'\<rparr> = w\<lparr>fw_hw := s'\<rparr>"
      using Suc.prems by (simp_all add: fpga_usleep_def)
    have no: "\<not> ready_after hw 0 (fw_hw w)" using True r by (simp add: ready_after_0)
    have step: "wait_loop (Suc n) hw w = wait_loop n hw ?w" using True rd by simp
    from Suc.IH [OF w(1)] show ?thesis
    proof (elim disjE exE conjE)
      fix i
      assume "i < n" "first_ready hw i (fw_hw ?w)"
        "wait_loop n hw ?w = Inr (0, ?w\<lparr>fw_hw := snd (hw_read hw FPGA_REG_TLP_STATUS (polled hw i (fw_hw ?w)))\<rparr>)"
      with no r w(2,3) step show ?thesis
        by (intro disjI1 exI [of _ "Suc i"]) (simp add: first_ready_Suc polled_Suc)
    next
      assume "\<forall>i<n. \<not> ready_after hw i (fw_hw ?w)"
        "wait_loop n hw ?w = Inr (-1, ?w\<lparr>fw_hw := polled hw n (fw_hw ?w)\<rparr>)"
      with no r w(2,3) step show ?thesis
        by (intro disjI2) (simp add: polled_Suc ready_after_Suc All_less_Suc2)
    qed
  qed
qed

section \<open>Properties\<close>

text \<open>
  What a packet looks like after the FPGA register format: requester, address and tag
  survive exactly, the length modulo 256, and the type byte is mixed with the upper byte of the
  length. The completer and the payload pointer are those of the receiver's packet.
\<close>

lemma fpga_register_format:
  "fpga_unpack (fpga_word0 t) (fpga_word1 t) (fpga_word2 t) (fpga_word3 t) t0 =
     t0\<lparr>tlp_type := (tlp_type t OR ucast (drop_bit 8 (tlp_length t))) AND 0xFF,
        tlp_length := tlp_length t AND 0xFF, requester_id := requester_id t,
        mem_addr := mem_addr t, tag := tag t\<rparr>"
  by (simp only: fpga_unpack_def word0_type word0_length word0_requester words_addr word3_tag)

text \<open>
  C28: The register writes of one packet, in order, once the FPGA is ready: the four header
  words go to the offsets of the SEND, STATUS, RECV and CONTROL registers, so the tag lands in
  the register whose bit 0 resets the FPGA, and then one word per four payload bytes, of which
  only the first 64 are written although the packet is reported as sent.
\<close>

theorem fpga_send_writes:
  assumes "fpga_regs w = RegsMapped" and "valid_tlp t"
    and "hw_read hw FPGA_REG_TLP_STATUS (fw_hw w) = (v, s)" and "v AND STATUS_READY \<noteq> 0"
  shows "fpga_send hw (Some t) w =
           Inr (0, Some t, w\<lparr>fw_hw := do_writes hw (header_writes t @ payload_writes (tlp_payload t)) s\<rparr>)"
proof -
  let ?w = "w\<lparr>fw_hw := s\<rparr>"
  have "1000000 = Suc 999999" by simp
  moreover have "fpga_read_reg hw FPGA_REG_TLP_STATUS w = Inr (v, ?w)"
    using assms(1,3) by (simp add: fpga_read_reg_def header_offsets)
  ultimately have ready: "fpga_wait_ready hw w = Inr (0, ?w)"
    using assms(4) unfolding fpga_wait_ready_def by (simp only: wait_loop.simps) simp
  have hdr: "write_header hw t ?w = Inr (?w\<lparr>fw_hw := do_writes hw (header_writes t) s\<rparr>)"
    using write_header_mapped [of ?w hw t] assms(1) by simp
  show ?thesis
  proof (cases "mem_data t = None \<or> tlp_length t = 0")
    case True
    then have "payload_writes (tlp_payload t) = []"
      by (auto simp: tlp_payload_def payload_writes_def split: option.splits)
    with True assms(1) ready hdr show ?thesis
      by (auto simp: fpga_send_def split: option.splits)
  next
    case False
    then obtain data where data: "mem_data t = Some data" "tlp_length t > 0"
      by (auto simp: word_neq_0_conv)
    with assms(2) have "unat (tlp_length t) \<le> length data" by (simp add: valid_tlp_Some)
    from write_payload_from [OF this, of "?w\<lparr>fw_hw := do_writes hw (header_writes t) s\<rparr>" 0 hw]
    show ?thesis
      using data assms(1) ready hdr
      by (simp add: fpga_send_def tlp_payload_def do_writes_append)
  qed
qed

text \<open>A FPGA that is always ready and logs the writes to its registers.\<close>

definition log_hw :: "(u32 \<times> u32) list fpga_hw" where
  "log_hw =
     \<lparr>hw_open = (\<lambda>s. (3, s)), hw_mmap = (\<lambda>s. (True, s)), hw_munmap = (\<lambda>s. s), hw_close = (\<lambda>s. s),
      hw_usleep = (\<lambda>n s. s), hw_malloc = (\<lambda>n s. (Some [], s)),
      hw_read = (\<lambda>r s. (STATUS_READY, s)), hw_write = (\<lambda>r v s. s @ [(r, v)])\<rparr>"

theorem fpga_send_writes_witness:
  "fpga_send log_hw (Some ((pcie_tlp_mem_write 0x2000 6 (Some [1, 2, 3, 4, 5, 6]))\<lparr>tag := 3\<rparr>))
     \<lparr>fpga_fd = 3, fpga_regs = RegsMapped, fw_hw = []\<rparr> =
   Inr (0, Some ((pcie_tlp_mem_write 0x2000 6 (Some [1, 2, 3, 4, 5, 6]))\<lparr>tag := 3\<rparr>),
        \<lparr>fpga_fd = 3, fpga_regs = RegsMapped,
         fw_hw = [(0, 0x01060000), (4, 0x2000), (8, 0), (0xC, 3), (0x10, 0x04030201), (0x14, 0x0605)]\<rparr>)"
proof -
  let ?t = "(pcie_tlp_mem_write 0x2000 6 (Some [1, 2, 3, 4, 5, 6]))\<lparr>tag := 3\<rparr>"
  let ?w = "\<lparr>fpga_fd = 3, fpga_regs = RegsMapped, fw_hw = []\<rparr> :: (u32 \<times> u32) list fpga_world"
  have "header_writes ?t = [(0, 0x01060000), (4, 0x2000), (8, 0), (0xC, 3)]"
    by (simp add: header_writes_def fpga_regs_defs fpga_word0_def fpga_word1_def fpga_word2_def
        fpga_word3_def pcie_tlp_mem_write_def tlp_zero_def)
  moreover have "payload_writes (tlp_payload ?t) = [(0x10, 0x04030201), (0x14, 0x0605)]"
    by (simp add: payload_writes_def tlp_payload_def pcie_tlp_mem_write_def tlp_zero_def upt_conv_Cons)
  moreover have "do_writes log_hw ws s = s @ ws" for ws s
    by (induction ws arbitrary: s) (auto simp: do_writes_def log_hw_def)
  moreover have "valid_tlp ?t" by (simp add: valid_tlp_def pcie_tlp_mem_write_def tlp_zero_def)
  ultimately show ?thesis
    using fpga_send_writes [of ?w ?t log_hw STATUS_READY "[]"]
    by (simp add: log_hw_def STATUS_READY_def)
qed

text \<open>
  C38: Waiting for the FPGA always ends: it succeeds exactly when one of the first million
  polls of the status register shows the ready bit, and then returns after the first such poll,
  without a further access or pause; otherwise it fails after exactly a million polls, each
  followed by a pause. Nothing but the hardware changes.
\<close>

theorem fpga_wait_ready_bounded:
  assumes "fpga_regs w = RegsMapped"
  shows "\<exists>rc s. fpga_wait_ready hw w = Inr (rc, w\<lparr>fw_hw := s\<rparr>) \<and>
           (rc = 0 \<longleftrightarrow> (\<exists>i<1000000. ready_after hw i (fw_hw w))) \<and>
           (rc = 0 \<longrightarrow> (\<exists>i<1000000. ready_after hw i (fw_hw w) \<and> (\<forall>j<i. \<not> ready_after hw j (fw_hw w)) \<and>
              s = snd (hw_read hw FPGA_REG_TLP_STATUS (polled hw i (fw_hw w))))) \<and>
           (rc \<noteq> 0 \<longrightarrow> rc = -1 \<and> s = polled hw 1000000 (fw_hw w))"
  using wait_loop_polls [OF assms, of 1000000 hw] unfolding fpga_wait_ready_def first_ready_def
  by (elim disjE exE conjE) fastforce+

text \<open>Hardware whose state counts the pauses, ready from the \<open>n\<close>-th on.\<close>

definition ready_at :: "nat \<Rightarrow> nat fpga_hw" where
  "ready_at n =
     \<lparr>hw_open = (\<lambda>s. (3, s)), hw_mmap = (\<lambda>s. (True, s)), hw_munmap = (\<lambda>s. s), hw_close = (\<lambda>s. s),
      hw_usleep = (\<lambda>us s. s + us), hw_malloc = (\<lambda>n s. (None, s)),
      hw_read = (\<lambda>r s. (if s \<ge> n then STATUS_READY else 0, s)), hw_write = (\<lambda>r v s. s)\<rparr>"

lemma polled_ready_at: "polled (ready_at n) i s = s + i"
  by (induction i) (simp_all add: polled_def ready_at_def)

theorem fpga_wait_ready_bounded_witness:
  "(let w = \<lparr>fpga_fd = 3, fpga_regs = RegsMapped, fw_hw = 0\<rparr> in
    fpga_wait_ready (ready_at 7) w = Inr (0, w\<lparr>fw_hw := 7\<rparr>) \<and>
    fpga_wait_ready (ready_at 999999) w = Inr (0, w\<lparr>fw_hw := 999999\<rparr>) \<and>
    fpga_wait_ready (ready_at 1000000) w = Inr (-1, w\<lparr>fw_hw := 1000000\<rparr>))"
proof -
  let ?w = "\<lparr>fpga_fd = 3, fpga_regs = RegsMapped, fw_hw = 0\<rparr> :: nat fpga_world"
  have ready: "ready_after (ready_at n) i 0 \<longleftrightarrow> n \<le> i" for n i
    unfolding ready_after_def polled_ready_at by (simp add: ready_at_def STATUS_READY_def)
  have read: "snd (hw_read (ready_at n) r s) = s" for n r s by (simp add: ready_at_def)
  have mapped: "fpga_regs ?w = RegsMapped" by simp
  have run: "fpga_wait_ready (ready_at n) ?w =
      (if n < 1000000 then Inr (0, ?w\<lparr>fw_hw := n\<rparr>) else Inr (-1, ?w\<lparr>fw_hw := 1000000\<rparr>))" for n
  proof -
    note b = fpga_wait_ready_bounded [OF mapped, of "ready_at n", unfolded fpga_world.select_convs
        ready polled_ready_at read add_0]
    from b obtain rc s where r: "fpga_wait_ready (ready_at n) ?w = Inr (rc, ?w\<lparr>fw_hw := s\<rparr>)"
      "rc = 0 \<longleftrightarrow> (\<exists>i<1000000. n \<le> i)" "rc = 0 \<longrightarrow> (\<exists>i<1000000. n \<le> i \<and> (\<forall>j<i. \<not> n \<le> j) \<and> s = i)"
      "rc \<noteq> 0 \<longrightarrow> rc = -1 \<and> s = 1000000"
      by (elim exE conjE) (rule that)
    show ?thesis
    proof (cases "n < 1000000")
      case True
      then have "rc = 0" using r(2) by blast
      with r(3) obtain i where "n \<le> i" "\<forall>j<i. \<not> n \<le> j" "s = i" by blast
      then have "s = n" using le_less [of n i] by blast
      with True r(1) \<open>rc = 0\<close> show ?thesis by simp
    next
      case False
      then have "rc \<noteq> 0" using r(2) le_less_trans by blast
      with r(1,4) False show ?thesis by simp
    qed
  qed
  show ?thesis by (simp add: run Let_def)
qed

end
