(* ===== verification/FpgaDriver.thy ===== *)
theory FpgaDriver
  imports Prelude
begin

text \<open>
  The simulated FPGA character device, the first driver of \<open>src/fpga_driver.c\<close> (lines 1 to
  210): a register file of 4 MB behind \<open>read\<close>, \<open>write\<close> and \<open>lseek\<close>, and two delayed work
  items that complete a transmission and make the device ready again.

  The registers are a byte string, a register is its little-endian 32-bit word. A work item is
  pending or not; scheduling a pending one changes nothing. A user buffer is the list of its
  accessible bytes; \<open>copy_from_user\<close> fills what it cannot copy with zeros. A file position is
  an integer: the range checks make the wrap of a 64-bit \<open>loff_t\<close> unobservable. The kernel
  services that can fail are the record \<open>kernel\<close>.
\<close>

section \<open>Registers and state\<close>

definition BAR_SIZE :: nat where "BAR_SIZE = 4 * 1024 * 1024"

definition REG_COMMAND :: nat where "REG_COMMAND = 0x0000"
definition REG_TLP_TYPE :: nat where "REG_TLP_TYPE = 0x0004"
definition REG_ADDRESS :: nat where "REG_ADDRESS = 0x0008"
definition REG_LENGTH :: nat where "REG_LENGTH = 0x000C"

definition CMD_SEND_TLP :: u32 where "CMD_SEND_TLP = 0x01"
definition CMD_RESET :: u32 where "CMD_RESET = 0x02"
definition DRV_READY :: u32 where "DRV_READY = 0x00"
definition DRV_BUSY :: u32 where "DRV_BUSY = 0x01"
definition DRV_COMPLETE :: u32 where "DRV_COMPLETE = 0x02"

lemmas drv_consts = REG_COMMAND_def REG_TLP_TYPE_def REG_ADDRESS_def REG_LENGTH_def
  CMD_SEND_TLP_def CMD_RESET_def DRV_READY_def DRV_BUSY_def DRV_COMPLETE_def

definition EINVAL :: int where "EINVAL = 22"
definition EFAULT :: int where "EFAULT = 14"
definition ENOMEM :: int where "ENOMEM = 12"

record drv =
  d_regs :: "u8 list"
  complete_pending :: bool
  ready_pending :: bool

definition drv_reg :: "nat \<Rightarrow> drv \<Rightarrow> u32" where
  "drv_reg off d = word_of_nat (le_val (field (d_regs d) off 4))"

definition set_drv_reg :: "nat \<Rightarrow> u32 \<Rightarrow> drv \<Rightarrow> drv c_res" where
  "set_drv_reg off v d =
     cbind (mem_write (d_regs d) off (le_bytes 4 (unat v))) (\<lambda>regs. Inr (d\<lparr>d_regs := regs\<rparr>))"

section \<open>File operations\<close>

text \<open>The copy and the number of bytes not copied.\<close>

definition copy_from_user :: "u8 list \<Rightarrow> nat \<Rightarrow> u8 list \<times> nat" where
  "copy_from_user buf n = (take n buf @ replicate (n - length buf) 0, n - length buf)"

definition in_file :: "int \<Rightarrow> nat c_res" where
  "in_file pos = (if pos < 0 then Inl OutOfBounds else Inr (nat pos))"

text \<open>\<open>can_copy\<close>: the user's buffer takes all bytes. The result, the bytes and the position.\<close>

definition drv_read :: "bool \<Rightarrow> nat \<Rightarrow> int \<Rightarrow> drv \<Rightarrow> (int \<times> u8 list \<times> int) c_res" where
  "drv_read can_copy count pos d =
     (if pos \<ge> int BAR_SIZE then Inr (0, [], pos)
      else let to_read = min count (nat (int BAR_SIZE - pos)) in
           cbind (in_file pos) (\<lambda>p.
           cbind (mem_read (drop p (d_regs d)) to_read) (\<lambda>bytes.
             if \<not> can_copy then Inr (- EFAULT, [], pos)
             else Inr (int to_read, bytes, pos + int to_read))))"

text \<open>The command register after a write that touched it.\<close>

definition drv_command :: "drv \<Rightarrow> drv c_res" where
  "drv_command d =
     (let cmd = drv_reg REG_COMMAND d in
      if cmd = CMD_SEND_TLP
      then cbind (set_drv_reg REG_COMMAND DRV_BUSY d) (\<lambda>d'. Inr (d'\<lparr>complete_pending := True\<rparr>))
      else if cmd = CMD_RESET
      then set_drv_reg REG_COMMAND DRV_READY (d\<lparr>d_regs := replicate BAR_SIZE 0\<rparr>)
      else Inr d)"

definition drv_write :: "u8 list \<Rightarrow> nat \<Rightarrow> int \<Rightarrow> drv \<Rightarrow> (int \<times> int \<times> drv) c_res" where
  "drv_write buf count pos d =
     (if pos \<ge> int BAR_SIZE then Inr (- EINVAL, pos, d)
      else let to_write = min count (nat (int BAR_SIZE - pos)) in
           cbind (in_file pos) (\<lambda>p.
           case copy_from_user buf to_write of (bytes, left) \<Rightarrow>
           cbind (mem_write (d_regs d) p bytes) (\<lambda>regs.
             if left \<noteq> 0 then Inr (- EFAULT, pos, d\<lparr>d_regs := regs\<rparr>)
             else cbind (if pos \<le> int REG_COMMAND \<and> pos + int to_write > int REG_COMMAND
                         then drv_command (d\<lparr>d_regs := regs\<rparr>)
                         else Inr (d\<lparr>d_regs := regs\<rparr>))
                    (\<lambda>d'. Inr (int to_write, pos + int to_write, d')))))"

datatype whence = SEEK_SET | SEEK_CUR | SEEK_END | SEEK_OTHER

text \<open>The result and the file position.\<close>

definition drv_llseek :: "int \<Rightarrow> whence \<Rightarrow> int \<Rightarrow> int \<times> int" where
  "drv_llseek off wh f_pos =
     (let new = (case wh of
                   SEEK_SET \<Rightarrow> Some off
                 | SEEK_CUR \<Rightarrow> Some (f_pos + off)
                 | SEEK_END \<Rightarrow> Some (int BAR_SIZE + off)
                 | SEEK_OTHER \<Rightarrow> None)
      in case new of
           None \<Rightarrow> (- EINVAL, f_pos)
         | Some p \<Rightarrow> if p < 0 \<or> p > int BAR_SIZE then (- EINVAL, f_pos) else (p, p))"

section \<open>Delayed work\<close>

definition tlp_complete_work :: "drv \<Rightarrow> drv c_res" where
  "tlp_complete_work d =
     cbind (set_drv_reg REG_COMMAND DRV_COMPLETE d) (\<lambda>d'. Inr (d'\<lparr>ready_pending := True\<rparr>))"

definition tlp_ready_work :: "drv \<Rightarrow> drv c_res" where
  "tlp_ready_work d = set_drv_reg REG_COMMAND DRV_READY d"

section \<open>Loading and unloading\<close>

text \<open>What the kernel answers: \<open>Some\<close> of an error code for a call that fails.\<close>

record kernel =
  k_zalloc :: bool
  k_chrdev :: int
  k_class :: "int option"
  k_device :: "int option"

text \<open>What the module holds: memory, the device number, the class and the device.\<close>

record module =
  m_regs :: "drv option"
  m_chrdev :: bool
  m_class :: bool
  m_device :: bool

definition module_free :: module where
  "module_free = \<lparr>m_regs = None, m_chrdev = False, m_class = False, m_device = False\<rparr>"

definition drv_zeroed :: drv where
  "drv_zeroed = \<lparr>d_regs = replicate BAR_SIZE 0, complete_pending = False, ready_pending = False\<rparr>"

definition drv_init :: "kernel \<Rightarrow> module \<Rightarrow> (int \<times> module) c_res" where
  "drv_init k m =
     (if \<not> k_zalloc k then Inr (- ENOMEM, m\<lparr>m_regs := None\<rparr>)
      else cbind (set_drv_reg REG_COMMAND DRV_READY drv_zeroed) (\<lambda>d.
        if k_chrdev k < 0 then Inr (k_chrdev k, m\<lparr>m_regs := None\<rparr>)
        else let m1 = m\<lparr>m_regs := Some d, m_chrdev := True\<rparr> in
        (case k_class k of
           Some e \<Rightarrow> Inr (e, m1\<lparr>m_chrdev := False, m_regs := None\<rparr>)
         | None \<Rightarrow>
             let m2 = m1\<lparr>m_class := True\<rparr> in
             (case k_device k of
                Some e \<Rightarrow> Inr (e, m2\<lparr>m_class := False, m_chrdev := False, m_regs := None\<rparr>)
              | None \<Rightarrow> Inr (0, m2\<lparr>m_device := True\<rparr>)))))"

text \<open>The pending work is cancelled before the memory it writes to is freed.\<close>

definition drv_exit :: "module \<Rightarrow> module" where
  "drv_exit m =
     (let m = m\<lparr>m_regs := map_option (\<lambda>d. d\<lparr>complete_pending := False\<rparr>) (m_regs m)\<rparr>;
          m = m\<lparr>m_regs := map_option (\<lambda>d. d\<lparr>ready_pending := False\<rparr>) (m_regs m)\<rparr>;
          m = m\<lparr>m_device := False\<rparr>;
          m = m\<lparr>m_class := False\<rparr>;
          m = m\<lparr>m_chrdev := False\<rparr>
      in m\<lparr>m_regs := None\<rparr>)"

section \<open>Steps\<close>

text \<open>
  What can happen to the loaded device: a write at any position a file can have, or a work
  item that is due. Reading and seeking leave the device alone.
\<close>

inductive work_step :: "drv \<Rightarrow> drv \<Rightarrow> bool" where
  complete:
    "\<lbrakk>complete_pending d; tlp_complete_work (d\<lparr>complete_pending := False\<rparr>) = Inr d'\<rbrakk> \<Longrightarrow>
       work_step d d'"
| ready:
    "\<lbrakk>ready_pending d; tlp_ready_work (d\<lparr>ready_pending := False\<rparr>) = Inr d'\<rbrakk> \<Longrightarrow> work_step d d'"

inductive drv_step :: "drv \<Rightarrow> drv \<Rightarrow> bool" where
  worked: "work_step d d' \<Longrightarrow> drv_step d d'"
| written:
    "\<lbrakk>0 \<le> pos; drv_write buf count pos d = Inr (rc, pos', d')\<rbrakk> \<Longrightarrow> drv_step d d'"

inductive drv_reachable :: "drv \<Rightarrow> bool" where
  loaded: "drv_init k module_free = Inr (0, m) \<Longrightarrow> m_regs m = Some d \<Longrightarrow> drv_reachable d"
| stepped: "drv_reachable d \<Longrightarrow> drv_step d d' \<Longrightarrow> drv_reachable d'"

inductive_cases work_stepE: "work_step d d'"
inductive_cases drv_stepE: "drv_step d d'"

section \<open>Every access stays inside the register file\<close>

definition drv_inv :: "drv \<Rightarrow> bool" where
  "drv_inv d \<longleftrightarrow> length (d_regs d) = BAR_SIZE"

lemma bar_4: "4 \<le> BAR_SIZE" "0 < BAR_SIZE"
  by (simp_all add: BAR_SIZE_def)

lemma set_drv_reg_ok:
  assumes "drv_inv d"
  shows "\<exists>regs. set_drv_reg REG_COMMAND v d = Inr (d\<lparr>d_regs := regs\<rparr>) \<and> length regs = BAR_SIZE \<and>
           take 4 regs = le_bytes 4 (unat v) \<and> drop 4 regs = drop 4 (d_regs d)"
  using assms bar_4(1)
  by (intro exI [of _ "le_bytes 4 (unat v) @ drop 4 (d_regs d)"])
    (simp add: set_drv_reg_def REG_COMMAND_def mem_write_def drv_inv_def)

lemma drv_reg_command: "drv_reg REG_COMMAND d = word_of_nat (le_val (take 4 (d_regs d)))"
  by (simp add: drv_reg_def REG_COMMAND_def field_def)

lemma drv_command_ok:
  assumes "drv_inv d"
  shows "\<exists>d'. drv_command d = Inr d' \<and> drv_inv d'"
proof -
  have "drv_inv (d\<lparr>d_regs := replicate BAR_SIZE 0\<rparr>)" by (simp add: drv_inv_def)
  with set_drv_reg_ok [OF this, of DRV_READY] set_drv_reg_ok [OF assms, of DRV_BUSY] assms
  show ?thesis by (auto simp: drv_command_def drv_inv_def Let_def)
qed

lemma length_copy [simp]: "length (fst (copy_from_user buf n)) = n"
  by (simp add: copy_from_user_def)

lemma drv_write_ok:
  assumes "drv_inv d" and "0 \<le> pos"
  shows "\<exists>rc pos' d'. drv_write buf count pos d = Inr (rc, pos', d') \<and> drv_inv d' \<and> 0 \<le> pos'"
proof (cases "pos \<ge> int BAR_SIZE")
  case True
  with assms show ?thesis by (simp add: drv_write_def)
next
  case False
  let ?n = "min count (nat (int BAR_SIZE - pos))"
  obtain bytes left where copy: "copy_from_user buf ?n = (bytes, left)" by (cases "copy_from_user buf ?n")
  then have len: "length bytes = ?n" using length_copy [of buf ?n] by simp
  have fits: "nat pos + ?n \<le> BAR_SIZE" using False assms(2) by linarith
  let ?regs = "take (nat pos) (d_regs d) @ bytes @ drop (nat pos + ?n) (d_regs d)"
  have w: "mem_write (d_regs d) (nat pos) bytes = Inr ?regs"
    using fits assms(1) len by (simp add: mem_write_def drv_inv_def)
  have inv: "drv_inv (d\<lparr>d_regs := ?regs\<rparr>)" using fits assms(1) len by (simp add: drv_inv_def)
  from drv_command_ok [OF inv] w copy False assms(2) inv show ?thesis
    by (auto simp: drv_write_def in_file_def Let_def)
qed

lemma drv_read_ok:
  assumes "drv_inv d" and "0 \<le> pos"
  shows "\<exists>rc bytes pos'. drv_read ok count pos d = Inr (rc, bytes, pos')"
  using assms
  by (auto simp: drv_read_def in_file_def mem_read_def drv_inv_def Let_def)

lemma work_ok:
  assumes "drv_inv d"
  shows "\<exists>d'. tlp_complete_work d = Inr d' \<and> drv_inv d'" "\<exists>d'. tlp_ready_work d = Inr d' \<and> drv_inv d'"
  using set_drv_reg_ok [OF assms, of DRV_COMPLETE] set_drv_reg_ok [OF assms, of DRV_READY]
  by (auto simp: tlp_complete_work_def tlp_ready_work_def drv_inv_def)

lemma work_step_inv: "work_step d d' \<Longrightarrow> drv_inv d \<Longrightarrow> drv_inv d'"
proof (erule work_stepE)
  assume "drv_inv d" "tlp_complete_work (d\<lparr>complete_pending := False\<rparr>) = Inr d'"
  with work_ok(1) [of "d\<lparr>complete_pending := False\<rparr>"] show "drv_inv d'" by (simp add: drv_inv_def)
next
  assume "drv_inv d" "tlp_ready_work (d\<lparr>ready_pending := False\<rparr>) = Inr d'"
  with work_ok(2) [of "d\<lparr>ready_pending := False\<rparr>"] show "drv_inv d'" by (simp add: drv_inv_def)
qed

lemma drv_write_inv:
  "drv_write buf count pos d = Inr (rc, pos', d') \<Longrightarrow> 0 \<le> pos \<Longrightarrow> drv_inv d \<Longrightarrow> drv_inv d'"
  using drv_write_ok [of d pos buf count] by auto

lemma drv_step_inv: "drv_step d d' \<Longrightarrow> drv_inv d \<Longrightarrow> drv_inv d'"
  by (erule drv_stepE) (blast intro: work_step_inv drv_write_inv)+

lemma drv_zeroed_init:
  "\<exists>d. set_drv_reg REG_COMMAND DRV_READY drv_zeroed = Inr d \<and> drv_inv d"
  using set_drv_reg_ok [of drv_zeroed DRV_READY] by (auto simp: drv_inv_def drv_zeroed_def)

lemma drv_init_inv: "drv_init k m = Inr (0, m') \<Longrightarrow> m_regs m' = Some d \<Longrightarrow> drv_inv d"
  using drv_zeroed_init
  by (auto simp: drv_init_def Let_def split: if_splits option.splits)

lemma drv_reachable_inv: "drv_reachable d \<Longrightarrow> drv_inv d"
  by (induction rule: drv_reachable.induct) (auto intro: drv_init_inv drv_step_inv)

text \<open>A module that failed to load holds nothing; unloading gives everything back.\<close>

lemma drv_init_releases:
  "drv_init k module_free = Inr (rc, m) \<Longrightarrow> \<not> m_device m \<Longrightarrow> m = module_free"
  using drv_zeroed_init
  by (auto simp: drv_init_def module_free_def Let_def split: if_splits option.splits)

lemma drv_exit_releases: "drv_exit m = module_free"
  by (cases m) (simp add: drv_exit_def module_free_def Let_def)

section \<open>A transmission\<close>

text \<open>The command register and the work due.\<close>

definition send_phase :: "u32 \<Rightarrow> bool \<Rightarrow> bool \<Rightarrow> drv \<Rightarrow> bool" where
  "send_phase command completing returning d \<longleftrightarrow>
     drv_reg REG_COMMAND d = command \<and> complete_pending d = completing \<and> ready_pending d = returning"

lemma complete_work_phase:
  assumes "drv_inv d"
  shows "\<exists>d'. tlp_complete_work d = Inr d' \<and> drv_inv d' \<and> drv_reg REG_COMMAND d' = DRV_COMPLETE \<and>
    complete_pending d' = complete_pending d \<and> ready_pending d' \<and> drop 4 (d_regs d') = drop 4 (d_regs d)"
  using set_drv_reg_ok [OF assms, of DRV_COMPLETE]
  by (auto simp: tlp_complete_work_def drv_inv_def drv_reg_command)

lemma ready_work_phase:
  assumes "drv_inv d"
  shows "\<exists>d'. tlp_ready_work d = Inr d' \<and> drv_inv d' \<and> drv_reg REG_COMMAND d' = DRV_READY \<and>
    complete_pending d' = complete_pending d \<and> ready_pending d' = ready_pending d \<and>
    drop 4 (d_regs d') = drop 4 (d_regs d)"
  using set_drv_reg_ok [OF assms, of DRV_READY]
  by (auto simp: tlp_ready_work_def drv_inv_def drv_reg_command)

text \<open>The only step when one work item is due.\<close>

lemma step_completing:
  assumes "drv_inv d" and "complete_pending d" "\<not> ready_pending d"
  shows "\<exists>d'. (\<forall>e. work_step d e \<longleftrightarrow> e = d') \<and> drv_inv d' \<and> send_phase DRV_COMPLETE False True d' \<and>
    drop 4 (d_regs d') = drop 4 (d_regs d)"
proof -
  have "drv_inv (d\<lparr>complete_pending := False\<rparr>)" using assms(1) by (simp add: drv_inv_def)
  from complete_work_phase [OF this] assms(2,3) show ?thesis
    by (auto simp: work_step.simps send_phase_def)
qed

lemma step_returning:
  assumes "drv_inv d" and "\<not> complete_pending d" "ready_pending d"
  shows "\<exists>d'. (\<forall>e. work_step d e \<longleftrightarrow> e = d') \<and> drv_inv d' \<and> send_phase DRV_READY False False d' \<and>
    drop 4 (d_regs d') = drop 4 (d_regs d)"
proof -
  have "drv_inv (d\<lparr>ready_pending := False\<rparr>)" using assms(1) by (simp add: drv_inv_def)
  from ready_work_phase [OF this] assms(2,3) show ?thesis
    by (auto simp: work_step.simps send_phase_def)
qed

lemma step_none: "\<not> complete_pending d \<Longrightarrow> \<not> ready_pending d \<Longrightarrow> \<not> work_step d e"
  by (simp add: work_step.simps)

text \<open>The write of a request that begins with the send command.\<close>

lemma drv_send_ok:
  assumes "drv_inv d"
    and "take 4 buf = le_bytes 4 1" and "4 \<le> count" "count \<le> length buf" "count \<le> BAR_SIZE"
  shows "\<exists>d'. drv_write buf count 0 d = Inr (int count, int count, d') \<and> drv_inv d' \<and>
           drv_reg REG_COMMAND d' = DRV_BUSY \<and> complete_pending d' \<and> ready_pending d' = ready_pending d \<and>
           drop 4 (d_regs d') = drop 4 (take count buf @ drop count (d_regs d))"
proof -
  let ?d = "d\<lparr>d_regs := take count buf @ drop count (d_regs d)\<rparr>"
  have inv: "drv_inv ?d" using assms by (simp add: drv_inv_def)
  have cmd: "drv_reg REG_COMMAND ?d = CMD_SEND_TLP"
    using assms by (simp add: drv_reg_command CMD_SEND_TLP_def le_val_le_bytes min_def)
  obtain regs where regs: "set_drv_reg REG_COMMAND DRV_BUSY ?d = Inr (?d\<lparr>d_regs := regs\<rparr>)"
    "length regs = BAR_SIZE" "take 4 regs = le_bytes 4 (unat DRV_BUSY)"
    "drop 4 regs = drop 4 (d_regs ?d)"
    using set_drv_reg_ok [OF inv] by blast
  have "drv_command ?d = Inr (?d\<lparr>d_regs := regs, complete_pending := True\<rparr>)"
    by (simp only: drv_command_def cmd regs(1) Let_def if_True cbind.simps) simp
  moreover have "mem_write (d_regs d) 0 (take count buf) = Inr (d_regs ?d)"
    using assms by (simp add: mem_write_def drv_inv_def)
  moreover have "copy_from_user buf count = (take count buf, 0)"
    using assms by (simp add: copy_from_user_def)
  moreover have "min count (nat (int BAR_SIZE - 0)) = count" "0 < BAR_SIZE"
    using assms bar_4 by auto
  ultimately show ?thesis
    using regs assms(3)
    by (auto simp: drv_write_def in_file_def REG_COMMAND_def drv_reg_command [unfolded REG_COMMAND_def]
        drv_inv_def Let_def)
qed

text \<open>
  Without that assumption the return to ready of the transmission before comes too early: the
  device shows ready while the next transmission is still to be completed.
\<close>

lemma drv_early_ready:
  assumes "drv_inv d0" and "ready_pending d0"
    and buf: "take 4 buf = le_bytes 4 1" "4 \<le> count" "count \<le> length buf" "count \<le> BAR_SIZE"
  shows "\<exists>d d'. drv_write buf count 0 d0 = Inr (int count, int count, d) \<and> work_step d d' \<and>
           drv_reg REG_COMMAND d' = DRV_READY \<and> complete_pending d'"
proof -
  obtain d where d: "drv_write buf count 0 d0 = Inr (int count, int count, d)" "drv_inv d"
    "complete_pending d" "ready_pending d"
    using drv_send_ok [OF assms(1) buf] assms(2) by blast
  have "drv_inv (d\<lparr>ready_pending := False\<rparr>)" using d(2) by (simp add: drv_inv_def)
  from ready_work_phase [OF this] obtain d' where
    "tlp_ready_work (d\<lparr>ready_pending := False\<rparr>) = Inr d'" "drv_reg REG_COMMAND d' = DRV_READY"
    "complete_pending d'" using d(3) by auto
  with d(1,4) show ?thesis by (blast intro: work_step.ready)
qed

text \<open>
  C14: The driver's state machine, from any reachable state in which no return to ready is due.
  A write at the start of the register file that begins with the send command is taken in full
  and makes the device busy. From there the work that is due has exactly one course: the first
  step shows the completed transmission, the second the ready device, and then nothing is due.
  The registers behind the command keep what was written all the time.
\<close>

theorem fpga_driver_send_cycle:
  assumes "drv_reachable d" and "\<not> ready_pending d"
    and "take 4 buf = le_bytes 4 1" and "4 \<le> count" "count \<le> length buf" "count \<le> BAR_SIZE"
  shows "\<exists>d1 d2 d3. drv_write buf count 0 d = Inr (int count, int count, d1) \<and>
           send_phase DRV_BUSY True False d1 \<and>
           (\<forall>e. work_step d1 e \<longleftrightarrow> e = d2) \<and> send_phase DRV_COMPLETE False True d2 \<and>
           (\<forall>e. work_step d2 e \<longleftrightarrow> e = d3) \<and> send_phase DRV_READY False False d3 \<and>
           (\<forall>e. \<not> work_step d3 e) \<and>
           (\<forall>e \<in> {d1, d2, d3}. drop 4 (d_regs e) = drop 4 (take count buf @ drop count (d_regs d)))"
proof -
  obtain d1 where d1: "drv_write buf count 0 d = Inr (int count, int count, d1)" "drv_inv d1"
    "drv_reg REG_COMMAND d1 = DRV_BUSY" "complete_pending d1" "\<not> ready_pending d1"
    "drop 4 (d_regs d1) = drop 4 (take count buf @ drop count (d_regs d))"
    using drv_send_ok [OF drv_reachable_inv [OF assms(1)] assms(3-6)] assms(2) by blast
  obtain d2 where d2: "\<forall>e. work_step d1 e \<longleftrightarrow> e = d2" "drv_inv d2" "send_phase DRV_COMPLETE False True d2"
    "drop 4 (d_regs d2) = drop 4 (d_regs d1)"
    using step_completing [OF d1(2,4,5)] by blast
  obtain d3 where d3: "\<forall>e. work_step d2 e \<longleftrightarrow> e = d3" "send_phase DRV_READY False False d3"
    "drop 4 (d_regs d3) = drop 4 (d_regs d2)"
    using step_returning [OF d2(2)] d2(3) by (auto simp: send_phase_def)
  have "\<forall>e. \<not> work_step d3 e" using d3(2) by (simp add: send_phase_def step_none)
  with d1 d2 d3 show ?thesis
    by (intro exI [of _ d1] exI [of _ d2] exI [of _ d3]) (simp add: send_phase_def)
qed

theorem fpga_driver_send_cycle_witness:
  "\<exists>d0 d1. drv_reachable d0 \<and> drv_write (le_bytes 4 1 @ [1, 0, 0, 0]) 8 0 d0 = Inr (8, 8, d1) \<and>
     (\<exists>d2 d3. work_step d1 d2 \<and> drv_reg REG_COMMAND d2 = DRV_COMPLETE \<and>
        work_step d2 d3 \<and> drv_reg REG_COMMAND d3 = DRV_READY)"
proof -
  obtain d0 where d0: "set_drv_reg REG_COMMAND DRV_READY drv_zeroed = Inr d0"
    using drv_zeroed_init by blast
  then have "drv_init \<lparr>k_zalloc = True, k_chrdev = 240, k_class = None, k_device = None\<rparr> module_free =
      Inr (0, module_free\<lparr>m_regs := Some d0, m_chrdev := True, m_class := True, m_device := True\<rparr>)"
    by (simp add: drv_init_def Let_def)
  then have "drv_reachable d0" by (rule drv_reachable.loaded) simp
  moreover have "\<not> ready_pending d0"
    using d0 by (auto simp: set_drv_reg_def mem_write_def drv_zeroed_def split: if_splits)
  ultimately show ?thesis
    using fpga_driver_send_cycle [of d0 "le_bytes 4 1 @ [1, 0, 0, 0]" 8]
    by (auto simp: BAR_SIZE_def send_phase_def)
qed

end
