(* ===== verification/FpgaCtrlDriver.thy ===== *)
theory FpgaCtrlDriver
  imports FpgaDriver
begin

text \<open>
  The second driver of \<open>src/fpga_driver.c\<close> (from line 213), a register file with a control and a
  status register. It redefines the functions of the first driver and uses offsets and bit masks
  that nothing in the repository declares: these are a parameter, the record \<open>ctrl_layout\<close>. The
  conventions are those of \<open>FpgaDriver\<close>; log messages are left out.
\<close>

section \<open>Registers and state\<close>

record ctrl_layout =
  l_ctrl :: nat
  l_status :: nat
  l_data :: nat
  l_send :: u32
  l_reset :: u32
  l_busy :: u32
  l_complete :: u32

text \<open>The registers are inside the BAR.\<close>

definition layout_ok :: "ctrl_layout \<Rightarrow> bool" where
  "layout_ok L \<longleftrightarrow> l_ctrl L < BAR_SIZE \<and> l_status L < BAR_SIZE"

record ctrl_drv =
  c_regs :: "u8 list"
  c_pending :: bool

text \<open>\<open>fpga_regs[off / 4]\<close>.\<close>

definition ctrl_reg :: "nat \<Rightarrow> ctrl_drv \<Rightarrow> u32" where
  "ctrl_reg off d = word_of_nat (le_val (field (c_regs d) (4 * (off div 4)) 4))"

definition set_ctrl_reg :: "nat \<Rightarrow> u32 \<Rightarrow> ctrl_drv \<Rightarrow> ctrl_drv c_res" where
  "set_ctrl_reg off v d =
     cbind (mem_write (c_regs d) (4 * (off div 4)) (le_bytes 4 (unat v))) (\<lambda>regs. Inr (d\<lparr>c_regs := regs\<rparr>))"

section \<open>File operations\<close>

definition ctrl_read :: "bool \<Rightarrow> nat \<Rightarrow> int \<Rightarrow> ctrl_drv \<Rightarrow> (int \<times> u8 list \<times> int) c_res" where
  "ctrl_read can_copy count pos d =
     (if pos \<ge> int BAR_SIZE then Inr (0, [], pos)
      else let to_read = min count (nat (int BAR_SIZE - pos)) in
           cbind (in_file pos) (\<lambda>p.
           cbind (mem_read (drop p (c_regs d)) to_read) (\<lambda>bytes.
             if \<not> can_copy then Inr (- EFAULT, [], pos)
             else Inr (int to_read, bytes, pos + int to_read))))"

text \<open>The control register after a write that touched it: a send, a reset, both or neither.\<close>

definition ctrl_send :: "ctrl_layout \<Rightarrow> ctrl_drv \<Rightarrow> ctrl_drv c_res" where
  "ctrl_send L d =
     cbind (set_ctrl_reg (l_status L) (ctrl_reg (l_status L) d OR l_busy L) d) (\<lambda>d.
     cbind (set_ctrl_reg (l_status L) (ctrl_reg (l_status L) d AND NOT (l_complete L)) d) (\<lambda>d.
     Inr (d\<lparr>c_pending := True\<rparr>)))"

definition ctrl_command :: "ctrl_layout \<Rightarrow> ctrl_drv \<Rightarrow> ctrl_drv c_res" where
  "ctrl_command L d =
     (let ctrl = ctrl_reg (l_ctrl L) d in
      cbind (if ctrl AND l_send L \<noteq> 0 then ctrl_send L d else Inr d) (\<lambda>d.
      Inr (if ctrl AND l_reset L \<noteq> 0 then d\<lparr>c_regs := replicate BAR_SIZE 0\<rparr> else d)))"

definition ctrl_write :: "ctrl_layout \<Rightarrow> u8 list \<Rightarrow> nat \<Rightarrow> int \<Rightarrow> ctrl_drv \<Rightarrow> (int \<times> int \<times> ctrl_drv) c_res" where
  "ctrl_write L buf count pos d =
     (if pos \<ge> int BAR_SIZE then Inr (- EINVAL, pos, d)
      else let to_write = min count (nat (int BAR_SIZE - pos)) in
           cbind (in_file pos) (\<lambda>p.
           case copy_from_user buf to_write of (bytes, left) \<Rightarrow>
           cbind (mem_write (c_regs d) p bytes) (\<lambda>regs.
             if left \<noteq> 0 then Inr (- EFAULT, pos, d\<lparr>c_regs := regs\<rparr>)
             else cbind (if pos \<le> int (l_ctrl L) \<and> pos + int to_write > int (l_ctrl L)
                         then ctrl_command L (d\<lparr>c_regs := regs\<rparr>)
                         else Inr (d\<lparr>c_regs := regs\<rparr>))
                    (\<lambda>d'. Inr (int to_write, pos + int to_write, d')))))"

definition ctrl_llseek :: "int \<Rightarrow> whence \<Rightarrow> int \<Rightarrow> int \<times> int" where
  "ctrl_llseek off wh f_pos =
     (let new = (case wh of
                   SEEK_SET \<Rightarrow> Some off
                 | SEEK_CUR \<Rightarrow> Some (f_pos + off)
                 | SEEK_END \<Rightarrow> Some (int BAR_SIZE + off)
                 | SEEK_OTHER \<Rightarrow> None)
      in case new of
           None \<Rightarrow> (- EINVAL, f_pos)
         | Some p \<Rightarrow> if p < 0 \<or> p > int BAR_SIZE then (- EINVAL, f_pos) else (p, p))"

section \<open>Delayed work\<close>

definition complete_tlp_work :: "ctrl_layout \<Rightarrow> ctrl_drv \<Rightarrow> ctrl_drv c_res" where
  "complete_tlp_work L d =
     cbind (set_ctrl_reg (l_status L) (ctrl_reg (l_status L) d AND NOT (l_busy L)) d) (\<lambda>d.
     set_ctrl_reg (l_status L) (ctrl_reg (l_status L) d OR l_complete L) d)"

section \<open>Loading and unloading\<close>

text \<open>\<open>cm_data\<close> is \<open>fpga_data_buf\<close>, as an offset into the memory.\<close>

record ctrl_module =
  cm_regs :: "ctrl_drv option"
  cm_data :: "nat option"
  cm_chrdev :: bool
  cm_class :: bool
  cm_device :: bool

definition ctrl_module_free :: ctrl_module where
  "ctrl_module_free = \<lparr>cm_regs = None, cm_data = None, cm_chrdev = False, cm_class = False, cm_device = False\<rparr>"

definition ctrl_zeroed :: ctrl_drv where
  "ctrl_zeroed = \<lparr>c_regs = replicate BAR_SIZE 0, c_pending = False\<rparr>"

definition ctrl_init :: "ctrl_layout \<Rightarrow> kernel \<Rightarrow> ctrl_module \<Rightarrow> int \<times> ctrl_module" where
  "ctrl_init L k m =
     (if \<not> k_zalloc k then (- ENOMEM, m\<lparr>cm_regs := None\<rparr>)
      else let m0 = m\<lparr>cm_data := Some (l_data L)\<rparr> in
           if k_chrdev k < 0 then (k_chrdev k, m0\<lparr>cm_regs := None\<rparr>)
           else let m1 = m0\<lparr>cm_regs := Some ctrl_zeroed, cm_chrdev := True\<rparr> in
             (case k_class k of
                Some e \<Rightarrow> (e, m1\<lparr>cm_chrdev := False, cm_regs := None\<rparr>)
              | None \<Rightarrow>
                  let m2 = m1\<lparr>cm_class := True\<rparr> in
                  (case k_device k of
                     Some e \<Rightarrow> (e, m2\<lparr>cm_class := False, cm_chrdev := False, cm_regs := None\<rparr>)
                   | None \<Rightarrow> (0, m2\<lparr>cm_device := True\<rparr>))))"

definition ctrl_exit :: "ctrl_module \<Rightarrow> ctrl_module" where
  "ctrl_exit m =
     (let m = m\<lparr>cm_regs := map_option (\<lambda>d. d\<lparr>c_pending := False\<rparr>) (cm_regs m)\<rparr>;
          m = m\<lparr>cm_device := False\<rparr>;
          m = m\<lparr>cm_class := False\<rparr>;
          m = m\<lparr>cm_chrdev := False\<rparr>
      in m\<lparr>cm_regs := None\<rparr>)"

section \<open>Every access stays inside the register file\<close>

definition ctrl_inv :: "ctrl_drv \<Rightarrow> bool" where
  "ctrl_inv d \<longleftrightarrow> length (c_regs d) = BAR_SIZE"

lemma reg_in_bar: "off < BAR_SIZE \<Longrightarrow> 4 * (off div 4) + 4 \<le> BAR_SIZE"
  by (simp add: BAR_SIZE_def)

lemma set_ctrl_reg_ok:
  assumes "ctrl_inv d" and "off < BAR_SIZE"
  shows "\<exists>d'. set_ctrl_reg off v d = Inr d' \<and> ctrl_inv d' \<and> ctrl_reg off d' = v \<and> c_pending d' = c_pending d"
proof -
  let ?k = "4 * (off div 4)"
  let ?regs = "take ?k (c_regs d) @ le_bytes 4 (unat v) @ drop (?k + 4) (c_regs d)"
  have k: "?k + 4 \<le> length (c_regs d)" using assms reg_in_bar by (simp add: ctrl_inv_def)
  have "set_ctrl_reg off v d = Inr (d\<lparr>c_regs := ?regs\<rparr>)"
    using k by (simp add: set_ctrl_reg_def mem_write_def)
  moreover have "field ?regs ?k 4 = le_bytes 4 (unat v)" using k by (simp add: field_def)
  then have "ctrl_reg off (d\<lparr>c_regs := ?regs\<rparr>) = v"
    by (simp add: ctrl_reg_def le_val_le_bytes)
  ultimately show ?thesis using k assms by (auto simp: ctrl_inv_def)
qed

lemma ctrl_send_ok:
  assumes "layout_ok L" and "ctrl_inv d"
  shows "\<exists>d'. ctrl_send L d = Inr d' \<and> ctrl_inv d' \<and> c_pending d' \<and>
    ctrl_reg (l_status L) d' = (ctrl_reg (l_status L) d OR l_busy L) AND NOT (l_complete L)"
proof -
  have off: "l_status L < BAR_SIZE" using assms(1) by (simp add: layout_ok_def)
  obtain d1 where d1: "set_ctrl_reg (l_status L) (ctrl_reg (l_status L) d OR l_busy L) d = Inr d1" "ctrl_inv d1"
    "ctrl_reg (l_status L) d1 = ctrl_reg (l_status L) d OR l_busy L"
    using set_ctrl_reg_ok [OF assms(2) off] by blast
  obtain d2 where "set_ctrl_reg (l_status L) (ctrl_reg (l_status L) d1 AND NOT (l_complete L)) d1 = Inr d2"
    "ctrl_inv d2" "ctrl_reg (l_status L) d2 = ctrl_reg (l_status L) d1 AND NOT (l_complete L)"
    using set_ctrl_reg_ok [OF d1(2) off] by blast
  with d1 show ?thesis
    by (intro exI [of _ "d2\<lparr>c_pending := True\<rparr>"]) (simp add: ctrl_send_def ctrl_inv_def ctrl_reg_def)
qed

lemma ctrl_command_ok:
  assumes "layout_ok L" and "ctrl_inv d"
  shows "\<exists>d'. ctrl_command L d = Inr d' \<and> ctrl_inv d' \<and>
    c_pending d' = (c_pending d \<or> ctrl_reg (l_ctrl L) d AND l_send L \<noteq> 0) \<and>
    (ctrl_reg (l_ctrl L) d AND l_reset L \<noteq> 0 \<longrightarrow> c_regs d' = replicate BAR_SIZE 0)"
  using ctrl_send_ok [OF assms] assms(2)
  by (cases "ctrl_reg (l_ctrl L) d AND l_send L = 0") (auto simp: ctrl_command_def ctrl_inv_def Let_def)

lemma complete_tlp_work_ok:
  assumes "layout_ok L" and "ctrl_inv d"
  shows "\<exists>d'. complete_tlp_work L d = Inr d' \<and> ctrl_inv d' \<and> c_pending d' = c_pending d \<and>
    ctrl_reg (l_status L) d' = (ctrl_reg (l_status L) d AND NOT (l_busy L)) OR l_complete L"
proof -
  have off: "l_status L < BAR_SIZE" using assms(1) by (simp add: layout_ok_def)
  obtain d1 where "set_ctrl_reg (l_status L) (ctrl_reg (l_status L) d AND NOT (l_busy L)) d = Inr d1" "ctrl_inv d1"
    "ctrl_reg (l_status L) d1 = ctrl_reg (l_status L) d AND NOT (l_busy L)" "c_pending d1 = c_pending d"
    using set_ctrl_reg_ok [OF assms(2) off] by blast
  with set_ctrl_reg_ok [OF this(2) off, of "ctrl_reg (l_status L) d1 OR l_complete L"] show ?thesis
    by (auto simp: complete_tlp_work_def)
qed

lemma ctrl_write_ok:
  assumes "layout_ok L" and "ctrl_inv d" and "0 \<le> pos"
  shows "\<exists>rc pos' d'. ctrl_write L buf count pos d = Inr (rc, pos', d') \<and> ctrl_inv d' \<and> 0 \<le> pos'"
proof (cases "pos \<ge> int BAR_SIZE")
  case True
  with assms show ?thesis by (simp add: ctrl_write_def)
next
  case False
  let ?n = "min count (nat (int BAR_SIZE - pos))"
  obtain bytes left where copy: "copy_from_user buf ?n = (bytes, left)" by (cases "copy_from_user buf ?n")
  then have len: "length bytes = ?n" using length_copy [of buf ?n] by simp
  have fits: "nat pos + ?n \<le> BAR_SIZE" using False assms(3) by linarith
  let ?regs = "take (nat pos) (c_regs d) @ bytes @ drop (nat pos + ?n) (c_regs d)"
  have w: "mem_write (c_regs d) (nat pos) bytes = Inr ?regs"
    using fits assms(2) len by (simp add: mem_write_def ctrl_inv_def)
  have inv: "ctrl_inv (d\<lparr>c_regs := ?regs\<rparr>)" using fits assms(2) len by (simp add: ctrl_inv_def)
  from ctrl_command_ok [OF assms(1) inv] w copy False assms(3) inv show ?thesis
    by (auto simp: ctrl_write_def in_file_def Let_def)
qed

lemma ctrl_read_ok:
  assumes "ctrl_inv d" and "0 \<le> pos"
  shows "\<exists>rc bytes pos'. ctrl_read ok count pos d = Inr (rc, bytes, pos')"
  using assms by (auto simp: ctrl_read_def in_file_def mem_read_def ctrl_inv_def Let_def)

lemma ctrl_init_ok:
  "ctrl_init L k ctrl_module_free = (rc, m) \<Longrightarrow>
     (\<forall>d. cm_regs m = Some d \<longrightarrow> ctrl_inv d) \<and>
     (\<not> cm_device m \<longrightarrow> m\<lparr>cm_data := None\<rparr> = ctrl_module_free) \<and>
     (ctrl_exit m)\<lparr>cm_data := None\<rparr> = ctrl_module_free"
  by (auto simp: ctrl_init_def ctrl_module_free_def ctrl_zeroed_def ctrl_inv_def ctrl_exit_def Let_def
      split: if_splits option.splits)

section \<open>A reset during a transmission\<close>

lemma le_val_zeros: "le_val (replicate n 0) = 0"
  by (induction n) simp_all

text \<open>The write of a value to the control register.\<close>

lemma ctrl_write_register:
  assumes "layout_ok L" and "ctrl_inv d"
  shows "\<exists>regs. ctrl_write L (le_bytes 4 (unat v)) 4 (int (4 * (l_ctrl L div 4))) d =
      cbind (ctrl_command L (d\<lparr>c_regs := regs\<rparr>)) (\<lambda>d'. Inr (4, int (4 * (l_ctrl L div 4)) + 4, d')) \<and>
    length regs = BAR_SIZE \<and> ctrl_reg (l_ctrl L) (d\<lparr>c_regs := regs\<rparr>) = v"
proof -
  let ?k = "4 * (l_ctrl L div 4)"
  let ?regs = "take ?k (c_regs d) @ le_bytes 4 (unat v) @ drop (?k + 4) (c_regs d)"
  have k: "?k + 4 \<le> BAR_SIZE" "?k + 4 \<le> length (c_regs d)" "?k \<le> l_ctrl L" "l_ctrl L < ?k + 4"
    using assms reg_in_bar [of "l_ctrl L"] by (auto simp: layout_ok_def ctrl_inv_def)
  have n: "min 4 (nat (int BAR_SIZE - int ?k)) = 4" using k(1) by linarith
  have c: "copy_from_user (le_bytes 4 (unat v)) 4 = (le_bytes 4 (unat v), 0)"
    by (simp add: copy_from_user_def)
  have "field ?regs ?k 4 = le_bytes 4 (unat v)" using k by (simp add: field_def)
  then have "ctrl_reg (l_ctrl L) (d\<lparr>c_regs := ?regs\<rparr>) = v"
    by (simp add: ctrl_reg_def le_val_le_bytes)
  moreover have "mem_write (c_regs d) ?k (le_bytes 4 (unat v)) = Inr ?regs"
    using k by (simp add: mem_write_def)
  moreover have "\<not> int ?k \<ge> int BAR_SIZE" "int ?k \<le> int (l_ctrl L)" "int ?k + int 4 > int (l_ctrl L)"
    using k by linarith+
  moreover have "nat (4 * int (l_ctrl L div 4)) = ?k" by simp
  ultimately show ?thesis
    using k(2) assms(2) n c
    by (intro exI [of _ ?regs]) (simp add: ctrl_write_def in_file_def ctrl_inv_def Let_def)
qed

text \<open>
  C36: The second driver, for any register layout: a reset written while a transmission is under
  way, or together with the send command, clears every register but leaves the completion due;
  when it runs, the device that was reset shows a completed transmission.
\<close>

theorem ctrl_reset_completes:
  assumes "layout_ok L" and "ctrl_inv d" and "v AND l_reset L \<noteq> 0"
    and "c_pending d \<or> v AND l_send L \<noteq> 0"
  shows "\<exists>d1 d2. ctrl_write L (le_bytes 4 (unat v)) 4 (int (4 * (l_ctrl L div 4))) d =
      Inr (4, int (4 * (l_ctrl L div 4)) + 4, d1) \<and>
    c_regs d1 = replicate BAR_SIZE 0 \<and> c_pending d1 \<and>
    complete_tlp_work L (d1\<lparr>c_pending := False\<rparr>) = Inr d2 \<and> ctrl_reg (l_status L) d2 = l_complete L"
proof -
  obtain regs where w: "ctrl_write L (le_bytes 4 (unat v)) 4 (int (4 * (l_ctrl L div 4))) d =
      cbind (ctrl_command L (d\<lparr>c_regs := regs\<rparr>)) (\<lambda>d'. Inr (4, int (4 * (l_ctrl L div 4)) + 4, d'))"
    "length regs = BAR_SIZE" "ctrl_reg (l_ctrl L) (d\<lparr>c_regs := regs\<rparr>) = v"
    using ctrl_write_register [OF assms(1,2)] by blast
  then have "ctrl_inv (d\<lparr>c_regs := regs\<rparr>)" by (simp add: ctrl_inv_def)
  from ctrl_command_ok [OF assms(1) this] w(3) assms(3,4) obtain d1 where
    d1: "ctrl_command L (d\<lparr>c_regs := regs\<rparr>) = Inr d1" "ctrl_inv d1" "c_pending d1" "c_regs d1 = replicate BAR_SIZE 0"
    by auto
  let ?d = "d1\<lparr>c_pending := False\<rparr>"
  have k: "4 * (l_status L div 4) + 4 \<le> BAR_SIZE" using assms(1) reg_in_bar by (simp add: layout_ok_def)
  have "field (replicate BAR_SIZE 0 :: u8 list) (4 * (l_status L div 4)) 4 = replicate 4 0"
    using k by (simp add: field_def min_absorb1)
  then have "ctrl_reg (l_status L) ?d = 0"
    using d1(4) by (simp add: ctrl_reg_def le_val_zeros)
  moreover have "ctrl_inv ?d" using d1(2) by (simp add: ctrl_inv_def)
  ultimately obtain d2 where "complete_tlp_work L ?d = Inr d2" "ctrl_reg (l_status L) d2 = l_complete L"
    using complete_tlp_work_ok [OF assms(1)] by force
  with w(1) d1 show ?thesis by auto
qed

definition sample_layout :: ctrl_layout where
  "sample_layout =
     \<lparr>l_ctrl = 0, l_status = 4, l_data = 0x1000, l_send = 1, l_reset = 2, l_busy = 1, l_complete = 2\<rparr>"

theorem ctrl_reset_completes_witness:
  "\<exists>d1 d2. ctrl_write sample_layout (le_bytes 4 3) 4 0 ctrl_zeroed = Inr (4, 4, d1) \<and> c_pending d1 \<and>
     complete_tlp_work sample_layout (d1\<lparr>c_pending := False\<rparr>) = Inr d2 \<and> ctrl_reg 4 d2 = 2"
  using ctrl_reset_completes [of sample_layout ctrl_zeroed 3]
  by (auto simp: sample_layout_def layout_ok_def ctrl_inv_def ctrl_zeroed_def BAR_SIZE_def)

end
