(* ===== verification/Socket.thy ===== *)
theory Socket
  imports Pcapcie
begin

text \<open>
  The TCP sockets \<open>src/backend_xgig.c\<close>, \<open>src/backend_armds.c\<close> and \<open>armds_bridge_server.c\<close>
  use, as a parameter: the record \<open>net\<close> of the socket calls over a state of the caller's
  choice. Where C returns a negative count, \<open>net_recv\<close> returns \<open>None\<close>; an empty list is
  the peer's end of the connection. \<open>net_getfl\<close> and \<open>net_setfl\<close> are the \<open>O_NONBLOCK\<close> bit of
  the descriptor's flags; \<open>net_wouldblock\<close> is the test of the error code.
\<close>

section \<open>Socket calls\<close>

record 's net =
  net_pton :: "string \<Rightarrow> bool"
  net_socket :: "'s \<Rightarrow> int \<times> 's"
  net_timeouts :: "int \<Rightarrow> nat \<Rightarrow> nat \<Rightarrow> 's \<Rightarrow> 's"
  net_connect :: "int \<Rightarrow> string \<Rightarrow> nat \<Rightarrow> 's \<Rightarrow> bool \<times> 's"
  net_send :: "int \<Rightarrow> u8 list \<Rightarrow> 's \<Rightarrow> int \<times> 's"
  net_recv :: "int \<Rightarrow> nat \<Rightarrow> bool \<Rightarrow> 's \<Rightarrow> u8 list option \<times> 's"
  net_getfl :: "int \<Rightarrow> 's \<Rightarrow> bool \<times> 's"
  net_setfl :: "int \<Rightarrow> bool \<Rightarrow> 's \<Rightarrow> 's"
  net_close :: "int \<Rightarrow> 's \<Rightarrow> 's"
  net_wouldblock :: "'s \<Rightarrow> bool"
  net_malloc :: "nat \<Rightarrow> 's \<Rightarrow> bool \<times> 's"

text \<open>A backend's static socket descriptor, \<open>-1\<close> when there is none, and the network.\<close>

record 's sock_world =
  sk_fd :: int
  sk_net :: 's

text \<open>The part of connecting that the two backends have in common.\<close>

definition stream_connect ::
  "'s net \<Rightarrow> string \<Rightarrow> nat \<Rightarrow> nat \<Rightarrow> nat \<Rightarrow> 's sock_world \<Rightarrow> int \<times> 's sock_world" where
  "stream_connect net host port snd_sec rcv_sec w =
     (case net_socket net (sk_net w) of
        (fd, s) \<Rightarrow>
          if fd < 0 then (-1, w\<lparr>sk_fd := fd, sk_net := s\<rparr>)
          else if \<not> net_pton net host then (-1, w\<lparr>sk_fd := -1, sk_net := net_close net fd s\<rparr>)
          else (case net_connect net fd host port (net_timeouts net fd snd_sec rcv_sec s) of
                  (False, s') \<Rightarrow> (-1, w\<lparr>sk_fd := -1, sk_net := net_close net fd s'\<rparr>)
                | (True, s') \<Rightarrow> (0, w\<lparr>sk_fd := fd, sk_net := s'\<rparr>)))"

definition sock_close :: "'s net \<Rightarrow> 's sock_world \<Rightarrow> 's sock_world" where
  "sock_close net w =
     (if sk_fd w \<ge> 0 then w\<lparr>sk_fd := -1, sk_net := net_close net (sk_fd w) (sk_net w)\<rparr> else w)"

definition sock_send :: "'s net \<Rightarrow> u8 list \<Rightarrow> 's sock_world \<Rightarrow> int \<times> 's sock_world" where
  "sock_send net bs w =
     (case net_send net (sk_fd w) bs (sk_net w) of (n, s) \<Rightarrow> (n, w\<lparr>sk_net := s\<rparr>))"

section \<open>A connection that delivers\<close>

text \<open>
  What a test of the wire format assumes of the network: while it is \<open>up\<close>, a send takes
  all the bytes it is given, and \<open>sent_log\<close> is the stream the peer sees.
\<close>

definition stream_out :: "'s net \<Rightarrow> ('s \<Rightarrow> u8 list) \<Rightarrow> ('s \<Rightarrow> bool) \<Rightarrow> bool" where
  "stream_out net sent_log up \<longleftrightarrow>
     (\<forall>fd bs s. up s \<longrightarrow>
        (case net_send net fd bs s of
           (n, s') \<Rightarrow> n = int (length bs) \<and> up s' \<and> sent_log s' = sent_log s @ bs))"

lemma sock_send_out:
  assumes "stream_out net sent_log up" and "up (sk_net w)"
  shows "\<exists>w'. sock_send net bs w = (int (length bs), w') \<and> sk_fd w' = sk_fd w \<and> up (sk_net w') \<and>
           sent_log (sk_net w') = sent_log (sk_net w) @ bs"
proof -
  obtain n s where s: "net_send net (sk_fd w) bs (sk_net w) = (n, s)"
    by (cases "net_send net (sk_fd w) bs (sk_net w)")
  from assms(1) [unfolded stream_out_def, rule_format, OF assms(2), where fd = "sk_fd w" and bs = bs] s
  show ?thesis by (simp add: sock_send_def)
qed

text \<open>The server accepts: a connection can be made, and nothing is sent by making it.\<close>

definition stream_dial :: "'s net \<Rightarrow> ('s \<Rightarrow> u8 list) \<Rightarrow> ('s \<Rightarrow> bool) \<Rightarrow> bool" where
  "stream_dial net sent_log up \<longleftrightarrow>
     (\<forall>host. net_pton net host) \<and>
     (\<forall>s. up s \<longrightarrow>
        (case net_socket net s of (fd, s') \<Rightarrow> 0 \<le> fd \<and> up s' \<and> sent_log s' = sent_log s)) \<and>
     (\<forall>fd a b s. up s \<longrightarrow>
        up (net_timeouts net fd a b s) \<and> sent_log (net_timeouts net fd a b s) = sent_log s) \<and>
     (\<forall>fd host port s. up s \<longrightarrow>
        (case net_connect net fd host port s of (c, s') \<Rightarrow> c \<and> up s' \<and> sent_log s' = sent_log s))"

lemma stream_connect_dial:
  assumes dial: "stream_dial net sent_log up" and w: "up (sk_net w)"
  shows "\<exists>w'. stream_connect net host port a b w = (0, w') \<and> up (sk_net w') \<and> 0 \<le> sk_fd w' \<and>
           sent_log (sk_net w') = sent_log (sk_net w)"
proof -
  note d = dial [unfolded stream_dial_def]
  obtain fd s where 1: "net_socket net (sk_net w) = (fd, s)" by (cases "net_socket net (sk_net w)")
  from d [THEN conjunct2, THEN conjunct1, rule_format, OF w] 1
  have s: "0 \<le> fd" "up s" "sent_log s = sent_log (sk_net w)" by simp_all
  let ?s = "net_timeouts net fd a b s"
  from d [THEN conjunct2, THEN conjunct2, THEN conjunct1, rule_format, OF s(2)]
  have t: "up ?s" "sent_log ?s = sent_log s" by simp_all
  obtain c s2 where 2: "net_connect net fd host port ?s = (c, s2)" by (cases "net_connect net fd host port ?s")
  from d [THEN conjunct2, THEN conjunct2, THEN conjunct2, rule_format, OF t(1), where host = host and port = port and fd = fd]
  have c: "c" "up s2" "sent_log s2 = sent_log ?s" by (simp_all add: 2)
  have "net_pton net host" using d by simp
  with 1 2 s t(2) c show ?thesis by (simp add: stream_connect_def)
qed

text \<open>A network whose state is what was sent and what is still to be received.\<close>

definition pipe_net :: "(u8 list \<times> u8 list) net" where
  "pipe_net =
     \<lparr>net_pton = (\<lambda>host. True), net_socket = (\<lambda>s. (4, s)), net_timeouts = (\<lambda>fd a b s. s),
      net_connect = (\<lambda>fd host port s. (True, s)),
      net_send = (\<lambda>fd bs s. (int (length bs), (fst s @ bs, snd s))),
      net_recv = (\<lambda>fd n wait s. (Some (take n (snd s)), (fst s, drop n (snd s)))),
      net_getfl = (\<lambda>fd s. (False, s)), net_setfl = (\<lambda>fd nb s. s), net_close = (\<lambda>fd s. s),
      net_wouldblock = (\<lambda>s. False), net_malloc = (\<lambda>n s. (True, s))\<rparr>"

lemma pipe_dial: "stream_dial pipe_net fst (\<lambda>_. True)"
  by (simp add: stream_dial_def pipe_net_def)

lemma pipe_out: "stream_out pipe_net fst (\<lambda>_. True)"
  by (simp add: stream_out_def pipe_net_def)

text \<open>
  The receiving side: while it is \<open>up\<close>, a receive gives the bytes still \<open>pending\<close>, as many
  as asked for if there are that many, and memory is available.
\<close>

definition stream_in :: "'s net \<Rightarrow> ('s \<Rightarrow> u8 list) \<Rightarrow> ('s \<Rightarrow> bool) \<Rightarrow> bool" where
  "stream_in net pending up \<longleftrightarrow>
     (\<forall>fd n wait s. up s \<longrightarrow>
        (case net_recv net fd n wait s of
           (r, s') \<Rightarrow> r = Some (take n (pending s)) \<and> up s' \<and> pending s' = drop n (pending s))) \<and>
     (\<forall>n s. up s \<longrightarrow> (case net_malloc net n s of (g, s') \<Rightarrow> g \<and> up s' \<and> pending s' = pending s))"

lemma stream_in_recv:
  assumes "stream_in net pending up" and "up s"
  obtains s' where "net_recv net fd n wait s = (Some (take n (pending s)), s')" "up s'"
    "pending s' = drop n (pending s)"
proof -
  obtain r s' where r: "net_recv net fd n wait s = (r, s')" by (cases "net_recv net fd n wait s")
  from assms(1) [unfolded stream_in_def, THEN conjunct1, rule_format, OF assms(2),
      where fd = fd and n = n and wait = wait] r that
  show ?thesis by simp
qed

lemma stream_in_malloc:
  assumes "stream_in net pending up" and "up s"
  obtains s' where "net_malloc net n s = (True, s')" "up s'" "pending s' = pending s"
proof -
  obtain g s' where g: "net_malloc net n s = (g, s')" by (cases "net_malloc net n s")
  from assms(1) [unfolded stream_in_def, THEN conjunct2, rule_format, OF assms(2), where n = n] g that
  show ?thesis by simp
qed

lemma pipe_in: "stream_in pipe_net snd (\<lambda>_. True)"
  by (simp add: stream_in_def pipe_net_def)

text \<open>A packet whose payload is there when it announces one.\<close>

definition complete_tlp :: "tlp \<Rightarrow> bool" where
  "complete_tlp t \<longleftrightarrow> valid_tlp t \<and> (tlp_length t > 0 \<longrightarrow> mem_data t \<noteq> None)"

lemma length_payload_complete:
  "complete_tlp t \<Longrightarrow> length (tlp_payload t) = unat (tlp_length t)"
  by (auto simp: complete_tlp_def tlp_payload_def valid_tlp_def word_gt_0 split: option.splits)

end
