(* ===== verification/Xgig.thy ===== *)
theory Xgig
  imports Socket
begin

text \<open>
  The Xgig backend, \<open>src/backend_xgig.c\<close>: packets serialised to a TCP connection as a
  16-byte big-endian header and the payload. A decoder of the stream shows what the format
  keeps.
\<close>

section \<open>The backend\<close>

definition XGIG_HOST :: string where "XGIG_HOST = ''8.8.8.8''"
definition XGIG_PORT :: nat where "XGIG_PORT = 1234"
definition XGIG_SEND_TIMEOUT_SEC :: nat where "XGIG_SEND_TIMEOUT_SEC = 5"

definition xgig_connect :: "'s net \<Rightarrow> 's sock_world \<Rightarrow> int \<times> 's sock_world" where
  "xgig_connect net w =
     (if sk_fd w \<ge> 0 then (0, w)
      else stream_connect net XGIG_HOST XGIG_PORT XGIG_SEND_TIMEOUT_SEC XGIG_SEND_TIMEOUT_SEC w)"

definition xgig_header :: "tlp \<Rightarrow> u8 list" where
  "xgig_header t =
     [ucast (tlp_type t)] @ be_bytes 2 (unat (requester_id t)) @ be_bytes 2 (unat (completer_id t)) @
     [tag t] @ be_bytes 2 (unat (tlp_length t)) @
     be_bytes 4 (unat (ucast (mem_addr t AND 0xFFFFFFFF) :: u32)) @
     be_bytes 4 (unat (ucast (drop_bit 32 (mem_addr t)) :: u32))"

definition xgig_send :: "'s net \<Rightarrow> 's sock_world tlp_op" where
  "xgig_send net tp w =
     (case tp of
        None \<Rightarrow> Inr (-1, None, w)
      | Some t \<Rightarrow>
          (case xgig_connect net w of
             (rc, w1) \<Rightarrow>
               if rc \<noteq> 0 then Inr (-1, tp, w1)
               else case sock_send net (xgig_header t) w1 of
                      (n, w2) \<Rightarrow>
                        if n \<noteq> 16 then Inr (-1, tp, w2)
                        else if tlp_length t > 0
                        then (case mem_data t of
                                None \<Rightarrow> Inr (-1, tp, w2)
                              | Some data \<Rightarrow>
                                  cbind (mem_read data (unat (tlp_length t))) (\<lambda>bs.
                                    case sock_send net bs w2 of
                                      (m, w3) \<Rightarrow>
                                        Inr (if m \<noteq> int (unat (tlp_length t)) then -1 else 0, tp, w3)))
                        else Inr (0, tp, w2)))"

definition xgig_recv :: "'s sock_world tlp_op" where
  "xgig_recv t w = Inr (-1, t, w)"

definition xgig_close :: "'s net \<Rightarrow> 's sock_world \<Rightarrow> 's sock_world c_res" where
  "xgig_close net w = Inr (sock_close net w)"

definition xgig_ops :: "'s net \<Rightarrow> 's sock_world pcie_backend_ops" where
  "xgig_ops net =
     \<lparr>ops_send = Some (xgig_send net), ops_recv = Some xgig_recv, ops_link_status = None,
      ops_device_info = None, ops_close = Some (xgig_close net)\<rparr>"

definition pcie_backend_xgig :: "'s net \<Rightarrow> 's sock_world backend_ctor" where
  "pcie_backend_xgig net w = Inr (Some (xgig_ops net), w)"

section \<open>The contract\<close>

lemma xgig_send_total:
  assumes "valid_tlp t"
  shows "\<exists>rc w'. xgig_send net (Some t) w = Inr (rc, Some t, w')"
proof -
  obtain rc w1 where 1: "xgig_connect net w = (rc, w1)" by (cases "xgig_connect net w")
  obtain n w2 where 2: "sock_send net (xgig_header t) w1 = (n, w2)"
    by (cases "sock_send net (xgig_header t) w1")
  show ?thesis
  proof (cases "mem_data t")
    case None
    with 1 2 show ?thesis by (auto simp: xgig_send_def)
  next
    case (Some data)
    with assms have rd: "mem_read data (unat (tlp_length t)) = Inr (take (unat (tlp_length t)) data)"
      by (simp add: mem_read_def valid_tlp_Some)
    obtain m w3 where "sock_send net (take (unat (tlp_length t)) data) w2 = (m, w3)"
      by (cases "sock_send net (take (unat (tlp_length t)) data) w2")
    with 1 2 Some rd show ?thesis by (auto simp: xgig_send_def)
  qed
qed

lemma xgig_ops_simps [simp]:
  "ops_send (xgig_ops net) = Some (xgig_send net)" "ops_recv (xgig_ops net) = Some xgig_recv"
  "ops_link_status (xgig_ops net) = None" "ops_device_info (xgig_ops net) = None"
  "ops_close (xgig_ops net) = Some (xgig_close net)"
  by (simp_all add: xgig_ops_def)

interpretation xgig: finite_backend "xgig_ops net" "\<lambda>_. True" valid_tlp "\<lambda>_. 0" for net
proof (unfold_locales, goal_cases)
  case (2 w t)
  with xgig_send_total [OF 2(2), of net w] show ?case by fastforce
qed (auto simp: xgig_recv_def xgig_close_def)

section \<open>The stream\<close>

definition xgig_wire :: "tlp \<Rightarrow> u8 list" where
  "xgig_wire t = xgig_header t @ tlp_payload t"

definition xgig_unheader :: "u8 list \<Rightarrow> tlp" where
  "xgig_unheader h =
     \<lparr>tlp_type = ucast (h ! 0), requester_id = word_of_nat (be_val (field h 1 2)),
      completer_id = word_of_nat (be_val (field h 3 2)), tag = h ! 5,
      tlp_length = word_of_nat (be_val (field h 6 2)),
      mem_addr = word_of_nat (be_val (field h 8 4) + 2 ^ 32 * be_val (field h 12 4)), mem_data = None\<rparr>"

text \<open>Reading \<open>n\<close> packets off the stream, with what is left.\<close>

fun xgig_parse :: "nat \<Rightarrow> u8 list \<Rightarrow> tlp list \<times> u8 list" where
  "xgig_parse 0 bs = ([], bs)"
| "xgig_parse (Suc n) bs =
     (let t = xgig_unheader (take 16 bs); len = unat (tlp_length t); rest = drop 16 bs;
          p = t\<lparr>mem_data := (if len > 0 then Some (take len rest) else None)\<rparr>
      in case xgig_parse n (drop len rest) of (ts, left) \<Rightarrow> (p # ts, left))"

text \<open>What a packet's receiver can know of it.\<close>

definition xgig_view :: "tlp \<Rightarrow> tlp" where
  "xgig_view t =
     t\<lparr>tlp_type := tlp_type t AND 0xFF,
       mem_data := (if tlp_length t > 0 then Some (tlp_payload t) else None)\<rparr>"

lemma length_xgig_header [simp]: "length (xgig_header t) = 16"
  by (simp add: xgig_header_def)

lemma xgig_header_fields:
  "xgig_header t ! 0 = ucast (tlp_type t)" "xgig_header t ! 5 = tag t"
  "field (xgig_header t) 1 2 = be_bytes 2 (unat (requester_id t))"
  "field (xgig_header t) 3 2 = be_bytes 2 (unat (completer_id t))"
  "field (xgig_header t) 6 2 = be_bytes 2 (unat (tlp_length t))"
  "field (xgig_header t) 8 4 = be_bytes 4 (unat (ucast (mem_addr t AND 0xFFFFFFFF) :: u32))"
  "field (xgig_header t) 12 4 = be_bytes 4 (unat (ucast (drop_bit 32 (mem_addr t)) :: u32))"
  by (simp_all add: xgig_header_def byte_simps nth_append)

lemma addr_halves:
  "unat (ucast ((a :: u64) AND 0xFFFFFFFF) :: u32) + 2 ^ 32 * unat (ucast (drop_bit 32 a) :: u32) = unat a"
proof -
  have lo: "a AND 0xFFFFFFFF = take_bit 32 a" by (simp add: take_bit_eq_mask mask_numeral)
  have "unat a div 2 ^ 32 < 2 ^ 32" using unat_u64_lt [of a] by (simp del: unat_u64_lt add: less_mult_imp_div_less)
  then have hi: "unat (ucast (drop_bit 32 a) :: u32) = unat a div 2 ^ 32"
    by (simp add: unsigned_ucast_eq unat_div drop_bit_eq_div take_bit_nat_eq_self)
  have "unat (ucast (a AND 0xFFFFFFFF) :: u32) = unat a mod 2 ^ 32"
    unfolding lo by (simp add: unsigned_ucast_eq take_bit_eq_mod unat_mod)
  with hi show ?thesis by simp
qed

lemma xgig_unheader_header:
  "xgig_unheader (xgig_header t) = t\<lparr>tlp_type := tlp_type t AND 0xFF, mem_data := None\<rparr>"
proof -
  have ty: "ucast (ucast (tlp_type t) :: u8) = tlp_type t AND 0xFF"
    by (auto simp: bit_eq_iff bit_simps AND_255)
  have "xgig_unheader (xgig_header t) =
      t\<lparr>tlp_type := ucast (ucast (tlp_type t) :: u8), mem_data := None\<rparr>"
    unfolding xgig_unheader_def xgig_header_fields be_val_u16 be_val_u32 addr_halves by simp
  with ty show ?thesis by simp
qed

lemma xgig_parse_wire:
  "list_all complete_tlp ts \<Longrightarrow>
     xgig_parse (length ts) (concat (map xgig_wire ts) @ rest) = (map xgig_view ts, rest)"
proof (induction ts)
  case (Cons t ts)
  then have len: "length (tlp_payload t) = unat (tlp_length t)" by (simp add: length_payload_complete)
  with Cons show ?case
    by (simp add: Let_def xgig_wire_def xgig_unheader_header xgig_view_def unat_gt_0 word_gt_0)
qed simp

lemma xgig_send_wire:
  assumes out: "stream_out net sent_log up" and w: "up (sk_net w)" "0 \<le> sk_fd w" and t: "complete_tlp t"
  shows "\<exists>w'. xgig_send net (Some t) w = Inr (0, Some t, w') \<and> up (sk_net w') \<and> 0 \<le> sk_fd w' \<and>
           sent_log (sk_net w') = sent_log (sk_net w) @ xgig_wire t"
proof -
  have con: "xgig_connect net w = (0, w)" using w(2) by (simp add: xgig_connect_def)
  obtain w1 where 1: "sock_send net (xgig_header t) w = (16, w1)" "sk_fd w1 = sk_fd w" "up (sk_net w1)"
      "sent_log (sk_net w1) = sent_log (sk_net w) @ xgig_header t"
    using sock_send_out [OF out w(1), of "xgig_header t"] by auto
  show ?thesis
  proof (cases "tlp_length t > 0")
    case False
    then have "tlp_payload t = []" by (simp add: tlp_payload_def word_gt_0 split: option.splits)
    with False con 1 w show ?thesis by (simp add: xgig_send_def xgig_wire_def)
  next
    case True
    with t obtain data where data: "mem_data t = Some data" "unat (tlp_length t) \<le> length data"
      by (auto simp: complete_tlp_def valid_tlp_def)
    obtain w2 where 2: "sock_send net (take (unat (tlp_length t)) data) w1 = (int (unat (tlp_length t)), w2)"
        "sk_fd w2 = sk_fd w1" "up (sk_net w2)"
        "sent_log (sk_net w2) = sent_log (sk_net w1) @ take (unat (tlp_length t)) data"
      using sock_send_out [OF out 1(3), of "take (unat (tlp_length t)) data"] data(2)
      by (auto simp: min_def)
    from True con 1 2 data w show ?thesis
      by (simp add: xgig_send_def xgig_wire_def tlp_payload_def mem_read_def)
  qed
qed

lemma xgig_send_all_wire:
  assumes out: "stream_out net sent_log up"
  shows "\<lbrakk>up (sk_net w); 0 \<le> sk_fd w; list_all complete_tlp ts\<rbrakk> \<Longrightarrow>
     \<exists>w'. send_all (xgig_send net) ts w = Inr (replicate (length ts) 0, w') \<and>
          sent_log (sk_net w') = sent_log (sk_net w) @ concat (map xgig_wire ts)"
proof (induction ts arbitrary: w)
  case (Cons t ts)
  then obtain w1 where "xgig_send net (Some t) w = Inr (0, Some t, w1)" "up (sk_net w1)" "0 \<le> sk_fd w1"
      "sent_log (sk_net w1) = sent_log (sk_net w) @ xgig_wire t"
    using xgig_send_wire [OF out, of w t] by auto
  with Cons.IH [of w1] Cons.prems show ?case by auto
qed simp

section \<open>Properties\<close>

text \<open>
  C25: The Xgig wire format is self-delimiting and keeps the packet: over a connection that
  delivers, sending any packets whose payloads are there succeeds, and the peer reads back
  from the stream exactly those packets, in order, with nothing left over: every header field
  (the type as a byte), the full 64-bit address, and exactly the announced payload.
\<close>

theorem xgig_stream_roundtrip:
  assumes "stream_out net sent_log up" and "up (sk_net w)" and "0 \<le> sk_fd w"
    and "list_all complete_tlp ts"
  shows "\<exists>w' stream. send_all (xgig_send net) ts w = Inr (replicate (length ts) 0, w') \<and>
           sent_log (sk_net w') = sent_log (sk_net w) @ stream \<and>
           xgig_parse (length ts) stream = (map xgig_view ts, [])"
  using xgig_send_all_wire [OF assms] xgig_parse_wire [OF assms(4), of "[]"] by auto

theorem xgig_stream_roundtrip_witness:
  "\<exists>w' stream.
     send_all (xgig_send pipe_net)
       [pcie_tlp_mem_write 0x123456789A 3 (Some [1, 2, 3]), pcie_tlp_cfg_read 0x44] \<lparr>sk_fd = 4, sk_net = ([], [])\<rparr> =
       Inr ([0, 0], w') \<and> fst (sk_net w') = stream \<and>
     xgig_parse (Suc (Suc 0)) stream =
       ([pcie_tlp_mem_write 0x123456789A 3 (Some [1, 2, 3]), pcie_tlp_cfg_read 0x44], [])"
proof -
  let ?ts = "[pcie_tlp_mem_write 0x123456789A 3 (Some [1, 2, 3]), pcie_tlp_cfg_read 0x44]"
  have "list_all complete_tlp ?ts"
    by (simp add: complete_tlp_def valid_tlp_def pcie_tlp_mem_write_def pcie_tlp_cfg_read_def tlp_zero_def)
  moreover have "map xgig_view ?ts = ?ts"
    by (simp add: xgig_view_def pcie_tlp_mem_write_def pcie_tlp_cfg_read_def tlp_zero_def tlp_payload_def)
  ultimately show ?thesis
    using xgig_stream_roundtrip [OF pipe_out, of "\<lparr>sk_fd = 4, sk_net = ([], [])\<rparr>" ?ts]
    by (simp del: xgig_parse.simps send_all.simps list.map)
qed

text \<open>
  A packet that announces a payload it does not have is refused only after its header
  has gone out: the call fails, but 16 bytes that promise a payload are on the stream.
\<close>

lemma xgig_refused_after_header:
  assumes "stream_out net sent_log up" and "up (sk_net w)" and "0 \<le> sk_fd w"
    and "0 < tlp_length t" and "mem_data t = None"
  shows "\<exists>w'. xgig_send net (Some t) w = Inr (-1, Some t, w') \<and>
           sent_log (sk_net w') = sent_log (sk_net w) @ xgig_header t"
proof -
  have "xgig_connect net w = (0, w)" using assms(3) by (simp add: xgig_connect_def)
  with sock_send_out [OF assms(1,2), of "xgig_header t"] assms(4,5) show ?thesis
    by (auto simp: xgig_send_def)
qed

end
