(* ===== verification/Armds.thy ===== *)
theory Armds
  imports Socket
begin

text \<open>
  The ARM Development Studio backend, \<open>src/backend_armds.c\<close>: packets sent over TCP as the raw
  bytes of \<open>pcie_tlp_t\<close>, 32 bytes on the 64-bit targets, followed by the payload.

  The structure's padding and the value of its payload pointer go out with it; the record
  \<open>raw_abi\<close> supplies them. A pointer that came in from the network points to nothing the
  program may read: an empty object, or \<open>NULL\<close>.
\<close>

section \<open>The raw structure\<close>

record raw_abi =
  abi_ptr :: "u8 list option \<Rightarrow> u64"
  abi_pad9 :: u8
  abi_pad12 :: "u8 list"

definition raw_tlp :: "raw_abi \<Rightarrow> tlp \<Rightarrow> u8 list" where
  "raw_tlp abi t =
     le_bytes 4 (unat (tlp_type t)) @ le_bytes 2 (unat (requester_id t)) @
     le_bytes 2 (unat (completer_id t)) @ [tag t, abi_pad9 abi] @ le_bytes 2 (unat (tlp_length t)) @
     block 4 (abi_pad12 abi) @ le_bytes 8 (unat (mem_addr t)) @ le_bytes 8 (unat (abi_ptr abi (mem_data t)))"

definition wild :: "nat \<Rightarrow> u8 list option" where
  "wild p = (if p = 0 then None else Some [])"

definition unraw :: "u8 list \<Rightarrow> tlp" where
  "unraw h =
     \<lparr>tlp_type = word_of_nat (le_val (field h 0 4)), requester_id = word_of_nat (le_val (field h 4 2)),
      completer_id = word_of_nat (le_val (field h 6 2)), tag = h ! 8,
      tlp_length = word_of_nat (le_val (field h 10 2)), mem_addr = word_of_nat (le_val (field h 16 8)),
      mem_data = wild (le_val (field h 24 8))\<rparr>"

text \<open>Receiving \<open>bs\<close> into the structure \<open>t\<close>, whose other bytes stay.\<close>

definition raw_overlay :: "raw_abi \<Rightarrow> tlp \<Rightarrow> u8 list \<Rightarrow> tlp" where
  "raw_overlay abi t bs =
     (let u = unraw (bs @ drop (length bs) (raw_tlp abi t))
      in if length bs \<le> 24 then u\<lparr>mem_data := mem_data t\<rparr> else u)"

section \<open>The backend\<close>

definition ARM_DS_HOST :: string where "ARM_DS_HOST = ''8.8.8.8''"
definition ARM_DS_PORT :: nat where "ARM_DS_PORT = 12345"
definition FPGA_DEVICE_ID :: u32 where "FPGA_DEVICE_ID = 0x1234"

definition arm_ds_connect :: "'s net \<Rightarrow> 's sock_world \<Rightarrow> int \<times> 's sock_world" where
  "arm_ds_connect net w =
     (if sk_fd w \<ge> 0 then (0, w)
      else case stream_connect net ARM_DS_HOST ARM_DS_PORT 5 5 w of
             (rc, w1) \<Rightarrow>
               if rc \<noteq> 0 then (-1, w1)
               else case sock_send net (le_bytes 4 (unat FPGA_DEVICE_ID)) w1 of
                      (n, w2) \<Rightarrow> if n \<noteq> 4 then (-1, sock_close net w2) else (0, w2))"

definition arm_ds_send :: "raw_abi \<Rightarrow> 's net \<Rightarrow> 's sock_world tlp_op" where
  "arm_ds_send abi net tp w =
     (case arm_ds_connect net w of
        (rc, w1) \<Rightarrow>
          if rc \<noteq> 0 then Inr (-1, tp, w1)
          else cbind (deref tp) (\<lambda>t.
            case sock_send net (raw_tlp abi t) w1 of
              (n, w2) \<Rightarrow>
                if n \<noteq> 32 then Inr (-1, tp, w2)
                else if tlp_length t > 0
                then (case mem_data t of
                        None \<Rightarrow> Inr (0, tp, w2)
                      | Some data \<Rightarrow>
                          cbind (mem_read data (unat (tlp_length t))) (\<lambda>bs.
                            case sock_send net bs w2 of
                              (m, w3) \<Rightarrow> Inr (if m \<noteq> int (unat (tlp_length t)) then -1 else 0, tp, w3)))
                else Inr (0, tp, w2)))"

text \<open>The payload of a received header, read with \<open>MSG_WAITALL\<close>.\<close>

definition arm_ds_recv_payload ::
  "'s net \<Rightarrow> tlp \<Rightarrow> 's sock_world \<Rightarrow> int \<times> tlp option \<times> 's sock_world" where
  "arm_ds_recv_payload net t w =
     (let n = unat (tlp_length t) in
      if n > 0
      then case net_malloc net n (sk_net w) of
             (False, s) \<Rightarrow> (-1, Some (t\<lparr>mem_data := None\<rparr>), w\<lparr>sk_net := s\<rparr>)
           | (True, s) \<Rightarrow>
               (case net_recv net (sk_fd w) n True s of
                  (r, s') \<Rightarrow>
                    (case map_option (take n) r of
                       Some p \<Rightarrow>
                         if length p = n then (0, Some (t\<lparr>mem_data := Some p\<rparr>), w\<lparr>sk_net := s'\<rparr>)
                         else (-1, Some (t\<lparr>mem_data := None\<rparr>), w\<lparr>sk_net := s'\<rparr>)
                     | None \<Rightarrow> (-1, Some (t\<lparr>mem_data := None\<rparr>), w\<lparr>sk_net := s'\<rparr>)))
      else (0, Some t, w))"

text \<open>
  The header is received without blocking; the flags are restored only after a whole header.
  A \<open>NULL\<close> buffer makes the system call fail.
\<close>

definition arm_ds_recv :: "raw_abi \<Rightarrow> 's net \<Rightarrow> 's sock_world tlp_op" where
  "arm_ds_recv abi net tp w =
     (case arm_ds_connect net w of
        (rc, w1) \<Rightarrow>
          if rc \<noteq> 0 then Inr (-1, tp, w1)
          else
          (case net_getfl net (sk_fd w1) (sk_net w1) of
             (flags, s1) \<Rightarrow>
          (case net_recv net (sk_fd w1) 32 False (net_setfl net (sk_fd w1) True s1) of
             (r, s2) \<Rightarrow>
               let w2 = w1\<lparr>sk_net := s2\<rparr> in
               (case map_option (take 32) r of
                  None \<Rightarrow> Inr (-1, tp, w2)
                | Some bs \<Rightarrow>
                    if bs = [] then Inr (-1, tp, sock_close net w2)
                    else (case tp of
                            None \<Rightarrow> Inr (-1, None, w2)
                          | Some t \<Rightarrow>
                              if length bs \<noteq> 32 then Inr (-1, Some (raw_overlay abi t bs), w2)
                              else Inr (arm_ds_recv_payload net (raw_overlay abi t bs)
                                          (w2\<lparr>sk_net := net_setfl net (sk_fd w2) flags s2\<rparr>)))))))"

definition arm_ds_close :: "'s net \<Rightarrow> 's sock_world \<Rightarrow> 's sock_world c_res" where
  "arm_ds_close net w = Inr (sock_close net w)"

definition armds_backend_ops :: "raw_abi \<Rightarrow> 's net \<Rightarrow> 's sock_world pcie_backend_ops" where
  "armds_backend_ops abi net =
     \<lparr>ops_send = Some (arm_ds_send abi net), ops_recv = Some (arm_ds_recv abi net),
      ops_link_status = None, ops_device_info = None, ops_close = Some (arm_ds_close net)\<rparr>"

definition pcie_backend_armds :: "raw_abi \<Rightarrow> 's net \<Rightarrow> 's sock_world backend_ctor" where
  "pcie_backend_armds abi net w = Inr (Some (armds_backend_ops abi net), w)"

section \<open>The contract\<close>

lemma arm_ds_send_total:
  assumes "valid_tlp t"
  shows "\<exists>rc w'. arm_ds_send abi net (Some t) w = Inr (rc, Some t, w')"
proof -
  obtain rc w1 where 1: "arm_ds_connect net w = (rc, w1)" by (cases "arm_ds_connect net w")
  obtain n w2 where 2: "sock_send net (raw_tlp abi t) w1 = (n, w2)"
    by (cases "sock_send net (raw_tlp abi t) w1")
  show ?thesis
  proof (cases "mem_data t")
    case None
    with 1 2 show ?thesis by (auto simp: arm_ds_send_def)
  next
    case (Some data)
    with assms have rd: "mem_read data (unat (tlp_length t)) = Inr (take (unat (tlp_length t)) data)"
      by (simp add: mem_read_def valid_tlp_Some)
    obtain m w3 where "sock_send net (take (unat (tlp_length t)) data) w2 = (m, w3)"
      by (cases "sock_send net (take (unat (tlp_length t)) data) w2")
    with 1 2 Some rd show ?thesis by (auto simp: arm_ds_send_def)
  qed
qed

lemma arm_ds_recv_payload_total:
  "\<exists>rc t' w'. arm_ds_recv_payload net t w = (rc, Some t', w') \<and> (rc = 0 \<longrightarrow> valid_tlp t')"
proof -
  let ?n = "unat (tlp_length t)"
  obtain g s where g: "net_malloc net ?n (sk_net w) = (g, s)" by (cases "net_malloc net ?n (sk_net w)")
  obtain r s' where r: "net_recv net (sk_fd w) ?n True s = (r, s')"
    by (cases "net_recv net (sk_fd w) ?n True s")
  show ?thesis
    using g r by (cases g; cases r)
      (auto simp: arm_ds_recv_payload_def Let_def valid_tlp_def split: option.splits)
qed

lemma arm_ds_recv_total:
  "\<exists>rc t' w'. arm_ds_recv abi net (Some t) w = Inr (rc, Some t', w') \<and> (rc = 0 \<longrightarrow> valid_tlp t')"
proof -
  obtain rc w1 where 1: "arm_ds_connect net w = (rc, w1)" by (cases "arm_ds_connect net w")
  obtain fl s1 where 2: "net_getfl net (sk_fd w1) (sk_net w1) = (fl, s1)"
    by (cases "net_getfl net (sk_fd w1) (sk_net w1)")
  obtain r s2 where 3: "net_recv net (sk_fd w1) 32 False (net_setfl net (sk_fd w1) True s1) = (r, s2)"
    by (cases "net_recv net (sk_fd w1) 32 False (net_setfl net (sk_fd w1) True s1)")
  show ?thesis
  proof (cases r)
    case None
    with 1 2 3 show ?thesis by (simp add: arm_ds_recv_def Let_def)
  next
    case (Some got)
    from arm_ds_recv_payload_total [of net "raw_overlay abi t (take 32 got)"
        "w1\<lparr>sk_net := net_setfl net (sk_fd w1) fl s2\<rparr>"] obtain rc' t' w' where
      "arm_ds_recv_payload net (raw_overlay abi t (take 32 got))
         (w1\<lparr>sk_net := net_setfl net (sk_fd w1) fl s2\<rparr>) = (rc', Some t', w')" "rc' = 0 \<longrightarrow> valid_tlp t'"
      by blast
    with 1 2 3 Some show ?thesis by (simp add: arm_ds_recv_def Let_def)
  qed
qed

lemma armds_ops_simps [simp]:
  "ops_send (armds_backend_ops abi net) = Some (arm_ds_send abi net)"
  "ops_recv (armds_backend_ops abi net) = Some (arm_ds_recv abi net)"
  "ops_link_status (armds_backend_ops abi net) = None"
  "ops_device_info (armds_backend_ops abi net) = None"
  "ops_close (armds_backend_ops abi net) = Some (arm_ds_close net)"
  by (simp_all add: armds_backend_ops_def)

interpretation armds: pcie_backend "armds_backend_ops abi net" "\<lambda>_. True" valid_tlp for abi net
proof (unfold_locales, goal_cases)
  case (2 w t)
  with arm_ds_send_total [OF 2(2), of abi net w] show ?case by fastforce
next
  case (3 w t)
  with arm_ds_recv_total [of abi net t w] show ?case by simp
qed (auto simp: arm_ds_close_def)

section \<open>The receive flag\<close>

text \<open>
  What \<open>fcntl\<close> documents of the status flag \<open>O_NONBLOCK\<close>, here \<open>nb\<close>: it is read and set by
  \<open>fcntl\<close>, and the other calls leave it alone.
\<close>

definition fcntl_law :: "'s net \<Rightarrow> ('s \<Rightarrow> bool) \<Rightarrow> bool" where
  "fcntl_law net nb \<longleftrightarrow>
     (\<forall>fd s. fst (net_getfl net fd s) = nb s \<and> nb (snd (net_getfl net fd s)) = nb s) \<and>
     (\<forall>fd b s. nb (net_setfl net fd b s) = b) \<and>
     (\<forall>fd n wait s. nb (snd (net_recv net fd n wait s)) = nb s) \<and>
     (\<forall>n s. nb (snd (net_malloc net n s)) = nb s)"

lemma recv_payload_keeps_flag:
  assumes "fcntl_law net nb" and "arm_ds_recv_payload net t w = (rc, t', w')"
  shows "nb (sk_net w') = nb (sk_net w) \<and> sk_fd w' = sk_fd w"
proof -
  let ?n = "unat (tlp_length t)"
  obtain g s where m: "net_malloc net ?n (sk_net w) = (g, s)" by (cases "net_malloc net ?n (sk_net w)")
  obtain r s' where r: "net_recv net (sk_fd w) ?n True s = (r, s')"
    by (cases "net_recv net (sk_fd w) ?n True s")
  have "nb (snd (net_malloc net ?n (sk_net w))) = nb (sk_net w)"
    "nb (snd (net_recv net (sk_fd w) ?n True s)) = nb s"
    using assms(1) by (simp_all add: fcntl_law_def)
  with m r assms(2) show ?thesis
    by (auto simp: arm_ds_recv_payload_def Let_def split: if_splits bool.splits option.splits)
qed

lemma recv_keeps_nonblocking:
  assumes law: "fcntl_law net nb" and w: "nb (sk_net w)" "0 \<le> sk_fd w"
    and recv: "arm_ds_recv abi net tp w = Inr (rc, tp', w')" and open': "0 \<le> sk_fd w'"
  shows "nb (sk_net w') \<and> sk_fd w' = sk_fd w"
proof -
  have con: "arm_ds_connect net w = (0, w)" using w(2) by (simp add: arm_ds_connect_def)
  obtain f s1 where f: "net_getfl net (sk_fd w) (sk_net w) = (f, s1)"
    by (cases "net_getfl net (sk_fd w) (sk_net w)")
  obtain r s2 where r: "net_recv net (sk_fd w) 32 False (net_setfl net (sk_fd w) True s1) = (r, s2)"
    by (cases "net_recv net (sk_fd w) 32 False (net_setfl net (sk_fd w) True s1)")
  have "fst (net_getfl net (sk_fd w) (sk_net w)) = nb (sk_net w)" using law by (simp add: fcntl_law_def)
  with f w(1) have f': "f" by simp
  have "nb (snd (net_recv net (sk_fd w) 32 False (net_setfl net (sk_fd w) True s1)))"
    using law by (simp add: fcntl_law_def)
  with r have s2: "nb s2" by simp
  have set: "nb (net_setfl net (sk_fd w) True s2)" using law by (simp add: fcntl_law_def)
  show ?thesis
    using recv con f r f' s2 set open' w(2)
    by (auto simp: arm_ds_recv_def Let_def sock_close_def
        split: option.splits if_splits dest!: recv_payload_keeps_flag [OF law])
qed

section \<open>Properties\<close>

text \<open>
  C34: A receive that finds nothing leaves the connection in non-blocking mode, and no later
  receive on it ends in blocking mode again: the flags it saves and restores already hold
  \<open>O_NONBLOCK\<close>, so the payload of every later packet is awaited without blocking.
\<close>

theorem armds_stays_nonblocking:
  assumes law: "fcntl_law net nb" and w: "0 \<le> sk_fd w"
    and idle: "fst (net_recv net (sk_fd w) 32 False
                    (net_setfl net (sk_fd w) True (snd (net_getfl net (sk_fd w) (sk_net w))))) = None"
  shows "\<exists>w1. arm_ds_recv abi net tp w = Inr (-1, tp, w1) \<and> 0 \<le> sk_fd w1 \<and> nb (sk_net w1) \<and>
           (\<forall>v tp2 rc tp3 v'. nb (sk_net v) \<and> 0 \<le> sk_fd v \<and>
              arm_ds_recv abi net tp2 v = Inr (rc, tp3, v') \<and> 0 \<le> sk_fd v' \<longrightarrow> nb (sk_net v'))"
proof -
  have con: "arm_ds_connect net w = (0, w)" using w by (simp add: arm_ds_connect_def)
  obtain f s1 where f: "net_getfl net (sk_fd w) (sk_net w) = (f, s1)"
    by (cases "net_getfl net (sk_fd w) (sk_net w)")
  obtain r s2 where r: "net_recv net (sk_fd w) 32 False (net_setfl net (sk_fd w) True s1) = (r, s2)"
    by (cases "net_recv net (sk_fd w) 32 False (net_setfl net (sk_fd w) True s1)")
  have "nb (snd (net_recv net (sk_fd w) 32 False (net_setfl net (sk_fd w) True s1)))"
    using law by (simp add: fcntl_law_def)
  with r have s2: "nb s2" by simp
  from idle f r have "r = None" by simp
  with con f r have "arm_ds_recv abi net tp w = Inr (-1, tp, w\<lparr>sk_net := s2\<rparr>)"
    by (simp add: arm_ds_recv_def)
  with s2 w show ?thesis using recv_keeps_nonblocking [OF law] by auto
qed

text \<open>A network with the flag and the bytes to be received.\<close>

definition flag_net :: "(bool \<times> u8 list) net" where
  "flag_net =
     \<lparr>net_pton = (\<lambda>host. True), net_socket = (\<lambda>s. (4, s)), net_timeouts = (\<lambda>fd a b s. s),
      net_connect = (\<lambda>fd host port s. (True, s)), net_send = (\<lambda>fd bs s. (int (length bs), s)),
      net_recv = (\<lambda>fd n wait s. if snd s = [] \<and> fst s then (None, s)
                              else (Some (take n (snd s)), (fst s, drop n (snd s)))),
      net_getfl = (\<lambda>fd s. (fst s, s)), net_setfl = (\<lambda>fd nb s. (nb, snd s)),
      net_close = (\<lambda>fd s. s), net_wouldblock = (\<lambda>s. True), net_malloc = (\<lambda>n s. (True, s))\<rparr>"

theorem armds_stays_nonblocking_witness:
  "\<exists>w1. arm_ds_recv \<lparr>abi_ptr = \<lambda>p. 0, abi_pad9 = 0, abi_pad12 = []\<rparr> flag_net None \<lparr>sk_fd = 4, sk_net = (False, [])\<rparr> = Inr (-1, None, w1) \<and>
        fst (sk_net w1)"
proof -
  have "fcntl_law flag_net fst" by (simp add: fcntl_law_def flag_net_def)
  from armds_stays_nonblocking [OF this, of "\<lparr>sk_fd = 4, sk_net = (False, [])\<rparr>"
      "\<lparr>abi_ptr = \<lambda>p. 0, abi_pad9 = 0, abi_pad12 = []\<rparr>" None]
  show ?thesis by (auto simp: flag_net_def)
qed

end
