(* ===== verification/Bridge.thy ===== *)
theory Bridge
  imports Armds
begin

text \<open>
  The bridge server, \<open>armds_bridge_server.c\<close>, on its accepted client socket: the device
  identification and the main loop, with the two placeholders for the FPGA side as the source
  has them. What the server hands to \<open>arm_ds_send_tlp\<close> is collected in order. The lemmas
  connect it to the packets the backend of \<open>src/backend_armds.c\<close> sends.

  The rest of \<open>main\<close> is in \<open>BridgeServer\<close>; the messages are left out.
\<close>

section \<open>The server\<close>

definition arm_ds_send_tlp :: "tlp \<Rightarrow> int" where
  "arm_ds_send_tlp t = 0"

definition arm_ds_receive_tlp :: "tlp \<Rightarrow> int \<times> tlp" where
  "arm_ds_receive_tlp t = (-1, t)"

text \<open>Answering the client with a packet from the FPGA; \<open>False\<close> leaves the loop.\<close>

definition bridge_respond :: "raw_abi \<Rightarrow> 's net \<Rightarrow> int \<Rightarrow> tlp \<Rightarrow> 's \<Rightarrow> (bool \<times> 's) c_res" where
  "bridge_respond abi net fd t s =
     (case arm_ds_receive_tlp t of
        (rc, r) \<Rightarrow>
          if rc \<noteq> 0 then Inr (True, s)
          else case net_send net fd (raw_tlp abi r) s of
                 (n, s1) \<Rightarrow>
                   if n \<noteq> 32 then Inr (False, s1)
                   else if tlp_length r > 0
                   then (case mem_data r of
                           None \<Rightarrow> Inr (True, s1)
                         | Some data \<Rightarrow>
                             cbind (mem_read data (unat (tlp_length r))) (\<lambda>bs.
                               case net_send net fd bs s1 of
                                 (m, s2) \<Rightarrow> Inr (m = int (unat (tlp_length r)), s2)))
                   else Inr (True, s1))"

text \<open>One packet from the client. \<open>None\<close> leaves the loop; a packet given up leaves nothing.\<close>

definition bridge_receive :: "'s net \<Rightarrow> int \<Rightarrow> 's \<Rightarrow> tlp option option \<times> 's" where
  "bridge_receive net fd s =
     (case net_recv net fd 32 False s of
        (r, s1) \<Rightarrow>
          (case map_option (take 32) r of
             None \<Rightarrow> (if net_wouldblock net s1 then (Some None, s1) else (None, s1))
           | Some bs \<Rightarrow>
               if bs = [] then (None, s1)
               else if length bs \<noteq> 32 then (Some None, s1)
               else let t = unraw bs; n = unat (tlp_length t) in
                    if n > 0
                    then (case net_malloc net n s1 of
                            (False, s2) \<Rightarrow> (None, s2)
                          | (True, s2) \<Rightarrow>
                              (case net_recv net fd n True s2 of
                                 (q, s3) \<Rightarrow>
                                   (case map_option (take n) q of
                                      Some p \<Rightarrow> if length p = n then (Some (Some (t\<lparr>mem_data := Some p\<rparr>)), s3)
                                                else (Some None, s3)
                                    | None \<Rightarrow> (Some None, s3))))
                    else (Some (Some t), s1)))"

text \<open>
  The main loop, with the packets forwarded so far; \<open>tlp_zero\<close> stands for the uninitialised
  response packet.
\<close>

partial_function (option) bridge_loop ::
  "raw_abi \<Rightarrow> 's net \<Rightarrow> int \<Rightarrow> tlp list \<Rightarrow> 's \<Rightarrow> (tlp list \<times> 's) c_res option" where
  "bridge_loop abi net fd fwd s =
     (case bridge_receive net fd s of
        (None, s1) \<Rightarrow> Some (Inr (fwd, s1))
      | (Some None, s1) \<Rightarrow> bridge_loop abi net fd fwd s1
      | (Some (Some t), s1) \<Rightarrow>
          (let fwd' = (if arm_ds_send_tlp t = 0 then fwd @ [t] else fwd)
           in case bridge_respond abi net fd tlp_zero s1 of
                Inl e \<Rightarrow> Some (Inl e)
              | Inr (go_on, s2) \<Rightarrow>
                  if go_on then bridge_loop abi net fd fwd' s2 else Some (Inr (fwd', s2))))"

text \<open>The session of one client: the exit code and the packets forwarded.\<close>

definition bridge_session ::
  "raw_abi \<Rightarrow> 's net \<Rightarrow> int \<Rightarrow> 's \<Rightarrow> (int \<times> tlp list \<times> 's) c_res option" where
  "bridge_session abi net fd s =
     (case net_recv net fd 4 False s of
        (r, s1) \<Rightarrow>
          (case map_option (take 4) r of
             None \<Rightarrow> Some (Inr (1, [], net_close net fd s1))
           | Some bs \<Rightarrow>
               if length bs \<noteq> 4 then Some (Inr (1, [], net_close net fd s1))
               else (case bridge_loop abi net fd [] s1 of
                       None \<Rightarrow> None
                     | Some (Inl e) \<Rightarrow> Some (Inl e)
                     | Some (Inr (ts, s2)) \<Rightarrow> Some (Inr (0, ts, net_close net fd s2)))))"

section \<open>Header and structure\<close>

lemma length_raw_tlp [simp]: "length (raw_tlp abi t) = 32"
  by (simp add: raw_tlp_def)

lemma raw_fields:
  "field (raw_tlp abi t) 0 4 = le_bytes 4 (unat (tlp_type t))"
  "field (raw_tlp abi t) 4 2 = le_bytes 2 (unat (requester_id t))"
  "field (raw_tlp abi t) 6 2 = le_bytes 2 (unat (completer_id t))"
  "raw_tlp abi t ! 8 = tag t"
  "field (raw_tlp abi t) 10 2 = le_bytes 2 (unat (tlp_length t))"
  "field (raw_tlp abi t) 16 8 = le_bytes 8 (unat (mem_addr t))"
  "field (raw_tlp abi t) 24 8 = le_bytes 8 (unat (abi_ptr abi (mem_data t)))"
  by (simp_all add: raw_tlp_def byte_simps nth_append)

lemma unraw_raw_tlp:
  "unraw (raw_tlp abi t) = t\<lparr>mem_data := wild (unat (abi_ptr abi (mem_data t)))\<rparr>"
  unfolding unraw_def raw_fields by simp

text \<open>What the backend puts on the wire, and what the bridge makes of it.\<close>

definition raw_wire :: "raw_abi \<Rightarrow> tlp \<Rightarrow> u8 list" where
  "raw_wire abi t = raw_tlp abi t @ tlp_payload t"

definition raw_view :: "raw_abi \<Rightarrow> tlp \<Rightarrow> tlp" where
  "raw_view abi t =
     t\<lparr>mem_data := (if tlp_length t > 0 then Some (tlp_payload t)
                    else wild (unat (abi_ptr abi (mem_data t))))\<rparr>"

lemma bridge_receive_header:
  assumes inn: "stream_in net pending up" and s: "up s" "pending s = raw_tlp abi t @ p @ rest"
    and len: "length p = unat (tlp_length t)"
  shows "\<exists>s'. bridge_receive net fd s =
            (Some (Some (t\<lparr>mem_data := (if tlp_length t > 0 then Some p
                                       else wild (unat (abi_ptr abi (mem_data t))))\<rparr>)), s') \<and>
          up s' \<and> pending s' = rest"
proof -
  let ?n = "unat (tlp_length t)"
  obtain s1 where 1: "net_recv net fd 32 False s = (Some (raw_tlp abi t), s1)" "up s1"
      "pending s1 = p @ rest"
    using stream_in_recv [OF inn s(1), of fd 32 False] s(2) by auto
  have ne: "raw_tlp abi t \<noteq> []" using length_raw_tlp [of abi t] by force
  show ?thesis
  proof (cases "tlp_length t > 0")
    case False
    with 1 ne len show ?thesis
      by (simp add: bridge_receive_def Let_def unraw_raw_tlp unat_gt_0 word_gt_0)
  next
    case True
    obtain s2 where 2: "net_malloc net ?n s1 = (True, s2)" "up s2" "pending s2 = p @ rest"
      using stream_in_malloc [OF inn 1(2), of ?n] 1(3) by metis
    obtain s3 where 3: "net_recv net fd ?n True s2 = (Some p, s3)" "up s3" "pending s3 = rest"
      using stream_in_recv [OF inn 2(2), of fd ?n True] 2(3) len by auto
    from True 1 2 3 ne len show ?thesis
      by (simp add: bridge_receive_def Let_def unraw_raw_tlp unat_gt_0 word_gt_0)
  qed
qed

lemma bridge_receive_packet:
  assumes "stream_in net pending up" and "up s" "pending s = raw_wire abi t @ rest" and "complete_tlp t"
  shows "\<exists>s'. bridge_receive net fd s = (Some (Some (raw_view abi t)), s') \<and> up s' \<and> pending s' = rest"
  using bridge_receive_header [OF assms(1,2), of abi t "tlp_payload t" rest fd] assms(3)
    length_payload_complete [OF assms(4)]
  by (simp add: raw_wire_def raw_view_def)

lemma bridge_receive_end:
  assumes "stream_in net pending up" and "up s" and "pending s = []"
  shows "\<exists>s'. bridge_receive net fd s = (None, s')"
proof -
  obtain s1 where "net_recv net fd 32 False s = (Some [], s1)"
    using stream_in_recv [OF assms(1,2), of fd 32 False] assms(3) by auto
  then show ?thesis by (simp add: bridge_receive_def)
qed

lemma bridge_respond_silent: "bridge_respond abi net fd t s = Inr (True, s)"
  by (simp add: bridge_respond_def arm_ds_receive_tlp_def)

lemma bridge_loop_forwards:
  assumes inn: "stream_in net pending up"
  shows "\<lbrakk>up s; pending s = concat (map (raw_wire abi') ts); list_all complete_tlp ts\<rbrakk> \<Longrightarrow>
     \<exists>s'. bridge_loop abi net fd fwd s = Some (Inr (fwd @ map (raw_view abi') ts, s'))"
proof (induction ts arbitrary: s fwd)
  case Nil
  then obtain s1 where "bridge_receive net fd s = (None, s1)"
    using bridge_receive_end [OF inn, of s fd] by auto
  then show ?case by (subst bridge_loop.simps) simp
next
  case (Cons t ts)
  obtain s1 where 1: "bridge_receive net fd s = (Some (Some (raw_view abi' t)), s1)" "up s1"
      "pending s1 = concat (map (raw_wire abi') ts)"
    using bridge_receive_packet [OF inn Cons.prems(1), of abi' t "concat (map (raw_wire abi') ts)" fd]
      Cons.prems(2,3) by auto
  from Cons.IH [OF 1(2,3), of "fwd @ [raw_view abi' t]"] Cons.prems(3) 1(1) show ?case
    by (subst bridge_loop.simps) (auto simp: bridge_respond_silent arm_ds_send_tlp_def)
qed

lemma arm_ds_send_wire:
  assumes out: "stream_out net sent_log up" and w: "up (sk_net w)" "0 \<le> sk_fd w" and t: "complete_tlp t"
  shows "\<exists>w'. arm_ds_send abi net (Some t) w = Inr (0, Some t, w') \<and> up (sk_net w') \<and> 0 \<le> sk_fd w' \<and>
           sent_log (sk_net w') = sent_log (sk_net w) @ raw_wire abi t"
proof -
  have con: "arm_ds_connect net w = (0, w)" using w(2) by (simp add: arm_ds_connect_def)
  obtain w1 where 1: "sock_send net (raw_tlp abi t) w = (32, w1)" "sk_fd w1 = sk_fd w" "up (sk_net w1)"
      "sent_log (sk_net w1) = sent_log (sk_net w) @ raw_tlp abi t"
    using sock_send_out [OF out w(1), of "raw_tlp abi t"] by auto
  show ?thesis
  proof (cases "tlp_length t > 0")
    case False
    then have "tlp_payload t = []" by (simp add: tlp_payload_def word_gt_0 split: option.splits)
    with False con 1 w show ?thesis by (simp add: arm_ds_send_def raw_wire_def)
  next
    case True
    with t obtain data where data: "mem_data t = Some data" "unat (tlp_length t) \<le> length data"
      by (auto simp: complete_tlp_def valid_tlp_def)
    obtain w2 where 2: "sock_send net (take (unat (tlp_length t)) data) w1 = (int (unat (tlp_length t)), w2)"
        "sk_fd w2 = sk_fd w1" "up (sk_net w2)"
        "sent_log (sk_net w2) = sent_log (sk_net w1) @ take (unat (tlp_length t)) data"
      using sock_send_out [OF out 1(3), of "take (unat (tlp_length t)) data"] data(2)
      by (auto simp: min_def)
    from True con 1 2 data w show ?thesis
      by (simp add: arm_ds_send_def raw_wire_def tlp_payload_def mem_read_def)
  qed
qed

lemma arm_ds_send_all_wire:
  assumes out: "stream_out net sent_log up"
  shows "\<lbrakk>up (sk_net w); 0 \<le> sk_fd w; list_all complete_tlp ts\<rbrakk> \<Longrightarrow>
     \<exists>w'. send_all (arm_ds_send abi net) ts w = Inr (replicate (length ts) 0, w') \<and>
          up (sk_net w') \<and> sent_log (sk_net w') = sent_log (sk_net w) @ concat (map (raw_wire abi) ts)"
proof (induction ts arbitrary: w)
  case (Cons t ts)
  then obtain w1 where "arm_ds_send abi net (Some t) w = Inr (0, Some t, w1)" "up (sk_net w1)"
      "0 \<le> sk_fd w1" "sent_log (sk_net w1) = sent_log (sk_net w) @ raw_wire abi t"
    using arm_ds_send_wire [OF out, of w t abi] by auto
  with Cons.IH [of w1] Cons.prems show ?case by auto
qed simp

section \<open>From the backend to the bridge\<close>

lemma arm_ds_connect_dial:
  assumes dial: "stream_dial net sent_log up" and out: "stream_out net sent_log up"
    and w: "up (sk_net w)" "sk_fd w < 0"
  shows "\<exists>w'. arm_ds_connect net w = (0, w') \<and> up (sk_net w') \<and> 0 \<le> sk_fd w' \<and>
           sent_log (sk_net w') = sent_log (sk_net w) @ le_bytes 4 (unat FPGA_DEVICE_ID)"
proof -
  obtain w1 where 1: "stream_connect net ARM_DS_HOST ARM_DS_PORT 5 5 w = (0, w1)" "up (sk_net w1)"
      "0 \<le> sk_fd w1" "sent_log (sk_net w1) = sent_log (sk_net w)"
    using stream_connect_dial [OF dial w(1)] by blast
  obtain w2 where "sock_send net (le_bytes 4 (unat FPGA_DEVICE_ID)) w1 = (4, w2)" "sk_fd w2 = sk_fd w1"
      "up (sk_net w2)" "sent_log (sk_net w2) = sent_log (sk_net w1) @ le_bytes 4 (unat FPGA_DEVICE_ID)"
    using sock_send_out [OF out 1(2), of "le_bytes 4 (unat FPGA_DEVICE_ID)"] by auto
  with 1 w(2) show ?thesis by (simp add: arm_ds_connect_def)
qed

lemma arm_ds_send_connected:
  assumes "arm_ds_connect net w = (0, w1)" and "0 \<le> sk_fd w1"
  shows "arm_ds_send abi net tp w = arm_ds_send abi net tp w1"
  using assms by (simp add: arm_ds_send_def arm_ds_connect_def [of net w1])

lemma bridge_session_loop:
  assumes inn: "stream_in net pending up" and s: "up s" "pending s = le_bytes 4 d @ stream"
    and loop: "\<And>s1. \<lbrakk>up s1; pending s1 = stream\<rbrakk> \<Longrightarrow>
                 \<exists>s'. bridge_loop abi net fd [] s1 = Some (Inr (fwd, s'))"
  shows "\<exists>s'. bridge_session abi net fd s = Some (Inr (0, fwd, s'))"
proof -
  obtain s1 where s1: "net_recv net fd 4 False s = (Some (le_bytes 4 d), s1)" "up s1" "pending s1 = stream"
    using stream_in_recv [OF inn s(1), of fd 4 False] s(2) by auto
  obtain s' where "bridge_loop abi net fd [] s1 = Some (Inr (fwd, s'))" using loop [OF s1(2,3)] by blast
  with s1(1) show ?thesis by (simp add: bridge_session_def)
qed

section \<open>Properties\<close>

text \<open>
  C1: From the ARM DS backend to the bridge server, over a connection that delivers: the
  first send connects and identifies the device, every packet whose payload is there is sent,
  and when the server reads what was sent it forwards exactly those packets, in order, with
  their payloads, and stops when the client is done. The two programs agree on the layout of
  the raw structure.
\<close>

theorem armds_bridge_end_to_end:
  assumes dial: "stream_dial net sent_log up" and out: "stream_out net sent_log up"
    and w: "up (sk_net w)" "sk_fd w < 0" "sent_log (sk_net w) = []"
    and ts: "ts \<noteq> []" "list_all complete_tlp ts"
    and inn: "stream_in net' pending up'"
  shows "\<exists>w'. send_all (arm_ds_send abi net) ts w = Inr (replicate (length ts) 0, w') \<and>
           (\<forall>s. up' s \<and> pending s = sent_log (sk_net w') \<longrightarrow>
              (\<exists>s'. bridge_session abi' net' fd s = Some (Inr (0, map (raw_view abi) ts, s'))))"
proof -
  obtain w1 where w1: "arm_ds_connect net w = (0, w1)" "up (sk_net w1)" "0 \<le> sk_fd w1"
      "sent_log (sk_net w1) = le_bytes 4 (unat FPGA_DEVICE_ID)"
    using arm_ds_connect_dial [OF dial out w(1,2)] w(3) by auto
  obtain t rest where t: "ts = t # rest" using ts(1) by (cases ts) auto
  have "send_all (arm_ds_send abi net) ts w = send_all (arm_ds_send abi net) ts w1"
    by (simp add: t arm_ds_send_connected [OF w1(1,3)])
  moreover obtain w2 where w2: "send_all (arm_ds_send abi net) ts w1 = Inr (replicate (length ts) 0, w2)"
      "sent_log (sk_net w2) = le_bytes 4 (unat FPGA_DEVICE_ID) @ concat (map (raw_wire abi) ts)"
    using arm_ds_send_all_wire [OF out w1(2,3) ts(2)] w1(4) by auto
  moreover have "\<exists>s'. bridge_session abi' net' fd s = Some (Inr (0, map (raw_view abi) ts, s'))"
    if "up' s" "pending s = sent_log (sk_net w2)" for s
    by (rule bridge_session_loop [OF inn that(1) that(2) [unfolded w2(2)]])
      (use bridge_loop_forwards [OF inn _ _ ts(2), where fwd = "[]"] in auto)
  ultimately show ?thesis by auto
qed

definition plain_abi :: raw_abi where
  "plain_abi = \<lparr>abi_ptr = (\<lambda>p. case p of None \<Rightarrow> 0 | Some _ \<Rightarrow> 0x7F00), abi_pad9 = 0, abi_pad12 = []\<rparr>"

theorem armds_bridge_end_to_end_witness:
  "\<exists>w' s'. send_all (arm_ds_send plain_abi pipe_net)
       [pcie_tlp_mem_write 0x2000 2 (Some [5, 6]), pcie_tlp_cfg_read 4] \<lparr>sk_fd = -1, sk_net = ([], [])\<rparr> =
       Inr ([0, 0], w') \<and>
     bridge_session plain_abi pipe_net 7 ([], fst (sk_net w')) =
       Some (Inr (0, [pcie_tlp_mem_write 0x2000 2 (Some [5, 6]), pcie_tlp_cfg_read 4], s'))"
proof -
  let ?ts = "[pcie_tlp_mem_write 0x2000 2 (Some [5, 6]), pcie_tlp_cfg_read 4]"
  have "list_all complete_tlp ?ts"
    by (simp add: complete_tlp_def valid_tlp_def pcie_tlp_mem_write_def pcie_tlp_cfg_read_def tlp_zero_def)
  moreover have "map (raw_view plain_abi) ?ts = ?ts"
    by (simp add: raw_view_def pcie_tlp_mem_write_def pcie_tlp_cfg_read_def tlp_zero_def
        tlp_payload_def wild_def plain_abi_def)
  moreover obtain w' where w': "send_all (arm_ds_send plain_abi pipe_net) ?ts \<lparr>sk_fd = -1, sk_net = ([], [])\<rparr> =
        Inr (replicate (length ?ts) 0, w')"
      "\<forall>s. True \<and> snd s = fst (sk_net w') \<longrightarrow>
        (\<exists>s'. bridge_session plain_abi pipe_net 7 s = Some (Inr (0, map (raw_view plain_abi) ?ts, s')))"
    using armds_bridge_end_to_end [OF pipe_dial pipe_out, of "\<lparr>sk_fd = -1, sk_net = ([], [])\<rparr>" ?ts
        pipe_net snd "\<lambda>_. True" plain_abi plain_abi 7, OF TrueI _ _ _ calculation(1) pipe_in]
    by (simp del: send_all.simps list.map) blast
  moreover have "replicate (length ?ts) (0::int) = [0, 0]" by simp
  ultimately show ?thesis
    using w'(2) [rule_format, of "([], fst (sk_net w'))"] by (simp del: send_all.simps list.map)
qed

text \<open>
  C35: The ARM DS backend reports a packet as sent when it announces a payload it does not
  have; the bridge then takes the next packet's header for the missing payload. Both sends
  succeed, and only one packet, with the other one's header as its data, is forwarded.
\<close>

theorem armds_missing_payload_desync:
  assumes out: "stream_out net sent_log up" and w: "up (sk_net w)" "0 \<le> sk_fd w" "sent_log (sk_net w) = le_bytes 4 d"
    and t1: "mem_data t1 = None" "tlp_length t1 = 32" and t2: "tlp_length t2 = 0"
    and inn: "stream_in net' pending up'"
  shows "\<exists>w'. send_all (arm_ds_send abi net) [t1, t2] w = Inr ([0, 0], w') \<and>
           (\<forall>s. up' s \<and> pending s = sent_log (sk_net w') \<longrightarrow>
              (\<exists>s'. bridge_session abi' net' fd s =
                      Some (Inr (0, [t1\<lparr>mem_data := Some (raw_tlp abi t2)\<rparr>], s'))))"
proof -
  have "arm_ds_connect net w = (0, w)" using w(2) by (simp add: arm_ds_connect_def)
  with sock_send_out [OF out w(1), of "raw_tlp abi t1"] t1 obtain w1 where
    w1: "arm_ds_send abi net (Some t1) w = Inr (0, Some t1, w1)" "up (sk_net w1)" "0 \<le> sk_fd w1"
      "sent_log (sk_net w1) = le_bytes 4 d @ raw_tlp abi t1"
    using w by (auto simp: arm_ds_send_def)
  have "complete_tlp t2" using t2 by (simp add: complete_tlp_def valid_tlp_def split: option.splits)
  moreover have "tlp_payload t2 = []" using t2 by (simp add: tlp_payload_def split: option.splits)
  ultimately obtain w2 where w2: "arm_ds_send abi net (Some t2) w1 = Inr (0, Some t2, w2)"
      "sent_log (sk_net w2) = le_bytes 4 d @ raw_tlp abi t1 @ raw_tlp abi t2"
    using arm_ds_send_wire [OF out w1(2,3), of t2 abi] w1(4) by (auto simp: raw_wire_def)
  have loop: "\<exists>s'. bridge_loop abi' net' fd [] s = Some (Inr ([t1\<lparr>mem_data := Some (raw_tlp abi t2)\<rparr>], s'))"
    if s: "up' s" "pending s = raw_tlp abi t1 @ raw_tlp abi t2" for s
  proof -
    obtain s1 where 1: "bridge_receive net' fd s = (Some (Some (t1\<lparr>mem_data := Some (raw_tlp abi t2)\<rparr>)), s1)"
        "up' s1" "pending s1 = []"
      using bridge_receive_header [OF inn s(1), of abi t1 "raw_tlp abi t2" "[]" fd] s(2) t1(2) by auto
    obtain s2 where "bridge_receive net' fd s1 = (None, s2)"
      using bridge_receive_end [OF inn 1(2,3)] by blast
    then have "bridge_loop abi' net' fd fwd s1 = Some (Inr (fwd, s2))" for fwd
      by (subst bridge_loop.simps) simp
    with 1(1) show ?thesis
      by (subst bridge_loop.simps) (simp add: bridge_respond_silent arm_ds_send_tlp_def Let_def)
  qed
  have "\<exists>s'. bridge_session abi' net' fd s = Some (Inr (0, [t1\<lparr>mem_data := Some (raw_tlp abi t2)\<rparr>], s'))"
    if "up' s" "pending s = sent_log (sk_net w2)" for s
    by (rule bridge_session_loop [OF inn that(1) that(2) [unfolded w2(2)]]) (rule loop)
  with w1(1) w2(1) show ?thesis by auto
qed

theorem armds_missing_payload_desync_witness:
  "\<exists>w' s'. send_all (arm_ds_send plain_abi pipe_net) [pcie_tlp_mem_write 8 32 None, pcie_tlp_cfg_read 4]
       \<lparr>sk_fd = 4, sk_net = (le_bytes 4 7, [])\<rparr> = Inr ([0, 0], w') \<and>
     bridge_session plain_abi pipe_net 7 ([], fst (sk_net w')) =
       Some (Inr (0, [pcie_tlp_mem_write 8 32 (Some (raw_tlp plain_abi (pcie_tlp_cfg_read 4)))], s'))"
proof -
  let ?t = "pcie_tlp_mem_write 8 32 None" and ?u = "pcie_tlp_cfg_read 4"
  let ?w = "\<lparr>sk_fd = 4, sk_net = (le_bytes 4 7, [])\<rparr>"
  have t: "mem_data ?t = None" "tlp_length ?t = 32" "tlp_length ?u = 0"
    by (simp_all add: pcie_tlp_mem_write_def pcie_tlp_cfg_read_def tlp_zero_def)
  have w: "fst (sk_net ?w) = le_bytes 4 7" "0 \<le> sk_fd ?w" by simp_all
  have v: "?t\<lparr>mem_data := q\<rparr> = pcie_tlp_mem_write 8 32 q" for q
    by (simp add: pcie_tlp_mem_write_def tlp_zero_def)
  obtain w' where w': "send_all (arm_ds_send plain_abi pipe_net) [?t, ?u] ?w = Inr ([0, 0], w')"
      "\<forall>s. True \<and> snd s = fst (sk_net w') \<longrightarrow>
        (\<exists>s'. bridge_session plain_abi pipe_net 7 s =
           Some (Inr (0, [?t\<lparr>mem_data := Some (raw_tlp plain_abi ?u)\<rparr>], s')))"
    using armds_missing_payload_desync [OF pipe_out TrueI w(2,1) t pipe_in] by blast
  from w'(2) [rule_format, of "([], fst (sk_net w'))"] w'(1) show ?thesis
    unfolding v by (simp del: send_all.simps)
qed

end
