(* ===== verification/BridgeServer.thy ===== *)
theory BridgeServer
  imports Bridge CText
begin

text \<open>
  The whole server \<open>main\<close> of \<open>armds_bridge_server.c\<close>: Winsock and the listening socket
  around the client session of \<open>Bridge\<close>. The Winsock calls are the record \<open>winsock\<close>;
  \<open>INVALID_SOCKET\<close> and \<open>SOCKET_ERROR\<close> are \<open>-1\<close>. The lemmas show that no exit leaves a socket open.
\<close>

section \<open>The server\<close>

definition DEFAULT_PORT :: u32 where
  "DEFAULT_PORT = 12345"

record 's winsock =
  ws_startup :: "'s \<Rightarrow> int \<times> 's"
  ws_cleanup :: "'s \<Rightarrow> 's"
  ws_socket :: "'s \<Rightarrow> int \<times> 's"
  ws_bind :: "int \<Rightarrow> u16 \<Rightarrow> 's \<Rightarrow> int \<times> 's"
  ws_listen :: "int \<Rightarrow> 's \<Rightarrow> int \<times> 's"
  ws_accept :: "int \<Rightarrow> 's \<Rightarrow> int \<times> 's"

text \<open>From the listening socket to the client's, \<open>None\<close> on the error exits. \<open>htons\<close> takes 16 bits.\<close>

definition bridge_listen :: "'s winsock \<Rightarrow> 's net \<Rightarrow> u32 \<Rightarrow> 's \<Rightarrow> int option \<times> 's" where
  "bridge_listen ws net port s =
     (case ws_socket ws s of (listen_socket, s1) \<Rightarrow>
        if listen_socket = -1 then (None, s1)
        else (case ws_bind ws listen_socket (ucast port) s1 of (rc, s2) \<Rightarrow>
          if rc = -1 then (None, net_close net listen_socket s2)
          else (case ws_listen ws listen_socket s2 of (rc, s3) \<Rightarrow>
            if rc = -1 then (None, net_close net listen_socket s3)
            else (case ws_accept ws listen_socket s3 of (client_socket, s4) \<Rightarrow>
              if client_socket = -1 then (None, net_close net listen_socket s4)
              else (Some client_socket, net_close net listen_socket s4)))))"

text \<open>The handler registered with \<open>atexit\<close> runs on every return behind its registration.\<close>

definition bridge_main ::
  "'s winsock \<Rightarrow> 's net \<Rightarrow> raw_abi \<Rightarrow> string list \<Rightarrow> 's \<Rightarrow> (int \<times> tlp list \<times> 's) c_res option" where
  "bridge_main ws net abi args s =
     (let port = (if args \<noteq> [] then c_atoi (hd args) else DEFAULT_PORT) in
      case ws_startup ws s of (rc, s1) \<Rightarrow>
        if rc \<noteq> 0 then Some (Inr (1, [], s1))
        else (case bridge_listen ws net port s1 of
                (None, s2) \<Rightarrow> Some (Inr (1, [], ws_cleanup ws s2))
              | (Some client_socket, s2) \<Rightarrow>
                  (case bridge_session abi net client_socket s2 of
                     None \<Rightarrow> None
                   | Some (Inl e) \<Rightarrow> Some (Inl e)
                   | Some (Inr (rc, fwd, s3)) \<Rightarrow> Some (Inr (rc, fwd, ws_cleanup ws s3)))))"

section \<open>Sockets are closed\<close>

text \<open>
  \<open>opened\<close> is the set of open sockets: \<open>socket\<close> and \<open>accept\<close> add the one they return,
  \<open>closesocket\<close> removes its argument, the other calls change nothing.
\<close>

definition socket_law :: "'s winsock \<Rightarrow> 's net \<Rightarrow> ('s \<Rightarrow> int set) \<Rightarrow> bool" where
  "socket_law ws net opened \<longleftrightarrow>
     (\<forall>s. opened (snd (ws_startup ws s)) = opened s \<and> opened (ws_cleanup ws s) = opened s \<and>
        (case ws_socket ws s of (l, s') \<Rightarrow> opened s' = (if l = -1 then opened s else insert l (opened s))) \<and>
        (\<forall>l. (case ws_accept ws l s of
                (c, s') \<Rightarrow> opened s' = (if c = -1 then opened s else insert c (opened s))) \<and>
             opened (snd (ws_listen ws l s)) = opened s \<and>
             (\<forall>port. opened (snd (ws_bind ws l port s)) = opened s) \<and>
             opened (net_close net l s) = opened s - {l} \<and>
             (\<forall>n wait. opened (snd (net_recv net l n wait s)) = opened s) \<and>
             (\<forall>bs. opened (snd (net_send net l bs s)) = opened s)) \<and>
        (\<forall>n. opened (snd (net_malloc net n s)) = opened s))"

lemma socket_lawD:
  assumes "socket_law ws net opened"
  shows "ws_startup ws s = (rc, s') \<Longrightarrow> opened s' = opened s"
    "opened (ws_cleanup ws s) = opened s"
    "ws_socket ws s = (rc, s') \<Longrightarrow> opened s' = (if rc = -1 then opened s else insert rc (opened s))"
    "ws_accept ws l s = (rc, s') \<Longrightarrow> opened s' = (if rc = -1 then opened s else insert rc (opened s))"
    "ws_listen ws l s = (rc, s') \<Longrightarrow> opened s' = opened s"
    "ws_bind ws l port s = (rc, s') \<Longrightarrow> opened s' = opened s"
    "opened (net_close net l s) = opened s - {l}"
    "net_recv net l n wait s = (r, s') \<Longrightarrow> opened s' = opened s"
    "net_send net l bs s = (rc, s') \<Longrightarrow> opened s' = opened s"
    "net_malloc net n s = (ok, s') \<Longrightarrow> opened s' = opened s"
proof -
  note at = assms [unfolded socket_law_def, rule_format, of s]
  note on = at [THEN conjunct2, THEN conjunct2, THEN conjunct2, THEN conjunct1, rule_format, of l]
  show "opened s' = opened s" if "ws_startup ws s = (rc, s')" using at that by simp
  show "opened (ws_cleanup ws s) = opened s" using at by simp
  show "opened s' = (if rc = -1 then opened s else insert rc (opened s))" if "ws_socket ws s = (rc, s')"
    using at [THEN conjunct2, THEN conjunct2, THEN conjunct1] that by simp
  show "opened s' = (if rc = -1 then opened s else insert rc (opened s))" if "ws_accept ws l s = (rc, s')"
    using on [THEN conjunct1] that by simp
  show "opened s' = opened s" if "ws_listen ws l s = (rc, s')"
    using on [THEN conjunct2, THEN conjunct1] that by simp
  show "opened s' = opened s" if "ws_bind ws l port s = (rc, s')"
    using on [THEN conjunct2, THEN conjunct2, THEN conjunct1, rule_format, of port] that by simp
  show "opened (net_close net l s) = opened s - {l}"
    using on by blast
  show "opened s' = opened s" if "net_recv net l n wait s = (r, s')"
    using on [THEN conjunct2, THEN conjunct2, THEN conjunct2, THEN conjunct2, THEN conjunct1,
        rule_format, of n wait] that by simp
  show "opened s' = opened s" if "net_send net l bs s = (rc, s')"
    using on [THEN conjunct2, THEN conjunct2, THEN conjunct2, THEN conjunct2, THEN conjunct2,
        rule_format, of bs] that by simp
  show "opened s' = opened s" if "net_malloc net n s = (ok, s')"
    using at [THEN conjunct2, THEN conjunct2, THEN conjunct2, THEN conjunct2, rule_format, of n] that by simp
qed

lemma bridge_listen_sockets:
  assumes law: "socket_law ws net opened" and "opened s = {}"
    and run: "bridge_listen ws net port s = (client, s')"
  shows "opened s' \<subseteq> set_option client"
  using run assms(2)
  by (auto simp: bridge_listen_def socket_lawD(7) [OF law] split: prod.splits if_splits
      dest!: socket_lawD(3,4,5,6) [OF law])

lemma bridge_receive_sockets:
  assumes law: "socket_law ws net opened" and run: "bridge_receive net fd s = (r, s')"
  shows "opened s' = opened s"
  using run
  by (auto simp: bridge_receive_def Let_def split: prod.splits option.splits if_splits bool.splits
      dest!: socket_lawD(8,10) [OF law])

lemma bridge_loop_sockets:
  assumes law: "socket_law ws net opened"
    and run: "bridge_loop abi net fd fwd s = Some r"
  shows "\<forall>fwd' s'. r = Inr (fwd', s') \<longrightarrow> opened s' = opened s"
proof (rule bridge_loop.raw_induct
    [where P = "\<lambda>abi n fd fwd s r. n = net \<longrightarrow> (\<forall>fwd' s'. r = Inr (fwd', s') \<longrightarrow> opened s' = opened s)",
      OF _ run, THEN mp, OF _ refl])
  fix lp and abi and n :: "'a net" and fd fwd s r
  assume IH: "\<And>abi n fd fwd s r. lp abi n fd fwd s = Some r \<Longrightarrow>
      n = net \<longrightarrow> (\<forall>fwd' s'. r = Inr (fwd', s') \<longrightarrow> opened s' = opened s)"
    and eq: "(case bridge_receive n fd s of
        (None, s1) \<Rightarrow> Some (Inr (fwd, s1))
      | (Some None, s1) \<Rightarrow> lp abi n fd fwd s1
      | (Some (Some t), s1) \<Rightarrow>
          (let fwd' = (if arm_ds_send_tlp t = 0 then fwd @ [t] else fwd)
           in case bridge_respond abi n fd tlp_zero s1 of
                Inl e \<Rightarrow> Some (Inl e)
              | Inr (go_on, s2) \<Rightarrow>
                  if go_on then lp abi n fd fwd' s2 else Some (Inr (fwd', s2)))) = Some r"
  show "n = net \<longrightarrow> (\<forall>fwd' s'. r = Inr (fwd', s') \<longrightarrow> opened s' = opened s)"
    using eq bridge_receive_sockets [OF law, of fd s]
    by (auto simp: bridge_respond_silent Let_def split: prod.splits option.splits dest!: IH)
qed

lemma bridge_session_sockets:
  assumes law: "socket_law ws net opened" and "opened s \<subseteq> {fd}"
    and run: "bridge_session abi net fd s = Some (Inr (rc, fwd, s'))"
  shows "opened s' = {} \<and> (rc = 0 \<or> rc = 1 \<and> fwd = [])"
  using run assms(2)
  by (auto simp: bridge_session_def socket_lawD(7) [OF law] split: prod.splits option.splits if_splits sum.splits
      dest!: socket_lawD(8) [OF law] bridge_loop_sockets [OF law])

section \<open>Properties\<close>

text \<open>
  C9: The bridge server from its arguments to its exit. Whenever it returns, no socket is left
  open, and an exit with a code other than 0 is 1 with nothing forwarded. If a setup call fails it
  does return, with 1. If a client is accepted and what it sends is a device identification and
  complete packets, then it returns 0 and has forwarded exactly these packets in order.
\<close>

theorem bridge_server_exits:
  assumes law: "socket_law ws net opened" and inn: "stream_in net pending up" and s: "opened s = {}"
    and up: "ws_startup ws s = (rc, s1)"
      "bridge_listen ws net (if args \<noteq> [] then c_atoi (hd args) else DEFAULT_PORT) s1 = (client, s2)"
    and ts: "list_all complete_tlp ts"
  shows "(\<forall>rc fwd s'. bridge_main ws net abi args s = Some (Inr (rc, fwd, s')) \<longrightarrow>
            opened s' = {} \<and> (rc = 0 \<or> rc = 1 \<and> fwd = [])) \<and>
         (rc \<noteq> 0 \<or> client = None \<longrightarrow>
            (\<exists>s'. bridge_main ws net abi args s = Some (Inr (1, [], s')))) \<and>
         (rc = 0 \<and> client \<noteq> None \<and> up s2 \<and>
            pending s2 = le_bytes 4 d @ concat (map (raw_wire abi') ts) \<longrightarrow>
            (\<exists>s'. bridge_main ws net abi args s = Some (Inr (0, map (raw_view abi') ts, s'))))"
proof -
  have s1: "opened s1 = {}" using socket_lawD(1) [OF law up(1)] s by simp
  note s2 = bridge_listen_sockets [OF law s1 up(2)]
  have closed: "opened s' = {} \<and> (rc' = 0 \<or> rc' = 1 \<and> fwd = [])"
    if "bridge_main ws net abi args s = Some (Inr (rc', fwd, s'))" for rc' fwd s'
    using that up s1 s2 bridge_session_sockets [OF law]
    by (fastforce simp: bridge_main_def Let_def socket_lawD(2) [OF law]
        split: if_splits option.splits sum.splits prod.splits)
  have failed: "\<exists>s'. bridge_main ws net abi args s = Some (Inr (1, [], s'))" if "rc \<noteq> 0 \<or> client = None"
    using that up by (auto simp: bridge_main_def Let_def)
  have served: "\<exists>s'. bridge_main ws net abi args s = Some (Inr (0, map (raw_view abi') ts, s'))"
    if run: "rc = 0" "client = Some fd" "up s2" "pending s2 = le_bytes 4 d @ concat (map (raw_wire abi') ts)"
    for fd
  proof -
    obtain s3 where "bridge_session abi net fd s2 = Some (Inr (0, map (raw_view abi') ts, s3))"
      using bridge_session_loop [OF inn run(3,4)] bridge_loop_forwards [OF inn _ _ ts, where fwd = "[]"]
      by fastforce
    with up run show ?thesis by (simp add: bridge_main_def Let_def)
  qed
  show ?thesis using closed failed served by blast
qed

text \<open>Sockets as a set, next to what is sent and what is pending.\<close>

definition tracked_net :: "(int set \<times> u8 list \<times> u8 list) net" where
  "tracked_net =
     \<lparr>net_pton = net_pton pipe_net, net_socket = (\<lambda>s. (4, s)), net_timeouts = (\<lambda>fd a b s. s),
      net_connect = (\<lambda>fd host port s. (True, s)),
      net_send = (\<lambda>fd bs s. (int (length bs), (fst s, fst (snd s) @ bs, snd (snd s)))),
      net_recv = (\<lambda>fd n wait s. (Some (take n (snd (snd s))), (fst s, fst (snd s), drop n (snd (snd s))))),
      net_getfl = (\<lambda>fd s. (False, s)), net_setfl = (\<lambda>fd nb s. s),
      net_close = (\<lambda>fd s. (fst s - {fd}, snd s)),
      net_wouldblock = (\<lambda>s. False), net_malloc = (\<lambda>n s. (True, s))\<rparr>"

definition tracked_winsock :: "(int set \<times> u8 list \<times> u8 list) winsock" where
  "tracked_winsock =
     \<lparr>ws_startup = (\<lambda>s. (0, s)), ws_cleanup = (\<lambda>s. s), ws_socket = (\<lambda>s. (3, (insert 3 (fst s), snd s))),
      ws_bind = (\<lambda>l port s. (0, s)), ws_listen = (\<lambda>l s. (0, s)),
      ws_accept = (\<lambda>l s. (4, (insert 4 (fst s), snd s)))\<rparr>"

lemma tracked_law: "socket_law tracked_winsock tracked_net fst"
  by (auto simp: socket_law_def tracked_winsock_def tracked_net_def)

lemma tracked_in: "stream_in tracked_net (\<lambda>s. snd (snd s)) (\<lambda>_. True)"
  by (simp add: stream_in_def tracked_net_def)

theorem bridge_server_exits_witness:
  "\<exists>s'. bridge_main tracked_winsock tracked_net plain_abi []
          ({}, [], le_bytes 4 7 @ raw_wire plain_abi (pcie_tlp_cfg_write 0x40 2 (Some [1, 2]))) =
        Some (Inr (0, [raw_view plain_abi (pcie_tlp_cfg_write 0x40 2 (Some [1, 2]))], s')) \<and> fst s' = {}"
proof -
  let ?t = "pcie_tlp_cfg_write 0x40 2 (Some [1, 2])"
  let ?in = "le_bytes 4 7 @ raw_wire plain_abi ?t"
  have "list_all complete_tlp [?t]"
    by (simp add: complete_tlp_def valid_tlp_def pcie_tlp_cfg_write_def)
  moreover have "ws_startup tracked_winsock ({}, [], ?in) = (0, {}, [], ?in)"
    by (simp add: tracked_winsock_def)
  moreover have "bridge_listen tracked_winsock tracked_net DEFAULT_PORT ({}, [], ?in) =
      (Some 4, ({4}, [], ?in))"
    by (auto simp: bridge_listen_def tracked_winsock_def tracked_net_def)
  ultimately show ?thesis
    using bridge_server_exits [OF tracked_law tracked_in, of "({}, [], ?in)" 0 "({}, [], ?in)" "[]" "Some 4"
        "({4}, [], ?in)" "[?t]" plain_abi 7 plain_abi] by auto
qed

end
