(* ===== verification/Console.thy ===== *)
theory Console
  imports Pci Armds Fpga CText
begin

text \<open>
  What the library and its backends write to standard output: the lines of \<open>pcie_send\<close>
  (\<open>src/pcapcie.c\<close>), the bytes of a configuration read (\<open>src/backend_pci.c\<close>), the progress of a
  packet sent to ARM DS (\<open>src/backend_armds.c\<close>) and the lines of closing. The dummy and the XGIG
  backend write nothing there. Each text is a function of the call it belongs to; the programs of
  \<open>examples/\<close> put them between their own lines.
\<close>

section \<open>Sending\<close>

definition newline_text :: string where
  "newline_text = [CHR 0x0A]"

text \<open>What \<open>%p\<close> prints for the four pointers in the lines of one call of \<open>pcie_send\<close>.\<close>

record send_pointers =
  ptr_ctx :: string
  ptr_tlp :: string
  ptr_backend :: string
  ptr_send :: string

text \<open>
  The output of a program's calls: the pointers of its \<open>i\<close>-th sending, and what the backend writes
  when it sends a packet and when it is closed, in the state before the call.
\<close>

record 'b console =
  con_pointers :: "nat \<Rightarrow> send_pointers"
  con_send :: "tlp \<Rightarrow> 'b \<Rightarrow> string"
  con_close :: "'b \<Rightarrow> string"

definition pcie_send_text :: "'b console \<Rightarrow> nat \<Rightarrow> ('b, 'u) pcie_ctx \<Rightarrow> tlp \<Rightarrow> 'b \<Rightarrow> string" where
  "pcie_send_text con i c t b =
     (let p = con_pointers con i in
      ''pcie_send: ctx='' @ ptr_ctx p @ '', t='' @ ptr_tlp p @ '', backend='' @ ptr_backend p @ newline_text @
      (case Option.bind (backend c) ops_send of
         None \<Rightarrow> ''pcie_send: ERROR - backend or send function is NULL'' @ newline_text
       | Some send \<Rightarrow>
           ''pcie_send: calling backend send function at '' @ ptr_send p @ newline_text @ con_send con t b))"

section \<open>The backends\<close>

definition quiet_console :: "(nat \<Rightarrow> send_pointers) \<Rightarrow> 'b console" where
  "quiet_console ptrs = \<lparr>con_pointers = ptrs, con_send = (\<lambda>t b. []), con_close = (\<lambda>b. [])\<rparr>"

lemma quiet_console_simps [simp]:
  "con_pointers (quiet_console ptrs) = ptrs" "con_send (quiet_console ptrs) t b = []"
  "con_close (quiet_console ptrs) b = []"
  by (simp_all add: quiet_console_def)

text \<open>The bytes of a configuration read that succeeds, from the packet's or the local buffer.\<close>

definition pci_send_text :: "'s pci_os \<Rightarrow> tlp \<Rightarrow> 's pci_world \<Rightarrow> string" where
  "pci_send_text os t w =
     (let len = (if tlp_length t \<noteq> 0 then tlp_length t else 4);
          (have_data, data, w') =
            (case mem_data t of
               None \<Rightarrow> (case os_calloc os (unat len) (pw_os w) of
                          (ok, s) \<Rightarrow> (ok, replicate (unat len) 0, w\<lparr>pw_os := s\<rparr>))
             | Some d \<Rightarrow> (True, d, w))
      in if tlp_type t \<noteq> tlp_type_val PCIE_TLP_CFG_READ \<or> len > 256 \<or> \<not> have_data then []
         else case pci_access_config os (mem_addr t) data (unat len) False w' of
                Inl _ \<Rightarrow> []
              | Inr (rc, bytes, _) \<Rightarrow>
                  if rc \<noteq> 0 then []
                  else ''[pci] CFG read result:'' @
                       concat (map (\<lambda>b. '' '' @ print_02x (unat b)) (take (unat len) bytes)) @ newline_text)"

definition pci_console :: "'s pci_os \<Rightarrow> (nat \<Rightarrow> send_pointers) \<Rightarrow> 's pci_world console" where
  "pci_console os ptrs =
     \<lparr>con_pointers = ptrs, con_send = pci_send_text os, con_close = (\<lambda>w. [])\<rparr>"

lemma pci_console_close [simp]: "con_close (pci_console os ptrs) w = []"
  by (simp add: pci_console_def)

definition arm_ds_send_text :: "raw_abi \<Rightarrow> 's net \<Rightarrow> tlp \<Rightarrow> 's sock_world \<Rightarrow> string" where
  "arm_ds_send_text abi net t w =
     (case arm_ds_connect net w of
        (rc, w1) \<Rightarrow>
          if rc \<noteq> 0 then ''[arm_ds] Failed to connect to ARM DS'' @ newline_text
          else
            ''[arm_ds] Sending TLP: type='' @ print_dec (unat (tlp_type t)) @ '', addr=0x'' @
            print_hex (unat (mem_addr t)) @ '', len='' @ print_dec (unat (tlp_length t)) @ newline_text @
            (case sock_send net (raw_tlp abi t) w1 of
               (n, w2) \<Rightarrow>
                 if n \<noteq> 32 then ''[arm_ds] Failed to send TLP header'' @ newline_text
                 else (case mem_data t of
                        None \<Rightarrow> ''[arm_ds] TLP sent successfully'' @ newline_text
                      | Some data \<Rightarrow>
                          if tlp_length t > 0 \<and>
                             fst (sock_send net (take (unat (tlp_length t)) data) w2) \<noteq> int (unat (tlp_length t))
                          then ''[arm_ds] Failed to send TLP payload'' @ newline_text
                          else ''[arm_ds] TLP sent successfully'' @ newline_text)))"

definition armds_console :: "raw_abi \<Rightarrow> 's net \<Rightarrow> (nat \<Rightarrow> send_pointers) \<Rightarrow> 's sock_world console" where
  "armds_console abi net ptrs =
     \<lparr>con_pointers = ptrs, con_send = arm_ds_send_text abi net,
      con_close = (\<lambda>w. ''[arm_ds] closed'' @ newline_text)\<rparr>"

definition fpga_console :: "(nat \<Rightarrow> send_pointers) \<Rightarrow> 's fpga_world console" where
  "fpga_console ptrs =
     \<lparr>con_pointers = ptrs, con_send = (\<lambda>t w. []), con_close = (\<lambda>w. ''[fpga] closed'' @ newline_text)\<rparr>"

text \<open>A successful read prints the bytes it leaves in the packet's buffer.\<close>

lemma pci_send_text_read:
  assumes "tlp_type t = tlp_type_val PCIE_TLP_CFG_READ" and "tlp_length t \<noteq> 0" and "mem_data t = Some d"
    and "pci_send os (Some t) w = Inr (0, Some t', w')" and "mem_data t' = Some d'"
  shows "pci_send_text os t w =
    ''[pci] CFG read result:'' @ concat (map (\<lambda>b. '' '' @ print_02x (unat b)) (take (unat (tlp_length t)) d')) @
    newline_text"
  using assms
  by (auto simp: pci_send_text_def pci_send_def pci_cfg_read_def c_simps Let_def split: if_splits)

text \<open>The last line of a packet sent to ARM DS tells its result.\<close>

lemma arm_ds_send_text_ok:
  assumes "arm_ds_send abi net (Some t) w = Inr (rc, tp, w')"
  shows "rc = 0 \<longleftrightarrow> (\<exists>pre. arm_ds_send_text abi net t w = pre @ ''[arm_ds] TLP sent successfully'' @ newline_text)"
proof -
  have ends: "pre @ ''[arm_ds] Failed to send TLP payload'' @ newline_text \<noteq> q @ ''[arm_ds] TLP sent successfully'' @ newline_text"
    "pre @ ''[arm_ds] Failed to send TLP header'' @ newline_text \<noteq> q @ ''[arm_ds] TLP sent successfully'' @ newline_text"
    "pre @ ''[arm_ds] Failed to connect to ARM DS'' @ newline_text \<noteq> q @ ''[arm_ds] TLP sent successfully'' @ newline_text" for pre q
    by (auto dest!: arg_cong [where f = rev])
  obtain rc1 w1 where con: "arm_ds_connect net w = (rc1, w1)" by (cases "arm_ds_connect net w")
  obtain n w2 where snd: "sock_send net (raw_tlp abi t) w1 = (n, w2)" by (cases "sock_send net (raw_tlp abi t) w1")
  show ?thesis
    using assms con snd ends [of "[]"] ends
    by (auto simp: arm_ds_send_def arm_ds_send_text_def mem_read_def c_simps append_assoc [symmetric]
        simp del: append_assoc split: if_splits option.splits prod.splits)
qed

end
