(* ===== verification/ExamplePrograms.thy ===== *)
theory ExamplePrograms
  imports DummyBackend TraceExport Console
begin

text \<open>
  The command-line programs of \<open>examples/\<close> apart from the trace viewer: \<open>pci_link_check.c\<close>,
  \<open>pci_link_matrix.c\<close>, \<open>pci_link_status.c\<close>, \<open>tlp_capture.c\<close>, \<open>simple_tlp_test.c\<close> and
  \<open>sniff_and_send.c\<close>, over any set of backends. A program is given its arguments without the
  program's name and returns its exit code, what appears on standard output, the trace file
  if it writes one, and the backends' state; messages to standard error are left out. \<open>con\<close> is what
  the library and the opened backend write to standard output (\<open>Console\<close>).
\<close>

definition arg_or :: "nat \<Rightarrow> string \<Rightarrow> string list \<Rightarrow> string" where
  "arg_or n def args = (if n < length args then args ! n else def)"

definition quoted :: "string \<Rightarrow> string" where
  "quoted s = CHR 0x22 # s @ [CHR 0x22]"

definition print_int :: "int \<Rightarrow> string" where
  "print_int i = (if i < 0 then CHR ''-'' # print_dec (nat (- i)) else print_dec (nat i))"

text \<open>\<open>pcie_gen_name\<close> of an integer cast to the enumeration.\<close>

definition gen_name_of :: "u32 \<Rightarrow> string" where
  "gen_name_of g = pcie_gen_name (pcie_gen_from_speed_code (ucast g))"

section \<open>Link check\<close>

definition pci_link_check ::
  "'b backends \<Rightarrow> 'b console \<Rightarrow> bool \<Rightarrow> string list \<Rightarrow> 'b \<Rightarrow> (int \<times> string \<times> 'b) c_res" where
  "pci_link_check bes con calloc_ok args b =
     (let name = arg_or 0 ''pci'' args;
          expected_gen = (if 1 < length args then c_atoi (args ! 1) else 5);
          expected_width = (if 2 < length args then c_atoi (args ! 2) else 1)
      in cbind (pcie_open bes calloc_ok (Some name) b) (\<lambda>(ctx, b1).
         case ctx of
           None \<Rightarrow> Inr (1, [], b1)
         | Some (c :: ('b, unit) pcie_ctx) \<Rightarrow>
             cbind (pcie_check_link_target (Some c) expected_gen (ucast expected_width) (Some 0) b1)
               (\<lambda>(rc, pass, b2).
             cbind (pcie_close (Some c) b2) (\<lambda>b3.
             if rc \<noteq> 0 then Inr (2, con_close con b2, b3)
             else cbind (deref pass) (\<lambda>p.
               let head = ''Expected PCIe Gen '' @ print_int (sint expected_gen) @ '', width '' @
                          print_int (sint expected_width) @ newline_text
               in if p \<noteq> 0 then Inr (0, head @ ''RESULT: PASS'' @ newline_text @ con_close con b2, b3)
                  else Inr (3, head @ ''RESULT: FAIL'' @ newline_text @ con_close con b2, b3))))))"

section \<open>Link matrix\<close>

record link_case =
  case_label :: string
  case_gen :: u32
  case_width :: u8

definition link_cases :: "link_case list" where
  "link_cases =
     [\<lparr>case_label = ''Gen5x1'', case_gen = gen_val PCIE_GEN_5, case_width = 1\<rparr>,
      \<lparr>case_label = ''Gen6x4'', case_gen = gen_val PCIE_GEN_6, case_width = 4\<rparr>,
      \<lparr>case_label = ''Gen7x8'', case_gen = gen_val PCIE_GEN_7, case_width = 8\<rparr>,
      \<lparr>case_label = ''Gen8x16'', case_gen = gen_val PCIE_GEN_8, case_width = 16\<rparr>]"

text \<open>The text, and the flag for the first JSON result after it.\<close>

definition print_case_result :: "link_case \<Rightarrow> bool \<Rightarrow> string \<Rightarrow> bool \<Rightarrow> string \<times> bool" where
  "print_case_result tc pass fmt isFirst =
     (if fmt = ''json'' then
        ((if \<not> isFirst then '','' @ newline_text else []) @
         ''  {'' @ quoted ''case'' @ '':'' @ quoted (case_label tc) @ '','' @
         quoted ''target_gen'' @ '':'' @ quoted (gen_name_of (case_gen tc)) @ '','' @
         quoted ''target_width'' @ '':'' @ print_dec (unat (case_width tc)) @ '','' @
         quoted ''pass'' @ '':'' @ (if pass then ''true'' else ''false'') @ ''}'', False)
      else if fmt = ''csv'' then
        (case_label tc @ '','' @ gen_name_of (case_gen tc) @ '','' @ print_dec (unat (case_width tc)) @ '','' @
         (if pass then ''PASS'' else ''FAIL'') @ newline_text, isFirst)
      else
        (''['' @ case_label tc @ ''] '' @ case_label tc @ '': gen>='' @ gen_name_of (case_gen tc) @
         '' width>='' @ print_dec (unat (case_width tc)) @ '' lanes -> '' @
         (if pass then ''PASS'' else ''FAIL'') @ newline_text, isFirst))"

text \<open>The loop: the text, whether all cases passed so far, and the backend.\<close>

fun matrix_loop ::
  "('b, unit) pcie_ctx \<Rightarrow> string \<Rightarrow> link_case list \<Rightarrow> bool \<Rightarrow> bool \<Rightarrow> 'b \<Rightarrow> (string \<times> bool \<times> 'b) c_res" where
  "matrix_loop c fmt [] isFirst all_pass b = Inr ([], all_pass, b)"
| "matrix_loop c fmt (tc # tcs) isFirst all_pass b =
     cbind (pcie_check_link_target (Some c) (case_gen tc) (case_width tc) (Some 0) b) (\<lambda>(rc, pass, b').
     cbind (deref pass) (\<lambda>p.
       let ok = (rc = 0 \<and> p \<noteq> 0);
           (text_out, isFirst') = print_case_result tc ok fmt isFirst
       in cbind (matrix_loop c fmt tcs isFirst' (all_pass \<and> ok) b') (\<lambda>(rest, all', b'').
            Inr (text_out @ rest, all', b''))))"

text \<open>The backend's name, the format and the profile.\<close>

definition matrix_args :: "string list \<Rightarrow> string \<times> string \<times> string option" where
  "matrix_args args =
     (let name = arg_or 0 ''pci'' args in
      if 1 < length args
      then if args ! 1 = ''text'' \<or> args ! 1 = ''json'' \<or> args ! 1 = ''csv''
           then (name, args ! 1, None)
           else (name, (if 2 < length args then args ! 2 else ''text''), Some (args ! 1))
      else (name, ''text'', None))"

definition device_line :: "int \<Rightarrow> device_info \<Rightarrow> string" where
  "device_line rc info =
     (if rc \<noteq> 0 then []
      else ''Device: vendor=0x'' @ zero_pad 4 (print_hex (unat (vendor_id info))) @
           '' device=0x'' @ zero_pad 4 (print_hex (unat (device_id info))) @
           '' class=0x'' @ zero_pad 6 (print_hex (unat (class_code info))) @
           '' rev=0x'' @ zero_pad 2 (print_hex (unat (revision_id info))) @
           '' pcie_cap='' @ (if has_pcie_capability info \<noteq> 0 then ''yes'' else ''no'') @ newline_text)"

definition link_line :: "int \<Rightarrow> link_status \<Rightarrow> string" where
  "link_line rc s =
     (if rc \<noteq> 0 then []
      else ''Link summary: max='' @ pcie_link_speed_name (max_link_speed s) @ ''/'' @
           print_dec (unat (max_link_width s)) @ '' lanes, negotiated='' @
           pcie_link_speed_name (negotiated_link_speed s) @ ''/'' @
           print_dec (unat (negotiated_link_width s)) @ '' lanes, gen='' @
           pcie_gen_name (negotiated_gen s) @ newline_text)"

definition matrix_header ::
  "('b, unit) pcie_ctx \<Rightarrow> string \<Rightarrow> string \<Rightarrow> string option \<Rightarrow> 'b \<Rightarrow> (string \<times> 'b) c_res" where
  "matrix_header c name fmt profile b =
     (if fmt = ''json'' then
        Inr (''{'' @ newline_text @ ''  '' @ quoted ''backend'' @ '':'' @ quoted name @
             (case profile of
                None \<Rightarrow> []
              | Some p \<Rightarrow> '','' @ newline_text @ ''  '' @ quoted ''profile'' @ '':'' @ quoted p) @
             '','' @ newline_text @ ''  '' @ quoted ''results'' @ '':['' @ newline_text, b)
      else if fmt = ''csv'' then Inr (''case,target_gen,target_width,result'' @ newline_text, b)
      else
        cbind (pcie_get_device_info (Some c) (Some device_info_zero) b) (\<lambda>(rc1, info, b1).
        cbind (pcie_get_link_status (Some c) (Some link_status_zero) b1) (\<lambda>(rc2, status, b2).
        cbind (deref info) (\<lambda>i. cbind (deref status) (\<lambda>s.
          Inr ((case profile of None \<Rightarrow> [] | Some p \<Rightarrow> ''Profile: '' @ p @ newline_text) @
               device_line rc1 i @ link_line rc2 s @ ''Compliance matrix:'' @ newline_text, b2))))))"

definition matrix_footer :: "string \<Rightarrow> bool \<Rightarrow> string" where
  "matrix_footer fmt all_pass =
     (let verdict = (if all_pass then ''PASS'' else ''FAIL'') in
      if fmt = ''json'' then ''  ],'' @ newline_text @ ''  '' @ quoted ''overall'' @ '':'' @ quoted verdict @
                           newline_text @ ''}'' @ newline_text
      else if fmt = ''csv'' then ''Overall,'' @ verdict @ newline_text
      else ''Overall: '' @ verdict @ newline_text)"

definition pci_link_matrix ::
  "'b backends \<Rightarrow> 'b console \<Rightarrow> bool \<Rightarrow> (string \<Rightarrow> string \<Rightarrow> 'b \<Rightarrow> 'b) \<Rightarrow> string list \<Rightarrow> 'b \<Rightarrow>
   (int \<times> string \<times> 'b) c_res" where
  "pci_link_matrix bes con calloc_ok setenv args b =
     (case matrix_args args of (name, fmt, profile) \<Rightarrow>
        let b0 = (case profile of
                    Some p \<Rightarrow> if name = ''dummy'' then setenv ''PCIE_DUMMY_PROFILE'' p b else b
                  | None \<Rightarrow> b)
        in cbind (pcie_open bes calloc_ok (Some name) b0) (\<lambda>(ctx, b1).
           case ctx of
             None \<Rightarrow> Inr (1, [], b1)
           | Some (c :: ('b, unit) pcie_ctx) \<Rightarrow>
               cbind (matrix_header c name fmt profile b1) (\<lambda>(header_text, b2).
               cbind (matrix_loop c fmt link_cases True True b2) (\<lambda>(rows_text, all_pass, b3).
               cbind (pcie_close (Some c) b3) (\<lambda>b4.
                 Inr (if all_pass then 0 else 3,
                      header_text @ rows_text @ matrix_footer fmt all_pass @ con_close con b3, b4))))))"

section \<open>Link status\<close>

definition pci_link_status_main ::
  "'b backends \<Rightarrow> 'b console \<Rightarrow> bool \<Rightarrow> string list \<Rightarrow> 'b \<Rightarrow> (int \<times> string \<times> 'b) c_res" where
  "pci_link_status_main bes con calloc_ok args b =
     (let name = arg_or 0 ''pci'' args in
      cbind (pcie_open bes calloc_ok (Some name) b) (\<lambda>(ctx, b1).
      case ctx of
        None \<Rightarrow> Inr (1, [], b1)
      | Some (c :: ('b, unit) pcie_ctx) \<Rightarrow>
          cbind (pcie_get_link_status (Some c) (Some link_status_zero) b1) (\<lambda>(rc, status, b2).
          cbind (pcie_close (Some c) b2) (\<lambda>b3.
          if rc \<noteq> 0 then Inr (2, con_close con b2, b3)
          else cbind (deref status) (\<lambda>s.
            Inr (0,
              ''Device: '' @ name @ newline_text @
              ''Max link speed: '' @ pcie_link_speed_name (max_link_speed s) @ '' (code='' @
                print_dec (unat (speed_val (max_link_speed s))) @ '')'' @ newline_text @
              ''Negotiated link speed: '' @ pcie_link_speed_name (negotiated_link_speed s) @ '' (code='' @
                print_dec (unat (speed_val (negotiated_link_speed s))) @ '')'' @ newline_text @
              ''Max link width: '' @ print_dec (unat (max_link_width s)) @ '' lanes'' @ newline_text @
              ''Negotiated link width: '' @ print_dec (unat (negotiated_link_width s)) @ '' lanes'' @
                newline_text @
              ''Max PCIe generation: '' @ pcie_gen_name (max_gen s) @ newline_text @
              ''Negotiated PCIe generation: '' @ pcie_gen_name (negotiated_gen s) @ newline_text @
              con_close con b2, b3))))))"

section \<open>Capturing packets\<close>

datatype trace_file = CsvFile string | PcapFile "u8 list"

text \<open>The exporters as the programs call them: the code and the file.\<close>

definition write_csv :: "bool \<Rightarrow> ('b, 'u) pcie_ctx \<Rightarrow> string \<Rightarrow> (int \<times> trace_file option) c_res" where
  "write_csv fopen_ok c path =
     cbind (pcie_trace_write_csv fopen_ok (Some c) (Some path)) (\<lambda>(rc, f).
       Inr (rc, map_option CsvFile f))"

definition write_pcap :: "bool \<Rightarrow> ('b, 'u) pcie_ctx \<Rightarrow> string \<Rightarrow> (int \<times> trace_file option) c_res" where
  "write_pcap fopen_ok c path =
     cbind (pcie_trace_write_pcap fopen_ok (Some c) (Some path)) (\<lambda>(rc, f).
       Inr (rc, map_option PcapFile f))"

definition capture_packet :: tlp where
  "capture_packet =
     (pcie_tlp_cfg_write 0x20 4 (Some [0x10, 0x20, 0x30, 0x40]))\<lparr>requester_id := 0x0001, tag := 0x0F\<rparr>"

definition capture_buffer :: tlp where
  "capture_buffer = (pcie_tlp_cfg_read 0x20)\<lparr>requester_id := 0x0001, tag := 0x10\<rparr>"

definition received_line :: "string \<Rightarrow> tlp \<Rightarrow> string" where
  "received_line name t =
     ''Received a TLP from '' @ name @ '': type='' @ print_dec (unat (tlp_type t)) @
     '' length='' @ print_dec (unat (tlp_length t)) @ '' addr=0x'' @ print_hex (unat (mem_addr t)) @
     newline_text"

text \<open>\<open>env\<close> is the clock and the allocator at the sending and the receiving of a packet.\<close>

definition tlp_capture ::
  "'b backends \<Rightarrow> 'b console \<Rightarrow> bool \<Rightarrow> bool \<Rightarrow> (nat \<Rightarrow> rec_env) \<Rightarrow> string list \<Rightarrow> 'b \<Rightarrow>
   (int \<times> string \<times> trace_file option \<times> 'b) c_res" where
  "tlp_capture bes con calloc_ok fopen_ok env args b =
     (let name = arg_or 0 ''dummy'' args; trace_path = arg_or 1 ''tlp_capture.pcap'' args;
          format = arg_or 2 ''pcap'' args
      in cbind (pcie_open bes calloc_ok (Some name) b) (\<lambda>(ctx, b1).
         case ctx of
           None \<Rightarrow> Inr (1, [], None, b1)
         | Some (c :: ('b, unit) pcie_ctx) \<Rightarrow>
             cbind (pcie_send (env 0) (Some c) (Some capture_packet) b1) (\<lambda>(rc, _, ctx1, b2).
             let sent_text = pcie_send_text con 0 c capture_packet b1 in
             if rc \<noteq> 0
             then cbind (pcie_close ctx1 b2) (\<lambda>b3. Inr (2, sent_text @ con_close con b2, None, b3))
             else
               cbind (pcie_recv (env 1) ctx1 (Some capture_buffer) b2) (\<lambda>(rc2, rx, ctx2, b3).
               cbind (deref rx) (\<lambda>rx_tlp. cbind (deref ctx2) (\<lambda>c2.
                 let out = sent_text @ (if rc2 = 0 then received_line name rx_tlp else [])
                 in cbind (if format = ''csv'' then write_csv fopen_ok c2 trace_path
                           else write_pcap fopen_ok c2 trace_path) (\<lambda>(rc3, trace_out).
                    cbind (pcie_close (Some c2) b3) (\<lambda>b4.
                      if rc3 \<noteq> 0 then Inr (3, out @ con_close con b3, trace_out, b4)
                      else Inr (0, out @ ''Captured '' @ print_dec (unat (pcie_trace_count (Some c2))) @
                                '' TLP(s) in '' @ trace_path @ '' ('' @ format @ '' format)'' @
                                newline_text @ con_close con b3, trace_out, b4)))))))))"

section \<open>The simple test\<close>

definition simple_write :: tlp where
  "simple_write =
     (pcie_tlp_cfg_write 0x18 4 (Some [0x01, 0x02, 0xFF, 0x00]))\<lparr>requester_id := 0x0001, tag := 0x0F\<rparr>"

definition simple_read :: tlp where
  "simple_read = (pcie_tlp_cfg_read 0x00)\<lparr>requester_id := 0x0001, tag := 0x0F, mem_addr := 0x02\<rparr>"

definition enum_read :: "u64 \<Rightarrow> tlp" where
  "enum_read a = (pcie_tlp_cfg_read (ucast a))\<lparr>requester_id := 0x0001, tag := 0x0F\<rparr>"

definition enum_addrs :: "u64 list" where
  "enum_addrs = [0x00, 0x04, 0x08, 0x0c, 0x10, 0x14, 0x18, 0x1c]"

text \<open>
  The packets one after another, each with the text before it, the lines of \<open>pcie_send\<close> and its
  result.
\<close>

fun send_reports ::
  "'b console \<Rightarrow> (nat \<Rightarrow> rec_env) \<Rightarrow> nat \<Rightarrow> (string \<times> string \<times> tlp) list \<Rightarrow> ('b, unit) pcie_ctx \<Rightarrow> 'b \<Rightarrow>
   (string \<times> ('b, unit) pcie_ctx \<times> 'b) c_res" where
  "send_reports con env i [] c b = Inr ([], c, b)"
| "send_reports con env i ((before, label, t) # ps) c b =
     cbind (pcie_send (env i) (Some c) (Some t) b) (\<lambda>(result, _, ctx', b').
     cbind (deref ctx') (\<lambda>c'.
     cbind (send_reports con env (i + 1) ps c' b') (\<lambda>(out, c'', b'').
       Inr (before @ pcie_send_text con i c t b @ label @ print_int result @ newline_text @ out, c'', b''))))"

definition simple_packets :: "(string \<times> string \<times> tlp) list" where
  "simple_packets =
     (''Sending CfgWr0 TLP: addr=0x18, data=0x0102ff00'' @ newline_text, ''CfgWr0 result: '', simple_write) #
     (''Sending CfgRd1 TLP: addr=0x2'' @ newline_text, ''CfgRd1 result: '', simple_read) #
     map (\<lambda>a. (''Sending enumeration CfgRd TLP: addr=0x'' @ print_hex (unat a) @ newline_text,
               ''  Result: '', enum_read a)) enum_addrs"

definition simple_tlp_test ::
  "'b backends \<Rightarrow> 'b console \<Rightarrow> bool \<Rightarrow> bool \<Rightarrow> (nat \<Rightarrow> rec_env) \<Rightarrow> string list \<Rightarrow> 'b \<Rightarrow>
   (int \<times> string \<times> trace_file option \<times> 'b) c_res" where
  "simple_tlp_test bes con calloc_ok fopen_ok env args b =
     (if args = [] then Inr (1, [], None, b)
      else
        let name = args ! 0; trace_format = arg_or 2 ''csv'' args;
            head_text = ''Testing PCIe TLP with backend: '' @ name @ newline_text
        in cbind (pcie_open bes calloc_ok (Some name) b) (\<lambda>(ctx, b1).
           case ctx of
             None \<Rightarrow> Inr (1, head_text, None, b1)
           | Some (c :: ('b, unit) pcie_ctx) \<Rightarrow>
               cbind (send_reports con env 0 simple_packets c b1) (\<lambda>(sent_text, c2, b2).
               let out = head_text @ ''Backend opened successfully!'' @ newline_text @ sent_text;
                   bye = ''Test completed.'' @ newline_text
               in if length args < 2
                  then cbind (pcie_close (Some c2) b2) (\<lambda>b3. Inr (0, out @ con_close con b2 @ bye, None, b3))
                  else
                    cbind (if trace_format = ''pcap'' then write_pcap fopen_ok c2 (args ! 1)
                           else write_csv fopen_ok c2 (args ! 1)) (\<lambda>(rc, trace_out).
                    cbind (pcie_close (Some c2) b2) (\<lambda>b3.
                      if rc \<noteq> 0 then Inr (3, out @ con_close con b2, trace_out, b3)
                      else Inr (0, out @ ''PCIe trace written to '' @ args ! 1 @ '' ('' @ trace_format @
                                '' format)'' @ newline_text @ con_close con b2 @ bye, trace_out, b3))))))"

section \<open>Sniff and send\<close>

definition on_mem_read :: "tlp \<Rightarrow> nat \<Rightarrow> nat \<Rightarrow> tlp \<times> nat" where
  "on_mem_read t user count = (t, count + 1)"

definition sniff_write :: "nat \<Rightarrow> tlp" where
  "sniff_write i =
     pcie_tlp_mem_write (ucast (0x80000000 + word_of_nat i * 4 :: u32)) 4 (Some [0xde, 0xad, 0xbe, 0xef])"

text \<open>The thousand packets, whose results nothing looks at, and what their sending prints.\<close>

fun send_writes ::
  "'b console \<Rightarrow> (nat \<Rightarrow> rec_env) \<Rightarrow> nat list \<Rightarrow> ('b, nat) pcie_ctx \<Rightarrow> 'b \<Rightarrow>
   (string \<times> ('b, nat) pcie_ctx \<times> 'b) c_res" where
  "send_writes con env [] c b = Inr ([], c, b)"
| "send_writes con env (i # is) c b =
     cbind (pcie_send (env i) (Some c) (Some (sniff_write i)) b) (\<lambda>(_, _, ctx', b').
     cbind (deref ctx') (\<lambda>c'.
     cbind (send_writes con env is c' b') (\<lambda>(out, c'', b'').
       Inr (pcie_send_text con i c (sniff_write i) b @ out, c'', b''))))"

text \<open>
  The numbers of the summary: packets sent and received, callback matches and the received
  address range. \<open>None\<close> is a receive loop that does not return. \<open>t\<close> is the loop's local
  packet.
\<close>

record session_summary =
  sum_sent :: u64
  sum_received :: u64
  sum_matches :: nat
  sum_addr_min :: u64
  sum_addr_max :: u64

definition session_summary_of :: "('b, nat) pcie_ctx \<Rightarrow> nat \<Rightarrow> session_summary" where
  "session_summary_of c matches =
     \<lparr>sum_sent = sent (stats c), sum_received = received (stats c), sum_matches = matches,
      sum_addr_min = rx_addr_min c, sum_addr_max = rx_addr_max c\<rparr>"

definition sniff_and_send ::
  "'b backends \<Rightarrow> 'b console \<Rightarrow> bool \<Rightarrow> (nat \<Rightarrow> rec_env) \<Rightarrow> tlp \<Rightarrow> 'b \<Rightarrow>
   (string \<times> session_summary \<times> 'b) c_res option" where
  "sniff_and_send bes con calloc_ok env t b =
     (case cbind (pcie_open bes calloc_ok (Some ''fpga'') b) (\<lambda>(ctx, b1).
           cbind (pcie_sniff ctx (PCIE_MATCH_TYPE (tlp_type_val PCIE_TLP_MEM_READ)) (Some on_mem_read) 0)
             (\<lambda>(_, ctx1). cbind (deref ctx1) (\<lambda>c1. send_writes con env [0..<1000] c1 b1))) of
        Inl e \<Rightarrow> Some (Inl e)
      | Inr (out, c2, b2) \<Rightarrow>
          (case pcie_loop t (Some c2) b2 0 of
             None \<Rightarrow> None
           | Some (Inl e) \<Rightarrow> Some (Inl e)
           | Some (Inr (c3, b3, matches)) \<Rightarrow>
               Some (cbind (pcie_close (Some c3) b3) (\<lambda>b4.
                 Inr (out @ con_close con b3, session_summary_of c3 matches, b4)))))"

section \<open>Capturing on the dummy backend\<close>

definition granted :: "rec_env \<Rightarrow> bool" where
  "granted e \<longleftrightarrow> alloc_law e \<and> (\<forall>n. unat n < 2 ^ 63 \<longrightarrow> realloc_ok e n)"

lemma length_trace_of: "trace_ok c \<Longrightarrow> length (trace_of c) = unat (trace_count c)"
  by (auto simp: trace_ok_def trace_of_def word_le_nat_alt)

lemma not_dropped:
  assumes "trace_ok c" and "granted e" and "length (trace_of c) < 1000"
  shows "\<not> record_dropped e c"
proof
  assume d: "record_dropped e c"
  then have "unat (trace_capacity c) < 1000"
    using assms(1,3) by (simp add: record_dropped_def length_trace_of)
  moreover have "unat (trace_capacity c) * sizeof_trace_record < 2 ^ 63"
    using assms(1) by (simp add: trace_ok_def)
  ultimately have "unat (new_capacity (trace_capacity c) * word_of_nat sizeof_trace_record) < 2 ^ 63"
    using unat_new_capacity [of "trace_capacity c"] unat_grow_bytes [of "trace_capacity c"]
    by (simp add: sizeof_trace_record_def)
  with d assms(2) show False by (simp add: record_dropped_def granted_def)
qed

lemma send_dummy:
  assumes "ctx_ok dummy_ops c" and "granted e" and "valid_tlp t" and "length (trace_of c) < 1000"
  shows "\<exists>c'. pcie_send e (Some c) (Some t) st = Inr (0, Some t, Some c', dummy_pace st) \<and>
           ctx_ok dummy_ops c' \<and> trace_of c' = trace_of c @ [spec_entry e t (direction_val PCIE_TRACE_TX)]"
proof -
  have "\<not> record_dropped e c" using assms not_dropped [of c e] by (simp add: ctx_ok_def)
  with ctx_ok_record [of dummy_ops "count_sent c" e t "direction_val PCIE_TRACE_TX"] assms
  show ?thesis
    by (auto simp: pcie_send_def Let_def ctx_ok_def [of _ c] dummy_send_def granted_def
        simp del: direction_val.simps)
qed

lemma recv_dummy:
  assumes "ctx_ok dummy_ops c" and "granted e" and "length (trace_of c) < 1000" and "dm_count st < 1000"
  shows "\<exists>c' st'. pcie_recv e (Some c) (Some t) st =
             Inr (0, Some (dummy_packet (dm_count st)), Some c', st') \<and> ctx_ok dummy_ops c' \<and>
           trace_of c' = trace_of c @ [spec_entry e (dummy_packet (dm_count st)) (direction_val PCIE_TRACE_RX)]"
proof -
  have "\<not> record_dropped e c" using assms not_dropped [of c e] by (simp add: ctx_ok_def)
  moreover have "valid_tlp (dummy_packet n)" for n by (simp add: dummy_packet_def valid_tlp_def tlp_zero_def)
  moreover have "backend_recv c = Inr dummy_recv"
    using assms(1) by (simp add: backend_recv_def ctx_ok_def)
  ultimately show ?thesis
    using ctx_ok_record [of dummy_ops "count_received c" e "dummy_packet (dm_count st)"
        "direction_val PCIE_TRACE_RX"] assms
    by (auto simp: pcie_recv_def Let_def dummy_recv_def granted_def simp del: direction_val.simps)
qed

lemma open_dummy:
  assumes "ctor_golden bes = pcie_backend_dummy"
  shows "pcie_open bes True (Some ''dummy'') st = Inr (Some (fresh_ctx\<lparr>backend := Some dummy_ops\<rparr>), st)"
  using assms by (simp add: pcie_open_def select_backend_def pcie_backend_dummy_def)

lemma close_dummy: "ctx_ok dummy_ops c \<Longrightarrow> pcie_close (Some c) st = Inr st"
  by (simp add: pcie_close_def ctx_ok_def dummy_close_def)

text \<open>
  C21: The capture program on the dummy backend, from its arguments to the file: it ends with 0,
  and the pcap file it writes decodes to exactly two records, the configuration write it sent
  with its four payload bytes and the memory read the backend delivered, in that order and with
  the times of the two calls. Standard output is the two lines of the sending, the packet received
  and the count of the records.
\<close>

theorem capture_on_dummy:
  assumes "ctor_golden bes = pcie_backend_dummy" and "dm_count st < 1000"
    and "\<forall>i. granted (env i) \<and> unat (timestamp_of (env i)) < 4294967296 * 1000000000"
  shows "\<exists>bytes st'. tlp_capture bes (quiet_console ptrs) True True env [''dummy'', path] st =
             Inr (0, ''pcie_send: ctx='' @ ptr_ctx (ptrs 0) @ '', t='' @ ptr_tlp (ptrs 0) @ '', backend='' @
                       ptr_backend (ptrs 0) @ newline_text @
                     ''pcie_send: calling backend send function at '' @ ptr_send (ptrs 0) @ newline_text @
                     received_line ''dummy'' (dummy_packet (dm_count st)) @
                     ''Captured 2 TLP(s) in '' @ path @ '' (pcap format)'' @ newline_text,
                  Some (PcapFile bytes), st') \<and>
           decode_pcap bytes =
             map round_us [spec_entry (env 0) capture_packet (direction_val PCIE_TRACE_TX),
                           spec_entry (env 1) (dummy_packet (dm_count st)) (direction_val PCIE_TRACE_RX)]"
proof -
  let ?c = "fresh_ctx\<lparr>backend := Some dummy_ops\<rparr> :: (dummy_state, unit) pcie_ctx"
  have valid: "valid_tlp capture_packet"
    by (simp add: capture_packet_def valid_tlp_def pcie_tlp_cfg_write_def)
  obtain c1 where c1: "pcie_send (env 0) (Some ?c) (Some capture_packet) st =
      Inr (0, Some capture_packet, Some c1, dummy_pace st)" "ctx_ok dummy_ops c1"
      "trace_of c1 = [spec_entry (env 0) capture_packet (direction_val PCIE_TRACE_TX)]"
    using send_dummy [OF ctx_ok_fresh _ valid, of "env 0" st] assms(3) by auto
  obtain c2 st2 where c2: "pcie_recv (env 1) (Some c1) (Some capture_buffer) (dummy_pace st) =
      Inr (0, Some (dummy_packet (dm_count st)), Some c2, st2)" "ctx_ok dummy_ops c2"
      "trace_of c2 = trace_of c1 @
         [spec_entry (env 1) (dummy_packet (dm_count st)) (direction_val PCIE_TRACE_RX)]"
    using recv_dummy [OF c1(2), of "env 1" "dummy_pace st" capture_buffer] assms(2,3) c1(3) by auto
  have ok: "trace_ok c2" using c2(2) by (simp add: ctx_ok_def)
  have "unat (rec_timestamp_ns r) < 4294967296 * 1000000000" if "r \<in> set (trace_of c2)" for r
    using that c1(3) c2(3) assms(3) by (auto simp: spec_entry_def)
  then have "decode_pcap (pcap_file (trace_of c2)) = map round_us (trace_of c2)"
    by (intro decode_pcap_file) (auto intro: trace_of_payload [OF ok])
  moreover have "write_pcap True c2 path = Inr (0, Some (PcapFile (pcap_file (trace_of c2))))"
    using ok by (simp add: write_pcap_def pcie_trace_write_pcap_def)
  moreover have "unat (trace_count c2) = 2"
    using length_trace_of [OF ok] c1(3) c2(3) by simp
  then have "print_dec (unat (pcie_trace_count (Some c2))) = ''2''"
    by (simp add: pcie_trace_count_def) code_simp
  ultimately show ?thesis
    using c1 c2 close_dummy [OF c2(2)]
    by (simp add: tlp_capture_def arg_or_def open_dummy [OF assms(1)] Let_def pcie_send_text_def)
qed

definition sample_env :: "nat \<Rightarrow> rec_env" where
  "sample_env i = \<lparr>tv_sec = (if i = 0 then 7 else 8), tv_nsec = 0, realloc_ok = (\<lambda>n. unat n < 2 ^ 63)\<rparr>"

definition dummy_backends :: "dummy_state backends" where
  "dummy_backends =
     \<lparr>ctor_golden = pcie_backend_dummy, ctor_fpga = (\<lambda>b. Inr (None, b)),
      ctor_armds = (\<lambda>b. Inr (None, b)), ctor_xgig = (\<lambda>b. Inr (None, b)),
      ctor_pci = (\<lambda>b. Inr (None, b))\<rparr>"

definition sample_pointers :: "nat \<Rightarrow> send_pointers" where
  "sample_pointers i = \<lparr>ptr_ctx = ''0x1000'', ptr_tlp = ''0x2000'', ptr_backend = ''0x3000'', ptr_send = ''0x4000''\<rparr>"

theorem capture_on_dummy_witness:
  "\<exists>bytes st'. tlp_capture dummy_backends
         (quiet_console sample_pointers)
         True True sample_env [''dummy'', ''t.pcap''] (profile_state ''gen6x8'') =
       Inr (0, ''pcie_send: ctx=0x1000, t=0x2000, backend=0x3000'' @ newline_text @
               ''pcie_send: calling backend send function at 0x4000'' @ newline_text @
               received_line ''dummy'' (dummy_packet 0) @
               ''Captured 2 TLP(s) in t.pcap (pcap format)'' @ newline_text,
            Some (PcapFile bytes), st') \<and>
     decode_pcap bytes =
       map round_us [spec_entry (sample_env 0) capture_packet 1, spec_entry (sample_env 1) (dummy_packet 0) 2]"
proof -
  have "\<forall>i. granted (sample_env i) \<and> unat (timestamp_of (sample_env i)) < 4294967296 * 1000000000"
    by (simp add: granted_def alloc_law_def sample_env_def timestamp_of_def)
  with capture_on_dummy [of dummy_backends "profile_state ''gen6x8''" sample_env
      sample_pointers "''t.pcap''"]
  show ?thesis
    by (simp add: dummy_backends_def profile_state_def sample_pointers_def)
qed

section \<open>The link matrix on a dummy profile\<close>

definition meets :: "nat \<Rightarrow> nat \<Rightarrow> link_case \<Rightarrow> bool" where
  "meets n m tc \<longleftrightarrow> unat (case_gen tc) \<le> n \<and> unat (case_width tc) \<le> m"

definition matrix_row :: "link_case \<Rightarrow> bool \<Rightarrow> string" where
  "matrix_row tc pass =
     case_label tc @ '','' @ gen_name_of (case_gen tc) @ '','' @ print_dec (unat (case_width tc)) @ '','' @
     (if pass then ''PASS'' else ''FAIL'') @ newline_text"

lemma print_csv_row: "print_case_result tc pass ''csv'' True = (matrix_row tc pass, True)"
  by (simp add: print_case_result_def matrix_row_def)

lemma matrix_loop_dummy:
  assumes "ctx_ok dummy_ops c"
    and "dm_environ st ''PCIE_DUMMY_PROFILE'' = Some (profile_text g n m)"
    and "dm_environ st ''PCIE_DUMMY_SCENARIO'' = None"
    and "1 \<le> n" "n \<le> 8" "1 \<le> m" "m \<le> 16"
  shows "matrix_loop c ''csv'' tcs True all_pass st =
    Inr (concat (map (\<lambda>tc. matrix_row tc (meets n m tc)) tcs), all_pass \<and> list_all (meets n m) tcs, st)"
proof (induction tcs arbitrary: all_pass)
  case (Cons tc tcs)
  have "pcie_check_link_target (Some c) (case_gen tc) (case_width tc) (Some 0) st =
      Inr (0, Some (if meets n m tc then 1 else 0), st)"
    using dummy_check_profile [OF assms, of "case_gen tc" "case_width tc" 0] by (simp add: meets_def)
  then show ?case
    by (simp add: Cons.IH print_csv_row)
qed simp

lemma profile_text_no_format:
  "profile_text g n m \<noteq> ''text''" "profile_text g n m \<noteq> ''json''" "profile_text g n m \<noteq> ''csv''"
proof -
  have "is_digit 10 (hd (print_dec n))"
    using print_dec_digits [of n] by (cases "print_dec n") simp_all
  then have "hd (profile_text g n m) \<notin> {CHR ''t'', CHR ''j'', CHR ''c''}"
    by (cases g) (auto simp: profile_text_def is_digit_def digit_val_def)
  then show "profile_text g n m \<noteq> ''text''" "profile_text g n m \<noteq> ''json''" "profile_text g n m \<noteq> ''csv''"
    by auto
qed

definition set_dummy_env :: "string \<Rightarrow> string \<Rightarrow> dummy_state \<Rightarrow> dummy_state" where
  "set_dummy_env v s st = st\<lparr>dm_environ := (dm_environ st)(v \<mapsto> s)\<rparr>"

text \<open>
  C22: The compliance program on the dummy backend with a profile as its argument: the CSV it
  prints says PASS in exactly the rows whose generation and width the profile reaches, and the
  verdict and the exit code 0 are those of all four rows together; otherwise it exits with 3.
\<close>

theorem link_matrix_of_profile:
  assumes "ctor_golden bes = pcie_backend_dummy" and "dm_environ st ''PCIE_DUMMY_SCENARIO'' = None"
    and "1 \<le> n" "n \<le> 8" "1 \<le> m" "m \<le> 16"
  shows "pci_link_matrix bes (quiet_console ptrs) True set_dummy_env [''dummy'', profile_text g n m, ''csv''] st =
    Inr (if list_all (meets n m) link_cases then 0 else 3,
         ''case,target_gen,target_width,result'' @ newline_text @
         concat (map (\<lambda>tc. matrix_row tc (meets n m tc)) link_cases) @
         ''Overall,'' @ (if list_all (meets n m) link_cases then ''PASS'' else ''FAIL'') @ newline_text,
         set_dummy_env ''PCIE_DUMMY_PROFILE'' (profile_text g n m) st)"
proof -
  let ?st = "set_dummy_env ''PCIE_DUMMY_PROFILE'' (profile_text g n m) st"
  let ?c = "fresh_ctx\<lparr>backend := Some dummy_ops\<rparr> :: (dummy_state, unit) pcie_ctx"
  have st: "dm_environ ?st ''PCIE_DUMMY_PROFILE'' = Some (profile_text g n m)"
    "dm_environ ?st ''PCIE_DUMMY_SCENARIO'' = None"
    using assms(2) by (simp_all add: set_dummy_env_def)
  have "matrix_args [''dummy'', profile_text g n m, ''csv''] = (''dummy'', ''csv'', Some (profile_text g n m))"
    by (simp add: matrix_args_def arg_or_def profile_text_no_format)
  moreover have "pcie_close (Some ?c) ?st = Inr ?st" by (rule close_dummy [OF ctx_ok_fresh])
  ultimately show ?thesis
    using matrix_loop_dummy [OF ctx_ok_fresh st assms(3-6), of link_cases True]
    by (simp add: pci_link_matrix_def open_dummy [OF assms(1)] matrix_header_def matrix_footer_def
        print_case_result_def Let_def)
qed

theorem link_matrix_of_profile_witness:
  "fst (projr (pci_link_matrix dummy_backends (quiet_console sample_pointers) True set_dummy_env [''dummy'', profile_text True 8 16, ''csv'']
            (profile_state [])) :: int \<times> string \<times> dummy_state) = 0 \<and>
   fst (projr (pci_link_matrix dummy_backends (quiet_console sample_pointers) True set_dummy_env [''dummy'', profile_text True 7 16, ''csv'']
            (profile_state [])) :: int \<times> string \<times> dummy_state) = 3"
proof -
  have "list_all (meets 8 16) link_cases" "\<not> list_all (meets 7 16) link_cases"
    by (simp_all add: link_cases_def meets_def)
  with link_matrix_of_profile [of dummy_backends "profile_state []" 8 16 sample_pointers True]
    link_matrix_of_profile [of dummy_backends "profile_state []" 7 16 sample_pointers True]
  show ?thesis by (simp add: dummy_backends_def profile_state_def)
qed

end
