(* ===== verification/DevicePrograms.thy ===== *)
theory DevicePrograms
  imports ExamplePrograms PciDevice Fpga "HOL-Library.Sublist"
begin

text \<open>
  Programs of \<open>examples/\<close> on the backends that reach a device: \<open>pci_link_check\<close> on a PCI Express
  device, from the registers to the exit code, and \<open>sniff_and_send\<close> on the FPGA, where the opening is
  undefined.
\<close>

section \<open>The link check on a PCI device\<close>

lemma open_pci:
  assumes "ctor_pci bes = pcie_backend_pci os"
  shows "pcie_open bes True (Some ''pci'') w = Inr (Some (fresh_ctx\<lparr>backend := Some (pci_ops os)\<rparr>), w)"
  using assms by (simp add: pcie_open_def select_backend_def pcie_backend_pci_def)

lemma close_pci: "pcie_close (Some (fresh_ctx\<lparr>backend := Some (pci_ops os)\<rparr>)) w = Inr w"
  by (simp add: pcie_close_def fresh_ctx_def pci_close_def)

lemma target_met_nat:
  assumes "gen_val (negotiated_gen s) \<noteq> 0"
  shows "link_target_met s g n \<longleftrightarrow>
    unat g \<le> unat (gen_val (negotiated_gen s)) \<and> unat n \<le> unat (negotiated_link_width s)"
proof -
  have "negotiated_gen s \<noteq> PCIE_GEN_UNKNOWN" using assms by auto
  then show ?thesis
    by (auto simp: link_target_met_def word_less_nat_alt word_neq_0_conv)
qed

text \<open>
  C10: The link check program on a PCI Express device whose capability is at \<open>p\<close>: it exits with 2
  when a speed code of the Link Capabilities or Link Status register is not one of 1 to 8;
  otherwise with 0 when the negotiated generation and width of the Link Status register reach the
  two arguments, and with 3 when they do not. An argument 0 asks for nothing, and of the width only
  the low 8 bits are compared.
\<close>

theorem pci_link_check_device:
  assumes dev: "config_device os D" and w: "at_device D w" "config_of D w = m"
    and big: "275 \<le> length m"
    and cap: "pci_find_pcie_capability os w = Inr (Some (ucast (p :: u8)), w1)"
    and bes: "ctor_pci bes = pcie_backend_pci os"
  shows "\<exists>out w'. pci_link_check bes con True [''pci'', gen, width] w =
    (let lnkcap = reg_at m (unat p + 0x0C); lnksta = reg_at m (unat p + 0x12);
         g = unat (c_atoi gen); n = unat (c_atoi width) mod 256
     in Inr (if lnkcap mod 16 \<notin> {1..8} \<or> lnksta mod 16 \<notin> {1..8} then 2
             else if g \<le> lnksta mod 16 \<and> n \<le> lnksta div 16 mod 64 then 0 else 3, out, w'))"
proof -
  let ?cap = "reg_at m (unat p + 0x0C)" and ?sta = "reg_at m (unat p + 0x12)"
  let ?k = "?cap mod 16 \<in> {1..8} \<and> ?sta mod 16 \<in> {1..8}"
  obtain rc s w' where st: "pci_link_status os (Some link_status_zero) w = Inr (rc, Some s, w')"
    "rc = 0 \<longleftrightarrow> ?k" "unat (negotiated_link_width s) = ?sta div 16 mod 64"
    "rc = 0 \<longrightarrow> unat (gen_val (negotiated_gen s)) = ?sta mod 16"
    using pci_link_status_registers [OF dev w big cap, of link_status_zero] unfolding Let_def by blast
  have pass: "link_target_met s (c_atoi gen) (ucast (c_atoi width)) \<longleftrightarrow>
      unat (c_atoi gen) \<le> ?sta mod 16 \<and> unat (c_atoi width) mod 256 \<le> ?sta div 16 mod 64" if ?k
  proof -
    have "unat (gen_val (negotiated_gen s)) = ?sta mod 16" using that st by simp
    moreover from this that have "gen_val (negotiated_gen s) \<noteq> 0" by (auto simp: word_unat_eq_iff)
    moreover have "unat (ucast (x :: u32) :: u8) = unat x mod 256" for x
      by (simp add: unsigned_ucast_eq take_bit_eq_mod)
    ultimately show ?thesis by (simp add: target_met_nat st(3))
  qed
  show ?thesis
    using pass st(1,2)
    by (cases ?k) (simp_all add: pci_link_check_def arg_or_def open_pci [OF bes] close_pci pcie_check_link_target_def
        pcie_get_link_status_def Let_def del: atLeastAtMost_iff)
qed

text \<open>The link status program on the same device: it prints the widths of the registers or exits with 2.\<close>

lemma pci_link_status_device_program:
  assumes dev: "config_device os D" and w: "at_device D w" "config_of D w = m"
    and big: "275 \<le> length m"
    and cap: "pci_find_pcie_capability os w = Inr (Some (ucast (p :: u8)), w1)"
    and bes: "ctor_pci bes = pcie_backend_pci os"
  shows "\<exists>rc out w'. pci_link_status_main bes (pci_console os ptrs) True [''pci''] w = Inr (rc, out, w') \<and>
    (let lnkcap = reg_at m (unat p + 0x0C); lnksta = reg_at m (unat p + 0x12)
     in if lnkcap mod 16 \<in> {1..8} \<and> lnksta mod 16 \<in> {1..8}
        then rc = 0 \<and>
          sublist (''Max link width: '' @ print_dec (lnkcap div 16 mod 64) @ '' lanes'' @ newline_text @
            ''Negotiated link width: '' @ print_dec (lnksta div 16 mod 64) @ '' lanes'' @ newline_text) out
        else rc = 2 \<and> out = [])"
proof -
  let ?cap = "reg_at m (unat p + 0x0C)" and ?sta = "reg_at m (unat p + 0x12)"
  obtain rc s w' where st: "pci_link_status os (Some link_status_zero) w = Inr (rc, Some s, w')"
    "rc = 0 \<longleftrightarrow> ?cap mod 16 \<in> {1..8} \<and> ?sta mod 16 \<in> {1..8}"
    "unat (max_link_width s) = ?cap div 16 mod 64" "unat (negotiated_link_width s) = ?sta div 16 mod 64"
    using pci_link_status_registers [OF dev w big cap, of link_status_zero] unfolding Let_def by blast
  let ?t = "''Max link width: '' @ print_dec (?cap div 16 mod 64) @ '' lanes'' @ newline_text @
            ''Negotiated link width: '' @ print_dec (?sta div 16 mod 64) @ '' lanes'' @ newline_text"
  have sub: "sublist ?t (pre @ ?t @ post)" for pre post by (rule sublist_appendI)
  show ?thesis
  proof (cases "rc = 0")
    case True
    let ?pre = "''Device: '' @ ''pci'' @ newline_text @
              ''Max link speed: '' @ pcie_link_speed_name (max_link_speed s) @ '' (code='' @
                print_dec (unat (speed_val (max_link_speed s))) @ '')'' @ newline_text @
              ''Negotiated link speed: '' @ pcie_link_speed_name (negotiated_link_speed s) @ '' (code='' @
                print_dec (unat (speed_val (negotiated_link_speed s))) @ '')'' @ newline_text"
    let ?post = "''Max PCIe generation: '' @ pcie_gen_name (max_gen s) @ newline_text @
              ''Negotiated PCIe generation: '' @ pcie_gen_name (negotiated_gen s) @ newline_text"
    have "pci_link_status_main bes (pci_console os ptrs) True [''pci''] w = Inr (0, ?pre @ ?t @ ?post, w')"
      using st True
      by (simp add: pci_link_status_main_def arg_or_def open_pci [OF bes] close_pci pcie_get_link_status_def Let_def
          del: atLeastAtMost_iff)
    with sub [of ?pre ?post] st(2) True show ?thesis by (metis (no_types, lifting))
  next
    case False
    then have "pci_link_status_main bes (pci_console os ptrs) True [''pci''] w = Inr (2, [], w')"
      using st(1) by (simp add: pci_link_status_main_def arg_or_def open_pci [OF bes] close_pci
          pcie_get_link_status_def Let_def)
    with st(2) False show ?thesis by auto
  qed
qed

theorem pci_link_check_device_witness:
  "(\<exists>out w'. pci_link_check image_backends (pci_console image_os sample_pointers) True [''pci'', print_dec 3, print_dec 4] (image_world sample_config) = Inr (0, out, w')) \<and>
   (\<exists>out w'. pci_link_check image_backends (pci_console image_os sample_pointers) True [''pci'', print_dec 4, print_dec 4] (image_world sample_config) = Inr (3, out, w'))"
proof -
  obtain w1 where "pci_find_pcie_capability image_os (image_world sample_config) = Inr (Some (ucast (0x60 :: u8)), w1)"
    using sample_find_capability by blast
  note check = pci_link_check_device [OF image_device(1) sample_world this, of image_backends]
  have "c_atoi (print_dec n) = word_of_nat n" if "n < 2 ^ 32" for n
    using that c_strtoul_print_dec [of "[]" n]
    by (simp add: c_atoi_def ulong_max_def word_unat_eq_iff unsigned_ucast_eq unat_of_nat take_bit_eq_mod)
  from this [of 3] this [of 4] have "c_atoi (print_dec 3) = 3" "c_atoi (print_dec 4) = 4" by simp_all
  moreover have "reg_at sample_config 0x6C = 0x84" "reg_at sample_config 0x72 = 0x43"
    by (simp_all add: reg_at_def sample_config_def nth_list_update)
  ultimately show ?thesis
    using check [of "pci_console image_os sample_pointers" "print_dec 3" "print_dec 4"]
      check [of "pci_console image_os sample_pointers" "print_dec 4" "print_dec 4"] by (simp add: image_backends_def Let_def)
qed

section \<open>Sniff and send on an FPGA\<close>

text \<open>
  The sniffing program never gets a defined session: the FPGA that starts leaves \<open>pcie_open\<close> with a
  dead operation table, and the FPGA that does not leaves the program with a null context.
\<close>

lemma sniff_and_send_undefined:
  assumes "ctor_fpga bes = pcie_backend_fpga hw" and "fpga_init hw w = Inr (rc, w1)"
  shows "sniff_and_send bes con True env t w = Some (Inl (if rc = 0 then LifetimeEnd else NullDeref))"
  using assms
  by (simp add: sniff_and_send_def pcie_open_def select_backend_def pcie_backend_fpga_def pcie_sniff_def)

end
