(* ===== verification/Logging.thy ===== *)
theory Logging
  imports CText
begin

text \<open>
  The log of the library, \<open>pcie_log\<close> of \<open>src/pcapcie.c\<close>: the line it writes to standard error.
  The time is that of \<open>CLOCK_REALTIME\<close>; the expansion of the caller's format is a parameter.
\<close>

datatype pcie_log_level = PCIE_LOG_INFO | PCIE_LOG_WARN | PCIE_LOG_ERROR | PCIE_LOG_DEBUG

fun log_level_val :: "pcie_log_level \<Rightarrow> nat" where
  "log_level_val PCIE_LOG_INFO = 0"
| "log_level_val PCIE_LOG_WARN = 1"
| "log_level_val PCIE_LOG_ERROR = 2"
| "log_level_val PCIE_LOG_DEBUG = 3"

definition lvl_str :: "string list" where
  "lvl_str = [''INFO'', ''WARN'', ''ERR'', ''DBG'']"

text \<open>\<open>%-4s\<close>.\<close>

definition pad_right :: "nat \<Rightarrow> string \<Rightarrow> string" where
  "pad_right w s = s @ replicate (w - length s) (CHR '' '')"

text \<open>\<open>lvl\<close> is the value passed for the enumeration, \<open>text\<close> the expansion of the format.\<close>

definition pcie_log :: "nat \<Rightarrow> nat \<times> nat \<Rightarrow> string \<Rightarrow> string c_res" where
  "pcie_log lvl ts message =
     (if lvl < length lvl_str
      then Inr (''['' @ print_dec (fst ts) @ ''.'' @ zero_pad 6 (print_dec (snd ts div 1000)) @ ''] '' @
                pad_right 4 (lvl_str ! lvl) @ '' '' @ message @ [CHR 0x0A])
      else Inl OutOfBounds)"

text \<open>The four levels have their lines, which keep level and message apart; another value reads past the table.\<close>

lemma level_columns:
  "pad_right 4 (lvl_str ! 0) = ''INFO''" "pad_right 4 (lvl_str ! 1) = ''WARN''"
  "pad_right 4 (lvl_str ! 2) = ''ERR ''" "pad_right 4 (lvl_str ! 3) = ''DBG ''"
  by code_simp+

lemma pcie_log_line:
  "pcie_log (log_level_val l) ts message =
     Inr (''['' @ print_dec (fst ts) @ ''.'' @ zero_pad 6 (print_dec (snd ts div 1000)) @ ''] '' @
          pad_right 4 (lvl_str ! log_level_val l) @ '' '' @ message @ [CHR 0x0A])"
  by (cases l) (simp_all add: pcie_log_def lvl_str_def)

lemma pcie_log_inj:
  "pcie_log (log_level_val l) ts message = pcie_log (log_level_val l') ts message' \<Longrightarrow> l = l' \<and> message = message'"
  unfolding pcie_log_line by (cases l; cases l') (simp_all only: log_level_val.simps level_columns, simp_all)

lemma pcie_log_bad_level: "4 \<le> lvl \<Longrightarrow> pcie_log lvl ts message = Inl OutOfBounds"
  by (simp add: pcie_log_def lvl_str_def)

end
