(* ===== verification/GuiText.thy ===== *)
theory GuiText
  imports TraceExport "HOL-Library.Sublist"
begin

text \<open>
  The text functions of the graphical viewer, \<open>gui/src/MainWindow.cpp\<close>: direction and type
  names, the CSV splitter, the hex dump and the PCI name tables.

  A \<open>QString\<close> is the list of its characters. The operations of Qt that are more than list
  operations are a parameter: the record \<open>qt\<close> holds trimming, letter case, number formatting
  and parsing and hexadecimal decoding. What the code relies on is stated by \<open>qt_text\<close> and
  \<open>qt_numbers\<close>, for ASCII text. The two regular expressions are translated from their
  patterns: each is deterministic, so the matcher reads its parts from left to right.
\<close>

section \<open>Qt\<close>

record qt =
  qt_trimmed :: "string \<Rightarrow> string"
  qt_upper :: "string \<Rightarrow> string"
  qt_lower :: "string \<Rightarrow> string"
  qt_number :: "nat \<Rightarrow> nat \<Rightarrow> nat \<Rightarrow> string"
  qt_uint :: "nat \<Rightarrow> string \<Rightarrow> u32"
  qt_ulonglong :: "nat \<Rightarrow> string \<Rightarrow> u64"
  qt_from_hex :: "string \<Rightarrow> u8 list"

definition ascii :: "string \<Rightarrow> bool" where
  "ascii s \<longleftrightarrow> list_all (\<lambda>c. code c < 128) s"

definition c_trim :: "string \<Rightarrow> string" where
  "c_trim s = rev (dropWhile c_isspace (rev (dropWhile c_isspace s)))"

definition c_toupper :: "char \<Rightarrow> char" where
  "c_toupper c = (if 97 \<le> code c \<and> code c \<le> 122 then char_of (code c - 32) else c)"

text \<open>
  \<open>trimmed\<close>, \<open>toUpper\<close> and \<open>toLower\<close> as documented, on ASCII text; \<open>arg\<close> of a number with a
  width, a base and the fill character \<open>0\<close>; \<open>toUInt\<close> and \<open>toULongLong\<close>, which give 0 for text
  that is not a number.
\<close>

definition qt_text :: "qt \<Rightarrow> bool" where
  "qt_text qt \<longleftrightarrow>
     (\<forall>s. ascii s \<longrightarrow> qt_trimmed qt s = c_trim s \<and> qt_upper qt s = map c_toupper s \<and>
                     qt_lower qt s = map c_tolower s)"

definition letter :: "char \<Rightarrow> bool" where
  "letter c \<longleftrightarrow> (65 \<le> code c \<and> code c \<le> 90) \<or> (97 \<le> code c \<and> code c \<le> 122)"

definition hex_text :: "u8 list \<Rightarrow> string" where
  "hex_text bs = concat (map (\<lambda>b. print_02x (unat b)) bs)"

definition qt_numbers :: "qt \<Rightarrow> bool" where
  "qt_numbers qt \<longleftrightarrow>
     (\<forall>width n. qt_number qt width 16 n = zero_pad width (print_hex n) \<and>
                qt_number qt width 10 n = zero_pad width (print_dec n)) \<and>
     (\<forall>s. (\<exists>c \<in> set s. \<not> is_digit 16 c) \<and> list_all letter s \<longrightarrow> qt_uint qt 16 s = 0) \<and>
     (\<forall>n. n < 2 ^ 32 \<longrightarrow> qt_uint qt 16 (print_hex n) = word_of_nat n \<and>
                         qt_uint qt 10 (print_dec n) = word_of_nat n) \<and>
     (\<forall>n. n < 2 ^ 64 \<longrightarrow> qt_ulonglong qt 16 (''0x'' @ print_hex n) = word_of_nat n) \<and>
     (\<forall>bs. qt_from_hex qt (hex_text bs) = bs)"

section \<open>\<open>QString::arg\<close>\<close>

text \<open>
  \<open>arg\<close> replaces every occurrence of the lowest place marker: a \<open>%\<close>, an optional \<open>L\<close> and one
  or two digits. Text with no marker is unchanged. \<open>take_mark\<close> reads the marker after a \<open>%\<close>.
\<close>

definition take_mark :: "string \<Rightarrow> (nat \<times> string) option" where
  "take_mark s =
     (let s = (case s of c # r \<Rightarrow> if c = CHR ''L'' then r else s | [] \<Rightarrow> s) in
      case s of
        [] \<Rightarrow> None
      | d # r \<Rightarrow>
          if \<not> is_digit 10 d then None
          else (case r of
                  [] \<Rightarrow> Some (code d - 48, [])
                | e # r' \<Rightarrow> if is_digit 10 e then Some (10 * (code d - 48) + (code e - 48), r')
                            else Some (code d - 48, r)))"

lemma take_mark_length: "take_mark s = Some (n, r) \<Longrightarrow> length r < length s"
  by (auto simp: take_mark_def Let_def split: list.splits if_splits)

function place_marks :: "string \<Rightarrow> nat list" where
  "place_marks [] = []"
| "place_marks (c # s) =
     (if c = CHR ''%'' then (case take_mark s of
                               None \<Rightarrow> place_marks s
                             | Some (n, r) \<Rightarrow> n # place_marks r)
      else place_marks s)"
  by pat_completeness auto
termination
  by (relation "measure length") (auto dest: take_mark_length)

function put_arg :: "nat \<Rightarrow> string \<Rightarrow> string \<Rightarrow> string" where
  "put_arg k a [] = []"
| "put_arg k a (c # s) =
     (if c = CHR ''%'' then (case take_mark s of
                               None \<Rightarrow> c # put_arg k a s
                             | Some (n, r) \<Rightarrow>
                                 if n = k then a @ put_arg k a r
                                 else c # take (length s - length r) s @ put_arg k a r)
      else c # put_arg k a s)"
  by pat_completeness auto
termination
  by (relation "measure (\<lambda>(k, a, s). length s)") (auto dest: take_mark_length)

definition qarg :: "string \<Rightarrow> string \<Rightarrow> string" where
  "qarg s a =
     (case place_marks s of [] \<Rightarrow> s | m # ms \<Rightarrow> put_arg (fold min ms m) a s)"

definition qargs :: "string \<Rightarrow> string list \<Rightarrow> string" where
  "qargs s as = fold (\<lambda>a t. qarg t a) as s"

lemma place_marks_text [simp]:
  "CHR ''%'' \<notin> set f \<Longrightarrow> place_marks (f @ s) = place_marks s"
  by (induction f) auto

lemma put_arg_text [simp]:
  "CHR ''%'' \<notin> set f \<Longrightarrow> put_arg k a (f @ s) = f @ put_arg k a s"
  by (induction f) auto

lemma put_arg_none [simp]: "CHR ''%'' \<notin> set f \<Longrightarrow> put_arg k a f = f"
  by (induction f) auto

lemma place_marks_none [simp]: "CHR ''%'' \<notin> set f \<Longrightarrow> place_marks f = []"
  by (induction f) auto

section \<open>Names\<close>

definition normalizeDirection :: "qt \<Rightarrow> string \<Rightarrow> string" where
  "normalizeDirection qt val =
     (let v = qt_upper qt (qt_trimmed qt val)
      in if v = ''TX'' \<or> v = ''1'' then ''TX''
         else if v = ''RX'' \<or> v = ''2'' then ''RX''
         else v)"

definition decodeTypeName :: "qt \<Rightarrow> string \<Rightarrow> string" where
  "decodeTypeName qt val =
     (let v = qt_trimmed qt val
      in if v = ''0'' then ''MemRd''
         else if v = ''1'' then ''MemWr''
         else if v = ''4'' then ''CfgRd''
         else if v = ''5'' then ''CfgWr''
         else if v = ''10'' then ''Cpl''
         else if v = [] then ''Unknown'' else v)"

definition sanitizeType :: "qt \<Rightarrow> string \<Rightarrow> string" where
  "sanitizeType qt val = decodeTypeName qt val"

definition pciVendorName :: "u16 \<Rightarrow> string" where
  "pciVendorName vendorId =
     (if vendorId = 0x10EC then ''Realtek''
      else if vendorId = 0x8086 then ''Intel''
      else if vendorId = 0x14E4 then ''Broadcom''
      else if vendorId = 0x1AF4 then ''Red Hat, Inc.''
      else if vendorId = 0x10DE then ''NVIDIA''
      else if vendorId = 0x10B5 then ''PLX''
      else ''Unknown vendor'')"

definition pciClassName :: "u32 \<Rightarrow> string" where
  "pciClassName classCode =
     (let c = drop_bit 8 classCode AND 0xFFFFFF
      in if c = 0x020000 then ''Ethernet controller''
         else if c = 0x010000 then ''SCSI controller''
         else if c = 0x0C0300 then ''USB controller''
         else if c = 0x060000 then ''Bridge device''
         else if c = 0x030000 then ''VGA compatible controller''
         else ''Unknown class'')"

definition makeHexLabel :: "qt \<Rightarrow> u32 \<Rightarrow> nat \<Rightarrow> string" where
  "makeHexLabel qt val width = qt_upper qt (qarg ''0x%1'' (qt_number qt width 16 (unat val)))"

section \<open>The hex dump\<close>

definition drop_blanks :: "string \<Rightarrow> string" where
  "drop_blanks s =
     filter (\<lambda>c. c \<noteq> CHR '' '' \<and> c \<noteq> CHR 0x09 \<and> c \<noteq> CHR 0x0A \<and> c \<noteq> CHR 0x0D) s"

function pad_hex :: "string \<Rightarrow> string" where
  "pad_hex hex = (if length hex < 48 then pad_hex (hex @ ''   '') else hex)"
  by pat_completeness auto
termination
  by (relation "measure (\<lambda>hex. 48 - length hex)") auto

declare pad_hex.simps [simp del]

definition dump_char :: "u8 \<Rightarrow> char" where
  "dump_char b = (if 0x20 \<le> b \<and> b \<le> 0x7e then char_of (unat b) else CHR ''.'')"

definition dump_line :: "qt \<Rightarrow> nat \<Rightarrow> u8 list \<Rightarrow> string" where
  "dump_line qt i chunk =
     qargs ''%1  %2  %3''
       [qt_number qt 4 16 i,
        pad_hex (concat (map (\<lambda>b. qarg ''%1 '' (qt_number qt 2 16 (unat b))) chunk)),
        map dump_char chunk]"

function dump_lines :: "qt \<Rightarrow> nat \<Rightarrow> u8 list \<Rightarrow> string list" where
  "dump_lines qt i bytes =
     (if i < length bytes
      then dump_line qt i (take 16 (drop i bytes)) # dump_lines qt (i + 16) bytes
      else [])"
  by pat_completeness auto
termination
  by (relation "measure (\<lambda>(qt, i, bytes). length bytes - i)") auto

declare dump_lines.simps [simp del]

fun join_lines :: "string list \<Rightarrow> string" where
  "join_lines [] = []"
| "join_lines [l] = l"
| "join_lines (l # ls) = l @ CHR 0x0A # join_lines ls"

definition formatHexDump :: "qt \<Rightarrow> string \<Rightarrow> string" where
  "formatHexDump qt payload =
     (let normalized = drop_blanks (qt_trimmed qt payload) in
      if normalized = [] then ''<no payload>''
      else let bytes = qt_from_hex qt normalized in
           if bytes = [] then qarg (''%1'' @ CHR 0x0A # ''<not valid hex payload>'') normalized
           else join_lines (dump_lines qt 0 bytes))"

section \<open>Splitting\<close>

text \<open>\<open>split('\n')\<close>.\<close>

fun split_newlines :: "string \<Rightarrow> string list" where
  "split_newlines [] = [[]]"
| "split_newlines (c # cs) =
     (if c = CHR 0x0A then [] # split_newlines cs
      else case split_newlines cs of
             [] \<Rightarrow> [[c]]
           | l # ls \<Rightarrow> (c # l) # ls)"

text \<open>
  The loop of \<open>splitCsvLine\<close>, with \<open>current\<close> and \<open>inQuotes\<close>; a doubled quote inside quotes is
  one quote.
\<close>

fun split_fields :: "string \<Rightarrow> bool \<Rightarrow> string \<Rightarrow> string list" where
  "split_fields current inQuotes [] = [current]"
| "split_fields current inQuotes (ch # rest) =
     (if ch = CHR 0x22
      then if inQuotes \<and> rest \<noteq> [] \<and> hd rest = CHR 0x22
           then split_fields (current @ [CHR 0x22]) inQuotes (tl rest)
           else split_fields current (\<not> inQuotes) rest
      else if ch = CHR '','' \<and> \<not> inQuotes
      then current # split_fields [] inQuotes rest
      else split_fields (current @ [ch]) inQuotes rest)"

definition splitCsvLine :: "string \<Rightarrow> string list" where
  "splitCsvLine line = split_fields [] False line"

section \<open>The two line patterns\<close>

text \<open>The captures of a raw trace line: operation, device, function, offset and value.\<close>

record raw_match =
  m_op :: string
  m_dev :: string
  m_bdf :: string
  m_offset :: string
  m_value :: string

text \<open>\<open>\s+\<close>, \<open>[..]+\<close> and \<open>0x[0-9A-Fa-f]+\<close>: what is read and the rest.\<close>

definition re_spaces1 :: "string \<Rightarrow> string option" where
  "re_spaces1 s = (if s \<noteq> [] \<and> c_isspace (hd s) then Some (dropWhile c_isspace s) else None)"

definition re_class1 :: "(char \<Rightarrow> bool) \<Rightarrow> string \<Rightarrow> (string \<times> string) option" where
  "re_class1 P s = (if s \<noteq> [] \<and> P (hd s) then Some (takeWhile P s, dropWhile P s) else None)"

definition re_hex :: "string \<Rightarrow> (string \<times> string) option" where
  "re_hex s =
     Option.bind (scan_lit ''0x'' s) (\<lambda>s1.
     Option.bind (re_class1 (is_digit 16) s1) (\<lambda>(h, s2). Some (''0x'' @ h, s2)))"

definition dev_char :: "char \<Rightarrow> bool" where
  "dev_char c \<longleftrightarrow> letter c \<or> is_digit 10 c \<or> c = CHR ''_'' \<or> c = CHR ''.'' \<or> c = CHR ''-''"

definition bdf_text :: "string \<Rightarrow> bool" where
  "bdf_text s \<longleftrightarrow>
     length s = 7 \<and> is_digit 16 (s ! 0) \<and> is_digit 16 (s ! 1) \<and> s ! 2 = CHR '':'' \<and>
     is_digit 16 (s ! 3) \<and> is_digit 16 (s ! 4) \<and> s ! 5 = CHR ''.'' \<and> is_digit 16 (s ! 6)"

definition re_op :: "string \<Rightarrow> (string \<times> string) option" where
  "re_op s =
     (case scan_lit ''read'' s of
        Some r \<Rightarrow> Some (''read'', r)
      | None \<Rightarrow> map_option (\<lambda>r. (''write'', r)) (scan_lit ''write'' s))"

definition re_arrow :: "string \<Rightarrow> string option" where
  "re_arrow s = (case scan_lit ''->'' s of Some r \<Rightarrow> Some r | None \<Rightarrow> scan_lit ''<-'' s)"

definition raw_line_match :: "string \<Rightarrow> raw_match option" where
  "raw_line_match line =
     Option.bind (scan_lit ''pci_cfg_'' line) (\<lambda>s.
     Option.bind (re_op s) (\<lambda>(op, s).
     Option.bind (re_spaces1 s) (\<lambda>s.
     Option.bind (re_class1 dev_char s) (\<lambda>(dev, s).
     Option.bind (re_spaces1 s) (\<lambda>s.
     if \<not> bdf_text (take 7 s) then None
     else Option.bind (re_spaces1 (drop 7 s)) (\<lambda>s'.
     Option.bind (scan_lit ''@'' s') (\<lambda>s'.
     Option.bind (re_hex s') (\<lambda>(offset, s').
     Option.bind (re_arrow (dropWhile c_isspace s')) (\<lambda>s'.
     Option.bind (re_hex (dropWhile c_isspace s')) (\<lambda>(val, s').
     if dropWhile c_isspace s' \<noteq> [] then None
     else Some \<lparr>m_op = op, m_dev = dev, m_bdf = take 7 s, m_offset = offset, m_value = val\<rparr>))))))))))"

definition word_char :: "char \<Rightarrow> bool" where
  "word_char c \<longleftrightarrow> letter c \<or> is_digit 10 c \<or> c = CHR ''_''"

definition id_text :: "string \<Rightarrow> bool" where
  "id_text s \<longleftrightarrow>
     length s = 9 \<and> list_all (is_digit 16) (take 4 s) \<and> s ! 4 = CHR '':'' \<and>
     list_all (is_digit 16) (drop 5 s)"

definition pcie_ls_line :: "string \<Rightarrow> bool" where
  "pcie_ls_line line \<longleftrightarrow>
     Option.bind (re_class1 (is_digit 10) line) (\<lambda>(_, s).
     Option.bind (scan_lit '':'' s) (\<lambda>s.
     Option.bind (re_class1 (is_digit 10) s) (\<lambda>(_, s).
     Option.bind (scan_lit ''.'' s) (\<lambda>s.
     Option.bind (re_class1 (is_digit 10) s) (\<lambda>(_, s).
     Option.bind (re_spaces1 s) (\<lambda>s.
     Option.bind (scan_lit ''ID'' s) (\<lambda>s.
     Option.bind (re_spaces1 s) (\<lambda>s.
     if id_text (take 9 s) \<and> (drop 9 s = [] \<or> \<not> word_char (s ! 9)) then Some () else None)))))))) \<noteq> None"

text \<open>The lines of a \<open>pcie ls\<close> capture that look like devices.\<close>

definition extractPcieLsEntries :: "qt \<Rightarrow> string option \<Rightarrow> string list" where
  "extractPcieLsEntries qt content =
     (case content of
        None \<Rightarrow> []
      | Some text \<Rightarrow>
          filter pcie_ls_line (filter (\<lambda>l. l \<noteq> []) (map (qt_trimmed qt) (split_newlines text))))"

text \<open>\<open>showPcieLsWindow\<close>: the text of the window for the file at \<open>path\<close>.\<close>

definition pcie_ls_text :: "qt \<Rightarrow> string \<Rightarrow> string option \<Rightarrow> string" where
  "pcie_ls_text qt path content =
     (let entries = extractPcieLsEntries qt content in
      if entries = []
      then qarg (''No pcie ls output found.'' @ [CHR 0x0A, CHR 0x0A] @ ''File: %1'') path
      else join_lines entries)"

section \<open>Lemmas on the text functions\<close>

lemma ascii_simps [simp]:
  "ascii []" "ascii (c # s) \<longleftrightarrow> code c < 128 \<and> ascii s" "ascii (s @ t) \<longleftrightarrow> ascii s \<and> ascii t"
  by (auto simp: ascii_def)

lemma ascii_digits: "list_all (is_digit 16) s \<Longrightarrow> ascii s"
  by (auto simp: ascii_def list_all_iff is_digit_def digit_val_def split: if_splits)

lemma ascii_numbers [simp]: "ascii (print_hex n)" "ascii (print_dec n)"
  using print_hex_digits [of n] print_dec_digits [of n] is_digit_mono
  by (auto intro!: ascii_digits simp: list_all_iff)

lemma qt_textD:
  assumes "qt_text qt" and "ascii s"
  shows "qt_trimmed qt s = c_trim s" "qt_upper qt s = map c_toupper s"
    "qt_lower qt s = map c_tolower s"
  using assms by (auto simp: qt_text_def)

lemma c_trim_clean:
  assumes "s \<noteq> [] \<Longrightarrow> \<not> c_isspace (hd s) \<and> \<not> c_isspace (last s)"
  shows "c_trim s = s"
proof (cases s rule: rev_cases)
  case (snoc t x)
  then have "\<not> c_isspace (hd s)" and "s \<noteq> []" using assms by simp_all
  then have *: "dropWhile c_isspace s = s" by (cases s) simp_all
  moreover have "dropWhile c_isspace (rev s) = rev s" using assms snoc by simp
  ultimately show ?thesis by (simp add: c_trim_def)
qed (simp add: c_trim_def)

lemma not_space_digit: "is_digit 16 c \<Longrightarrow> \<not> c_isspace c"
  by (auto simp: is_digit_def digit_val_def c_isspace_def split: if_splits)

lemma c_trim_words:
  assumes "\<forall>c \<in> set s. \<not> c_isspace c"
  shows "c_trim s = s"
  using assms by (intro c_trim_clean) auto

lemma c_trim_numbers [simp]:
  "c_trim (print_hex n) = print_hex n" "c_trim (print_dec n) = print_dec n"
  "c_trim (''0x'' @ print_hex n) = ''0x'' @ print_hex n"
proof -
  have "\<not> c_isspace c" if "c \<in> set (print_hex n) \<or> c \<in> set (print_dec n)" for c
    using that print_hex_digits [of n] print_dec_digits [of n] is_digit_mono
    by (auto simp: list_all_iff dest: not_space_digit)
  moreover have "\<not> c_isspace (CHR ''0'')" "\<not> c_isspace (CHR ''x'')" by (simp_all add: c_isspace_def)
  ultimately show "c_trim (print_hex n) = print_hex n" "c_trim (print_dec n) = print_dec n"
    "c_trim (''0x'' @ print_hex n) = ''0x'' @ print_hex n"
    by (auto intro!: c_trim_words)
qed

lemma split_newlines_line:
  "CHR 0x0A \<notin> set l \<Longrightarrow> split_newlines (l @ CHR 0x0A # s) = l # split_newlines s"
  by (induction l) auto

lemma split_newlines_concat:
  assumes "\<And>l. l \<in> set ls \<Longrightarrow> CHR 0x0A \<notin> set l"
  shows "split_newlines (concat (map (\<lambda>l. l @ [CHR 0x0A]) ls)) = ls @ [[]]"
  using assms by (induction ls) (auto simp: split_newlines_line)

lemma split_newlines_nonempty [simp]: "split_newlines s \<noteq> []"
  by (induction s) (auto split: list.splits)

definition unquoted :: "string \<Rightarrow> bool" where
  "unquoted s \<longleftrightarrow> list_all (\<lambda>c. c \<noteq> CHR 0x22 \<and> c \<noteq> CHR '','') s"

lemma split_fields_plain:
  "unquoted f \<Longrightarrow>
     split_fields cur False (f @ CHR '','' # rest) = (cur @ f) # split_fields [] False rest"
  "unquoted f \<Longrightarrow> split_fields cur False f = [cur @ f]"
  by (induction f arbitrary: cur) (auto simp: unquoted_def)

text \<open>A field in quotes, with the quotes inside doubled.\<close>

definition quote_field :: "string \<Rightarrow> string" where
  "quote_field s =
     CHR 0x22 # concat (map (\<lambda>c. if c = CHR 0x22 then [c, c] else [c]) s) @ [CHR 0x22]"

fun csv_join :: "string list \<Rightarrow> string" where
  "csv_join [] = []"
| "csv_join [f] = f"
| "csv_join (f # fs) = f @ CHR '','' # csv_join fs"

lemma split_fields_quoted:
  assumes "rest = [] \<or> hd rest \<noteq> CHR 0x22"
  shows "split_fields cur True
           (concat (map (\<lambda>c. if c = CHR 0x22 then [c, c] else [c]) s) @ CHR 0x22 # rest) =
         split_fields (cur @ s) False rest"
  using assms by (induction s arbitrary: cur) auto

lemma split_quoted_field:
  assumes "rest = [] \<or> hd rest \<noteq> CHR 0x22"
  shows "split_fields [] False (quote_field s @ rest) = split_fields s False rest"
  using split_fields_quoted [OF assms, of "[]" s] by (simp add: quote_field_def)

lemma split_quoted_fields:
  "fs \<noteq> [] \<Longrightarrow> split_fields [] False (csv_join (map quote_field fs)) = fs"
proof (induction fs rule: induct_list012)
  case (2 f)
  show ?case using split_quoted_field [of "[]" f] by simp
next
  case (3 f f' fs)
  then show ?case using split_quoted_field [of "CHR '','' # csv_join (map quote_field (f' # fs))" f]
    by simp
qed simp

text \<open>Commas and quotes inside a field are kept, and no field is lost or merged.\<close>

lemma splitCsvLine_quoted: "fs \<noteq> [] \<Longrightarrow> splitCsvLine (csv_join (map quote_field fs)) = fs"
  using split_quoted_fields [of fs] by (simp add: splitCsvLine_def)

section \<open>A concrete Qt\<close>

definition simple_uint :: "nat \<Rightarrow> nat \<Rightarrow> string \<Rightarrow> nat" where
  "simple_uint bound base s =
     (case scan_digits base 0 s of (v, rest) \<Rightarrow> if rest = [] \<and> v < bound then v else 0)"

fun simple_from_hex :: "string \<Rightarrow> u8 list" where
  "simple_from_hex (a # b # s) =
     (if is_digit 16 a \<and> is_digit 16 b
      then word_of_nat (16 * the (digit_val a) + the (digit_val b)) # simple_from_hex s
      else [])"
| "simple_from_hex s = []"

definition simple_qt :: qt where
  "simple_qt =
     \<lparr>qt_trimmed = c_trim, qt_upper = map c_toupper, qt_lower = map c_tolower,
      qt_number = (\<lambda>width base n. zero_pad width (print_base base n)),
      qt_uint = (\<lambda>base s. word_of_nat (simple_uint (2 ^ 32) base s)),
      qt_ulonglong = (\<lambda>base s. word_of_nat (simple_uint (2 ^ 64) base (if take 2 s = ''0x'' then drop 2 s else s))),
      qt_from_hex = simple_from_hex\<rparr>"

lemma simple_qt_text [simp]: "qt_text simple_qt"
  by (simp add: qt_text_def simple_qt_def)

lemma scan_digits_all: "snd (scan_digits b v s) = [] \<Longrightarrow> list_all (is_digit b) s"
  by (induction s arbitrary: v) (auto split: if_splits)

lemma simple_uint_word:
  assumes "\<exists>c \<in> set s. \<not> is_digit 16 c"
  shows "simple_uint bound 16 s = 0"
  using scan_digits_all [of 16 0 s] assms
  by (auto simp: simple_uint_def list_all_iff split: prod.splits)

lemma simple_uint_print:
  assumes "2 \<le> b" and "b \<le> 16" and "n < bound"
  shows "simple_uint bound b (print_base b n) = n"
  using scan_digits_print [of b "[]" 0 n] assms by (simp add: simple_uint_def)

lemma simple_from_hex_print: "simple_from_hex (print_02x (unat b) @ s) = b # simple_from_hex s"
proof -
  have len: "length (print_02x (unat b)) = 2" by (rule length_print_02x)
  then obtain x y where xy: "print_02x (unat b) = [x, y]"
    by (auto simp: numeral_2_eq_2 length_Suc_conv)
  have "scan_digits 16 0 [x, y] = (unat b, [])" using scan_02x [of "unat b"] by (simp add: xy)
  then have digits: "is_digit 16 x" "is_digit 16 y"
    and val: "16 * the (digit_val x) + the (digit_val y) = unat b"
    by (auto split: if_splits)
  have "word_of_nat (16 * the (digit_val x) + the (digit_val y)) = b"
    by (simp only: val) simp
  with digits show ?thesis by (simp add: xy)
qed

lemma simple_from_hex_text: "simple_from_hex (hex_text bs) = bs"
  by (induction bs) (simp_all add: hex_text_def simple_from_hex_print)

lemma simple_qt_numbers [simp]: "qt_numbers simple_qt"
  unfolding qt_numbers_def simple_qt_def
  by (auto simp: print_hex_def print_dec_def simple_uint_word simple_uint_print simple_from_hex_text)

end
