(* ===== verification/GuiTrace.thy ===== *)
theory GuiTrace
  imports Complex_Main GuiText Pshark
begin

text \<open>
  The trace table of the graphical viewer, \<open>gui/src/MainWindow.cpp\<close>: loading a CSV or raw
  trace, polling a live trace, saving, filtering, the colours of the rows and the counters. A file
  that cannot be opened is \<open>None\<close>. The table's current row, the status text and the message boxes
  shown are part of the state.
\<close>

section \<open>State\<close>

text \<open>A row of the table, by its nine columns.\<close>

record trace_row =
  row_ts :: string
  row_dir :: string
  row_type :: string
  row_requester :: string
  row_completer :: string
  row_tag :: string
  row_length :: string
  row_addr :: string
  row_payload :: string

text \<open>The colours of a row's items; \<open>None\<close> as long as none are set.\<close>

record row_color =
  c_background :: string
  c_foreground :: string

text \<open>The message boxes of \<open>QMessageBox\<close>, with title and text.\<close>

datatype message = Information string string | Warning string string | Critical string string

text \<open>
  \<open>g_current\<close> is the current row, \<open>g_colors\<close> has the colours of each row and \<open>g_boxes\<close> the message
  boxes shown so far.
\<close>

record gui =
  g_rows :: "trace_row list"
  g_hidden :: "bool list"
  g_colors :: "row_color option list"
  g_dark :: bool
  g_type_filter :: string
  g_direction_filter :: string
  g_search :: string
  g_total :: nat
  g_tx :: nat
  g_rx :: nat
  g_visible :: nat
  g_current :: "nat option"
  g_status :: string
  g_boxes :: "message list"
  g_live_path :: string
  g_live_seen :: "string list"
  g_live_process :: bool
  g_live_timer :: bool

definition show_box :: "message \<Rightarrow> gui \<Rightarrow> gui" where
  "show_box box g = g\<lparr>g_boxes := g_boxes g @ [box]\<rparr>"

section \<open>Colours\<close>

definition direction_color :: "bool \<Rightarrow> string \<Rightarrow> string \<Rightarrow> string" where
  "direction_color darkMode direction bg =
     (if direction = ''TX'' then (if darkMode then ''#1d3a4f'' else ''#eaf4ff'')
      else if direction = ''RX'' then (if darkMode then ''#1f382e'' else ''#edf9ee'')
      else bg)"

definition type_color :: "bool \<Rightarrow> string \<Rightarrow> string \<Rightarrow> string" where
  "type_color darkMode ty bg =
     (if ty = ''CfgRd'' then (if darkMode then ''#224b70'' else ''#eaf1ff'')
      else if ty = ''CfgWr'' then (if darkMode then ''#5a3240'' else ''#fff0ef'')
      else if ty = ''MemRd'' then (if darkMode then ''#1e3d5a'' else ''#eef3ff'')
      else if ty = ''MemWr'' then (if darkMode then ''#594d25'' else ''#fff8eb'')
      else if ty = ''Cpl'' then (if darkMode then ''#2e3459'' else ''#f2f0ff'')
      else bg)"

definition row_colors :: "bool \<Rightarrow> bool \<Rightarrow> trace_row \<Rightarrow> row_color" where
  "row_colors darkMode isSelected r =
     (if isSelected
      then \<lparr>c_background = (if darkMode then ''#2a68bf'' else ''#dfeaff''),
            c_foreground = (if darkMode then ''#ffffff'' else ''#0f172a'')\<rparr>
      else \<lparr>c_background = type_color darkMode (row_type r)
              (direction_color darkMode (row_dir r) (if darkMode then ''#1a2d3d'' else ''#f4f6fb'')),
            c_foreground = (if darkMode then ''#e5edf7'' else ''#1f2328'')\<rparr>)"

definition colorRows :: "gui \<Rightarrow> gui" where
  "colorRows g =
     g\<lparr>g_colors := map (\<lambda>(row, r). Some (row_colors (g_dark g) (g_current g = Some row) r))
                     (enumerate 0 (g_rows g))\<rparr>"

section \<open>Filter and counters\<close>

definition row_visible :: "qt \<Rightarrow> gui \<Rightarrow> trace_row \<Rightarrow> bool" where
  "row_visible qt g r =
     (let text = qt_trimmed qt (g_search g);
          rowText = qt_lower qt (row_type r @ '' '' @ row_requester r @ '' '' @ row_addr r)
      in if g_type_filter g \<noteq> ''All types'' \<and> row_type r \<noteq> g_type_filter g then False
         else if g_direction_filter g \<noteq> ''All directions'' \<and> row_dir r \<noteq> g_direction_filter g
         then False
         else if text \<noteq> [] \<and> \<not> sublist (qt_lower qt text) rowText then False
         else True)"

definition updateSummaryStats :: "gui \<Rightarrow> gui" where
  "updateSummaryStats g =
     g\<lparr>g_total := length (g_rows g),
       g_tx := length (filter (\<lambda>r. row_dir r = ''TX'') (g_rows g)),
       g_rx := length (filter (\<lambda>r. row_dir r \<noteq> ''TX'' \<and> row_dir r = ''RX'') (g_rows g)),
       g_visible := length (filter (\<lambda>h. \<not> h) (g_hidden g))\<rparr>"

definition applyFilter :: "qt \<Rightarrow> gui \<Rightarrow> gui" where
  "applyFilter qt g =
     updateSummaryStats (colorRows (g\<lparr>g_hidden := map (\<lambda>r. \<not> row_visible qt g r) (g_rows g)\<rparr>))"

section \<open>Loading\<close>

definition parseRawTraceLine :: "qt \<Rightarrow> nat \<Rightarrow> string \<Rightarrow> trace_row option" where
  "parseRawTraceLine qt now line =
     (case raw_line_match (qt_trimmed qt line) of
        None \<Rightarrow> None
      | Some m \<Rightarrow>
          Some \<lparr>row_ts = print_dec now,
                row_dir = (if m_op m = ''write'' then ''TX'' else ''RX''),
                row_type = (if m_op m = ''write'' then ''CfgWr'' else ''CfgRd''),
                row_requester = m_dev m, row_completer = m_bdf m, row_tag = ''0'',
                row_length = ''4'', row_addr = m_offset m, row_payload = m_value m\<rparr>)"

definition csv_trace_row :: "qt \<Rightarrow> string \<Rightarrow> trace_row option" where
  "csv_trace_row qt line =
     (if prefix ''timestamp'' (qt_lower qt line) then None
      else let fields = splitCsvLine line in
           if length fields < 9 then None
           else Some \<lparr>row_ts = qt_trimmed qt (fields ! 0),
                      row_dir = normalizeDirection qt (fields ! 1),
                      row_type = sanitizeType qt (fields ! 2),
                      row_requester = qt_trimmed qt (fields ! 3),
                      row_completer = qt_trimmed qt (fields ! 4),
                      row_tag = qt_trimmed qt (fields ! 5),
                      row_length = qt_trimmed qt (fields ! 6),
                      row_addr = qt_trimmed qt (fields ! 7),
                      row_payload = qt_trimmed qt (fields ! 8)\<rparr>)"

definition is_csv :: "qt \<Rightarrow> string list \<Rightarrow> bool" where
  "is_csv qt lines \<longleftrightarrow>
     list_ex (\<lambda>line. let t = qt_trimmed qt line in
                     t \<noteq> [] \<and> CHR '','' \<in> set t \<and> sublist ''timestamp'' (qt_lower qt t)) lines"

definition load_line :: "qt \<Rightarrow> nat \<Rightarrow> bool \<Rightarrow> string \<Rightarrow> trace_row option" where
  "load_line qt now csv rawLine =
     (let line = qt_trimmed qt rawLine in
      if line = [] then None
      else if csv then csv_trace_row qt line
      else parseRawTraceLine qt now line)"

text \<open>
  The loop over the lines. The time a raw line is parsed at is \<open>clock i\<close> for line \<open>i\<close>.
\<close>

definition load_lines :: "qt \<Rightarrow> (nat \<Rightarrow> nat) \<Rightarrow> bool \<Rightarrow> string list \<Rightarrow> trace_row list" where
  "load_lines qt clock csv lines =
     List.map_filter (\<lambda>(i, line). load_line qt (clock i) csv line) (enumerate 0 lines)"

text \<open>
  \<open>insertRow\<close> at the end of the table, \<open>removeRows\<close> of the whole table, which also ends the
  selection, and \<open>selectRow\<close>.
\<close>

definition insert_rows :: "trace_row list \<Rightarrow> gui \<Rightarrow> gui" where
  "insert_rows rs g =
     g\<lparr>g_rows := g_rows g @ rs, g_hidden := g_hidden g @ map (\<lambda>_. False) rs,
       g_colors := g_colors g @ map (\<lambda>_. None) rs\<rparr>"

definition clear_rows :: "gui \<Rightarrow> gui" where
  "clear_rows g = g\<lparr>g_rows := [], g_hidden := [], g_colors := [], g_current := None\<rparr>"

definition select_row :: "nat \<Rightarrow> gui \<Rightarrow> gui" where
  "select_row i g = (if i < length (g_rows g) then g\<lparr>g_current := Some i\<rparr> else g)"

text \<open>
  \<open>loadCsv\<close>: the two early returns leave the filter and the counters as they are; the second
  has already cleared the table.
\<close>

definition loadCsv :: "qt \<Rightarrow> (nat \<Rightarrow> nat) \<Rightarrow> string \<Rightarrow> string option \<Rightarrow> gui \<Rightarrow> gui" where
  "loadCsv qt clock path content g =
     (case content of
        None \<Rightarrow> show_box (Critical ''Open failed'' (''Unable to open trace file: '' @ path)) g
      | Some text \<Rightarrow>
          let g = clear_rows g; lines = split_newlines text in
          if lines = [] \<or> qt_trimmed qt (hd lines) = []
          then show_box (Warning ''Invalid trace'' ''The trace file is empty.'') g
          else
            let rows = load_lines qt clock (is_csv qt lines) lines;
                g = applyFilter qt (insert_rows rows g);
                g = (if g_rows g \<noteq> [] then select_row 0 g else g);
                g = updateSummaryStats g
            in g\<lparr>g_status := qargs ''Loaded %1 TLP entries from %2''
                                [print_dec (length rows), path]\<rparr>)"

definition loadTraceFile :: "qt \<Rightarrow> (nat \<Rightarrow> nat) \<Rightarrow> (string \<rightharpoonup> string) \<Rightarrow> string \<Rightarrow> gui \<Rightarrow> gui" where
  "loadTraceFile qt clock fs path g = (if path = [] then g else loadCsv qt clock path (fs path) g)"

section \<open>The live trace\<close>

text \<open>One line of the polled file, with the rows added so far and the lines seen.\<close>

definition poll_line ::
  "qt \<Rightarrow> (nat \<Rightarrow> nat) \<Rightarrow> nat \<times> string \<Rightarrow> trace_row list \<times> string list \<Rightarrow> trace_row list \<times> string list" where
  "poll_line qt clock iline st =
     (case (iline, st) of ((i, rawLine), (rows, seen)) \<Rightarrow>
        let line = qt_trimmed qt rawLine in
        if line = [] \<or> line \<in> set seen then (rows, seen)
        else (case parseRawTraceLine qt (clock i) line of
                None \<Rightarrow> (rows, seen)
              | Some r \<Rightarrow> (rows @ [r], line # seen)))"

text \<open>\<open>running\<close>: the state of the runner process when the timer fires.\<close>

definition pollLiveTrace ::
  "qt \<Rightarrow> (nat \<Rightarrow> nat) \<Rightarrow> (string \<rightharpoonup> string) \<Rightarrow> bool \<Rightarrow> gui \<Rightarrow> gui" where
  "pollLiveTrace qt clock fs running g =
     (if g_live_path g = [] then g
      else case fs (g_live_path g) of
             None \<Rightarrow> g
           | Some text \<Rightarrow>
               let (added, seen) =
                     fold (poll_line qt clock) (enumerate 0 (split_newlines text))
                       ([], g_live_seen g);
                   g = (insert_rows added g)\<lparr>g_live_seen := seen\<rparr>;
                   g = (if added = [] then g
                        else let g = applyFilter qt g;
                                 g = select_row (length (g_rows g) - 1) g;
                                 g = updateSummaryStats g
                             in g\<lparr>g_status := qargs ''Live trace: %1 entries''
                                                 [print_dec (length (g_rows g))]\<rparr>)
               in if g_live_process g \<and> \<not> running
                  then g\<lparr>g_live_timer := False,
                         g_status := qargs ''Loaded %1 live trace entries from %2''
                                       [print_dec (length (g_rows g)), g_live_path g],
                         g_live_process := False\<rparr>
                  else g)"

text \<open>Starting a live trace: the enumeration clears the table, the measurement does not.\<close>

definition startLiveTrace :: "bool \<Rightarrow> string \<Rightarrow> gui \<Rightarrow> gui" where
  "startLiveTrace enumeration traceLog g =
     (if enumeration then clear_rows g else g)
       \<lparr>g_live_seen := [], g_live_path := traceLog, g_live_timer := True, g_live_process := True\<rparr>"

section \<open>Saving\<close>

definition save_line :: "trace_row \<Rightarrow> string" where
  "save_line r =
     (let op = (if row_type r = ''CfgWr'' \<or> row_dir r = ''TX'' then ''write'' else ''read'');
          arrow = (if op = ''write'' then ''<-'' else ''->'')
      in if row_addr r = [] then []
         else qargs (''pci_cfg_%1 %2 %3 @%4 %5 %6'' @ [CHR 0x0A])
                [op, row_requester r, row_completer r, row_addr r, arrow, row_payload r])"

text \<open>
  The text written to the chosen path, if any: nothing is written for an empty table, when no
  path is chosen (\<open>[]\<close>) or when the file cannot be opened, and a message box says so in the first
  and the last case.
\<close>

definition saveTrace :: "string \<Rightarrow> bool \<Rightarrow> gui \<Rightarrow> gui \<times> string option" where
  "saveTrace path can_open g =
     (if g_rows g = [] then (show_box (Information ''Save trace'' ''There is no trace to save yet.'') g, None)
      else if path = [] then (g, None)
      else if \<not> can_open
      then (show_box (Critical ''Save failed'' (''Unable to write trace file: '' @ path)) g, None)
      else (g\<lparr>g_status := qargs ''Saved %1 trace entries to %2''
                           [print_dec (length (g_rows g)), path]\<rparr>,
            Some (concat (map save_line (g_rows g)))))"

section \<open>Counting a table or a file\<close>

record trace_counts =
  n_entries :: nat
  n_tx :: nat
  n_rx :: nat
  first_ts :: real
  last_ts :: real

definition counts_zero :: trace_counts where
  "counts_zero = \<lparr>n_entries = 0, n_tx = 0, n_rx = 0, first_ts = 0, last_ts = 0\<rparr>"

text \<open>The time range, with the flag \<open>firstSet\<close>.\<close>

definition see_time :: "real \<Rightarrow> bool \<times> real \<times> real \<Rightarrow> bool \<times> real \<times> real" where
  "see_time t st =
     (case st of (firstSet, lo, hi) \<Rightarrow>
        (True, if \<not> firstSet \<or> t < lo then t else lo,
               if \<not> firstSet \<or> t > hi then t else hi))"

definition count_rows :: "trace_row list \<Rightarrow> bool \<times> real \<times> real \<Rightarrow> trace_counts" where
  "count_rows rows t =
     \<lparr>n_entries = length rows,
      n_tx = length (filter (\<lambda>r. row_dir r = ''TX'') rows),
      n_rx = length (filter (\<lambda>r. row_dir r \<noteq> ''TX'' \<and> row_dir r = ''RX'') rows),
      first_ts = fst (snd t), last_ts = snd (snd t)\<rparr>"

definition summarizeModelRows :: "(string \<Rightarrow> real) \<Rightarrow> trace_row list \<Rightarrow> trace_counts" where
  "summarizeModelRows to_double rows =
     count_rows rows
       (fold (\<lambda>r st. if row_ts r = [] then st else see_time (to_double (row_ts r)) st) rows (False, 0, 0))"

definition summarizeTraceFile ::
  "qt \<Rightarrow> (string \<Rightarrow> real) \<Rightarrow> (nat \<Rightarrow> nat) \<Rightarrow> string option \<Rightarrow> trace_counts" where
  "summarizeTraceFile qt to_double clock content =
     (case content of
        None \<Rightarrow> counts_zero
      | Some text \<Rightarrow>
          let rows = load_lines qt clock False (split_newlines text)
          in count_rows rows
               (fold (\<lambda>r st. see_time (to_double (row_ts r)) st) rows (False, 0, 0)))"

section \<open>A trace file of the library\<close>

text \<open>The row the table shows for a trace record.\<close>

definition gui_type_name :: "u8 \<Rightarrow> string" where
  "gui_type_name t =
     (if t = 0 then ''MemRd'' else if t = 1 then ''MemWr'' else if t = 4 then ''CfgRd''
      else if t = 5 then ''CfgWr'' else if t = 10 then ''Cpl'' else print_dec (unat t))"

definition gui_row :: "trace_record \<Rightarrow> trace_row" where
  "gui_row r =
     \<lparr>row_ts = print_dec (unat (rec_timestamp_ns r)), row_dir = direction_name (rec_direction r),
      row_type = gui_type_name (rec_type r),
      row_requester = print_dec (unat (rec_requester_id r)),
      row_completer = print_dec (unat (rec_completer_id r)),
      row_tag = print_dec (unat (rec_tag r)), row_length = print_dec (unat (rec_length r)),
      row_addr = ''0x'' @ print_hex (unat (rec_addr r)),
      row_payload = payload_hex (rec_payload r)\<rparr>"

lemma unquoted_digits: "list_all (is_digit 16) s \<Longrightarrow> unquoted s"
  by (auto simp: unquoted_def list_all_iff is_digit_def digit_val_def)

lemma unquoted_fields [simp]:
  "unquoted (print_hex n)" "unquoted (print_dec n)" "unquoted (payload_hex p)"
  "unquoted (direction_name d)" "unquoted (CHR ''0'' # CHR ''x'' # print_hex n)"
proof -
  have "list_all (is_digit 16) (print_dec n)"
    using print_dec_digits [of n] is_digit_mono by (auto simp: list_all_iff)
  then show "unquoted (print_hex n)" "unquoted (print_dec n)" "unquoted (payload_hex p)"
    by (simp_all add: unquoted_digits print_hex_digits payload_hex_digits)
  then show "unquoted (CHR ''0'' # CHR ''x'' # print_hex n)" by (simp add: unquoted_def)
qed (simp add: unquoted_def direction_name_def)

lemma split_csv_row:
  "splitCsvLine (csv_row r) =
     [print_dec (unat (rec_timestamp_ns r)), direction_name (rec_direction r),
      print_dec (unat (rec_type r)), print_dec (unat (rec_requester_id r)),
      print_dec (unat (rec_completer_id r)), print_dec (unat (rec_tag r)),
      print_dec (unat (rec_length r)), ''0x'' @ print_hex (unat (rec_addr r)),
      payload_hex (rec_payload r)]"
  using split_fields_plain(1) [of "CHR ''0'' # CHR ''x'' # print_hex (unat (rec_addr r))" "[]"]
  by (simp add: splitCsvLine_def csv_row_def split_fields_plain del: split_fields.simps)

lemma hd_csv_row: "is_digit 10 (hd (csv_row r))"
  using print_dec_digits [of "unat (rec_timestamp_ns r)"]
  by (cases "print_dec (unat (rec_timestamp_ns r))") (simp_all add: csv_row_def)

lemma csv_row_nonempty [simp]: "csv_row r \<noteq> []"
  by (simp add: csv_row_def)

lemma last_csv_row: "is_digit 16 (last (csv_row r)) \<or> last (csv_row r) = CHR '',''"
  using payload_hex_digits [of "rec_payload r"]
  by (cases "payload_hex (rec_payload r)" rule: rev_cases) (simp_all add: csv_row_def)

lemma ascii_payload [simp]: "ascii (payload_hex p)"
  by (rule ascii_digits [OF payload_hex_digits])

lemma ascii_direction [simp]: "ascii (direction_name d)"
  by (simp add: direction_name_def)

lemma ascii_csv_row [simp]: "ascii (csv_row r)"
  by (simp add: csv_row_def)

lemma trim_csv_row: "c_trim (csv_row r) = csv_row r"
  using hd_csv_row [of r] last_csv_row [of r] is_digit_mono [of "hd (csv_row r)"]
  by (intro c_trim_clean) (auto dest: not_space_digit simp: c_isspace_def)

lemma no_timestamp_row: "\<not> prefix ''timestamp'' (map c_tolower (csv_row r))"
proof -
  obtain c s where row: "csv_row r = c # s" by (cases "csv_row r") auto
  then have "c_tolower c \<noteq> CHR ''t''"
    using hd_csv_row [of r] by (auto simp: is_digit_def digit_val_def c_tolower_def split: if_splits)
  with row show ?thesis by auto
qed

lemma direction_shown:
  "qt_text qt \<Longrightarrow> normalizeDirection qt (direction_name d) = direction_name d"
  by (simp add: normalizeDirection_def direction_name_def qt_textD c_trim_words c_isspace_def
      c_toupper_def Let_def)

lemma print_dec_small [simp]:
  "print_dec 0 = ''0''" "print_dec (Suc 0) = ''1''" "print_dec 4 = ''4''" "print_dec 5 = ''5''"
  "print_dec 10 = ''10''"
  by code_simp+

lemma print_dec_eq_small:
  "print_dec n = ''0'' \<longleftrightarrow> n = 0" "print_dec n = ''1'' \<longleftrightarrow> n = 1" "print_dec n = ''4'' \<longleftrightarrow> n = 4"
  "print_dec n = ''5'' \<longleftrightarrow> n = 5" "print_dec n = ''10'' \<longleftrightarrow> n = 10"
  using print_dec_inj [of n 0] print_dec_inj [of n 1] print_dec_inj [of n 4]
    print_dec_inj [of n 5] print_dec_inj [of n 10] by auto

lemma type_shown: "qt_text qt \<Longrightarrow> sanitizeType qt (print_dec (unat t)) = gui_type_name t"
  by (simp add: sanitizeType_def decodeTypeName_def gui_type_name_def qt_textD print_dec_eq_small
      word_unat_eq_iff Let_def)

lemma trim_payload [simp]: "c_trim (payload_hex p) = payload_hex p"
  using payload_hex_digits [of p]
  by (auto intro!: c_trim_words simp: list_all_iff dest: not_space_digit)

lemma load_csv_row: "qt_text qt \<Longrightarrow> load_line qt now True (csv_row r) = Some (gui_row r)"
  by (simp add: load_line_def csv_trace_row_def qt_textD trim_csv_row no_timestamp_row
      split_csv_row direction_shown type_shown gui_row_def c_trim_numbers(3) [simplified] Let_def)

lemma load_line_csv_time: "load_line qt now True l = load_line qt 0 True l"
  by (simp add: load_line_def Let_def)

lemma load_lines_csv:
  "load_lines qt clock True ls = List.map_filter (load_line qt 0 True) ls"
proof -
  have "List.map_filter (\<lambda>(i, line). load_line qt (clock i) True line) (enumerate n ls) =
      List.map_filter (load_line qt 0 True) ls" for n
    by (induction ls arbitrary: n)
      (auto simp: load_line_csv_time [of _ "clock _"] split: option.splits)
  then show ?thesis by (simp add: load_lines_def)
qed

definition csv_title :: string where
  "csv_title = ''timestamp_ns,direction,type,requester_id,completer_id,tag,length,addr,payload''"

lemma title_text:
  "CHR 0x0A \<notin> set csv_title" "ascii csv_title" "c_trim csv_title = csv_title" "csv_title \<noteq> []"
  "CHR '','' \<in> set csv_title" "map c_tolower csv_title = csv_title"
  "prefix ''timestamp'' csv_title"
  by (code_simp+)

lemma load_title: "qt_text qt \<Longrightarrow> load_line qt now True csv_title = None"
  by (simp add: load_line_def csv_trace_row_def qt_textD title_text Let_def)

lemma csv_row_no_newline: "CHR 0x0A \<notin> set (csv_row r)"
proof -
  have "list_all (\<lambda>c. \<not> newline c) (csv_row r)"
    by (simp add: csv_row_def plain_no_newline direction_no_newline payload_no_newline)
  then show ?thesis by (auto simp: list_all_iff)
qed

lemma csv_file_lines: "split_newlines (csv_file rs) = csv_title # map csv_row rs @ [[]]"
proof -
  have "csv_file rs = concat (map (\<lambda>l. l @ [CHR 0x0A]) (csv_title # map csv_row rs))"
    by (simp add: csv_file_def csv_header_def csv_title_def csv_line_def [abs_def] comp_def)
  moreover have "\<And>l. l \<in> set (csv_title # map csv_row rs) \<Longrightarrow> CHR 0x0A \<notin> set l"
    by (auto simp: title_text csv_row_no_newline)
  ultimately show ?thesis using split_newlines_concat [of "csv_title # map csv_row rs"] by simp
qed

lemma csv_file_is_csv: "qt_text qt \<Longrightarrow> is_csv qt (csv_title # ls)"
  by (simp add: is_csv_def qt_textD title_text Let_def)

lemma load_empty_line: "qt_text qt \<Longrightarrow> load_line qt now csv [] = None"
  by (simp add: load_line_def qt_textD c_trim_def)

lemma load_csv_file:
  assumes "qt_text qt"
  shows "load_lines qt clock True (csv_title # map csv_row rs @ [[]]) = map gui_row rs"
proof -
  have "List.map_filter (load_line qt 0 True) (map csv_row rs @ [[]]) = map gui_row rs"
    using assms
    by (induction rs) (simp_all add: load_csv_row load_empty_line)
  with assms show ?thesis by (simp add: load_lines_csv load_title)
qed

text \<open>What a table of the records of a trace shows, for the state's filter.\<close>

definition shows_trace :: "qt \<Rightarrow> trace_record list \<Rightarrow> gui \<Rightarrow> bool" where
  "shows_trace qt rs g \<longleftrightarrow>
     g_rows g = map gui_row rs \<and> g_hidden g = map (\<lambda>r. \<not> row_visible qt g r) (g_rows g) \<and>
     g_total g = length rs \<and>
     g_tx g = length (filter (\<lambda>r. rec_direction r = 1) rs) \<and>
     g_rx g = length (filter (\<lambda>r. rec_direction r = 2) rs) \<and>
     g_current g = (if rs = [] then None else Some 0)"

lemma filter_map_length: "length (filter P (map f xs)) = length (filter (\<lambda>x. P (f x)) xs)"
  by (simp add: filter_map comp_def)

lemma applyFilter_fields [simp]:
  "g_rows (applyFilter qt g) = g_rows g" "g_current (applyFilter qt g) = g_current g"
  "g_type_filter (applyFilter qt g) = g_type_filter g"
  "g_direction_filter (applyFilter qt g) = g_direction_filter g"
  "g_search (applyFilter qt g) = g_search g"
  "g_hidden (applyFilter qt g) = map (\<lambda>r. \<not> row_visible qt g r) (g_rows g)"
  "g_dark (applyFilter qt g) = g_dark g" "g_colors (applyFilter qt g) = g_colors (colorRows g)"
  by (simp_all add: applyFilter_def updateSummaryStats_def colorRows_def)

lemma updateSummaryStats_fields [simp]:
  "g_rows (updateSummaryStats g) = g_rows g" "g_current (updateSummaryStats g) = g_current g"
  "g_hidden (updateSummaryStats g) = g_hidden g" "g_colors (updateSummaryStats g) = g_colors g"
  "g_type_filter (updateSummaryStats g) = g_type_filter g"
  "g_direction_filter (updateSummaryStats g) = g_direction_filter g"
  "g_search (updateSummaryStats g) = g_search g"
  "g_total (updateSummaryStats g) = length (g_rows g)"
  "g_tx (updateSummaryStats g) = length (filter (\<lambda>r. row_dir r = ''TX'') (g_rows g))"
  "g_rx (updateSummaryStats g) = length (filter (\<lambda>r. row_dir r = ''RX'') (g_rows g))"
  by (auto simp: updateSummaryStats_def intro!: arg_cong [where f = length] filter_cong)

lemma select_row_fields [simp]:
  "g_rows (select_row i g) = g_rows g" "g_hidden (select_row i g) = g_hidden g"
  "g_colors (select_row i g) = g_colors g"
  "g_current (select_row i g) = (if i < length (g_rows g) then Some i else g_current g)"
  "g_type_filter (select_row i g) = g_type_filter g"
  "g_direction_filter (select_row i g) = g_direction_filter g"
  "g_search (select_row i g) = g_search g"
  by (simp_all add: select_row_def)

lemma show_box_fields [simp]:
  "g_rows (show_box m g) = g_rows g" "g_hidden (show_box m g) = g_hidden g"
  "g_colors (show_box m g) = g_colors g" "g_dark (show_box m g) = g_dark g"
  "g_current (show_box m g) = g_current g" "g_type_filter (show_box m g) = g_type_filter g"
  "g_direction_filter (show_box m g) = g_direction_filter g" "g_search (show_box m g) = g_search g"
  "g_status (show_box m g) = g_status g" "g_boxes (show_box m g) = g_boxes g @ [m]"
  "g_live_path (show_box m g) = g_live_path g" "g_live_seen (show_box m g) = g_live_seen g"
  "g_live_process (show_box m g) = g_live_process g" "g_live_timer (show_box m g) = g_live_timer g"
  by (simp_all add: show_box_def)

lemma insert_rows_fields [simp]:
  "g_rows (insert_rows rs g) = g_rows g @ rs"
  "g_hidden (insert_rows rs g) = g_hidden g @ map (\<lambda>_. False) rs"
  "g_colors (insert_rows rs g) = g_colors g @ map (\<lambda>_. None) rs"
  "g_current (insert_rows rs g) = g_current g" "g_type_filter (insert_rows rs g) = g_type_filter g"
  "g_direction_filter (insert_rows rs g) = g_direction_filter g"
  "g_search (insert_rows rs g) = g_search g" "g_dark (insert_rows rs g) = g_dark g"
  "g_status (insert_rows rs g) = g_status g" "g_live_path (insert_rows rs g) = g_live_path g"
  "g_live_seen (insert_rows rs g) = g_live_seen g" "g_live_process (insert_rows rs g) = g_live_process g"
  "g_live_timer (insert_rows rs g) = g_live_timer g"
  by (simp_all add: insert_rows_def)

lemma insert_no_rows [simp]: "insert_rows [] g = g"
  by (simp add: insert_rows_def)

lemma insert_rows_append [simp]: "insert_rows rs (insert_rows rs' g) = insert_rows (rs' @ rs) g"
  by (simp add: insert_rows_def)

lemma clear_rows_fields [simp]:
  "g_rows (clear_rows g) = []" "g_hidden (clear_rows g) = []" "g_current (clear_rows g) = None"
  "g_colors (clear_rows g) = []" "g_dark (clear_rows g) = g_dark g"
  "g_type_filter (clear_rows g) = g_type_filter g"
  "g_direction_filter (clear_rows g) = g_direction_filter g"
  "g_search (clear_rows g) = g_search g"
  by (simp_all add: clear_rows_def)

lemma row_visible_same [simp]:
  "row_visible qt (select_row i g) = row_visible qt g"
  "row_visible qt (updateSummaryStats g) = row_visible qt g"
  "row_visible qt (applyFilter qt g) = row_visible qt g"
  "row_visible qt (clear_rows g) = row_visible qt g"
  "row_visible qt (insert_rows rs g) = row_visible qt g"
  "row_visible qt (g\<lparr>g_status := s\<rparr>) = row_visible qt g"
  by (simp_all add: row_visible_def [abs_def])

lemma load_shows_trace:
  assumes "qt_text qt"
  shows "shows_trace qt rs (loadCsv qt clock path (Some (csv_file rs)) g)"
proof -
  have tx: "(direction_name d = ''TX'') = (d = 1)" and rx: "(direction_name d = ''RX'') = (d = 2)"
    for d by (auto simp: direction_name_def)
  show ?thesis
    using assms
    by (auto simp: shows_trace_def loadCsv_def Let_def csv_file_lines csv_file_is_csv load_csv_file
        qt_textD title_text filter_map_length comp_def gui_row_def tx rx)
qed

text \<open>
  C17: The library's CSV export opened in the viewer: one row per record of the trace, in order,
  with the record's fields, the type by its name; the counters are the trace's counts per
  direction; the current filter decides what is hidden; the first row is selected.
\<close>

theorem gui_loads_library_csv:
  assumes "qt_text qt" and "trace_ok c" and "path \<noteq> []"
  shows "\<exists>text. pcie_trace_write_csv True (Some c) (Some path) = Inr (0, Some text) \<and>
           shows_trace qt (trace_of c) (loadTraceFile qt clock [path \<mapsto> text] path g)"
  using assms load_shows_trace [OF assms(1)]
  by (simp add: pcie_trace_write_csv_def loadTraceFile_def)

definition empty_gui :: gui where
  "empty_gui =
     \<lparr>g_rows = [], g_hidden = [], g_colors = [], g_dark = False, g_type_filter = ''All types'',
      g_direction_filter = ''All directions'', g_search = [], g_total = 0, g_tx = 0, g_rx = 0,
      g_visible = 0, g_current = None, g_status = [], g_boxes = [], g_live_path = [], g_live_seen = [],
      g_live_process = False, g_live_timer = False\<rparr>"

theorem gui_loads_library_csv_witness:
  "\<exists>text. pcie_trace_write_csv True (Some sample_ctx) (Some ''t.csv'') = Inr (0, Some text) \<and>
     shows_trace simple_qt (trace_of sample_ctx)
       (loadTraceFile simple_qt (\<lambda>_. 7) [''t.csv'' \<mapsto> text] ''t.csv'' empty_gui)"
  by (rule gui_loads_library_csv [OF simple_qt_text sample_ctx_trace(1)]) simp

section \<open>Raw trace lines\<close>

definition hex_0x :: "string \<Rightarrow> bool" where
  "hex_0x s \<longleftrightarrow> (\<exists>h. s = ''0x'' @ h \<and> h \<noteq> [] \<and> list_all (is_digit 16) h)"

text \<open>A row as the raw parser makes them, its time aside.\<close>

definition raw_row :: "trace_row \<Rightarrow> bool" where
  "raw_row r \<longleftrightarrow>
     (row_dir r = ''TX'' \<and> row_type r = ''CfgWr'' \<or> row_dir r = ''RX'' \<and> row_type r = ''CfgRd'') \<and>
     row_requester r \<noteq> [] \<and> list_all dev_char (row_requester r) \<and> bdf_text (row_completer r) \<and>
     row_tag r = ''0'' \<and> row_length r = ''4'' \<and> hex_0x (row_addr r) \<and> hex_0x (row_payload r)"

lemma scan_lit_Some: "scan_lit l s = Some r \<longleftrightarrow> s = l @ r"
  by (induction l s rule: scan_lit.induct) auto

lemma re_class1_Some:
  "re_class1 P s = Some (w, r) \<longleftrightarrow>
     w \<noteq> [] \<and> list_all P w \<and> s = w @ r \<and> (r = [] \<or> \<not> P (hd r))"
proof
  assume "re_class1 P s = Some (w, r)"
  then show "w \<noteq> [] \<and> list_all P w \<and> s = w @ r \<and> (r = [] \<or> \<not> P (hd r))"
    by (cases s) (auto simp: re_class1_def list_all_iff hd_dropWhile dest: set_takeWhileD split: if_splits)
next
  assume *: "w \<noteq> [] \<and> list_all P w \<and> s = w @ r \<and> (r = [] \<or> \<not> P (hd r))"
  then have "takeWhile P s = w" "dropWhile P s = r"
    by (cases r; simp add: list_all_iff)+
  with * show "re_class1 P s = Some (w, r)"
    by (cases w) (auto simp: re_class1_def)
qed

lemma re_hex_Some:
  "re_hex s = Some (w, r) \<longleftrightarrow> hex_0x w \<and> s = w @ r \<and> (r = [] \<or> \<not> is_digit 16 (hd r))"
  by (auto simp: re_hex_def hex_0x_def bind_eq_Some_conv scan_lit_Some re_class1_Some)

lemma re_spaces1_Some: "re_spaces1 s = Some r \<Longrightarrow> r = dropWhile c_isspace s \<and> s \<noteq> []"
  by (auto simp: re_spaces1_def split: if_splits)

lemma re_spaces1_blank: "\<not> c_isspace (hd s) \<Longrightarrow> s \<noteq> [] \<Longrightarrow> re_spaces1 (CHR '' '' # s) = Some s"
  by (cases s) (auto simp: re_spaces1_def c_isspace_def)

lemma raw_line_match_row:
  assumes "parseRawTraceLine qt now line = Some r"
  shows "raw_row r \<and> row_ts r = print_dec now"
  using assms
  by (auto simp: parseRawTraceLine_def raw_line_match_def bind_eq_Some_conv re_hex_Some
      re_class1_Some raw_row_def split: option.splits if_splits)

text \<open>A character that no step of saving, splitting or trimming changes.\<close>

definition safe_char :: "char \<Rightarrow> bool" where
  "safe_char c \<longleftrightarrow>
     code c < 128 \<and> \<not> c_isspace c \<and> c \<noteq> CHR ''%'' \<and> c \<noteq> CHR '','' \<and> c \<noteq> CHR 0x0A"

lemma safe_dev: "dev_char c \<Longrightarrow> safe_char c"
  by (auto simp: safe_char_def dev_char_def letter_def is_digit_def digit_val_def c_isspace_def
      split: if_splits)

lemma safe_digit: "is_digit 16 c \<Longrightarrow> safe_char c"
  by (auto simp: safe_char_def is_digit_def digit_val_def c_isspace_def split: if_splits)

lemma safe_literal: "safe_char (CHR ''0'')" "safe_char (CHR ''x'')" "safe_char (CHR '':'')"
  "safe_char (CHR ''.'')"
  by (simp_all add: safe_char_def c_isspace_def)

lemma safe_hex_0x: "hex_0x s \<Longrightarrow> list_all safe_char s"
  by (auto simp: hex_0x_def list_all_iff safe_literal safe_digit)

lemma length_7: "length s = 7 \<Longrightarrow> \<exists>a b c d e f g. s = [a, b, c, d, e, f, g]"
  by (auto simp: eval_nat_numeral length_Suc_conv)

lemma safe_bdf:
  assumes "bdf_text s"
  shows "list_all safe_char s"
proof -
  have "length s = 7" using assms by (simp add: bdf_text_def)
  then obtain a b d e f g h where s: "s = [a, b, d, e, f, g, h]"
    using length_7 by blast
  from assms show ?thesis by (simp add: s bdf_text_def safe_digit safe_literal)
qed

lemma safe_row:
  assumes "raw_row r"
  shows "list_all safe_char (row_requester r)" "list_all safe_char (row_completer r)"
    "list_all safe_char (row_addr r)" "list_all safe_char (row_payload r)"
  using assms
  by (auto simp: raw_row_def safe_bdf safe_hex_0x) (auto simp: list_all_iff intro: safe_dev)

lemma safe_text:
  assumes "list_all safe_char s"
  shows "CHR ''%'' \<notin> set s" "CHR '','' \<notin> set s" "CHR 0x0A \<notin> set s" "ascii s"
    "s \<noteq> [] \<Longrightarrow> \<not> c_isspace (hd s) \<and> \<not> c_isspace (last s)"
  using assms by (auto simp: list_all_iff safe_char_def ascii_def)

section \<open>Saved lines\<close>

definition raw_text :: "string \<Rightarrow> trace_row \<Rightarrow> string" where
  "raw_text op r =
     ''pci_cfg_'' @ op @ '' '' @ row_requester r @ '' '' @ row_completer r @ '' @'' @ row_addr r @
     '' '' @ (if op = ''write'' then ''<-'' else ''->'') @ '' '' @ row_payload r"

lemma qargs_saved:
  assumes "CHR ''%'' \<notin> set a" "CHR ''%'' \<notin> set b" "CHR ''%'' \<notin> set c" "CHR ''%'' \<notin> set d"
    "CHR ''%'' \<notin> set e" "CHR ''%'' \<notin> set f"
  shows "qargs (''pci_cfg_%1 %2 %3 @%4 %5 %6'' @ [CHR 0x0A]) [a, b, c, d, e, f] =
     ''pci_cfg_'' @ a @ '' '' @ b @ '' '' @ c @ '' @'' @ d @ '' '' @ e @ '' '' @ f @ [CHR 0x0A]"
  using assms by (simp add: qargs_def qarg_def take_mark_def is_digit_def digit_val_def)

lemma save_raw_line:
  assumes "raw_row r"
  shows "save_line r =
    raw_text (if row_dir r = ''TX'' then ''write'' else ''read'') r @ [CHR 0x0A]"
proof -
  have "row_addr r \<noteq> []" using assms by (auto simp: raw_row_def hex_0x_def)
  then show ?thesis
    using assms safe_text(1) [OF safe_row(1) [OF assms]] safe_text(1) [OF safe_row(2) [OF assms]]
      safe_text(1) [OF safe_row(3) [OF assms]] safe_text(1) [OF safe_row(4) [OF assms]]
    by (auto simp: save_line_def Let_def qargs_saved [simplified] raw_text_def raw_row_def)
qed

lemma raw_text_match:
  assumes "raw_row r" and "op = ''write'' \<or> op = ''read''"
  shows "raw_line_match (raw_text op r) =
    Some \<lparr>m_op = op, m_dev = row_requester r, m_bdf = row_completer r,
          m_offset = row_addr r, m_value = row_payload r\<rparr>"
proof -
  have req: "re_class1 dev_char (row_requester r @ CHR '' '' # s) = Some (row_requester r, CHR '' '' # s)" for s
    using assms(1) by (auto simp: re_class1_Some raw_row_def dev_char_def letter_def is_digit_def digit_val_def)
  have addr: "re_hex (row_addr r @ CHR '' '' # s) = Some (row_addr r, CHR '' '' # s)"
    and val: "re_hex (row_payload r) = Some (row_payload r, [])" for s
    using assms(1) by (auto simp: re_hex_Some raw_row_def is_digit_def digit_val_def)
  have cons: "row_requester r \<noteq> []" "row_completer r \<noteq> []" "length (row_completer r) = 7"
    "row_addr r \<noteq> []" "row_payload r \<noteq> []" "bdf_text (row_completer r)"
    using assms(1) by (auto simp: raw_row_def hex_0x_def bdf_text_def)
  have first: "\<not> c_isspace (hd (row_requester r))" "\<not> c_isspace (hd (row_completer r))"
    "\<not> c_isspace (hd (row_payload r))"
    using safe_text(5) [OF safe_row(1) [OF assms(1)]] safe_text(5) [OF safe_row(2) [OF assms(1)]]
      safe_text(5) [OF safe_row(4) [OF assms(1)]] cons by simp_all
  have value_first: "dropWhile c_isspace (row_payload r) = row_payload r"
    using cons first by (cases "row_payload r") auto
  show ?thesis
    using assms(2) req addr val cons first value_first
    by (auto simp: raw_line_match_def raw_text_def re_op_def re_arrow_def re_spaces1_blank c_isspace_def)
qed

definition raw_op :: "trace_row \<Rightarrow> string" where
  "raw_op r = (if row_dir r = ''TX'' then ''write'' else ''read'')"

definition raw_line :: "trace_row \<Rightarrow> string" where
  "raw_line r = raw_text (raw_op r) r"

lemma raw_line_text:
  assumes "raw_row r"
  shows "CHR '','' \<notin> set (raw_line r)" "CHR 0x0A \<notin> set (raw_line r)" "ascii (raw_line r)"
    "raw_line r \<noteq> []" "c_trim (raw_line r) = raw_line r"
proof -
  note safe = safe_text [OF safe_row(1) [OF assms]] safe_text [OF safe_row(2) [OF assms]]
    safe_text [OF safe_row(3) [OF assms]] safe_text [OF safe_row(4) [OF assms]]
  have ne: "row_payload r \<noteq> []" using assms by (auto simp: raw_row_def hex_0x_def)
  show "CHR '','' \<notin> set (raw_line r)" "CHR 0x0A \<notin> set (raw_line r)" "ascii (raw_line r)"
    "raw_line r \<noteq> []"
    using safe by (auto simp: raw_line_def raw_text_def raw_op_def)
  have "hd (raw_line r) = CHR ''p''" "last (raw_line r) = last (row_payload r)"
    using ne by (simp_all add: raw_line_def raw_text_def)
  with safe ne show "c_trim (raw_line r) = raw_line r"
    by (intro c_trim_clean) (simp add: c_isspace_def)
qed

lemma load_raw_line:
  assumes "qt_text qt" and "raw_row r"
  shows "load_line qt now False (raw_line r) = Some (r\<lparr>row_ts := print_dec now\<rparr>)"
proof -
  have "raw_op r = ''write'' \<or> raw_op r = ''read''" by (simp add: raw_op_def)
  from raw_text_match [OF assms(2) this] have
    "raw_line_match (raw_line r) = Some \<lparr>m_op = raw_op r, m_dev = row_requester r,
       m_bdf = row_completer r, m_offset = row_addr r, m_value = row_payload r\<rparr>"
    by (simp add: raw_line_def)
  then show ?thesis
    using assms raw_line_text [OF assms(2)]
    by (cases r) (auto simp: load_line_def parseRawTraceLine_def qt_textD raw_op_def raw_row_def)
qed

text \<open>The rows with the times of a new loading.\<close>

definition restamped :: "(nat \<Rightarrow> nat) \<Rightarrow> trace_row list \<Rightarrow> trace_row list" where
  "restamped clock rows =
     map (\<lambda>(i, r). r\<lparr>row_ts := print_dec (clock i)\<rparr>) (enumerate 0 rows)"

lemma load_raw_lines:
  assumes "qt_text qt" and "list_all raw_row rows"
  shows "load_lines qt clock False (map raw_line rows @ [[]]) = restamped clock rows"
proof -
  have "List.map_filter (\<lambda>(i, line). load_line qt (clock i) False line)
          (enumerate n (map raw_line rows @ [[]])) =
        map (\<lambda>(i, r). r\<lparr>row_ts := print_dec (clock i)\<rparr>) (enumerate n rows)" for n
    using assms
    by (induction rows arbitrary: n) (simp_all add: load_raw_line load_empty_line)
  then show ?thesis by (simp add: load_lines_def restamped_def)
qed

lemma saved_lines:
  assumes "list_all raw_row rows"
  shows "split_newlines (concat (map save_line rows)) = map raw_line rows @ [[]]"
proof -
  have "map save_line rows = map (\<lambda>l. l @ [CHR 0x0A]) (map raw_line rows)"
    using assms by (auto simp: list_all_iff save_raw_line raw_line_def raw_op_def)
  moreover have "\<And>l. l \<in> set (map raw_line rows) \<Longrightarrow> CHR 0x0A \<notin> set l"
    using assms raw_line_text(2) by (auto simp: list_all_iff)
  ultimately show ?thesis using split_newlines_concat [of "map raw_line rows"] by metis
qed

lemma saved_not_csv:
  assumes "qt_text qt" and "list_all raw_row rows"
  shows "\<not> is_csv qt (map raw_line rows @ [[]])"
  using assms raw_line_text
  by (auto simp: is_csv_def list_ex_iff list_all_iff qt_textD c_trim_def Let_def)

lemma load_lines_raw:
  "list_all raw_row (load_lines qt clock False ls)"
proof -
  have "raw_row r" if "load_line qt now False l = Some r" for now l r
    using that raw_line_match_row by (auto simp: load_line_def Let_def split: if_splits)
  then show ?thesis
    by (auto simp: load_lines_def list_all_iff List.map_filter_def)
qed

lemma loadCsv_rows:
  "qt_trimmed qt (hd (split_newlines text)) \<noteq> [] \<Longrightarrow>
     g_rows (loadCsv qt clock path (Some text) g) =
       load_lines qt clock (is_csv qt (split_newlines text)) (split_newlines text)"
  by (simp add: loadCsv_def Let_def)

text \<open>
  C18: A table of rows read from a raw trace, once saved and opened again, shows the same
  operations on the same devices, offsets and values in the same order; only the times are new,
  they are the times of the loading.
\<close>

theorem gui_raw_save_load:
  assumes "qt_text qt" and "list_all raw_row (g_rows g)" and "g_rows g \<noteq> []" and "path \<noteq> []"
  shows "\<exists>text. snd (saveTrace path True g) = Some text \<and>
           g_rows (loadTraceFile qt clock [path \<mapsto> text] path g') = restamped clock (g_rows g)"
proof -
  let ?text = "concat (map save_line (g_rows g))"
  obtain r rs where g: "g_rows g = r # rs" using assms(3) by (cases "g_rows g") auto
  have "qt_trimmed qt (hd (split_newlines ?text)) \<noteq> []"
    unfolding saved_lines [OF assms(2)]
    using assms(1,2) raw_line_text [of r] by (simp add: g qt_textD)
  then show ?thesis
    using assms
    by (simp add: saveTrace_def loadTraceFile_def loadCsv_rows saved_lines saved_not_csv load_raw_lines)
qed

definition sample_row :: trace_row where
  "sample_row =
     \<lparr>row_ts = ''9'', row_dir = ''TX'', row_type = ''CfgWr'', row_requester = ''pcie-0'',
      row_completer = ''01:0a.3'', row_tag = ''0'', row_length = ''4'', row_addr = ''0x10'',
      row_payload = ''0xff''\<rparr>"

lemma sample_raw_row: "raw_row sample_row"
  by (auto simp: raw_row_def sample_row_def hex_0x_def dev_char_def bdf_text_def letter_def
      is_digit_def digit_val_def)

theorem gui_raw_save_load_witness:
  "\<exists>text. snd (saveTrace ''a.log'' True (empty_gui\<lparr>g_rows := [sample_row]\<rparr>)) = Some text \<and>
     g_rows (loadTraceFile simple_qt (\<lambda>i. i) [''a.log'' \<mapsto> text] ''a.log'' empty_gui) =
       [sample_row\<lparr>row_ts := ''0''\<rparr>]"
  using gui_raw_save_load [OF simple_qt_text, of "empty_gui\<lparr>g_rows := [sample_row]\<rparr>" "''a.log''" "\<lambda>i. i" empty_gui]
  by (simp add: sample_raw_row restamped_def)

section \<open>Saving a table that came from a CSV file\<close>

lemma c_trim_front:
  assumes "a \<noteq> []" and "\<not> c_isspace (hd a)" and "\<not> c_isspace (last a)"
  shows "\<exists>x'. c_trim (a @ x) = a @ x'"
proof -
  have "dropWhile c_isspace (a @ x) = a @ x" using assms by (cases a) auto
  moreover have "dropWhile c_isspace (rev x @ rev a) = dropWhile c_isspace (rev x) @ rev a"
    using assms by (cases a rule: rev_cases) (auto simp: dropWhile_append)
  ultimately show ?thesis by (simp add: c_trim_def)
qed

lemma decimal_completer_no_match:
  assumes "req \<noteq> []" and "list_all (is_digit 10) req" and "cpl \<noteq> []" and "list_all (is_digit 10) cpl"
    and "op = ''write'' \<or> op = ''read''"
  shows "raw_line_match (''pci_cfg_'' @ op @ '' '' @ req @ '' '' @ cpl @ '' @'' @ x) = None"
proof -
  have "list_all dev_char req" using assms(2) by (auto simp: list_all_iff dev_char_def)
  then have req: "re_class1 dev_char (req @ CHR '' '' # s) = Some (req, CHR '' '' # s)" for s
    using assms(1)
    by (auto simp: re_class1_Some dev_char_def letter_def is_digit_def digit_val_def)
  have "\<not> c_isspace (hd req)" "\<not> c_isspace (hd cpl)"
    using assms by (cases req; cases cpl; simp add: is_digit_mono not_space_digit)+
  then have sp: "re_spaces1 (CHR '' '' # req @ s) = Some (req @ s)"
    "re_spaces1 (CHR '' '' # cpl @ s) = Some (cpl @ s)" for s
    using assms by (auto intro!: re_spaces1_blank)
  have "(cpl @ '' @'' @ x) ! 2 \<noteq> CHR '':''"
  proof (cases "2 < length cpl")
    case True
    then have "is_digit 10 (cpl ! 2)" using assms by (simp add: list_all_length)
    with True show ?thesis by (auto simp: nth_append is_digit_def digit_val_def)
  next
    case False
    then show ?thesis using assms(3) by (cases cpl; cases "tl cpl") (auto simp: numeral_2_eq_2)
  qed
  moreover have "take 7 t ! 2 = t ! 2" for t :: string by simp
  ultimately have "\<not> bdf_text (take 7 (cpl @ CHR '' '' # CHR ''@'' # x))"
    by (simp add: bdf_text_def del: take_append)
  with assms(5) show ?thesis
    by (auto simp: raw_line_match_def re_op_def sp req)
qed

lemma save_gui_row:
  "\<exists>op x. (op = ''write'' \<or> op = ''read'') \<and> CHR '','' \<notin> set x \<and> CHR 0x0A \<notin> set x \<and> ascii x \<and>
     save_line (gui_row r) =
       ''pci_cfg_'' @ op @ '' '' @ print_dec (unat (rec_requester_id r)) @ '' '' @
       print_dec (unat (rec_completer_id r)) @ '' @'' @ x @ [CHR 0x0A]"
proof -
  define op where "op = (if row_type (gui_row r) = ''CfgWr'' \<or> row_dir (gui_row r) = ''TX''
    then ''write'' else ''read'')"
  define x where "x = ''0x'' @ print_hex (unat (rec_addr r)) @ '' '' @
    (if op = ''write'' then ''<-'' else ''->'') @ '' '' @ payload_hex (rec_payload r)"
  have digits: "list_all safe_char s" if "list_all (is_digit 16) s" for s
    using that by (auto simp: list_all_iff safe_digit)
  have dec: "list_all safe_char (print_dec n)" for n
    using print_dec_digits [of n] by (auto simp: list_all_iff is_digit_mono safe_digit)
  note safe = safe_text [OF dec] safe_text [OF digits [OF print_hex_digits]]
    safe_text [OF digits [OF payload_hex_digits]]
  have "save_line (gui_row r) = ''pci_cfg_'' @ op @ '' '' @ print_dec (unat (rec_requester_id r)) @
      '' '' @ print_dec (unat (rec_completer_id r)) @ '' @'' @ x @ [CHR 0x0A]"
    using safe by (auto simp: save_line_def gui_row_def op_def x_def Let_def qargs_saved [simplified])
  moreover have "op = ''write'' \<or> op = ''read''" by (simp add: op_def)
  moreover have "CHR '','' \<notin> set x" "CHR 0x0A \<notin> set x" "ascii x"
    using safe by (auto simp: x_def)
  ultimately show ?thesis by blast
qed

lemma ascii_c_trim: "ascii s \<Longrightarrow> ascii (c_trim s)"
  by (auto simp: ascii_def list_all_iff c_trim_def dest!: set_dropWhileD)

lemma saved_csv_rows:
  assumes "qt_text qt"
  shows "\<exists>ls. split_newlines (concat (map save_line (map gui_row rs))) = ls @ [[]] \<and>
    length ls = length rs \<and>
    (\<forall>l \<in> set ls. CHR '','' \<notin> set l \<and> ascii l \<and> c_trim l \<noteq> [] \<and>
       (\<forall>now. load_line qt now False l = None))"
proof (induction rs)
  case (Cons r rs)
  then obtain ls where ls: "split_newlines (concat (map save_line (map gui_row rs))) = ls @ [[]]"
    "length ls = length rs" "\<forall>l \<in> set ls. CHR '','' \<notin> set l \<and> ascii l \<and> c_trim l \<noteq> [] \<and>
       (\<forall>now. load_line qt now False l = None)" by blast
  obtain op x where op: "op = ''write'' \<or> op = ''read''" and x: "CHR '','' \<notin> set x"
    "CHR 0x0A \<notin> set x" "ascii x" and save: "save_line (gui_row r) =
       ''pci_cfg_'' @ op @ '' '' @ print_dec (unat (rec_requester_id r)) @ '' '' @
       print_dec (unat (rec_completer_id r)) @ '' @'' @ x @ [CHR 0x0A]"
    using save_gui_row by blast
  let ?a = "''pci_cfg_'' @ op @ '' '' @ print_dec (unat (rec_requester_id r)) @ '' '' @
       print_dec (unat (rec_completer_id r)) @ '' @''"
  obtain x' where x': "c_trim (?a @ x) = ?a @ x'"
    using c_trim_front [of ?a x] by (auto simp: c_isspace_def)
  obtain x'' where x'': "c_trim (?a @ x') = ?a @ x''"
    using c_trim_front [of ?a x'] by (auto simp: c_isspace_def)
  have none: "raw_line_match (?a @ x'') = None"
    using decimal_completer_no_match [of "print_dec (unat (rec_requester_id r))"
        "print_dec (unat (rec_completer_id r))" op x''] op print_dec_digits by simp
  have dec: "list_all safe_char (print_dec n)" for n
    using print_dec_digits [of n] by (auto simp: list_all_iff is_digit_mono safe_digit)
  have l: "CHR '','' \<notin> set (?a @ x)" "CHR 0x0A \<notin> set (?a @ x)" "ascii (?a @ x)"
    using op x safe_text [OF dec] by auto
  have "ascii (?a @ x')" using ascii_c_trim [OF l(3)] by (simp only: x')
  then have "load_line qt now False (?a @ x) = None" for now
    using assms l(3)
    by (simp only: load_line_def parseRawTraceLine_def qt_textD x' x'' none Let_def) simp
  moreover have "c_trim (?a @ x) \<noteq> []" unfolding x' by simp
  moreover have "split_newlines (concat (map save_line (map gui_row (r # rs)))) =
      (?a @ x) # ls @ [[]]"
    using split_newlines_line [OF l(2), of "concat (map save_line (map gui_row rs))"] ls(1)
    by (simp add: save)
  ultimately show ?case
    using ls(2,3) l(1,3) by (intro exI [of _ "(?a @ x) # ls"]) (simp del: append_assoc)
qed simp

text \<open>
  C32: Saving loses a table that came from the library's CSV export: the saved lines carry the
  completer as a decimal number where a raw line has bus, device and function, so the file opens
  again as an empty table.
\<close>

theorem gui_csv_save_lost:
  assumes "qt_text qt" and "rs \<noteq> []" and "path \<noteq> []"
  shows "\<exists>text. snd (saveTrace path True (loadCsv qt clock csv (Some (csv_file rs)) g)) = Some text \<and>
           g_rows (loadTraceFile qt clock' [path \<mapsto> text] path g') = []"
proof -
  let ?g = "loadCsv qt clock csv (Some (csv_file rs)) g"
  have rows: "g_rows ?g = map gui_row rs"
    using load_shows_trace [OF assms(1)] by (simp add: shows_trace_def)
  obtain ls where ls: "split_newlines (concat (map save_line (map gui_row rs))) = ls @ [[]]"
    "length ls = length rs" "\<forall>l \<in> set ls. CHR '','' \<notin> set l \<and> ascii l \<and> c_trim l \<noteq> [] \<and>
       (\<forall>now. load_line qt now False l = None)"
    using saved_csv_rows [OF assms(1)] by blast
  obtain l ls' where l: "ls = l # ls'" using ls(2) assms(2) by (cases ls) auto
  have "\<not> is_csv qt (ls @ [[]])"
  proof -
    have "CHR '','' \<notin> set (qt_trimmed qt k)" if "k \<in> set ls" for k
      using ls(3) that assms(1) by (auto simp: qt_textD c_trim_def dest!: set_dropWhileD)
    then show ?thesis using assms(1) by (auto simp: is_csv_def list_ex_iff qt_textD c_trim_def Let_def)
  qed
  moreover have "List.map_filter (\<lambda>(i, line). load_line qt (clock' i) False line)
      (enumerate n (ls @ [[]])) = []" for n
    using ls(3) load_empty_line [OF assms(1)] by (induction ls arbitrary: n) auto
  ultimately have none: "load_lines qt clock' (is_csv qt (ls @ [[]])) (ls @ [[]]) = []"
    by (simp add: load_lines_def)
  have "qt_trimmed qt (hd (ls @ [[]])) \<noteq> []"
    using ls(3) l assms(1) by (simp add: qt_textD)
  from loadCsv_rows [of qt "concat (map save_line (map gui_row rs))", unfolded ls(1), OF this]
  have "g_rows (loadCsv qt clock' path (Some (concat (map save_line (map gui_row rs)))) g') = []"
    by (simp only: none)
  then show ?thesis
    using assms(2,3) rows by (simp add: saveTrace_def loadTraceFile_def)
qed

theorem gui_csv_save_lost_witness:
  "\<exists>text. snd (saveTrace ''s.log'' True
            (loadCsv simple_qt id ''t.csv'' (Some (csv_file [sample_record])) empty_gui)) = Some text \<and>
     g_rows (loadTraceFile simple_qt id [''s.log'' \<mapsto> text] ''s.log'' empty_gui) = []"
  by (rule gui_csv_save_lost) simp_all

section \<open>The live trace shows each line once\<close>

text \<open>The lines of a polled file that are trace lines, trimmed.\<close>

definition trace_lines :: "qt \<Rightarrow> string list \<Rightarrow> string list" where
  "trace_lines qt ls =
     filter (\<lambda>l. l \<noteq> [] \<and> raw_line_match (qt_trimmed qt l) \<noteq> None) (map (qt_trimmed qt) ls)"

text \<open>The lines of a list not seen before, each once, in the order they first appear.\<close>

fun fresh_lines :: "string list \<Rightarrow> string list \<Rightarrow> string list" where
  "fresh_lines seen [] = []"
| "fresh_lines seen (l # ls) =
     (if l \<in> set seen then fresh_lines seen ls else l # fresh_lines (l # seen) ls)"

lemma set_fresh_lines: "set (fresh_lines seen ls) = set ls - set seen"
  by (induction ls arbitrary: seen) auto

lemma fresh_lines_none: "set ls \<subseteq> set seen \<Longrightarrow> fresh_lines seen ls = []"
  by (induction ls) auto

lemma distinct_fresh_lines: "distinct (fresh_lines seen ls)"
  by (induction ls arbitrary: seen) (auto simp: set_fresh_lines)

text \<open>A row is the row of a line, its time aside.\<close>

definition row_of_line :: "qt \<Rightarrow> trace_row \<Rightarrow> string \<Rightarrow> bool" where
  "row_of_line qt r l \<longleftrightarrow>
     map_option (\<lambda>p. p\<lparr>row_ts := row_ts r\<rparr>) (parseRawTraceLine qt 0 l) = Some r"

lemma parse_row_of_line: "parseRawTraceLine qt now l = Some r \<Longrightarrow> row_of_line qt r l"
  by (auto simp: parseRawTraceLine_def row_of_line_def split: option.splits)

lemma parse_match: "parseRawTraceLine qt now l = None \<longleftrightarrow> raw_line_match (qt_trimmed qt l) = None"
  by (auto simp: parseRawTraceLine_def split: option.splits)

lemma poll_lines:
  assumes "fold (poll_line qt clock) (enumerate n ls) (rows, seen) = (rows', seen')"
  shows "\<exists>added. rows' = rows @ added \<and>
           list_all2 (row_of_line qt) added (fresh_lines seen (trace_lines qt ls)) \<and>
           set seen' = set seen \<union> set (trace_lines qt ls)"
  using assms
proof (induction ls arbitrary: n rows seen)
  case (Cons x ls)
  let ?l = "qt_trimmed qt x"
  show ?case
  proof (cases "?l = [] \<or> ?l \<in> set seen \<or> raw_line_match (qt_trimmed qt ?l) = None")
    case True
    then have "poll_line qt clock (n, x) (rows, seen) = (rows, seen)"
      using parse_match [of qt "clock n" ?l] by (auto simp: poll_line_def Let_def split: option.splits)
    moreover have "fresh_lines seen (trace_lines qt (x # ls)) = fresh_lines seen (trace_lines qt ls)"
      "set seen \<union> set (trace_lines qt (x # ls)) = set seen \<union> set (trace_lines qt ls)"
      using True by (auto simp: trace_lines_def)
    ultimately show ?thesis using Cons.IH [of "Suc n" rows seen] Cons.prems by simp
  next
    case False
    then obtain r where r: "parseRawTraceLine qt (clock n) ?l = Some r"
      using parse_match [of qt "clock n" ?l] by auto
    with False have "poll_line qt clock (n, x) (rows, seen) = (rows @ [r], ?l # seen)"
      by (simp add: poll_line_def)
    with Cons.IH [of "Suc n" "rows @ [r]" "?l # seen"] Cons.prems obtain added where
      "rows' = (rows @ [r]) @ added"
      "list_all2 (row_of_line qt) added (fresh_lines (?l # seen) (trace_lines qt ls))"
      "set seen' = set (?l # seen) \<union> set (trace_lines qt ls)" by auto
    moreover have "row_of_line qt r ?l" using r by (rule parse_row_of_line)
    moreover have "trace_lines qt (x # ls) = ?l # trace_lines qt ls"
      using False by (simp add: trace_lines_def)
    ultimately show ?thesis
      using False by (intro exI [of _ "r # added"]) simp
  qed
qed (simp add: trace_lines_def)

lemma pollLiveTrace_rows:
  assumes "g_live_path g \<noteq> []" and "fs (g_live_path g) = Some text"
  shows "\<exists>added. g_rows (pollLiveTrace qt clock fs running g) = g_rows g @ added \<and>
           list_all2 (row_of_line qt) added
             (fresh_lines (g_live_seen g) (trace_lines qt (split_newlines text))) \<and>
           set (g_live_seen (pollLiveTrace qt clock fs running g)) =
             set (g_live_seen g) \<union> set (trace_lines qt (split_newlines text)) \<and>
           g_live_path (pollLiveTrace qt clock fs running g) = g_live_path g"
proof -
  obtain added seen where poll: "fold (poll_line qt clock) (enumerate 0 (split_newlines text))
      ([], g_live_seen g) = (added, seen)" by (cases "fold (poll_line qt clock)
        (enumerate 0 (split_newlines text)) ([], g_live_seen g)")
  have keep: "g_live_seen (applyFilter qt g) = g_live_seen g"
    "g_live_path (applyFilter qt g) = g_live_path g"
    "g_live_seen (updateSummaryStats g) = g_live_seen g"
    "g_live_path (updateSummaryStats g) = g_live_path g"
    "g_live_seen (select_row i g) = g_live_seen g"
    "g_live_path (select_row i g) = g_live_path g" for g i
    by (simp_all add: applyFilter_def colorRows_def updateSummaryStats_def select_row_def)
  have "g_rows (pollLiveTrace qt clock fs running g) = g_rows g @ added"
    "g_live_seen (pollLiveTrace qt clock fs running g) = seen"
    "g_live_path (pollLiveTrace qt clock fs running g) = g_live_path g"
    using assms by (auto simp: pollLiveTrace_def poll Let_def keep)
  with poll_lines [OF poll] show ?thesis by auto
qed

text \<open>
  C20: A poll of the live trace adds one row, in order, for each trace line of the file that was
  not seen before; a line that occurs twice, in the file or in an earlier poll, is shown once. A
  second poll of an unchanged file adds nothing, whatever the time and the runner's state.
\<close>

theorem live_trace_lines_once:
  assumes "g_live_path g \<noteq> []" and "fs (g_live_path g) = Some text"
  shows "\<exists>added. g_rows (pollLiveTrace qt clock fs running g) = g_rows g @ added \<and>
           list_all2 (row_of_line qt) added
             (fresh_lines (g_live_seen g) (trace_lines qt (split_newlines text))) \<and>
           g_rows (pollLiveTrace qt clock' fs running' (pollLiveTrace qt clock fs running g)) =
             g_rows g @ added"
proof -
  let ?g = "pollLiveTrace qt clock fs running g"
  obtain added where added: "g_rows ?g = g_rows g @ added"
    "list_all2 (row_of_line qt) added
       (fresh_lines (g_live_seen g) (trace_lines qt (split_newlines text)))"
    and seen: "set (trace_lines qt (split_newlines text)) \<subseteq> set (g_live_seen ?g)"
    and path: "g_live_path ?g = g_live_path g"
    using pollLiveTrace_rows [of g fs "text" qt clock running] assms by blast
  have "fresh_lines (g_live_seen ?g) (trace_lines qt (split_newlines text)) = []"
    by (rule fresh_lines_none [OF seen])
  then have "g_rows (pollLiveTrace qt clock' fs running' ?g) = g_rows ?g"
    using pollLiveTrace_rows [of ?g fs "text" qt clock' running'] assms path by auto
  with added show ?thesis by auto
qed

definition live_gui :: gui where
  "live_gui = empty_gui\<lparr>g_live_path := ''t.log'', g_live_process := True, g_live_timer := True\<rparr>"

lemma split_newlines_last: "CHR 0x0A \<notin> set l \<Longrightarrow> split_newlines l = [l]"
  by (induction l) auto

definition live_text :: string where
  "live_text = raw_line sample_row @ CHR 0x0A # raw_line sample_row"

theorem live_trace_lines_once_witness:
  "length (g_rows (pollLiveTrace simple_qt id [''t.log'' \<mapsto> live_text] True live_gui)) = 1 \<and>
     g_rows (pollLiveTrace simple_qt id [''t.log'' \<mapsto> live_text] False
              (pollLiveTrace simple_qt id [''t.log'' \<mapsto> live_text] True live_gui)) =
       g_rows (pollLiveTrace simple_qt id [''t.log'' \<mapsto> live_text] True live_gui)"
proof -
  have fresh: "fresh_lines [] (trace_lines simple_qt (split_newlines live_text)) = [raw_line sample_row]"
  proof -
    note plain = raw_line_text [OF sample_raw_row]
    have "raw_line_match (raw_line sample_row) \<noteq> None"
      using raw_text_match [OF sample_raw_row, of "raw_op sample_row"]
      by (simp add: raw_line_def raw_op_def)
    moreover have "split_newlines live_text = [raw_line sample_row, raw_line sample_row]"
      by (simp add: live_text_def split_newlines_line [OF plain(2)] split_newlines_last [OF plain(2)])
    ultimately show ?thesis
      using plain by (simp add: trace_lines_def qt_textD del: not_None_eq)
  qed
  have path: "g_live_path live_gui = ''t.log''" and seen: "g_live_seen live_gui = []"
    and rows: "g_rows live_gui = []"
    by (simp_all add: live_gui_def empty_gui_def)
  have on_disk: "[''t.log'' \<mapsto> live_text] (g_live_path live_gui) = Some live_text"
    "g_live_path live_gui \<noteq> []"
    unfolding path by simp_all
  obtain added where
    added: "g_rows (pollLiveTrace simple_qt id [''t.log'' \<mapsto> live_text] True live_gui) = added"
    "list_all2 (row_of_line simple_qt) added [raw_line sample_row]"
    "g_rows (pollLiveTrace simple_qt id [''t.log'' \<mapsto> live_text] False
              (pollLiveTrace simple_qt id [''t.log'' \<mapsto> live_text] True live_gui)) = added"
    using live_trace_lines_once [of live_gui "[''t.log'' \<mapsto> live_text]" live_text simple_qt id True id False,
        OF on_disk(2,1), unfolded seen rows fresh] by auto
  from list_all2_lengthD [OF added(2)] have "length added = 1" by simp
  then show ?thesis by (simp only: added simp_thms)
qed

end
