(* ===== verification/GuiDetails.thy ===== *)
theory GuiDetails
  imports GuiTrace
begin

text \<open>
  What the viewer shows of the selected row, \<open>MainWindow::showPacketDetails\<close> of
  \<open>gui/src/MainWindow.cpp\<close>: the text and the decode tree with the PCI configuration registers.
\<close>

section \<open>Packet details\<close>

datatype tree_item = Item string string "tree_item list"

record details =
  d_text :: string
  d_tree :: "tree_item list"

text \<open>The header of the selected row as the library decodes it.\<close>

definition row_header :: "qt \<Rightarrow> trace_row \<Rightarrow> pcie_tlp_type \<times> tlp" where
  "row_header qt r =
     (let typeCode = (ucast (qt_uint qt 16 (row_type r)) :: u8) in
      (pcie_tlp_type_from_code typeCode,
       pcie_tlp_decode typeCode (ucast (qt_uint qt 10 (row_requester r)))
         (ucast (qt_uint qt 10 (row_completer r))) (ucast (qt_uint qt 10 (row_tag r)))
         (ucast (qt_uint qt 10 (row_length r))) (qt_ulonglong qt 16 (row_addr r)) None))"

text \<open>Numbers in the text: \<open>arg\<close> of a number without a width, in base 10 or 16.\<close>

definition qt_dec :: "qt \<Rightarrow> nat \<Rightarrow> string" where
  "qt_dec qt n = qt_number qt 0 10 n"

definition addr_label :: "qt \<Rightarrow> u64 \<Rightarrow> string" where
  "addr_label qt a = qarg ''0x%1'' (qt_number qt 0 16 (unat a))"

definition line_feed :: string where
  "line_feed = [CHR 0x0A]"

definition details_text :: "qt \<Rightarrow> nat \<Rightarrow> trace_row \<Rightarrow> string" where
  "details_text qt row r =
     (case row_header qt r of (decodedType, decoded) \<Rightarrow>
        let typeName = pcie_tlp_type_name (tlp_type_val decodedType); payload = row_payload r in
        qarg (''Packet #%1'' @ line_feed) (qt_dec qt (row + 1)) @
        qarg (''Timestamp: %1'' @ line_feed) (row_ts r) @
        qarg (''Direction: %1'' @ line_feed) (row_dir r) @
        qargs (''Type: %1 (0x%2)'' @ line_feed @ line_feed) [typeName, row_type r] @
        ''Header fields:'' @ line_feed @
        qarg (''  - type: %1'' @ line_feed) typeName @
        qarg (''  - requester_id: %1'' @ line_feed) (qt_dec qt (unat (requester_id decoded))) @
        qarg (''  - completer_id: %1'' @ line_feed) (qt_dec qt (unat (completer_id decoded))) @
        qarg (''  - tag: %1'' @ line_feed) (qt_dec qt (unat (tag decoded))) @
        qarg (''  - length: %1'' @ line_feed) (qt_dec qt (unat (tlp_length decoded))) @
        qarg (''  - address: 0x%1'' @ line_feed) (qt_number qt 0 16 (unat (mem_addr decoded))) @
        qarg (''  - payload_len: %1'' @ line_feed @ line_feed)
          (qt_dec qt (if payload = [] then 0 else length payload)) @
        qarg (''Payload (hex):'' @ line_feed @ ''%1'' @ line_feed) (formatHexDump qt payload) @
        qarg (''Raw payload string: %1'' @ line_feed) (if payload = [] then ''<none>'' else payload))"

section \<open>The decode tree\<close>

definition packet_item :: "qt \<Rightarrow> trace_row \<Rightarrow> tree_item" where
  "packet_item qt r =
     (let typeName = pcie_tlp_type_name (tlp_type_val (fst (row_header qt r)));
          payload = row_payload r
      in Item ''PCIe TLP'' []
           [Item ''Direction'' (row_dir r) [],
            Item ''Type'' (qargs ''%1 (0x%2)'' [typeName, row_type r]) [],
            Item ''Requester ID'' (row_requester r) [],
            Item ''Completer ID'' (row_completer r) [],
            Item ''Tag'' (row_tag r) [],
            Item ''Length'' (row_length r) [],
            Item ''Address'' (addr_label qt (qt_ulonglong qt 16 (row_addr r))) [],
            Item ''Payload length'' (qt_dec qt (if payload = [] then 0 else length payload)) [],
            Item ''Payload'' (if payload = [] then ''<none>'' else payload) []])"

definition spec_item :: "qt \<Rightarrow> trace_row \<Rightarrow> tree_item" where
  "spec_item qt r =
     (case row_header qt r of (decodedType, decoded) \<Rightarrow>
        Item ''Spec structure'' []
          [Item ''type'' (pcie_tlp_type_name (tlp_type_val decodedType)) [],
           Item ''requester_id'' (qt_dec qt (unat (requester_id decoded))) [],
           Item ''completer_id'' (qt_dec qt (unat (completer_id decoded))) [],
           Item ''tag'' (qt_dec qt (unat (tag decoded))) [],
           Item ''length'' (qt_dec qt (unat (tlp_length decoded))) [],
           Item ''addr'' (addr_label qt (mem_addr decoded)) [],
           Item ''payload_len''
             (qt_dec qt (if row_payload r = [] then 0 else length (row_payload r))) []])"

text \<open>The four bytes of a register, low byte first.\<close>

definition reg_value :: "u8 list \<Rightarrow> u32" where
  "reg_value bytes =
     fold (\<lambda>i reg. reg OR push_bit (8 * i) (ucast (bytes ! i))) [0..<min 4 (length bytes)] 0"

definition low_half :: "u32 \<Rightarrow> u16" where
  "low_half reg = ucast (reg AND 0xFFFF)"

definition high_half :: "u32 \<Rightarrow> u16" where
  "high_half reg = ucast (drop_bit 16 reg AND 0xFFFF)"

definition class_bits :: "u32 \<Rightarrow> u32" where
  "class_bits reg = drop_bit 8 reg AND 0xFFFFFF"

text \<open>The register by its offset: the \<open>switch\<close> sees the low 32 bits of the address.\<close>

definition register_items :: "qt \<Rightarrow> u64 \<Rightarrow> u32 \<Rightarrow> tree_item list" where
  "register_items qt regAddr reg =
     (let off = (ucast regAddr :: u32) in
      if off = 0x00 then
        [Item ''Vendor ID'' (makeHexLabel qt (ucast (low_half reg)) 4) [],
         Item ''Vendor name'' (pciVendorName (low_half reg)) [],
         Item ''Device ID'' (makeHexLabel qt (ucast (high_half reg)) 4) []]
      else if off = 0x04 then
        [Item ''Command'' (makeHexLabel qt (ucast (low_half reg)) 4) [],
         Item ''Status'' (makeHexLabel qt (ucast (high_half reg)) 4) []]
      else if off = 0x08 then
        [Item ''Revision ID'' (makeHexLabel qt (ucast (ucast (reg AND 0xFF) :: u8)) 2) [],
         Item ''Class code'' (makeHexLabel qt (class_bits reg) 6) [],
         Item ''Class name'' (pciClassName (class_bits reg)) []]
      else if off = 0x10 \<or> off = 0x14 \<or> off = 0x18 \<or> off = 0x1C then
        [Item ''BAR'' (makeHexLabel qt reg 8) []]
      else [Item ''Raw register'' (makeHexLabel qt reg 8) []])"

definition summary_items :: "qt \<Rightarrow> u64 \<Rightarrow> u32 \<Rightarrow> tree_item list" where
  "summary_items qt regAddr reg =
     (let vendorId = (if regAddr = 0x00 then low_half reg else 0);
          deviceId = (if regAddr = 0x00 then high_half reg else 0);
          classCode = (if regAddr = 0x08 then class_bits reg else 0)
      in (if vendorId \<noteq> 0
          then [Item ''Vendor'' (qargs ''%1 (%2)'' [pciVendorName vendorId,
                                                  makeHexLabel qt (ucast vendorId) 4]) [],
                Item ''Device'' (makeHexLabel qt (ucast deviceId) 4) []]
          else []) @
         (if classCode \<noteq> 0
          then [Item ''Class'' (qargs ''%1 (%2)'' [pciClassName classCode,
                                                makeHexLabel qt classCode 6]) []]
          else []) @
         (if regAddr = 0x10 \<or> regAddr = 0x14 \<or> regAddr = 0x18 \<or> regAddr = 0x1C
          then [Item ''BAR'' (makeHexLabel qt reg 8) []] else []))"

definition config_items :: "qt \<Rightarrow> trace_row \<Rightarrow> tree_item list" where
  "config_items qt r =
     (if (row_type r = ''CfgRd'' \<or> row_type r = ''CfgWr'') \<and> row_payload r \<noteq> [] then
        let rawBytes = qt_from_hex qt (drop_blanks (row_payload r));
            regAddr = qt_ulonglong qt 16 (row_addr r)
        in if length rawBytes \<ge> 4
           then [Item ''PCI config decode'' [] (register_items qt regAddr (reg_value rawBytes)),
                 Item ''PCI device summary'' [] (summary_items qt regAddr (reg_value rawBytes))]
           else []
      else [])"

definition showPacketDetails :: "qt \<Rightarrow> gui \<Rightarrow> details" where
  "showPacketDetails qt g =
     (case g_current g of
        None \<Rightarrow> \<lparr>d_text = ''No packet selected.'', d_tree = []\<rparr>
      | Some row \<Rightarrow>
          let r = g_rows g ! row in
          \<lparr>d_text = details_text qt row r,
           d_tree = packet_item qt r # config_items qt r @ [spec_item qt r]\<rparr>)"

section \<open>Reading the tree\<close>

fun find_item :: "string \<Rightarrow> tree_item list \<Rightarrow> tree_item option" where
  "find_item n [] = None"
| "find_item n (Item m v cs # is) = (if m = n then Some (Item m v cs) else find_item n is)"

text \<open>The fields of a section of the tree, in order, and the value of one of them.\<close>

fun item_field :: "tree_item \<Rightarrow> string \<times> string" where
  "item_field (Item n v cs) = (n, v)"

definition section_fields :: "string \<Rightarrow> tree_item list \<Rightarrow> (string \<times> string) list option" where
  "section_fields sec is =
     (case find_item sec is of None \<Rightarrow> None | Some (Item _ _ cs) \<Rightarrow> Some (map item_field cs))"

definition tree_lookup :: "string \<Rightarrow> string \<Rightarrow> tree_item list \<Rightarrow> string option" where
  "tree_lookup sec n is =
     (case find_item sec is of
        None \<Rightarrow> None
      | Some (Item _ _ cs) \<Rightarrow> (case find_item n cs of None \<Rightarrow> None | Some (Item _ v _) \<Rightarrow> Some v))"

lemma find_item_append:
  "find_item n (xs @ ys) = (case find_item n xs of None \<Rightarrow> find_item n ys | Some i \<Rightarrow> Some i)"
  by (induction n xs rule: find_item.induct) auto

section \<open>Named types\<close>

definition gui_type_names :: "string list" where
  "gui_type_names = [''MemRd'', ''MemWr'', ''CfgRd'', ''CfgWr'', ''Cpl'']"

lemma type_name_no_number:
  assumes "qt_numbers qt" and "s \<in> set gui_type_names"
  shows "qt_uint qt 16 s = 0"
proof -
  have "(\<exists>c \<in> set s. \<not> is_digit 16 c) \<and> list_all letter s"
    using assms(2) by (auto simp: gui_type_names_def letter_def is_digit_def digit_val_def)
  then show ?thesis using assms(1) by (simp add: qt_numbers_def)
qed

lemma named_type_header:
  assumes "qt_numbers qt" and "row_type r \<in> set gui_type_names"
  shows "fst (row_header qt r) = PCIE_TLP_MEM_READ"
  using type_name_no_number [OF assms]
  by (simp add: row_header_def pcie_tlp_type_from_code_def Let_def)

lemma config_items_names:
  "find_item ''Spec structure'' (config_items qt r) = None"
  by (simp add: config_items_def Let_def)

text \<open>
  C33: The details of a row with a named type, as every row of a raw trace, of an enumeration and
  of the library's own packets is, announce a memory read: the name is read as a hexadecimal
  number, which it is not, and the code 0 is a memory read.
\<close>

theorem gui_details_types:
  assumes "qt_numbers qt" and "g_current g = Some i" and "row_type (g_rows g ! i) \<in> set gui_type_names"
  shows "tree_lookup ''Spec structure'' ''type'' (d_tree (showPacketDetails qt g)) = Some ''MemRead'' \<and>
         tree_lookup ''PCIe TLP'' ''Type'' (d_tree (showPacketDetails qt g)) =
           Some (qargs ''%1 (0x%2)'' [''MemRead'', row_type (g_rows g ! i)])"
proof -
  obtain t where "row_header qt (g_rows g ! i) = (PCIE_TLP_MEM_READ, t)"
    using named_type_header [OF assms(1,3)] by (cases "row_header qt (g_rows g ! i)") simp
  then show ?thesis
    by (simp add: showPacketDetails_def assms(2) tree_lookup_def find_item_append config_items_names
        packet_item_def spec_item_def pcie_tlp_type_name_def Let_def)
qed

theorem gui_details_types_witness:
  "tree_lookup ''Spec structure'' ''type''
     (d_tree (showPacketDetails simple_qt (empty_gui\<lparr>g_rows := [sample_row], g_current := Some 0\<rparr>))) =
   Some ''MemRead''"
  using gui_details_types [OF simple_qt_numbers,
      of "empty_gui\<lparr>g_rows := [sample_row], g_current := Some 0\<rparr>" 0]
  by (simp add: sample_row_def gui_type_names_def)

section \<open>Registers\<close>

definition word16 :: "u8 \<Rightarrow> u8 \<Rightarrow> u16" where
  "word16 b0 b1 = ucast b0 OR push_bit 8 (ucast b1)"

definition word24 :: "u8 \<Rightarrow> u8 \<Rightarrow> u8 \<Rightarrow> u32" where
  "word24 b0 b1 b2 = ucast b0 OR push_bit 8 (ucast b1) OR push_bit 16 (ucast b2)"

lemma reg_value_4:
  "reg_value [b0, b1, b2, b3] =
     ucast b0 OR push_bit 8 (ucast b1) OR push_bit 16 (ucast b2) OR push_bit 24 (ucast b3)"
  by (simp add: reg_value_def upt_conv_Cons ac_simps)

lemma masks: "(0xFFFF :: u32) = mask 16" "(0xFFFFFF :: u32) = mask 24"
  by (simp_all add: mask_eq_exp_minus_1)

lemma reg_halves:
  "low_half (reg_value [b0, b1, b2, b3]) = word16 b0 b1"
  "high_half (reg_value [b0, b1, b2, b3]) = word16 b2 b3"
  "class_bits (reg_value [b0, b1, b2, b3]) = word24 b1 b2 b3"
  unfolding reg_value_4 low_half_def high_half_def class_bits_def word16_def word24_def
  unfolding masks
  by (rule bit_word_eqI; auto simp: bit_simps not_le not_less dest: bit_imp_le_length)+

lemma class_name_unknown: "pciClassName (word24 b1 b2 b3) = ''Unknown class''"
proof -
  let ?c = "drop_bit 8 (word24 b1 b2 b3) AND 0xFFFFFF"
  have c: "?c AND 0xFFFF = ?c"
    unfolding word24_def masks
    by (rule bit_word_eqI) (auto simp: bit_simps dest: bit_imp_le_length)
  have "?c \<noteq> v" if "v AND 0xFFFF \<noteq> v" for v
    using that c by auto
  then have "?c \<noteq> 0x020000" "?c \<noteq> 0x010000" "?c \<noteq> 0x0C0300" "?c \<noteq> 0x060000" "?c \<noteq> 0x030000"
    by simp_all
  then show ?thesis by (simp add: pciClassName_def)
qed

text \<open>The values of bytes put side by side, in numbers.\<close>

lemma unat_OR_shifted:
  assumes "unat (x :: 'a :: len word) < 2 ^ k" and "k < LENGTH('a)" and "2 ^ k * unat y < 2 ^ LENGTH('a)"
  shows "unat (x OR push_bit k y) = unat x + 2 ^ k * unat y"
proof -
  have x: "x = take_bit k x"
    using assms(1) by (simp add: word_unat_eq_iff unsigned_take_bit_eq take_bit_nat_eq_self)
  then have "\<not> bit x n" if "k \<le> n" for n
    using that by (metis bit_take_bit_iff not_le)
  then have "x AND push_bit k y = 0" by (auto simp: bit_eq_iff bit_simps)
  then have "x OR push_bit k y = x + push_bit k y" by (simp add: disjunctive_add_eq_or)
  moreover have "unat (push_bit k y) = 2 ^ k * unat y"
  proof -
    have "push_bit k y = word_of_nat (2 ^ k * unat y)" by (simp add: push_bit_eq_mult mult.commute)
    then show ?thesis using assms(3) by (simp only: unat_of_nat mod_less)
  qed
  moreover have "unat x + 2 ^ k * unat y < 2 ^ LENGTH('a)"
  proof -
    obtain d where d: "LENGTH('a) = k + d" using assms(2) by (metis le_Suc_ex less_imp_le)
    then have "unat y < 2 ^ d" using assms(3) by (simp add: power_add)
    then have "2 ^ k * (unat y + 1) \<le> 2 ^ k * 2 ^ d" by (intro mult_le_mono2) simp
    with assms(1) d show ?thesis by (simp add: power_add)
  qed
  ultimately show ?thesis by (simp add: unat_word_ariths)
qed

lemma unat_side_by_side:
  "unat (word16 b0 b1) = le_val [b0, b1]" "unat (word24 b0 b1 b2) = le_val [b0, b1, b2]"
  "unat (reg_value [b0, b1, b2, b3]) = le_val [b0, b1, b2, b3]"
proof -
  have u8s: "unat b < 16777216" "unat b < 65536" for b :: u8
    using unat_u8_lt [of b] by linarith+
  show "unat (word16 b0 b1) = le_val [b0, b1]"
    using unat_OR_shifted [of "ucast b0 :: u16" 8 "ucast b1"] by (simp add: word16_def)
  have two: "unat (ucast b0 OR push_bit 8 (ucast b1) :: u32) = unat b0 + 256 * unat b1"
    using u8s [of b1] unat_OR_shifted [of "ucast b0 :: u32" 8 "ucast b1"] by simp
  then have three: "unat ((ucast b0 OR push_bit 8 (ucast b1)) OR push_bit 16 (ucast b2) :: u32) =
      unat b0 + 256 * unat b1 + 65536 * unat b2"
    using unat_OR_shifted [of "ucast b0 OR push_bit 8 (ucast b1) :: u32" 16 "ucast b2"]
      unat_u8_lt [of b0] unat_u8_lt [of b1] unat_u8_lt [of b2] by (simp del: unat_u8_lt)
  then show "unat (word24 b0 b1 b2) = le_val [b0, b1, b2]" by (simp add: word24_def or.assoc del: le_val.simps) simp
  from three show "unat (reg_value [b0, b1, b2, b3]) = le_val [b0, b1, b2, b3]"
    using unat_OR_shifted [of "(ucast b0 OR push_bit 8 (ucast b1)) OR push_bit 16 (ucast b2) :: u32" 24 "ucast b3"]
      unat_u8_lt [of b0] unat_u8_lt [of b1] unat_u8_lt [of b2] unat_u8_lt [of b3]
    by (simp add: reg_value_4 or.assoc del: unat_u8_lt)
qed

lemma reg_low_byte: "(ucast (reg_value [b0, b1, b2, b3] AND 0xFF) :: u8) = b0"
  unfolding reg_value_4 by (rule bit_word_eqI) (auto simp: bit_simps AND_255 dest: bit_imp_le_length)

text \<open>A label of a register value: the prefix is put in upper case with the digits.\<close>

definition hex_label :: "nat \<Rightarrow> nat \<Rightarrow> string" where
  "hex_label width n = map c_toupper (''0x'' @ zero_pad width (print_hex n))"

lemma ascii_zero_pad: "ascii (zero_pad w (print_hex n))"
  by (simp add: zero_pad_def) (auto simp: ascii_def list_all_iff)

lemma makeHexLabel_text:
  assumes "qt_text qt" and "qt_numbers qt"
  shows "makeHexLabel qt v w = hex_label w (unat v)"
proof -
  have "qt_number qt w 16 (unat v) = zero_pad w (print_hex (unat v))"
    using assms(2) by (simp add: qt_numbers_def)
  moreover have "qarg ''0x%1'' s = ''0x'' @ s" for s
    by (simp add: qarg_def take_mark_def is_digit_def digit_val_def)
  ultimately show ?thesis
    using assms(1) ascii_zero_pad by (simp add: makeHexLabel_def hex_label_def qt_textD)
qed

lemma hex_addr:
  "qt_numbers qt \<Longrightarrow> qt_ulonglong qt 16 (''0x'' @ print_hex (unat (a :: u64))) = a"
  by (simp add: qt_numbers_def)

lemma config_items_row:
  assumes "qt_numbers qt" and "row_type r = ''CfgRd'' \<or> row_type r = ''CfgWr''"
    and "drop_blanks (row_payload r) = hex_text [b0, b1, b2, b3]"
    and "row_addr r = ''0x'' @ print_hex (unat a)"
  shows "config_items qt r =
    [Item ''PCI config decode'' [] (register_items qt a (reg_value [b0, b1, b2, b3])),
     Item ''PCI device summary'' [] (summary_items qt a (reg_value [b0, b1, b2, b3]))]"
proof -
  have "hex_text [b0, b1, b2, b3] \<noteq> []"
    by (simp add: hex_text_def print_02x_def Let_def)
  then have "row_payload r \<noteq> []" using assms(3) by (auto simp: drop_blanks_def)
  moreover have "qt_from_hex qt (drop_blanks (row_payload r)) = [b0, b1, b2, b3]"
    unfolding assms(3) using assms(1) by (simp add: qt_numbers_def)
  ultimately show ?thesis
    using assms(2) hex_addr [OF assms(1), of a] by (auto simp: config_items_def Let_def assms(4))
qed

lemma summary_value:
  "CHR ''%'' \<notin> set n \<Longrightarrow> qargs ''%1 (%2)'' [n, v] = n @ '' ('' @ v @ '')''"
  by (simp add: qargs_def qarg_def take_mark_def is_digit_def digit_val_def)

lemma vendor_name_plain: "CHR ''%'' \<notin> set (pciVendorName v)"
  by (simp add: pciVendorName_def)

text \<open>
  C23: The register decode of a configuration row with four payload bytes \<open>b0\<close> to \<open>b3\<close> at
  address \<open>a\<close>, all fields in order. The decode goes by the low 32 bits of the address: vendor
  and device id with the vendor's name, command and status, revision and class code, a BAR, or
  the raw register. The summary goes by the whole address and leaves out a zero vendor or class.
  The class is never named: the decoder has already removed the revision, and the name table
  shifts by eight bits once more. Labels begin with \<open>0X\<close>.
\<close>

theorem gui_details_registers:
  assumes "qt_text qt" and "qt_numbers qt" and "g_current g = Some i" and "r = g_rows g ! i"
    and "row_type r = ''CfgRd'' \<or> row_type r = ''CfgWr''"
    and "drop_blanks (row_payload r) = hex_text [b0, b1, b2, b3]"
    and "row_addr r = ''0x'' @ print_hex (unat (a :: u64))"
  shows "(section_fields ''PCI config decode'' (d_tree (showPacketDetails qt g)) = Some
      (let off = unat a mod 2 ^ 32 in
       if off = 0x00 then
         [(''Vendor ID'', hex_label 4 (le_val [b0, b1])),
          (''Vendor name'', pciVendorName (word_of_nat (le_val [b0, b1]))),
          (''Device ID'', hex_label 4 (le_val [b2, b3]))]
       else if off = 0x04 then
         [(''Command'', hex_label 4 (le_val [b0, b1])), (''Status'', hex_label 4 (le_val [b2, b3]))]
       else if off = 0x08 then
         [(''Revision ID'', hex_label 2 (unat b0)), (''Class code'', hex_label 6 (le_val [b1, b2, b3])),
          (''Class name'', ''Unknown class'')]
       else if off \<in> {0x10, 0x14, 0x18, 0x1C} then [(''BAR'', hex_label 8 (le_val [b0, b1, b2, b3]))]
       else [(''Raw register'', hex_label 8 (le_val [b0, b1, b2, b3]))])) \<and>
    (section_fields ''PCI device summary'' (d_tree (showPacketDetails qt g)) = Some
      (if a = 0x00 \<and> le_val [b0, b1] \<noteq> 0 then
         [(''Vendor'', pciVendorName (word_of_nat (le_val [b0, b1])) @ '' ('' @ hex_label 4 (le_val [b0, b1]) @ '')''),
          (''Device'', hex_label 4 (le_val [b2, b3]))]
       else if a = 0x08 \<and> le_val [b1, b2, b3] \<noteq> 0 then
         [(''Class'', ''Unknown class'' @ '' ('' @ hex_label 6 (le_val [b1, b2, b3]) @ '')'')]
       else if a \<in> {0x10, 0x14, 0x18, 0x1C} then [(''BAR'', hex_label 8 (le_val [b0, b1, b2, b3]))]
       else []))"
    (is "?decode \<and> ?summary")
proof -
  let ?reg = "reg_value [b0, b1, b2, b3]"
  note label = makeHexLabel_text [OF assms(1,2)]
  have items: "config_items qt r = [Item ''PCI config decode'' [] (register_items qt a ?reg),
      Item ''PCI device summary'' [] (summary_items qt a ?reg)]"
    by (rule config_items_row [OF assms(2,5-7)])
  have sections: "section_fields ''PCI config decode'' (d_tree (showPacketDetails qt g)) =
      Some (map item_field (register_items qt a ?reg))"
    "section_fields ''PCI device summary'' (d_tree (showPacketDetails qt g)) =
      Some (map item_field (summary_items qt a ?reg))"
    using items assms(4)
    by (simp_all add: section_fields_def showPacketDetails_def assms(3) packet_item_def Let_def)
  have off: "(ucast a :: u32) = k \<longleftrightarrow> unat a mod 2 ^ 32 = unat k" for k
    by (simp add: word_unat_eq_iff unsigned_ucast_eq take_bit_eq_mod)
  have vendor: "pciVendorName (word16 b0 b1) = pciVendorName (word_of_nat (le_val [b0, b1]))"
    unfolding unat_side_by_side(1) [symmetric] by simp
  have zero: "word16 b0 b1 = 0 \<longleftrightarrow> le_val [b0, b1] = 0" "word24 b1 b2 b3 = 0 \<longleftrightarrow> le_val [b1, b2, b3] = 0"
    by (simp_all only: word_unat_eq_iff unat_side_by_side unsigned_0)
  have ?decode
    unfolding sections register_items_def Let_def off
    by (simp add: reg_halves reg_low_byte label unat_side_by_side vendor class_name_unknown
        del: le_val.simps)
  moreover have ?summary
    unfolding sections summary_items_def Let_def
    by (simp add: reg_halves label unat_side_by_side vendor zero class_name_unknown
        summary_value vendor_name_plain del: le_val.simps)
  ultimately show ?thesis ..
qed

definition config_gui :: "string \<Rightarrow> string \<Rightarrow> gui" where
  "config_gui addr payload =
     empty_gui\<lparr>g_rows := [sample_row\<lparr>row_type := ''CfgRd'', row_addr := addr, row_payload := payload\<rparr>],
               g_current := Some 0\<rparr>"

theorem gui_details_registers_witness:
  "section_fields ''PCI config decode'' (d_tree (showPacketDetails simple_qt (config_gui ''0x8'' ''01 00 00 02''))) =
     Some [(''Revision ID'', hex_label 2 1), (''Class code'', hex_label 6 0x20000), (''Class name'', ''Unknown class'')] \<and>
   section_fields ''PCI config decode'' (d_tree (showPacketDetails simple_qt (config_gui ''0x4'' ''07 00 10 00''))) =
     Some [(''Command'', hex_label 4 7), (''Status'', hex_label 4 0x10)] \<and>
   section_fields ''PCI device summary'' (d_tree (showPacketDetails simple_qt (config_gui ''0x0'' ''86 80 02 00''))) =
     Some [(''Vendor'', ''Intel ('' @ hex_label 4 0x8086 @ '')''), (''Device'', hex_label 4 2)]"
proof -
  have row: "g_current (config_gui x y) = Some 0" "row_type (g_rows (config_gui x y) ! 0) = ''CfgRd''"
    "row_addr (g_rows (config_gui x y) ! 0) = x" "row_payload (g_rows (config_gui x y) ! 0) = y" for x y
    by (simp_all add: config_gui_def empty_gui_def)
  have payload: "drop_blanks ''01 00 00 02'' = hex_text [1, 0, 0, 2]" "drop_blanks ''07 00 10 00'' = hex_text [7, 0, 0x10, 0]"
    "drop_blanks ''86 80 02 00'' = hex_text [0x86, 0x80, 2, 0]"
    by (simp_all add: drop_blanks_def hex_text_def print_02x_def print_hex_def print_base.simps digit_char_def
        char_of_def bit_Suc_0_iff)
  have addr: "''0x8'' = ''0x'' @ print_hex (unat (8 :: u64))" "''0x4'' = ''0x'' @ print_hex (unat (4 :: u64))"
    "''0x0'' = ''0x'' @ print_hex (unat (0 :: u64))"
    by (simp_all add: print_hex_def print_base.simps digit_char_def char_of_def bit_Suc_0_iff)
  note decode = gui_details_registers [OF simple_qt_text simple_qt_numbers row(1) refl disjI1 [OF row(2)], unfolded row]
  from decode [OF payload(1) addr(1)] decode [OF payload(2) addr(2)] decode [OF payload(3) addr(3)]
  show ?thesis by (simp add: pciVendorName_def)
qed

end
