(* ===== verification/GuiEnumerate.thy ===== *)
theory GuiEnumerate
  imports GuiDetails PciDevice
begin

text \<open>
  The viewer's enumeration of a PCI device, \<open>MainWindow::enumeratePciDevice\<close> of
  \<open>gui/src/MainWindow.cpp\<close>: it sets the environment, opens the selected backend through the
  library, reads the first eight configuration registers with configuration-read packets and
  fills the table with them.

  The process environment is part of the backends' state, so \<open>setenv\<close> is a parameter that
  changes that state; \<open>bes\<close> are the backends' constructors. Text boxes hold ASCII text, which
  \<open>toLocal8Bit\<close> keeps.
\<close>

section \<open>The enumeration\<close>

type_synonym 'b set_env = "string \<Rightarrow> string option \<Rightarrow> 'b \<Rightarrow> 'b"

text \<open>\<open>setenv\<close> is \<open>Some\<close> of the value, \<open>unsetenv\<close> is \<open>None\<close>.\<close>

definition enum_environment :: "qt \<Rightarrow> 'b set_env \<Rightarrow> string \<Rightarrow> string \<Rightarrow> string \<Rightarrow> 'b \<Rightarrow> 'b" where
  "enum_environment qt set_env backendName deviceIdText scenarioText b =
     (let deviceId = qt_trimmed qt deviceIdText;
          scenario = qt_trimmed qt scenarioText;
          b = set_env ''PCIE_PCI_DEVICE''
                (if deviceId \<noteq> [] \<and> backendName = ''pci'' then Some deviceId else None) b;
          profile = (if backendName = ''dummy'' \<or> backendName = ''golden''
                     then (if scenario \<noteq> [] then Some scenario else None)
                     else None)
      in set_env ''PCIE_DUMMY_PROFILE'' profile (set_env ''PCIE_DUMMY_SCENARIO'' profile b))"

definition enumAddrs :: "u64 list" where
  "enumAddrs = [0x00, 0x04, 0x08, 0x0c, 0x10, 0x14, 0x18, 0x1c]"

definition enum_packet :: "u64 \<Rightarrow> tlp" where
  "enum_packet a =
     (pcie_tlp_cfg_read (ucast a))\<lparr>requester_id := 0x0001, tag := 0x0F, tlp_length := 4,
                                  mem_data := Some (replicate 4 0)\<rparr>"

text \<open>\<open>payloadHex\<close>: two digits per byte, a blank between two bytes.\<close>

fun payload_text :: "qt \<Rightarrow> u8 list \<Rightarrow> string" where
  "payload_text qt [] = []"
| "payload_text qt (b # bs) =
     qarg ''%1'' (qt_number qt 2 16 (unat b)) @ (if bs = [] then [] else '' '') @ payload_text qt bs"

definition enum_row :: "qt \<Rightarrow> nat \<Rightarrow> u64 \<Rightarrow> u8 list \<Rightarrow> trace_row" where
  "enum_row qt now a payload =
     \<lparr>row_ts = print_dec now, row_dir = ''TX'', row_type = ''CfgRd'', row_requester = ''1'',
      row_completer = ''0'', row_tag = ''15'', row_length = ''4'',
      row_addr = qarg ''0x%1'' (qt_number qt 0 16 (unat a)), row_payload = payload_text qt payload\<rparr>"

text \<open>
  The loop over the registers: the address whose read failed, the context, the backend's state
  and the window. Packet \<open>i\<close> is sent in the environment \<open>env i\<close>.
\<close>

fun enum_loop ::
  "qt \<Rightarrow> (nat \<Rightarrow> nat) \<Rightarrow> (nat \<Rightarrow> rec_env) \<Rightarrow> nat \<Rightarrow> u64 list \<Rightarrow> ('b, unit) pcie_ctx \<Rightarrow> 'b \<Rightarrow> gui \<Rightarrow>
   (u64 option \<times> ('b, unit) pcie_ctx \<times> 'b \<times> gui) c_res" where
  "enum_loop qt clock env i [] c b g = Inr (None, c, b, g)"
| "enum_loop qt clock env i (a # as) c b g =
     cbind (pcie_send (env i) (Some c) (Some (enum_packet a)) b) (\<lambda>(result, t', ctx', b').
     cbind (deref ctx') (\<lambda>c'.
       if result \<noteq> 0 then Inr (Some a, c', b', g)
       else cbind (deref t') (\<lambda>t.
            cbind (deref (mem_data t)) (\<lambda>payload.
            cbind (Prelude.mem_read payload (unat (tlp_length t))) (\<lambda>bytes.
              enum_loop qt clock env (i + 1) as c' b'
                (insert_rows [enum_row qt (clock i) a bytes] g))))))"

definition device_summary :: "qt \<Rightarrow> device_info \<Rightarrow> link_status \<Rightarrow> string" where
  "device_summary qt info link =
     qargs ''Vendor 0x%1 Device 0x%2 Class 0x%3 Rev 0x%4 | Link %5/%6 lanes''
       [qt_number qt 4 16 (unat (vendor_id info)), qt_number qt 4 16 (unat (device_id info)),
        qt_number qt 6 16 (unat (class_code info)), qt_number qt 2 16 (unat (revision_id info)),
        (if negotiated_link_speed link = PCIE_LINK_SPEED_UNKNOWN then ''Unknown''
         else pcie_link_speed_name (negotiated_link_speed link)),
        qt_number qt 0 10 (unat (negotiated_link_width link))]"

definition enum_done :: "qt \<Rightarrow> device_info \<Rightarrow> link_status \<Rightarrow> gui \<Rightarrow> gui" where
  "enum_done qt info link g =
     (let g = applyFilter qt g;
          g = (if g_rows g \<noteq> [] then select_row 0 g else g);
          g = updateSummaryStats g
      in g\<lparr>g_status := qarg ''Enumerated PCI device (%1)'' (device_summary qt info link)\<rparr>)"

definition no_backend_box :: message where
  "no_backend_box = Warning ''PCI enumeration failed''
     ''Unable to open the selected backend. Make sure the backend exists and the device is accessible.''"

definition no_device_box :: message where
  "no_device_box = Warning ''PCI enumeration failed''
     ''The PCI backend is available but the device could not be queried.''"

definition enumeratePciDevice ::
  "qt \<Rightarrow> (nat \<Rightarrow> nat) \<Rightarrow> 'b backends \<Rightarrow> bool \<Rightarrow> (nat \<Rightarrow> rec_env) \<Rightarrow> 'b set_env \<Rightarrow>
   string \<Rightarrow> string \<Rightarrow> string \<Rightarrow> 'b \<Rightarrow> gui \<Rightarrow> (gui \<times> 'b) c_res" where
  "enumeratePciDevice qt clock bes calloc_ok env set_env backendName deviceIdText scenarioText b g =
     cbind (pcie_open bes calloc_ok (Some backendName)
              (enum_environment qt set_env backendName deviceIdText scenarioText b)) (\<lambda>(ctx, b1).
     case ctx of
       None \<Rightarrow> Inr (show_box no_backend_box g, b1)
     | Some (c :: ('b, unit) pcie_ctx) \<Rightarrow>
         cbind (pcie_get_device_info (Some c) (Some device_info_zero) b1) (\<lambda>(rc, info, b2).
         if rc \<noteq> 0 then cbind (pcie_close (Some c) b2) (\<lambda>b3.
           Inr (show_box no_device_box g, b3))
         else
           cbind (pcie_get_link_status (Some c) (Some link_status_zero) b2) (\<lambda>(_, link, b3).
           cbind (enum_loop qt clock env 0 enumAddrs c b3 (clear_rows g)) (\<lambda>(failed, c', b4, g').
           cbind (pcie_close (Some c') b4) (\<lambda>b5.
             case failed of
               Some a \<Rightarrow>
                 Inr (g'\<lparr>g_status := qarg ''PCI enumeration failed at offset 0x%1''
                                         (qt_number qt 0 16 (unat a))\<rparr>, b5)
             | None \<Rightarrow>
                 cbind (deref info) (\<lambda>i. cbind (deref link) (\<lambda>l.
                   Inr (enum_done qt i l g', b5))))))))"

section \<open>A device in front of the enumeration\<close>

lemma pci_device_info_device:
  assumes dev: "config_device os D" and w: "at_device D w" and big: "257 \<le> length (config_of D w)"
  shows "\<exists>i w'. pci_device_info os (Some i0) w = Inr (0, Some i, w') \<and>
           at_device D w' \<and> config_of D w' = config_of D w \<and> fds_of D w' = fds_of D w"
proof -
  obtain w1 where w1: "pci_access_config os 0 (replicate 16 0) 16 False w =
      Inr (0, field (config_of D w) 0 16, w1)" "at_device D w1" "config_of D w1 = config_of D w" "fds_of D w1 = fds_of D w"
    using access_read_device [OF dev w, of 0 16 "replicate 16 0"] big by auto
  with find_capability_device [OF dev w1(2,3) big] show ?thesis
    by (auto simp: pci_device_info_def)
qed

lemma pci_link_status_device:
  assumes dev: "config_device os D" and w: "at_device D w" and big: "275 \<le> length (config_of D w)"
  shows "\<exists>rc l w'. pci_link_status os (Some l0) w = Inr (rc, Some l, w') \<and>
           at_device D w' \<and> config_of D w' = config_of D w \<and> fds_of D w' = fds_of D w"
proof -
  let ?m = "config_of D w"
  have big': "257 \<le> length ?m" using big by simp
  obtain cap w1 where cap: "pci_find_pcie_capability os w = Inr (map_option ucast (cap :: u8 option), w1)"
      "at_device D w1" "config_of D w1 = ?m" "fds_of D w1 = fds_of D w"
    using find_capability_device [OF dev w refl big']
    by (cases "?m ! 6 AND 0x10 = 0") (auto intro: that [of None])
  show ?thesis
  proof (cases cap)
    case None
    with cap show ?thesis by (simp add: pci_link_status_def)
  next
    case (Some p)
    have off: "unat (ucast (ucast p + k :: u32) :: u64) = unat p + unat k" if "unat k < 256" for k
      using that unat_u8_lt [of p] by (simp add: unat_word_ariths del: unat_u8_lt)
    have lt: "unat p + 0x14 \<le> length ?m" using unat_u8_lt [of p] big by linarith
    obtain x w2 where w2: "pci_access_config os (ucast (ucast p + 0x0C :: u32)) (replicate 2 0) 2 False w1 =
        Inr (0, x, w2)" "at_device D w2" "config_of D w2 = ?m" "fds_of D w2 = fds_of D w"
      using access_read_device [OF dev cap(2), of "ucast (ucast p + 0x0C :: u32)" 2 "replicate 2 0"]
        off [of 12] lt cap(3,4) by auto
    obtain y w3 where "pci_access_config os (ucast (ucast p + 0x12 :: u32)) (replicate 2 0) 2 False w2 =
        Inr (0, y, w3)" "at_device D w3" "config_of D w3 = ?m" "fds_of D w3 = fds_of D w"
      using access_read_device [OF dev w2(2), of "ucast (ucast p + 0x12 :: u32)" 2 "replicate 2 0"]
        off [of 18] lt w2(3,4) by auto
    with cap w2 Some show ?thesis by (simp add: pci_link_status_def Let_def)
  qed
qed

lemma enum_send_pci:
  assumes dev: "config_device os D" and w: "at_device D w"
    and c: "ctx_ok (pci_ops os) c" and env: "alloc_law e"
    and a: "a \<in> set enumAddrs" and big: "32 \<le> length (config_of D w)"
  shows "\<exists>c' w'. pcie_send e (Some c) (Some (enum_packet a)) w =
      Inr (0, Some ((enum_packet a)\<lparr>mem_data := Some (field (config_of D w) (unat a) 4)\<rparr>), Some c', w') \<and>
      ctx_ok (pci_ops os) c' \<and> at_device D w' \<and> config_of D w' = config_of D w \<and> fds_of D w' = fds_of D w"
proof -
  have addr: "unat (ucast (ucast a :: u32) :: u64) = unat a" "unat a + 4 \<le> length (config_of D w)"
    using a big by (auto simp: enumAddrs_def)
  then have same: "(ucast (ucast a :: u32) :: u64) = a"
    by (simp add: word_unat_eq_iff)
  obtain w' where acc: "pci_access_config os (ucast (ucast a :: u32)) (replicate 4 0) 4 False w =
      Inr (0, field (config_of D w) (unat a) 4, w')" "at_device D w'" "config_of D w' = config_of D w" "fds_of D w' = fds_of D w"
    using access_read_device [OF dev w, of "ucast (ucast a :: u32)" 4 "replicate 4 0"] addr by auto
  let ?t = "(enum_packet a)\<lparr>mem_data := Some (field (config_of D w) (unat a) 4)\<rparr>"
  have "pci_send os (Some (enum_packet a)) w = Inr (0, Some ?t, w')"
    using acc(1) by (simp add: pci_send_def pci_cfg_read_def enum_packet_def pcie_tlp_cfg_read_def Let_def)
  moreover have "valid_tlp ?t" using addr(2) by (simp add: valid_tlp_Some enum_packet_def)
  ultimately show ?thesis using pcie_send_pci [OF c env] acc by fastforce
qed

lemma enum_loop_pci:
  assumes dev: "config_device os D" and env: "\<And>i. alloc_law (env i)"
  shows "\<lbrakk>at_device D w; config_of D w = m; 32 \<le> length m; ctx_ok (pci_ops os) c;
     set as \<subseteq> set enumAddrs\<rbrakk> \<Longrightarrow>
     \<exists>c' w'. enum_loop qt clock env i as c w g =
       Inr (None, c', w', insert_rows (map (\<lambda>(j, a). enum_row qt (clock j) a (field m (unat a) 4))
                                        (enumerate i as)) g) \<and>
       ctx_ok (pci_ops os) c' \<and> at_device D w' \<and> config_of D w' = m \<and> fds_of D w' = fds_of D w"
proof (induction as arbitrary: i c w g)
  case (Cons a as)
  then have a: "a \<in> set enumAddrs" "32 \<le> length (config_of D w)" by simp_all
  obtain c1 w1 where send: "pcie_send (env i) (Some c) (Some (enum_packet a)) w =
      Inr (0, Some ((enum_packet a)\<lparr>mem_data := Some (field m (unat a) 4)\<rparr>), Some c1, w1)"
      "ctx_ok (pci_ops os) c1" "at_device D w1" "config_of D w1 = m" "fds_of D w1 = fds_of D w"
    using enum_send_pci [OF dev Cons.prems(1,4) env [of i] a] Cons.prems(2) by auto
  have len: "length (field m (unat a) 4) = 4"
    using Cons.prems(3) a(1) by (auto simp: enumAddrs_def)
  let ?g = "insert_rows [enum_row qt (clock i) a (field m (unat a) 4)] g"
  from Cons.IH [OF send(3,4) Cons.prems(3) send(2), of "i + 1" ?g] Cons.prems(5)
  show ?case using send(1,5) len by (simp add: enum_packet_def Prelude.mem_read_def deref_def)
qed simp

lemma applyFilter_same [simp]: "g_status (applyFilter qt g) = g_status g"
  by (simp add: applyFilter_def colorRows_def updateSummaryStats_def)

lemma enum_done_fields:
  "g_rows (enum_done qt i l g) = g_rows g"
  "g_current (enum_done qt i l g) = (if g_rows g = [] then g_current g else Some 0)"
  "g_total (enum_done qt i l g) = length (g_rows g)"
  by (simp_all add: enum_done_def Let_def)

text \<open>
  \<open>setenv\<close> on the backend's state: it sets the variable that names the device and leaves the
  system and the other variables alone.
\<close>

definition pci_env_law :: "'s pci_world set_env \<Rightarrow> bool" where
  "pci_env_law set_env \<longleftrightarrow>
     (\<forall>v s w. pw_os (set_env v s w) = pw_os w \<and>
        pw_device (set_env v s w) = (if v = ''PCIE_PCI_DEVICE'' then s else pw_device w))"

lemma enum_environment_pci:
  assumes "pci_env_law set_env"
  shows "pw_os (enum_environment qt set_env ''pci'' device scenario w) = pw_os w"
    and "pci_device_id (enum_environment qt set_env ''pci'' device scenario w) =
      (if qt_trimmed qt device = [] then PCI_DEVICE_ID else qt_trimmed qt device)"
  using assms by (simp_all add: pci_env_law_def enum_environment_def pci_device_id_def Let_def)

text \<open>
  C6: Enumerating a PCI device through the library, whatever the table held before and whatever
  device the environment named before: the device read is the one typed into the window, or the
  default one when the text is blank. The table has one row per configuration register 0x00 to
  0x1C, in order, each with the register's four bytes as this device's configuration space holds
  them, and the first row is selected. The device is left as it was, with no descriptor open.
\<close>

theorem gui_enumerates_pci_device:
  assumes dev: "config_device os D" and up: "cd_up D (pw_os w)"
    and path: "cd_path D = pci_config_path
      (if qt_trimmed qt device = [] then PCI_DEVICE_ID else qt_trimmed qt device)"
    and big: "275 \<le> length (config_of D w)"
    and env: "\<forall>i. alloc_law (env i)" and set_env: "pci_env_law set_env"
    and bes: "ctor_pci bes = pcie_backend_pci os"
  shows "\<exists>g' w'. enumeratePciDevice qt clock bes True env set_env ''pci'' device scenario w g = Inr (g', w') \<and>
           g_rows g' = map (\<lambda>(i, a). enum_row qt (clock i) a (field (config_of D w) (unat a) 4))
                         (enumerate 0 enumAddrs) \<and>
           g_total g' = 8 \<and> g_current g' = Some 0 \<and>
           config_of D w' = config_of D w \<and> fds_of D w' = fds_of D w"
proof -
  let ?w = "enum_environment qt set_env ''pci'' device scenario w"
  have w: "at_device D ?w" "config_of D ?w = config_of D w" "fds_of D ?w = fds_of D w"
    using up path enum_environment_pci [OF set_env]
    by (simp_all add: at_device_def config_of_def fds_of_def)
  let ?c = "fresh_ctx\<lparr>backend := Some (pci_ops os)\<rparr> :: ('a pci_world, unit) pcie_ctx"
  have opened: "pcie_open bes True (Some ''pci'') ?w = Inr (Some ?c, ?w)"
    using bes by (simp add: pcie_open_def select_backend_def pcie_backend_pci_def deref_def)
  obtain i w1 where info: "pci_device_info os (Some device_info_zero) ?w = Inr (0, Some i, w1)"
      "at_device D w1" "config_of D w1 = config_of D w" "fds_of D w1 = fds_of D w"
    using pci_device_info_device [OF dev w(1), of device_info_zero] w(2,3) big by auto
  obtain rc l w2 where link: "pci_link_status os (Some link_status_zero) w1 = Inr (rc, Some l, w2)"
      "at_device D w2" "config_of D w2 = config_of D w" "fds_of D w2 = fds_of D w"
    using pci_link_status_device [OF dev info(2), of link_status_zero] big info(3,4) by auto
  have ok: "ctx_ok (pci_ops os) ?c" by (rule ctx_ok_fresh)
  have e: "\<And>i. alloc_law (env i)" using env by simp
  have len: "32 \<le> length (config_of D w)" using big by simp
  obtain c' w3 where loop: "enum_loop qt clock env 0 enumAddrs ?c w2 (clear_rows g) =
      Inr (None, c', w3, insert_rows (map (\<lambda>(j, a). enum_row qt (clock j) a
               (field (config_of D w) (unat a) 4)) (enumerate 0 enumAddrs)) (clear_rows g))" "ctx_ok (pci_ops os) c'"
      "config_of D w3 = config_of D w" "fds_of D w3 = fds_of D w"
    using enum_loop_pci [where env = env and qt = qt and clock = clock and i = 0 and g = "clear_rows g",
        OF dev e link(2,3) len ok order_refl] link(4) by auto
  have close: "pcie_close (Some c') w3 = Inr w3"
    using loop(2) by (simp add: pcie_close_def ctx_ok_def deref_def pci_close_def)
  show ?thesis
    using info link loop close
    by (simp add: enumeratePciDevice_def opened pcie_get_device_info_def pcie_get_link_status_def
        deref_def enum_done_fields) (simp add: enumAddrs_def)
qed

definition set_pci_env :: "'s pci_world set_env" where
  "set_pci_env v s w = (if v = ''PCIE_PCI_DEVICE'' then w\<lparr>pw_device := s\<rparr> else w)"

theorem gui_enumerates_pci_device_witness:
  "\<exists>g' w'. enumeratePciDevice simple_qt id image_backends True
              (\<lambda>i. \<lparr>tv_sec = 1, tv_nsec = 0, realloc_ok = \<lambda>n. False\<rparr>) set_pci_env ''pci'' '' 0000:00:03.0 '' []
              ((image_world sample_config)\<lparr>pw_device := Some ''0000:99:00.0''\<rparr>) empty_gui = Inr (g', w') \<and>
     g_rows g' = map (\<lambda>(i, a). enum_row simple_qt i a (field sample_config (unat a) 4))
                   (enumerate 0 enumAddrs) \<and>
     g_total g' = 8 \<and> g_current g' = Some 0 \<and> config_of image_dev w' = sample_config \<and> fds_of image_dev w' = {}"
proof -
  have dev: "cd_up image_dev (pw_os ((image_world sample_config)\<lparr>pw_device := Some ''0000:99:00.0''\<rparr>))"
    "config_of image_dev ((image_world sample_config)\<lparr>pw_device := Some ''0000:99:00.0''\<rparr>) = sample_config"
    "fds_of image_dev ((image_world sample_config)\<lparr>pw_device := Some ''0000:99:00.0''\<rparr>) = {}"
    by (simp_all add: image_dev_def image_world_def sample_config_def config_of_def fds_of_def)
  have "qt_trimmed simple_qt '' 0000:00:03.0 '' = PCI_DEVICE_ID"
    by (simp add: simple_qt_def c_trim_def c_isspace_def PCI_DEVICE_ID_def)
  then have "cd_path image_dev = pci_config_path
      (if qt_trimmed simple_qt '' 0000:00:03.0 '' = [] then PCI_DEVICE_ID else qt_trimmed simple_qt '' 0000:00:03.0 '')"
    by (simp add: image_dev_def image_path_def)
  from gui_enumerates_pci_device [OF image_device(1) dev(1) this, of
      "\<lambda>i. \<lparr>tv_sec = 1, tv_nsec = 0, realloc_ok = \<lambda>n. False\<rparr>" set_pci_env image_backends id "[]" empty_gui]
  show ?thesis unfolding dev(2,3)
    by (simp add: sample_world(3) alloc_law_def pci_env_law_def set_pci_env_def image_backends_def)
qed

end
