(* ===== verification/GuiScenario.thy ===== *)
theory GuiScenario
  imports GuiTrace DummyConfig
begin

text \<open>
  The performance dialog of the viewer, \<open>MainWindow::openAiPerfDialog\<close>,
  \<open>runAiPerformanceScenario\<close> and \<open>updateAiPerformanceReadout\<close> of \<open>gui/src/MainWindow.cpp\<close>:
  the form with its ranges and presets, the scenario and the environment given to the runner,
  and the numbers computed from a trace. The dialog's widgets and the runner are part of the
  window (\<open>GuiWindow\<close>).

  The drop rate is a real number and \<open>fixed\<close>, a parameter, prints one with a number of
  decimals, as \<open>QString::number(x, 'f', n)\<close> and \<open>arg(x, 0, 'f', n)\<close> do.
\<close>

section \<open>The form\<close>

record ai_form =
  rootPorts :: nat
  endpointPerRoot :: nat
  buses :: nat
  iterations :: nat
  latencyNs :: nat
  tps :: nat
  burstSize :: nat
  jitterNs :: nat
  dropRate :: real

text \<open>\<open>setValue\<close> of a box with a range.\<close>

definition set_value :: "'a :: linorder \<Rightarrow> 'a \<Rightarrow> 'a \<Rightarrow> 'a" where
  "set_value lo hi v = max lo (min hi v)"

text \<open>
  A box for real numbers keeps two decimals, the default of \<open>QDoubleSpinBox\<close>: \<open>setValue\<close> rounds
  first.
\<close>

definition two_decimals :: "real \<Rightarrow> real" where
  "two_decimals x = of_int \<lfloor>100 * x + 1 / 2\<rfloor> / 100"

definition fill_form :: "nat \<Rightarrow> nat \<Rightarrow> nat \<Rightarrow> nat \<Rightarrow> nat \<Rightarrow> nat \<Rightarrow> nat \<Rightarrow> nat \<Rightarrow> real \<Rightarrow> ai_form" where
  "fill_form rp ep bu it la tp bs ji dr =
     \<lparr>rootPorts = set_value 1 16 rp, endpointPerRoot = set_value 1 16 ep, buses = set_value 1 8 bu,
      iterations = set_value 1 1000 it, latencyNs = set_value 0 1000000 la,
      tps = set_value 1 100000000 tp, burstSize = set_value 1 64 bs,
      jitterNs = set_value 0 1000000 ji, dropRate = set_value 0 1 (two_decimals dr)\<rparr>"

definition form_ok :: "ai_form \<Rightarrow> bool" where
  "form_ok f \<longleftrightarrow>
     rootPorts f \<in> {1..16} \<and> endpointPerRoot f \<in> {1..16} \<and> buses f \<in> {1..8} \<and>
     iterations f \<in> {1..1000} \<and> latencyNs f \<le> 1000000 \<and> tps f \<in> {1..100000000} \<and>
     burstSize f \<in> {1..64} \<and> jitterNs f \<le> 1000000 \<and> 0 \<le> dropRate f \<and> dropRate f \<le> 1"

definition first_form :: ai_form where
  "first_form = fill_form 4 2 4 10 250 250000 16 50 0"

definition applyPreset :: "nat \<Rightarrow> ai_form \<Rightarrow> ai_form" where
  "applyPreset index f =
     (if index = 0 then fill_form 4 2 4 20 80 500000 32 25 0
      else if index = 1 then fill_form 8 2 4 20 80 500000 32 25 0.001
      else if index = 2 then fill_form 8 4 4 25 120 1000000 64 75 0.005
      else f)"

definition measure_profile :: "string \<Rightarrow> string" where
  "measure_profile preset =
     (if preset = ''AI golden topology'' then ''gen8x16''
      else if preset = ''Low latency mesh'' then ''gen7x8''
      else if preset = ''High throughput fabric'' then ''gen8x16''
      else ''gen8x16'')"

section \<open>The runner's environment\<close>

definition scenarioSpec :: "qt \<Rightarrow> (nat \<Rightarrow> real \<Rightarrow> string) \<Rightarrow> string \<Rightarrow> ai_form \<Rightarrow> string" where
  "scenarioSpec qt fixed profile f =
     qargs ''profile=%1,latency=%2ns,tps=%3,burst=%4,jitter=%5ns,drop_rate=%6''
       [profile, qt_number qt 0 10 (latencyNs f), qt_number qt 0 10 (tps f),
        qt_number qt 0 10 (burstSize f), qt_number qt 0 10 (jitterNs f), fixed 6 (dropRate f)]"

definition runner_environment ::
  "qt \<Rightarrow> (nat \<Rightarrow> real \<Rightarrow> string) \<Rightarrow> environ \<Rightarrow> string \<Rightarrow> ai_form \<Rightarrow> string \<Rightarrow> environ" where
  "runner_environment qt fixed system profile f traceLog =
     system(''PCIE_DUMMY_PROFILE'' \<mapsto> profile,
            ''PCIE_DUMMY_SCENARIO'' \<mapsto> scenarioSpec qt fixed profile f,
            ''RUN_TIMEOUT_SECONDS'' \<mapsto> ''5'',
            ''TRACE_LOG'' \<mapsto> traceLog)"

text \<open>The targets the window keeps while a measurement runs.\<close>

record ai_target =
  targetTps :: nat
  targetLatencyNs :: nat

section \<open>The measured numbers\<close>

record performance =
  durationSec :: real
  observedTps :: real
  observedLatencyUs :: real
  utilization :: real

definition measured :: "ai_target \<Rightarrow> trace_counts \<Rightarrow> performance" where
  "measured target n =
     (let duration = (if last_ts n > first_ts n then (last_ts n - first_ts n) / 1000 else 1);
          observed = (if duration > 0 then real (n_entries n) / duration else 0)
      in \<lparr>durationSec = duration, observedTps = observed,
          observedLatencyUs = (if targetLatencyNs target > 0
                               then real (targetLatencyNs target) / 1000 else 0),
          utilization = (if targetTps target > 0
                         then min 100 (observed / real (targetTps target) * 100) else 0)\<rparr>)"

definition updateAiPerformanceReadout ::
  "qt \<Rightarrow> (nat \<Rightarrow> real \<Rightarrow> string) \<Rightarrow> (string \<Rightarrow> real) \<Rightarrow> ai_target \<Rightarrow> gui \<Rightarrow> string" where
  "updateAiPerformanceReadout qt fixed to_double target g =
     (let n = summarizeModelRows to_double (g_rows g); p = measured target n
      in qargs ''Live performance: %1 entries | throughput=%2 ops/s | latency=%3 us | util=%4%''
           [qt_number qt 0 10 (n_entries n), fixed 2 (observedTps p), fixed 2 (observedLatencyUs p),
            fixed 1 (utilization p)])"

text \<open>
  The counts the final summary uses: those of the trace file if it exists and has entries,
  otherwise those of the table if it has rows.
\<close>

definition final_counts ::
  "qt \<Rightarrow> (string \<Rightarrow> real) \<Rightarrow> (nat \<Rightarrow> nat) \<Rightarrow> string option \<Rightarrow> gui \<Rightarrow> trace_counts" where
  "final_counts qt to_double clock file_text g =
     (let n = (if file_text \<noteq> None then summarizeTraceFile qt to_double clock file_text
               else counts_zero)
      in if n_entries n = 0 \<and> g_rows g \<noteq> [] then summarizeModelRows to_double (g_rows g) else n)"

text \<open>
  The end of the runner process, the slot connected to its \<open>finished\<close> signal: the flag
  \<open>suppressAiRunnerExitWarning\<close> and the window with its message boxes. \<open>f\<close> holds the
  values the slot captured. The trace file exists when its content is given.
\<close>

definition summary_text :: "qt \<Rightarrow> (nat \<Rightarrow> real \<Rightarrow> string) \<Rightarrow> string \<Rightarrow> ai_form \<Rightarrow> trace_counts \<Rightarrow> performance \<Rightarrow> string" where
  "summary_text qt fixed profile f n p =
     qargs (''Profile: %1'' @ [CHR 0x0A] @ ''Root ports: %2'' @ [CHR 0x0A] @
            ''Endpoints/root: %3'' @ [CHR 0x0A] @ ''Iterations: %4'' @ [CHR 0x0A] @
            ''Target latency: %5 ns'' @ [CHR 0x0A] @ ''Target token rate: %6 tps'' @ [CHR 0x0A] @
            ''Target burst: %7'' @ [CHR 0x0A] @ ''Target jitter: %8 ns'' @ [CHR 0x0A] @
            ''Drop rate: %9'' @ [CHR 0x0A, CHR 0x0A] @ ''Observed entries: %10'' @ [CHR 0x0A] @
            ''TX: %11'' @ [CHR 0x0A] @ ''RX: %12'' @ [CHR 0x0A] @
            ''Observed throughput: %13 ops/s'' @ [CHR 0x0A] @
            ''Observed latency: %14 us'' @ [CHR 0x0A] @ ''Utilization: %15%'')
       [profile, qt_number qt 0 10 (rootPorts f), qt_number qt 0 10 (endpointPerRoot f),
        qt_number qt 0 10 (iterations f), qt_number qt 0 10 (latencyNs f), qt_number qt 0 10 (tps f),
        qt_number qt 0 10 (burstSize f), qt_number qt 0 10 (jitterNs f), fixed 3 (dropRate f),
        qt_number qt 0 10 (n_entries n), qt_number qt 0 10 (n_tx n), qt_number qt 0 10 (n_rx n),
        fixed 2 (observedTps p), fixed 2 (observedLatencyUs p), fixed 1 (utilization p)]"

definition runner_finished ::
  "qt \<Rightarrow> (nat \<Rightarrow> real \<Rightarrow> string) \<Rightarrow> (string \<Rightarrow> real) \<Rightarrow> (nat \<Rightarrow> nat) \<Rightarrow> string option \<Rightarrow> string \<Rightarrow> ai_form \<Rightarrow>
   bool \<Rightarrow> bool \<Rightarrow> int \<Rightarrow> gui \<Rightarrow> bool \<times> gui" where
  "runner_finished qt fixed to_double clock file_text profile f suppress crashed exitCode g =
     (if suppress then (False, g)
      else if crashed \<or> exitCode \<noteq> 0
      then (False, show_box (Warning ''AI performance measurement failed''
        ''The Zephyr AI topology measure run exited with an error. Check the generated trace log and the runner output.'') g)
      else if file_text \<noteq> None \<or> g_rows g \<noteq> [] then
        let n = final_counts qt to_double clock file_text g;
            p = measured \<lparr>targetTps = tps f, targetLatencyNs = latencyNs f\<rparr> n
        in (False, show_box (Information ''AI PCIe performance summary'' (summary_text qt fixed profile f n p))
            (g\<lparr>g_status := qargs ''AI performance summary: profile=%1 | packets=%2 | throughput=%3 ops/s | latency=%4 us | util=%5%''
                            [profile, qt_number qt 0 10 (n_entries n), fixed 2 (observedTps p),
                             fixed 2 (observedLatencyUs p), fixed 1 (utilization p)]\<rparr>))
      else (False, g))"

section \<open>The form stays in range\<close>

lemma set_value_range: "lo \<le> hi \<Longrightarrow> lo \<le> set_value lo hi v \<and> set_value lo hi v \<le> hi"
  by (simp add: set_value_def)

lemma fill_form_ok: "form_ok (fill_form rp ep bu it la tp bs ji dr)"
  by (simp add: form_ok_def fill_form_def set_value_def)

lemma applyPreset_ok: "form_ok f \<Longrightarrow> form_ok (applyPreset i f)"
  by (simp add: applyPreset_def fill_form_ok)

text \<open>
  The drop rates the presets ask for, 0.001 and 0.005, cannot be shown: the form gets 0 and 0.01.
  One step of the box, 0.001, leaves any value it can show where it is.
\<close>

lemma preset_drop_rates:
  "dropRate (applyPreset 1 f) = 0" "dropRate (applyPreset 2 f) = 1 / 100"
  by (simp_all add: applyPreset_def fill_form_def set_value_def two_decimals_def)

lemma drop_rate_step:
  assumes "x = of_int k / 100" and "0 \<le> x" "x \<le> 1"
  shows "dropRate (fill_form rp ep bu it la tp bs ji (x + 0.001)) = x"
proof -
  have "\<lfloor>100 * (x + 0.001) + 1 / 2\<rfloor> = k" using assms(1) by (simp add: floor_eq_iff)
  with assms show ?thesis by (simp add: fill_form_def set_value_def two_decimals_def)
qed

section \<open>The scenario as the backend reads it\<close>

text \<open>What \<open>QString::number(x, 'f', 6)\<close> gives for a drop rate: digits and a point.\<close>

definition fixed_law :: "(nat \<Rightarrow> real \<Rightarrow> string) \<Rightarrow> bool" where
  "fixed_law fixed \<longleftrightarrow>
     (\<forall>x. 0 \<le> x \<and> x \<le> 1 \<longrightarrow>
        fixed 6 x \<noteq> [] \<and> length (fixed 6 x) \<le> 8 \<and>
        list_all (\<lambda>c. is_digit 10 c \<or> c = CHR ''.'') (fixed 6 x))"

definition spec_settings :: "string \<Rightarrow> ai_form \<Rightarrow> string \<Rightarrow> (string \<times> string) list" where
  "spec_settings profile f dr =
     [(''profile'', profile), (''latency'', print_dec (latencyNs f) @ ''ns''),
      (''tps'', print_dec (tps f)), (''burst'', print_dec (burstSize f)),
      (''jitter'', print_dec (jitterNs f) @ ''ns''), (''drop_rate'', dr)]"

lemma no_percent:
  "CHR ''%'' \<notin> set (print_dec n)"
  "list_all (\<lambda>c. is_digit 10 c \<or> c = CHR ''.'') s \<Longrightarrow> CHR ''%'' \<notin> set s"
  using print_dec_digits [of n]
  by (auto simp: list_all_iff is_digit_def digit_val_def)

lemma qargs_spec:
  assumes "CHR ''%'' \<notin> set a" "CHR ''%'' \<notin> set b" "CHR ''%'' \<notin> set c" "CHR ''%'' \<notin> set d"
    "CHR ''%'' \<notin> set e" "CHR ''%'' \<notin> set g"
  shows "qargs ''profile=%1,latency=%2ns,tps=%3,burst=%4,jitter=%5ns,drop_rate=%6'' [a, b, c, d, e, g] =
    ''profile='' @ a @ '',latency='' @ b @ ''ns,tps='' @ c @ '',burst='' @ d @ '',jitter='' @ e @
    ''ns,drop_rate='' @ g"
  using assms by (simp add: qargs_def qarg_def take_mark_def is_digit_def digit_val_def)

lemma clean_drop_char:
  "is_digit 10 c \<or> c = CHR ''.'' \<Longrightarrow> \<not> c_isspace c \<and> c \<noteq> CHR ''='' \<and> \<not> scenario_sep c"
  using clean_digits [of "[c]"] by (auto simp: clean_def c_isspace_def scenario_sep_def)

lemma clean_drop:
  "s \<noteq> [] \<Longrightarrow> list_all (\<lambda>c. is_digit 10 c \<or> c = CHR ''.'') s \<Longrightarrow> clean s"
  using clean_drop_char by (simp add: clean_def list_all_iff)

lemma clean_ns: "clean ''ns''"
  by (simp add: clean_def c_isspace_def scenario_sep_def)

lemma clean_spec:
  assumes "clean profile" and "clean dr"
  shows "list_all clean_setting (spec_settings profile f dr)"
proof -
  have "clean ''profile''" "clean ''latency''" "clean ''tps''" "clean ''burst''" "clean ''jitter''"
    "clean ''drop_rate''"
    by (simp_all add: clean_def c_isspace_def scenario_sep_def)
  with assms show ?thesis
    by (simp add: spec_settings_def clean_setting_def clean_append clean_ns)
qed

lemma print_dec_7: "n \<le> 1000000 \<Longrightarrow> length (print_dec n) \<le> 7"
  unfolding print_dec_def by (rule length_print_base) simp_all

lemma print_dec_9: "n \<le> 100000000 \<Longrightarrow> length (print_dec n) \<le> 9"
  unfolding print_dec_def by (rule length_print_base) simp_all

lemma print_dec_2: "n \<le> 64 \<Longrightarrow> length (print_dec n) \<le> 2"
  unfolding print_dec_def by (rule length_print_base) simp_all

lemma spec_length:
  assumes "form_ok f" and "length profile \<le> 7" and "length dr \<le> 8"
  shows "length (join_text (CHR '','') (map setting_text (spec_settings profile f dr))) \<le> 255"
proof -
  have "length (print_dec (latencyNs f)) \<le> 7" "length (print_dec (jitterNs f)) \<le> 7"
    "length (print_dec (tps f)) \<le> 9" "length (print_dec (burstSize f)) \<le> 2"
    using assms(1) by (auto simp: form_ok_def intro: print_dec_7 print_dec_9 print_dec_2)
  with assms(2,3) show ?thesis by (simp add: spec_settings_def setting_text_def)
qed

definition profile_link :: "string \<Rightarrow> nat \<times> nat" where
  "profile_link preset = (if preset = ''Low latency mesh'' then (7, 8) else (8, 16))"

lemma measure_profile_text:
  "measure_profile preset = profile_text True (fst (profile_link preset)) (snd (profile_link preset))"
proof -
  have "print_dec 7 = ''7''" "print_dec 8 = ''8''" "print_dec 16 = ''16''" by code_simp+
  then show ?thesis by (simp add: measure_profile_def profile_link_def profile_text_def)
qed

lemma scenarioSpec_join:
  assumes "qt_numbers qt" and "fixed_law fixed" and "form_ok f" and "CHR ''%'' \<notin> set profile"
  shows "scenarioSpec qt fixed profile f =
    join_text (CHR '','') (map setting_text (spec_settings profile f (fixed 6 (dropRate f))))"
proof -
  have num: "qt_number qt 0 10 n = print_dec n" for n
    using assms(1) by (simp add: qt_numbers_def zero_pad_def)
  have "list_all (\<lambda>c. is_digit 10 c \<or> c = CHR ''.'') (fixed 6 (dropRate f))"
    using assms(2,3) by (simp add: fixed_law_def form_ok_def)
  then show ?thesis
    using assms(4) no_percent
    by (simp add: scenarioSpec_def num qargs_spec spec_settings_def setting_text_def)
qed

lemma measure_profile_facts:
  "clean (measure_profile preset)" "CHR ''%'' \<notin> set (measure_profile preset)"
  "length (measure_profile preset) \<le> 7" "measure_profile preset \<noteq> []"
  by (simp add: measure_profile_text) (auto simp: measure_profile_def)

lemma measure_profile_link:
  "dummy_profile_from_name (measure_profile preset) =
     Some (word_of_nat (fst (profile_link preset)), word_of_nat (snd (profile_link preset)))"
  unfolding measure_profile_text by (rule dummy_profile_roundtrip) (simp_all add: profile_link_def)

lemma duration_ns:
  "n \<le> 1000000 \<Longrightarrow> dummy_parse_duration_ns (Some (print_dec n @ ''ns'')) d = word_of_nat n"
  using dummy_parse_duration_suffix [of n "CHR ''n''" 1 "''s''" d]
  by (simp add: ulong_max_def unit_ns_def c_tolower_def)

definition with_form :: "ai_form \<Rightarrow> string \<Rightarrow> dummy_config \<Rightarrow> dummy_config" where
  "with_form f dr cfg =
     cfg\<lparr>cfg_latency_ns := word_of_nat (latencyNs f), cfg_tokens_per_second := word_of_nat (tps f),
         cfg_burst_size := word_of_nat (burstSize f), cfg_jitter_ns := word_of_nat (jitterNs f),
         cfg_drop_rate := dr\<rparr>"

lemma fold_spec_settings:
  assumes "form_ok f"
  shows "fold (\<lambda>(k, v). scenario_setting k v) (spec_settings profile f dr) (cfg, None) =
    (with_form f dr cfg, Some profile)"
proof -
  have "latencyNs f \<le> 1000000" "jitterNs f \<le> 1000000" "tps f < 2 ^ 32" "burstSize f < 2 ^ 32"
    using assms by (auto simp: form_ok_def)
  then show ?thesis
    by (simp add: spec_settings_def scenario_setting_def duration_ns dummy_parse_u32_print_dec with_form_def)
qed

lemma scenarioSpec_applied:
  assumes "qt_numbers qt" and "fixed_law fixed" and "form_ok f"
  shows "scenarioSpec qt fixed (measure_profile preset) f \<noteq> [] \<and>
    dummy_apply_scenario_values (scenarioSpec qt fixed (measure_profile preset) f) cfg =
      use_profile (measure_profile preset) (with_form f (fixed 6 (dropRate f)) cfg)"
proof -
  let ?p = "measure_profile preset" and ?d = "fixed 6 (dropRate f)"
  have dr: "?d \<noteq> []" "length ?d \<le> 8" "list_all (\<lambda>c. is_digit 10 c \<or> c = CHR ''.'') ?d"
    using assms(2,3) by (auto simp: fixed_law_def form_ok_def)
  have "list_all clean_setting (spec_settings ?p f ?d)"
    by (rule clean_spec [OF measure_profile_facts(1) clean_drop [OF dr(1,3)]])
  moreover have "spec_settings ?p f ?d \<noteq> []" by (simp add: spec_settings_def)
  moreover have "length (join_text (CHR '','') (map setting_text (spec_settings ?p f ?d))) \<le> 255"
    by (rule spec_length [OF assms(3) measure_profile_facts(3) dr(2)])
  ultimately have applied: "dummy_apply_scenario_values
      (join_text (CHR '','') (map setting_text (spec_settings ?p f ?d))) cfg =
      use_profile ?p (with_form f ?d cfg)"
    by (simp add: scenario_settings fold_spec_settings [OF assms(3)] measure_profile_facts(4))
  show ?thesis
    unfolding scenarioSpec_join [OF assms measure_profile_facts(2)] applied
    by (simp add: spec_settings_def setting_text_def)
qed

text \<open>
  C19: The performance form reaches the dummy backend: in the environment the dialog gives its
  runner, whatever the system's own settings, the backend's run-time configuration has exactly
  the form's latency and jitter in nanoseconds, its token rate, its burst size and its drop
  rate, and the link of the preset's profile, for every value the form's boxes allow.
\<close>

theorem ai_form_reaches_backend:
  assumes "qt_numbers qt" and "fixed_law fixed" and "form_ok f"
  shows "let cfg = dummy_read_runtime_config
                     (runner_environment qt fixed system (measure_profile preset) f traceLog)
         in unat (cfg_latency_ns cfg) = latencyNs f \<and> unat (cfg_jitter_ns cfg) = jitterNs f \<and>
            unat (cfg_tokens_per_second cfg) = tps f \<and> unat (cfg_burst_size cfg) = burstSize f \<and>
            cfg_drop_rate cfg = fixed 6 (dropRate f) \<and>
            unat (cfg_neg_speed cfg) = fst (profile_link preset) \<and>
            unat (cfg_neg_width cfg) = snd (profile_link preset)"
proof -
  let ?p = "measure_profile preset" and ?l = "profile_link preset"
  let ?env = "runner_environment qt fixed system ?p f traceLog"
  have env: "?env ''PCIE_DUMMY_PROFILE'' = Some ?p"
    "?env ''PCIE_DUMMY_SCENARIO'' = Some (scenarioSpec qt fixed ?p f)"
    by (simp_all add: runner_environment_def)
  have range: "latencyNs f < 2 ^ 64" "jitterNs f < 2 ^ 64" "tps f < 2 ^ 32" "burstSize f < 2 ^ 32"
    "fst ?l < 2 ^ 32" "snd ?l < 2 ^ 32" "(word_of_nat (fst ?l) :: u32) \<noteq> 0" "(word_of_nat (snd ?l) :: u32) \<noteq> 0"
    using assms(3) by (auto simp: form_ok_def profile_link_def)
  then show ?thesis
    using scenarioSpec_applied [OF assms]
    by (simp add: dummy_read_runtime_config_def env measure_profile_facts(4)
        use_profile_some [OF measure_profile_link] with_form_def default_negotiated_def Let_def unat_of_nat)
qed

text \<open>A printer of fixed-point numbers.\<close>

definition simple_fixed :: "nat \<Rightarrow> real \<Rightarrow> string" where
  "simple_fixed n x =
     print_dec (nat \<lfloor>x\<rfloor>) @ ''.'' @ zero_pad n (print_dec (nat \<lfloor>(x - of_int \<lfloor>x\<rfloor>) * 10 ^ n\<rfloor>))"

lemma simple_fixed_law: "fixed_law simple_fixed"
proof -
  have below: "nat k < 10 ^ 6" if "k < 10 ^ 6" for k :: int
    using that by (cases "0 \<le> k") (simp_all add: nat_less_iff)
  have "simple_fixed 6 x \<noteq> [] \<and> length (simple_fixed 6 x) \<le> 8 \<and>
      list_all (\<lambda>c. is_digit 10 c \<or> c = CHR ''.'') (simple_fixed 6 x)" if "0 \<le> x" "x \<le> 1" for x
  proof -
    let ?i = "nat \<lfloor>x\<rfloor>" and ?f = "nat \<lfloor>(x - of_int \<lfloor>x\<rfloor>) * 10 ^ 6\<rfloor>"
    have "\<lfloor>x\<rfloor> \<le> 1" using that by (simp add: floor_le_iff)
    then have "?i < 10 ^ 1" by (simp del: floor_le_one)
    then have i: "length (print_dec ?i) \<le> 1"
      unfolding print_dec_def by (intro length_print_base) simp_all
    have "x - of_int \<lfloor>x\<rfloor> < 1" by linarith
    then have "\<lfloor>(x - of_int \<lfloor>x\<rfloor>) * 10 ^ 6\<rfloor> < 10 ^ 6" by (simp add: floor_less_iff)
    then have "?f < 10 ^ 6" by (rule below)
    then have f: "length (print_dec ?f) \<le> 6"
      unfolding print_dec_def by (rule length_print_base [rotated 2]) simp_all
    have "is_digit 10 (CHR ''0'')" by (simp add: is_digit_def digit_val_def)
    then show ?thesis
      using i f print_dec_digits [of ?i] print_dec_digits [of ?f]
      by (auto simp: simple_fixed_def zero_pad_def list_all_iff)
  qed
  then show ?thesis by (simp add: fixed_law_def)
qed

theorem ai_form_reaches_backend_witness:
  "let cfg = dummy_read_runtime_config
               (runner_environment simple_qt simple_fixed Map.empty (measure_profile ''Low latency mesh'')
                  (applyPreset 1 first_form) ''trace.log'')
   in unat (cfg_latency_ns cfg) = 80 \<and> unat (cfg_tokens_per_second cfg) = 500000 \<and>
      unat (cfg_neg_speed cfg) = 7 \<and> unat (cfg_neg_width cfg) = 8"
proof -
  have "form_ok (applyPreset 1 first_form)"
    by (simp add: applyPreset_ok first_form_def fill_form_ok)
  from ai_form_reaches_backend [OF simple_qt_numbers simple_fixed_law this, of Map.empty
      "''Low latency mesh''" "''trace.log''"]
  show ?thesis
    by (simp add: Let_def) (simp add: applyPreset_def fill_form_def set_value_def profile_link_def)
qed

end
