(* ===== verification/GuiRunner.thy ===== *)
theory GuiRunner
  imports GuiScenario
begin

text \<open>
  The life cycle of the viewer's runner process in \<open>gui/src/MainWindow.cpp\<close>: starting it in
  \<open>runAiPerformanceScenario\<close>, stopping the one before, the slot connected to \<open>finished\<close>, the
  poll that forgets an ended process, and the flag \<open>suppressAiRunnerExitWarning\<close> that silences
  the exit of a process the viewer stops itself. The process is running or not; stopping a running
  one waits for it and so runs its slot.
\<close>

section \<open>Operations\<close>

text \<open>\<open>r_process\<close>: the pointer \<open>liveTraceProcess\<close> is not \<open>NULL\<close>.\<close>

record runner =
  r_process :: bool
  r_running :: bool
  r_suppress :: bool

text \<open>The slot when the process ends: it reports unless the flag is set, and clears the flag.\<close>

definition runner_exit :: "runner \<Rightarrow> runner" where
  "runner_exit r = r\<lparr>r_running := False, r_suppress := False\<rparr>"

definition stopProcessAndDelete :: "runner \<Rightarrow> runner" where
  "stopProcessAndDelete r = (if r_process r \<and> r_running r then runner_exit r else r)"

text \<open>\<open>started\<close>: the new process could be started.\<close>

definition launch_runner :: "bool \<Rightarrow> runner \<Rightarrow> runner" where
  "launch_runner started r =
     (let r = (if r_process r
               then (stopProcessAndDelete (r\<lparr>r_suppress := True\<rparr>))\<lparr>r_process := False\<rparr>
               else r)
      in r\<lparr>r_process := True, r_running := started\<rparr>)"

text \<open>The end of a poll that could open the trace file.\<close>

definition poll_runner :: "runner \<Rightarrow> runner" where
  "poll_runner r = (if r_process r \<and> \<not> r_running r then r\<lparr>r_process := False\<rparr> else r)"

definition runner_init :: runner where
  "runner_init = \<lparr>r_process = False, r_running = False, r_suppress = False\<rparr>"

definition enumeration_failed_box :: message where
  "enumeration_failed_box = Warning ''Zephyr topology enumeration failed''
     ''The Zephyr AI topology runner exited with an error. Check the terminal output or the generated trace log.''"

text \<open>
  The end of a run started by the enumeration button, with the flag \<open>suppressAiRunnerExitWarning\<close>: the
  trace file is loaded if no poll has filled the table.
\<close>

definition enumeration_finished ::
  "qt \<Rightarrow> (nat \<Rightarrow> nat) \<Rightarrow> (string \<rightharpoonup> string) \<Rightarrow> string \<Rightarrow> bool \<Rightarrow> bool \<Rightarrow> int \<Rightarrow> gui \<Rightarrow> bool \<times> gui" where
  "enumeration_finished qt clock fs traceLog suppress crashed exitCode g =
     (if suppress then (False, g)
      else if crashed \<or> exitCode \<noteq> 0
      then (suppress, show_box enumeration_failed_box g)
      else if fs traceLog = None then (suppress, g)
      else let g = (if g_rows g = [] then loadTraceFile qt clock fs traceLog g else g)
           in (suppress, g\<lparr>g_status := qargs ''Loaded %1 trace entries from %2''
                                        [print_dec (length (g_rows g)), traceLog]\<rparr>))"

section \<open>Steps\<close>

text \<open>
  What can happen to the runner. An exit is labelled with whether the slot reports it, a launch
  with whether it finds an ended process that no poll has forgotten.
\<close>

datatype runner_event = Launched bool | Exited bool | Polled

inductive runner_step :: "runner \<Rightarrow> runner_event \<Rightarrow> runner \<Rightarrow> bool" where
  launch: "runner_step r (Launched (r_process r \<and> \<not> r_running r)) (launch_runner started r)"
| exit: "r_running r \<Longrightarrow> runner_step r (Exited (\<not> r_suppress r)) (runner_exit r)"
| poll: "runner_step r Polled (poll_runner r)"

inductive runner_run :: "runner \<Rightarrow> runner_event list \<Rightarrow> runner \<Rightarrow> bool" where
  none: "runner_run r [] r"
| more: "\<lbrakk>runner_step r e r'; runner_run r' es r''\<rbrakk> \<Longrightarrow> runner_run r (e # es) r''"

inductive_cases runner_stepE: "runner_step r e r'"

section \<open>When a result is lost\<close>

definition runner_ok :: "runner \<Rightarrow> bool" where
  "runner_ok r \<longleftrightarrow> \<not> r_suppress r \<and> (r_running r \<longrightarrow> r_process r)"

lemmas runner_defs = runner_exit_def stopProcessAndDelete_def launch_runner_def poll_runner_def
  runner_ok_def runner_init_def

lemma runner_step_ok:
  "\<lbrakk>runner_step r e r'; runner_ok r; e \<noteq> Launched True\<rbrakk> \<Longrightarrow> runner_ok r' \<and> e \<noteq> Exited False"
  by (erule runner_stepE) (auto simp: runner_defs Let_def split: if_splits)

text \<open>As long as every launch finds the process before forgotten or running, every exit is reported.\<close>

lemma runner_exits_reported:
  "\<lbrakk>runner_run r es r'; runner_ok r; Launched True \<notin> set es\<rbrakk> \<Longrightarrow> Exited False \<notin> set es"
  by (induction rule: runner_run.induct) (auto dest: runner_step_ok)

text \<open>Otherwise the flag is left set for the next process, whose result is silently dropped.\<close>

lemma runner_exit_lost:
  "\<exists>r. runner_run runner_init [Launched False, Exited True, Launched True, Exited False] r"
proof -
  let ?r1 = "launch_runner True runner_init"
  let ?r2 = "runner_exit ?r1"
  let ?r3 = "launch_runner True ?r2"
  have "runner_step runner_init (Launched False) ?r1"
    using runner_step.launch [of runner_init True] by (simp add: runner_init_def)
  moreover have "runner_step ?r1 (Exited True) ?r2"
    using runner_step.exit [of ?r1] by (simp add: runner_defs)
  moreover have "runner_step ?r2 (Launched True) ?r3"
    using runner_step.launch [of ?r2 True] by (simp add: runner_defs)
  moreover have "runner_step ?r3 (Exited False) (runner_exit ?r3)"
    using runner_step.exit [of ?r3] by (simp add: runner_defs)
  ultimately show ?thesis by (blast intro: runner_run.intros)
qed

end
