(* ===== verification/GuiStyle.thy ===== *)
theory GuiStyle
  imports Main
begin

text \<open>
  The two style sheets of \<open>MainWindow::applyTheme\<close> in \<open>gui/src/MainWindow.cpp\<close>, as rules: a
  selector and its declarations. The source holds each sheet as one text, which \<open>sheet_text\<close>
  writes.
\<close>

section \<open>The sheets\<close>

type_synonym style_rule = "string \<times> (string \<times> string) list"

definition quote :: "string \<Rightarrow> string" where
  "quote s = [CHR 0x22] @ s @ [CHR 0x22]"

definition dark_sheet :: "style_rule list" where
  "dark_sheet =
     [(''QMainWindow'',
        [(''background'', ''#0f172a''), (''color'', ''#e2e8f0'')]),
      (''QWidget'',
        [(''font-family'', quote ''Segoe UI'' @ '', '' @ quote ''Noto Sans'' @ '', sans-serif''),
         (''color'', ''#e2e8f0'')]),
      (''QVBoxLayout, QHBoxLayout'',
        [(''spacing'', ''8px'')]),
      (''QPushButton'',
        [(''background'', ''#1e293b''), (''border'', ''1px solid #334155''),
         (''border-radius'', ''6px''), (''padding'', ''6px 12px''), (''color'', ''#e2e8f0''),
         (''min-height'', ''28px'')]),
      (''QPushButton:hover'',
        [(''background'', ''#243244'')]),
      (''QPushButton#openButton'',
        [(''background'', ''#2563eb''), (''border'', ''1px solid #2563eb''),
         (''color'', ''#ffffff''), (''font-weight'', ''600'')]),
      (''QPushButton#themeButton'',
        [(''background'', ''#232f3e'')]),
      (''QComboBox, QLineEdit, QTextEdit'',
        [(''background'', ''#111827''), (''color'', ''#e2e8f0''),
         (''border'', ''1px solid #334155''), (''border-radius'', ''6px''),
         (''padding'', ''6px 10px''), (''selection-background-color'', ''#1d4ed8''),
         (''selection-color'', ''#ffffff'')]),
      (''QTableView'',
        [(''background'', ''#0b1220''), (''alternate-background-color'', ''#111827''),
         (''color'', ''#e2e8f0''), (''border'', ''1px solid #334155''),
         (''gridline-color'', ''#273548''), (''selection-background-color'', ''#1d4ed8''),
         (''selection-color'', ''#ffffff''), (''font-size'', ''12px'')]),
      (''QTableView::item'',
        [(''padding'', ''4px 6px''), (''border'', ''0px''), (''background'', ''#0b1220''),
         (''color'', ''#e2e8f0'')]),
      (''QTableView::item:alternate'',
        [(''background'', ''#111827'')]),
      (''QTableView::item:selected'',
        [(''background'', ''#1d4ed8''), (''color'', ''#ffffff''),
         (''border'', ''1px solid #60a5fa'')]),
      (''QHeaderView::section'',
        [(''background'', ''#172033''), (''color'', ''#e2e8f0''), (''padding'', ''8px 6px''),
         (''font-weight'', ''600''), (''border'', ''1px solid #334155'')]),
      (''QSplitter::handle'',
        [(''background'', ''#334155'')]),
      (''QTextEdit'',
        [(''background'', ''#0f172a''), (''border'', ''1px solid #334155''),
         (''border-radius'', ''6px''), (''padding'', ''8px'')]),
      (''QTreeWidget'',
        [(''background'', ''#0b1220''), (''alternate-background-color'', ''#111827''),
         (''color'', ''#e2e8f0''), (''border'', ''1px solid #334155''),
         (''border-radius'', ''6px''), (''selection-background-color'', ''#1d4ed8''),
         (''selection-color'', ''#ffffff'')]),
      (''QTreeWidget::item'',
        [(''color'', ''#e2e8f0''), (''background'', ''transparent''), (''border'', ''none''),
         (''padding'', ''4px 2px'')]),
      (''QTreeWidget::item:selected'',
        [(''background'', ''#1d4ed8''), (''color'', ''#ffffff''),
         (''border'', ''1px solid #60a5fa'')]),
      (''QLabel#statusLabel'',
        [(''background'', ''transparent''), (''color'', ''#94a3b8''), (''padding-top'', ''4px''),
         (''font-size'', ''12px'')]),
      (''QLabel#summaryCard'',
        [(''background'', ''#111827''), (''border'', ''1px solid #334155''),
         (''border-radius'', ''6px''), (''padding'', ''8px 10px''), (''min-height'', ''38px''),
         (''font-weight'', ''600''), (''color'', ''#e2e8f0'')])]"

definition light_sheet :: "style_rule list" where
  "light_sheet =
     [(''QMainWindow'',
        [(''background'', ''#f3f4f6''), (''color'', ''#1f2328'')]),
      (''QWidget'',
        [(''font-family'', quote ''Segoe UI'' @ '', '' @ quote ''Noto Sans'' @ '', sans-serif''),
         (''color'', ''#1f2328'')]),
      (''QVBoxLayout, QHBoxLayout'',
        [(''spacing'', ''8px'')]),
      (''QPushButton'',
        [(''background'', ''#ffffff''), (''border'', ''1px solid #d0d7de''),
         (''border-radius'', ''6px''), (''padding'', ''6px 12px''), (''color'', ''#1f2328''),
         (''min-height'', ''28px'')]),
      (''QPushButton:hover'',
        [(''background'', ''#f6f8fa''), (''border-color'', ''#b6c2cf'')]),
      (''QPushButton:pressed'',
        [(''background'', ''#eaeef2'')]),
      (''QPushButton#openButton'',
        [(''background'', ''#2f6feb''), (''border'', ''1px solid #2f6feb''),
         (''color'', ''#ffffff''), (''font-weight'', ''600'')]),
      (''QPushButton#themeButton'',
        [(''background'', ''#ffffff'')]),
      (''QComboBox, QLineEdit, QTextEdit'',
        [(''background'', ''#ffffff''), (''color'', ''#1f2328''),
         (''border'', ''1px solid #d0d7de''), (''border-radius'', ''6px''),
         (''padding'', ''6px 10px''), (''selection-background-color'', ''#cfe2ff''),
         (''selection-color'', ''#1f2328'')]),
      (''QTableView'',
        [(''background'', ''#fbfbfc''), (''alternate-background-color'', ''#f2f5f8''),
         (''color'', ''#1f2328''), (''border'', ''1px solid #d0d7de''),
         (''gridline-color'', ''#dfe3e8''), (''selection-background-color'', ''#dfeaff''),
         (''selection-color'', ''#1f2328''), (''font-size'', ''12px'')]),
      (''QTableView::item'',
        [(''padding'', ''4px 6px''), (''border'', ''0px''), (''background'', ''#fbfbfc''),
         (''color'', ''#1f2328'')]),
      (''QTableView::item:alternate'',
        [(''background'', ''#f2f5f8'')]),
      (''QTableView::item:selected'',
        [(''background'', ''#dfeaff''), (''color'', ''#1f2328''),
         (''border'', ''1px solid #93c5fd'')]),
      (''QHeaderView::section'',
        [(''background'', ''#e9edf3''), (''color'', ''#1f2328''), (''padding'', ''8px 6px''),
         (''font-weight'', ''600''), (''border'', ''1px solid #d0d7de'')]),
      (''QLabel'',
        [(''color'', ''#1f2328'')]),
      (''QSplitter::handle'',
        [(''background'', ''#d0d7de'')]),
      (''QTextEdit'',
        [(''background'', ''#f8fafc''), (''border'', ''1px solid #d0d7de''),
         (''border-radius'', ''6px''), (''padding'', ''8px'')]),
      (''QTreeWidget'',
        [(''background'', ''#f8fafc''), (''alternate-background-color'', ''#f1f5f9''),
         (''color'', ''#1f2328''), (''border'', ''1px solid #d0d7de''),
         (''border-radius'', ''6px''), (''selection-background-color'', ''#dfeaff''),
         (''selection-color'', ''#1f2328'')]),
      (''QTreeWidget::item'',
        [(''color'', ''#1f2328''), (''background'', ''transparent''), (''border'', ''none''),
         (''padding'', ''4px 2px'')]),
      (''QTreeWidget::item:selected'',
        [(''background'', ''#dfeaff''), (''color'', ''#1f2328'')]),
      (''QLabel#statusLabel'',
        [(''background'', ''transparent''), (''color'', ''#4b5563''), (''padding-top'', ''4px''),
         (''font-size'', ''12px'')]),
      (''QLabel#summaryCard'',
        [(''background'', ''#ffffff''), (''border'', ''1px solid #d0d7de''),
         (''border-radius'', ''6px''), (''padding'', ''8px 10px''), (''min-height'', ''38px''),
         (''font-weight'', ''600''), (''color'', ''#1f2328'')])]"

definition rule_text :: "style_rule \<Rightarrow> string" where
  "rule_text r =
     replicate 12 (CHR '' '') @ fst r @ '' {'' @ [CHR 0x0A] @
     concat (map (\<lambda>(p, v). replicate 16 (CHR '' '') @ p @ '': '' @ v @ '';'' @ [CHR 0x0A]) (snd r)) @
     replicate 12 (CHR '' '') @ ''}'' @ [CHR 0x0A]"

definition sheet_text :: "style_rule list \<Rightarrow> string" where
  "sheet_text rs = [CHR 0x0A] @ concat (map rule_text rs) @ replicate 8 (CHR '' '')"

definition theme_text :: "bool \<Rightarrow> string" where
  "theme_text darkMode = (if darkMode then ''Light'' else ''Dark'')"

text \<open>The style sheet and the text of the theme button.\<close>

definition applyTheme :: "bool \<Rightarrow> string \<times> string" where
  "applyTheme darkMode =
     (sheet_text (if darkMode then dark_sheet else light_sheet), theme_text darkMode)"

section \<open>The sheets fit each other\<close>

text \<open>The text of a rule can be told from what it is drawn on.\<close>

definition readable :: "style_rule \<Rightarrow> bool" where
  "readable r \<longleftrightarrow>
     (case (map_of (snd r) ''color'', map_of (snd r) ''background'') of
        (Some c, Some b) \<Rightarrow> c \<noteq> b | _ \<Rightarrow> True) \<and>
     (case (map_of (snd r) ''selection-color'', map_of (snd r) ''selection-background-color'') of
        (Some c, Some b) \<Rightarrow> c \<noteq> b | _ \<Rightarrow> True)"

lemma sheets_readable: "list_all readable dark_sheet" "list_all readable light_sheet"
  by code_simp+

text \<open>No rule gives a property twice, and no selector is given twice.\<close>

lemma sheets_distinct:
  "list_all (\<lambda>r. distinct (map fst (snd r))) dark_sheet" "list_all (\<lambda>r. distinct (map fst (snd r))) light_sheet"
  "distinct (map fst dark_sheet)" "distinct (map fst light_sheet)"
  by code_simp+

text \<open>
  The dark sheet styles nothing the light one leaves alone. Two selectors have no dark rule: a
  pressed button looks like one that is not, and labels get their colour from \<open>QWidget\<close>.
\<close>

lemma sheets_selectors:
  "filter (\<lambda>s. s \<notin> set (map fst light_sheet)) (map fst dark_sheet) = []"
  "filter (\<lambda>s. s \<notin> set (map fst dark_sheet)) (map fst light_sheet) = [''QPushButton:pressed'', ''QLabel'']"
  by code_simp+

end
