(* ===== verification/GuiWindow.thy ===== *)
theory GuiWindow
  imports GuiEnumerate GuiRunner GuiStyle
begin

text \<open>
  The viewer as a program that reacts to events: the window the constructor of
  \<open>gui/src/MainWindow.cpp\<close> builds, and one handler for each signal it connects. A handler is the
  function or lambda of the source over the state of the whole window; what several handlers share
  is in the theories before. The events that can occur in a state are those its widgets offer: a
  combo box gives one of its items, a hidden row cannot be clicked, the timer fires while it runs
  and a process ends while it runs.

  Qt and the file system are parameters. The message boxes shown are part of the table's state;
  one is almost always the last thing a handler does, and what happens while it is open counts as
  happening after the handler.
\<close>

section \<open>The state\<close>

text \<open>
  Undefined behaviour of the window: a member pointer read before it is set, an access to an
  object that no longer exists, and undefined behaviour in the library.
\<close>

datatype window_ub = Uninitialised | Dangling | Library c_ub

type_synonym 'a w_res = "window_ub + 'a"

text \<open>The slot connected to the runner's \<open>finished\<close> signal, with what it captured.\<close>

datatype runner_slot = EnumerationSlot string | MeasureSlot string string ai_form

record ai_dialog =
  dlg_preset :: nat
  dlg_form :: ai_form

text \<open>\<open>pcieLsDialog\<close>: \<open>NULL\<close>, a window with its text, or a window Qt has deleted on closing.\<close>

datatype ls_dialog = LsNone | LsShown string | LsDeleted

text \<open>
  \<open>w_readout\<close> is \<open>None\<close> while \<open>aiPerformanceReadout\<close> has no value; \<open>w_dialog\<close> is
  \<open>aiEmulatorDialog\<close>; \<open>w_command\<close> is the working directory and the command of the runner,
  \<open>w_captures\<close> the log file and the command of each running \<open>pcie ls\<close> capture and \<open>w_kills\<close> the
  argument lists of the \<open>kill\<close> commands started.
\<close>

record window =
  w_gui :: gui
  w_backend :: string
  w_device :: string
  w_scenario :: string
  w_style :: string
  w_theme_button :: string
  w_running :: bool
  w_suppress :: bool
  w_command :: "string \<times> string"
  w_slot :: "runner_slot option"
  w_target :: ai_target
  w_readout :: "string option"
  w_dialog :: "ai_dialog option"
  w_pcie_ls :: ls_dialog
  w_captures :: "(string \<times> string) list"
  w_closed :: bool
  w_kills :: "string list list"

section \<open>Qt and the moment an event occurs\<close>

record qt_paths =
  p_current :: string
  p_app_dir :: string
  p_clean :: "string \<Rightarrow> string"
  p_absolute :: "string \<Rightarrow> string"
  p_file :: "string \<Rightarrow> string \<Rightarrow> string"

record 'b platform =
  pf_qt :: qt
  pf_fixed :: "nat \<Rightarrow> real \<Rightarrow> string"
  pf_to_double :: "string \<Rightarrow> real"
  pf_to_int :: "string \<Rightarrow> int option"
  pf_paths :: qt_paths
  pf_backends :: "'b backends"
  pf_set_env :: "'b set_env"

text \<open>The files, the clock and the allocator when an event is handled.\<close>

record moment =
  m_files :: "string \<rightharpoonup> string"
  m_clock :: "nat \<Rightarrow> nat"
  m_env :: "nat \<Rightarrow> rec_env"
  m_calloc :: bool

definition file_exists :: "moment \<Rightarrow> string \<Rightarrow> bool" where
  "file_exists m path \<longleftrightarrow> m_files m path \<noteq> None"

section \<open>Construction\<close>

definition type_items :: "string list" where
  "type_items = [''All types'', ''CfgRd'', ''CfgWr'', ''MemRd'', ''MemWr'', ''Cpl'']"

definition direction_items :: "string list" where
  "direction_items = [''All directions'', ''TX'', ''RX'']"

definition backend_items :: "string list" where
  "backend_items = [''pci'', ''golden'', ''dummy'', ''fpga'', ''armds'', ''xgig'']"

definition preset_items :: "string list" where
  "preset_items = [''AI golden topology'', ''Low latency mesh'', ''High throughput fabric'', ''Custom'']"

definition initial_gui :: gui where
  "initial_gui =
     \<lparr>g_rows = [], g_hidden = [], g_colors = [], g_dark = False, g_type_filter = hd type_items,
      g_direction_filter = hd direction_items, g_search = [], g_total = 0, g_tx = 0, g_rx = 0,
      g_visible = 0, g_current = None, g_status = ''No trace loaded'', g_boxes = [], g_live_path = [],
      g_live_seen = [], g_live_process = False, g_live_timer = False\<rparr>"

definition initial_window :: window where
  "initial_window =
     \<lparr>w_gui = initial_gui, w_backend = ''golden'', w_device = ''0000:00:03.0'',
      w_scenario = ''gen8x16,latency=250ns,tps=250000,burst=16,jitter=50ns'',
      w_style = fst (applyTheme False), w_theme_button = snd (applyTheme False),
      w_running = False, w_suppress = False,
      w_command = ([], []), w_slot = None, w_target = \<lparr>targetTps = 0, targetLatencyNs = 0\<rparr>, w_readout = None,
      w_dialog = None, w_pcie_ls = LsNone, w_captures = [], w_closed = False, w_kills = []\<rparr>"

text \<open>\<open>main\<close>: a trace named on the command line is loaded before the window is shown.\<close>

definition start_window :: "'b platform \<Rightarrow> moment \<Rightarrow> string option \<Rightarrow> window" where
  "start_window p m arg =
     (case arg of
        None \<Rightarrow> initial_window
      | Some path \<Rightarrow>
          initial_window\<lparr>w_gui := loadTraceFile (pf_qt p) (m_clock m) (m_files m) path initial_gui\<rparr>)"

section \<open>Finding the script\<close>

definition candidateScripts :: "qt_paths \<Rightarrow> string list" where
  "candidateScripts q =
     [p_clean q (p_current q @ ''/scripts/run_zephyr_ai_topology.sh''),
      p_clean q (p_app_dir q @ ''/../scripts/run_zephyr_ai_topology.sh''),
      p_clean q (p_app_dir q @ ''/../../scripts/run_zephyr_ai_topology.sh''),
      p_clean q (p_app_dir q @ ''/../../../scripts/run_zephyr_ai_topology.sh'')]"

definition resolvedScript :: "qt_paths \<Rightarrow> moment \<Rightarrow> string" where
  "resolvedScript q m =
     (case find (file_exists m) (candidateScripts q) of None \<Rightarrow> [] | Some s \<Rightarrow> s)"

definition workDir :: "qt_paths \<Rightarrow> string \<Rightarrow> string" where
  "workDir q script = p_absolute q script @ ''/..''"

definition script_log :: "qt_paths \<Rightarrow> string \<Rightarrow> string \<Rightarrow> string" where
  "script_log q script name = p_file q (workDir q script) name"

text \<open>The commands given to \<open>bash -lc\<close>.\<close>

definition perfCommand :: "qt \<Rightarrow> (nat \<Rightarrow> real \<Rightarrow> string) \<Rightarrow> string \<Rightarrow> string \<Rightarrow> ai_form \<Rightarrow> string \<Rightarrow> string" where
  "perfCommand qt fixed traceLog profile f script =
     qargs (''TRACE_LOG='' @ [CHR 0x27] @ ''%1'' @ [CHR 0x27] @ '' RUN_TIMEOUT_SECONDS=5 PCIE_DUMMY_PROFILE='' @
            [CHR 0x27] @ ''%2'' @ [CHR 0x27] @ '' PCIE_DUMMY_SCENARIO='' @ [CHR 0x27] @ ''%3'' @
            [CHR 0x27, CHR '' '', CHR 0x27] @ ''%4'' @ [CHR 0x27])
       [traceLog, profile, scenarioSpec qt fixed profile f, script]"

definition captureCommand :: "string \<Rightarrow> string \<Rightarrow> string" where
  "captureCommand pcieLsLog script =
     qargs (''PCIE_LS_CAPTURE=1 PCIE_LS_LOG='' @ [CHR 0x27] @ ''%1'' @ [CHR 0x27] @
            '' RUN_TIMEOUT_SECONDS=15 '' @ [CHR 0x27] @ ''%2'' @ [CHR 0x27])
       [pcieLsLog, script]"

section \<open>Handlers\<close>

definition window_box :: "message \<Rightarrow> window \<Rightarrow> window" where
  "window_box box w = w\<lparr>w_gui := show_box box (w_gui w)\<rparr>"

text \<open>Boxes of the tool bar: a signal is sent when the text changes.\<close>

definition set_type_filter :: "qt \<Rightarrow> string \<Rightarrow> window \<Rightarrow> window" where
  "set_type_filter qt t w =
     (if g_type_filter (w_gui w) = t then w
      else w\<lparr>w_gui := applyFilter qt ((w_gui w)\<lparr>g_type_filter := t\<rparr>)\<rparr>)"

definition set_direction_filter :: "qt \<Rightarrow> string \<Rightarrow> window \<Rightarrow> window" where
  "set_direction_filter qt d w =
     (if g_direction_filter (w_gui w) = d then w
      else w\<lparr>w_gui := applyFilter qt ((w_gui w)\<lparr>g_direction_filter := d\<rparr>)\<rparr>)"

definition set_search :: "qt \<Rightarrow> string \<Rightarrow> window \<Rightarrow> window" where
  "set_search qt s w =
     (if g_search (w_gui w) = s then w
      else w\<lparr>w_gui := applyFilter qt ((w_gui w)\<lparr>g_search := s\<rparr>)\<rparr>)"

definition toggle_theme :: "window \<Rightarrow> window" where
  "toggle_theme w =
     (let dark = (\<not> g_dark (w_gui w))
      in w\<lparr>w_gui := (w_gui w)\<lparr>g_dark := dark\<rparr>, w_style := fst (applyTheme dark), w_theme_button := snd (applyTheme dark)\<rparr>)"

text \<open>\<open>openTrace\<close> with the path of the file dialog, empty when it is cancelled.\<close>

definition openTrace :: "'b platform \<Rightarrow> moment \<Rightarrow> string \<Rightarrow> window \<Rightarrow> window" where
  "openTrace p m path w =
     (if path = [] then w
      else w\<lparr>w_gui := loadTraceFile (pf_qt p) (m_clock m) (m_files m) path (w_gui w)\<rparr>)"

text \<open>The label of the performance dialog, written through the pointer.\<close>

definition update_readout :: "'b platform \<Rightarrow> window \<Rightarrow> window w_res" where
  "update_readout p w =
     (case w_readout w of
        None \<Rightarrow> Inl Uninitialised
      | Some _ \<Rightarrow>
          Inr (w\<lparr>w_readout := Some (updateAiPerformanceReadout (pf_qt p) (pf_fixed p) (pf_to_double p)
                                     (w_target w) (w_gui w))\<rparr>))"

text \<open>A tick of the live-trace timer; a poll that adds rows or ends the trace writes the label.\<close>

definition poll_window :: "'b platform \<Rightarrow> moment \<Rightarrow> window \<Rightarrow> window w_res" where
  "poll_window p m w =
     (let g = pollLiveTrace (pf_qt p) (m_clock m) (m_files m) (w_running w) (w_gui w);
          w' = w\<lparr>w_gui := g\<rparr>
      in if length (g_rows g) \<noteq> length (g_rows (w_gui w)) \<or> g_live_process g \<noteq> g_live_process (w_gui w)
         then update_readout p w' else Inr w')"

text \<open>
  A live trace is started around a new runner process: table, path and timer by
  \<open>startLiveTrace\<close>, the process before and the flag by \<open>launch_runner\<close>.
\<close>

definition runner_of :: "window \<Rightarrow> runner" where
  "runner_of w = \<lparr>r_process = g_live_process (w_gui w), r_running = w_running w, r_suppress = w_suppress w\<rparr>"

definition start_runner :: "bool \<Rightarrow> string \<Rightarrow> bool \<Rightarrow> string \<times> string \<Rightarrow> runner_slot \<Rightarrow> window \<Rightarrow> window" where
  "start_runner enumeration traceLog started cmd slot w =
     (let r = launch_runner started (runner_of w)
      in w\<lparr>w_gui := (startLiveTrace enumeration traceLog (w_gui w))\<lparr>g_live_process := r_process r\<rparr>,
           w_running := r_running r, w_suppress := r_suppress r, w_command := cmd, w_slot := Some slot\<rparr>)"

definition trace_log_name :: string where
  "trace_log_name = ''zephyr_ai_topology_trace.log''"

text \<open>\<open>Enumerate complete flow\<close>. \<open>started\<close>: the process could be started.\<close>

definition launch_enumeration :: "'b platform \<Rightarrow> moment \<Rightarrow> bool \<Rightarrow> window \<Rightarrow> window" where
  "launch_enumeration p m started w =
     (let q = pf_paths p; script = resolvedScript q m in
      if script = []
      then window_box (Warning ''Zephyr topology runner missing''
        ''Unable to locate scripts/run_zephyr_ai_topology.sh. Please verify the script exists in the repository.'') w
      else
        let traceLog = script_log q script trace_log_name;
            w = w\<lparr>w_gui := (w_gui w)\<lparr>g_status := ''Launching Zephyr AI topology enumeration...''\<rparr>\<rparr>
        in window_box (Information ''AI PCIe enumeration started''
             ''The Zephyr AI topology runner is running in the background and the live trace is being appended to pcieshark in real time.'')
             (start_runner True traceLog started (workDir q script, script) (EnumerationSlot traceLog) w))"

text \<open>\<open>Measure performance\<close>, with the values of the dialog.\<close>

definition launch_measurement :: "'b platform \<Rightarrow> moment \<Rightarrow> bool \<Rightarrow> ai_dialog \<Rightarrow> window \<Rightarrow> window w_res" where
  "launch_measurement p m started dlg w =
     (let q = pf_paths p; script = resolvedScript q m; f = dlg_form dlg;
          profile = measure_profile (preset_items ! dlg_preset dlg) in
      if script = []
      then Inr (window_box (Warning ''AI performance measurement failed''
        ''Unable to locate scripts/run_zephyr_ai_topology.sh. The AI performance path requires the real Zephyr topology runner.'') w)
      else
        let traceLog = script_log q script trace_log_name;
            w = w\<lparr>w_target := \<lparr>targetTps = tps f, targetLatencyNs = latencyNs f\<rparr>\<rparr>;
            cmd = (workDir q script, perfCommand (pf_qt p) (pf_fixed p) traceLog profile f script)
        in case update_readout p (start_runner False traceLog started cmd (MeasureSlot traceLog profile f) w) of
             Inl e \<Rightarrow> Inl e
           | Inr w \<Rightarrow>
               Inr (if started
                    then window_box (Information ''AI PCIe topology measurement started''
                           (qarg ''A fresh Zephyr AI topology session is running for a bounded performance window. pcieshark is reading %1 and updating the live counters until the run completes.''
                              traceLog))
                         (w\<lparr>w_gui := (w_gui w)\<lparr>g_status := ''Running AI topology performance measurement...''\<rparr>\<rparr>)
                    else window_box (Warning ''AI performance measurement failed''
                           ''The Zephyr AI topology runner could not be started.'') w))"

text \<open>The runner has ended: the slot connected to it.\<close>

definition runner_ended :: "'b platform \<Rightarrow> moment \<Rightarrow> bool \<Rightarrow> int \<Rightarrow> window \<Rightarrow> window w_res" where
  "runner_ended p m crashed exitCode w =
     (let w = w\<lparr>w_running := False\<rparr>; g = w_gui w in
      case w_slot w of
        None \<Rightarrow> Inr w
      | Some (EnumerationSlot traceLog) \<Rightarrow>
          (case enumeration_finished (pf_qt p) (m_clock m) (m_files m) traceLog (w_suppress w) crashed exitCode g of
             (s, g') \<Rightarrow> Inr (w\<lparr>w_gui := g', w_suppress := s\<rparr>))
      | Some (MeasureSlot traceLog profile f) \<Rightarrow>
          (case runner_finished (pf_qt p) (pf_fixed p) (pf_to_double p) (m_clock m) (m_files m traceLog)
                  profile f (w_suppress w) crashed exitCode g of
             (s, g') \<Rightarrow>
               let w' = w\<lparr>w_gui := g', w_suppress := s\<rparr> in
               if \<not> w_suppress w \<and> \<not> crashed \<and> exitCode = 0 \<and> (file_exists m traceLog \<or> g_rows g \<noteq> [])
               then update_readout p w' else Inr w'))"

text \<open>\<open>openAiPerfDialog\<close>: an existing dialog is only raised.\<close>

definition openAiPerfDialog :: "window \<Rightarrow> window" where
  "openAiPerfDialog w =
     (case w_dialog w of
        Some _ \<Rightarrow> w
      | None \<Rightarrow> w\<lparr>w_readout := Some ''Live performance: waiting for trace...'',
                  w_dialog := Some \<lparr>dlg_preset = 0, dlg_form = applyPreset 0 first_form\<rparr>\<rparr>)"

text \<open>The button \<open>Close\<close> and the slot of \<open>finished\<close>.\<close>

definition closeAiDialog :: "window \<Rightarrow> window" where
  "closeAiDialog w = w\<lparr>w_dialog := None\<rparr>"

text \<open>
  A new preset: \<open>applyPreset\<close> then reads the local variables of \<open>openAiPerfDialog\<close>, which
  returned long ago, unless the index selects none of its cases.
\<close>

definition choose_preset :: "nat \<Rightarrow> ai_dialog \<Rightarrow> window \<Rightarrow> window w_res" where
  "choose_preset i dlg w =
     (if i = dlg_preset dlg then Inr w
      else if i \<le> 2 then Inl Dangling
      else Inr (w\<lparr>w_dialog := Some (dlg\<lparr>dlg_preset := i\<rparr>)\<rparr>))"

text \<open>The boxes of the form keep a value within their ranges.\<close>

definition edit_form :: "ai_form \<Rightarrow> ai_dialog \<Rightarrow> window \<Rightarrow> window" where
  "edit_form f dlg w =
     w\<lparr>w_dialog := Some (dlg\<lparr>dlg_form := fill_form (rootPorts f) (endpointPerRoot f) (buses f)
         (iterations f) (latencyNs f) (tps f) (burstSize f) (jitterNs f) (dropRate f)\<rparr>)\<rparr>"

text \<open>\<open>showPcieLsWindow\<close>: the window before, if the pointer is set, is closed and deleted.\<close>

definition showPcieLsWindow :: "'b platform \<Rightarrow> moment \<Rightarrow> string \<Rightarrow> window \<Rightarrow> window w_res" where
  "showPcieLsWindow p m path w =
     (if w_pcie_ls w = LsDeleted then Inl Dangling
      else Inr (w\<lparr>w_pcie_ls := LsShown (pcie_ls_text (pf_qt p) path (m_files m path))\<rparr>))"

text \<open>\<open>Show pcie ls\<close>: an existing capture is shown, otherwise one is started.\<close>

definition pcie_ls_button :: "'b platform \<Rightarrow> moment \<Rightarrow> window \<Rightarrow> window w_res" where
  "pcie_ls_button p m w =
     (let q = pf_paths p; script = resolvedScript q m; pcieLsLog = script_log q script ''zephyr_pcie_ls.log'' in
      if script = []
      then Inr (window_box (Warning ''Zephyr runner missing'' ''Unable to locate scripts/run_zephyr_ai_topology.sh.'') w)
      else if file_exists m pcieLsLog then showPcieLsWindow p m pcieLsLog w
      else Inr (w\<lparr>w_captures := (pcieLsLog, captureCommand pcieLsLog script) # w_captures w,
                  w_gui := (w_gui w)\<lparr>g_status := ''Capturing guest pcie ls output in a separate log...''\<rparr>\<rparr>))"

definition capture_ended ::
  "'b platform \<Rightarrow> moment \<Rightarrow> string \<times> string \<Rightarrow> bool \<Rightarrow> int \<Rightarrow> window \<Rightarrow> window w_res" where
  "capture_ended p m cap crashed exitCode w =
     (let w = w\<lparr>w_captures := remove1 cap (w_captures w)\<rparr> in
      if crashed \<or> exitCode \<noteq> 0
      then Inr (window_box (Warning ''pcie ls failed'' ''The Zephyr guest did not return valid pcie ls output.'') w)
      else if file_exists m (fst cap) then showPcieLsWindow p m (fst cap) w
      else Inr w)"

text \<open>\<open>closeEvent\<close>: the processes whose number is in \<open>qemu.pid\<close> of the current directory.\<close>

definition qemu_kills :: "'b platform \<Rightarrow> string option \<Rightarrow> string list list" where
  "qemu_kills p content =
     (case content of
        None \<Rightarrow> []
      | Some text \<Rightarrow>
          let pidBytes = qt_trimmed (pf_qt p) text in
          if pidBytes = [] then []
          else (case pf_to_int p pidBytes of
                  None \<Rightarrow> []
                | Some pid \<Rightarrow>
                    if pid > 0
                    then [[''-TERM'', qt_number (pf_qt p) 0 10 (nat pid)],
                          [''-KILL'', qt_number (pf_qt p) 0 10 (nat pid)]]
                    else []))"

definition closeEvent :: "'b platform \<Rightarrow> moment \<Rightarrow> window \<Rightarrow> window" where
  "closeEvent p m w =
     (let r = (if g_live_process (w_gui w)
               then (stopProcessAndDelete ((runner_of w)\<lparr>r_suppress := True\<rparr>))\<lparr>r_process := False\<rparr>
               else runner_of w)
      in w\<lparr>w_gui := (w_gui w)\<lparr>g_live_process := r_process r, g_live_timer := False\<rparr>,
           w_running := r_running r, w_suppress := r_suppress r, w_closed := True,
           w_kills := w_kills w @
             qemu_kills p (m_files m (p_current (pf_paths p) @ ''/qemu.pid''))\<rparr>)"

section \<open>Events\<close>

datatype event =
    ChooseType nat | ChooseDirection nat | ChooseBackend nat
  | EditSearch string | EditDevice string | EditScenario string
  | ThemeButton | OpenButton string | SaveButton string bool | EnumerateButton | AiButton
  | SelectRow nat | TimerTick | RunnerEnded bool int
  | EnumerateFlow bool | MeasureButton bool | ChoosePreset nat | EditForm ai_form | CloseAiDialog
  | PcieLsButton | CaptureEnded "string \<times> string" bool int | ClosePcieLs | CloseWindow

text \<open>What can happen in a state of the window.\<close>

definition enabled :: "window \<Rightarrow> event \<Rightarrow> bool" where
  "enabled w e \<longleftrightarrow> \<not> w_closed w \<and>
     (case e of
        ChooseType i \<Rightarrow> i < length type_items
      | ChooseDirection i \<Rightarrow> i < length direction_items
      | ChooseBackend i \<Rightarrow> i < length backend_items
      | SelectRow i \<Rightarrow> i < length (g_rows (w_gui w)) \<and> \<not> g_hidden (w_gui w) ! i
      | TimerTick \<Rightarrow> g_live_timer (w_gui w)
      | RunnerEnded _ _ \<Rightarrow> w_running w
      | EnumerateFlow _ \<Rightarrow> w_dialog w \<noteq> None
      | MeasureButton _ \<Rightarrow> w_dialog w \<noteq> None
      | ChoosePreset i \<Rightarrow> w_dialog w \<noteq> None \<and> i < length preset_items
      | EditForm _ \<Rightarrow> w_dialog w \<noteq> None
      | CloseAiDialog \<Rightarrow> w_dialog w \<noteq> None
      | PcieLsButton \<Rightarrow> w_dialog w \<noteq> None
      | CaptureEnded cap _ _ \<Rightarrow> cap \<in> set (w_captures w)
      | ClosePcieLs \<Rightarrow> (case w_pcie_ls w of LsShown _ \<Rightarrow> True | _ \<Rightarrow> False)
      | _ \<Rightarrow> True)"

text \<open>
  The handler of an event, over the window and the backends' state, which only the enumeration of a
  PCI device reaches.
\<close>

definition enumerate_button :: "'b platform \<Rightarrow> moment \<Rightarrow> window \<Rightarrow> 'b \<Rightarrow> (window \<times> 'b) w_res" where
  "enumerate_button p m w b =
     (case enumeratePciDevice (pf_qt p) (m_clock m) (pf_backends p) (m_calloc m) (m_env m) (pf_set_env p)
             (w_backend w) (w_device w) (w_scenario w) b (w_gui w) of
        Inl e \<Rightarrow> Inl (Library e)
      | Inr (g, b') \<Rightarrow> Inr (w\<lparr>w_gui := g\<rparr>, b'))"

definition handle_window :: "'b platform \<Rightarrow> moment \<Rightarrow> event \<Rightarrow> window \<Rightarrow> window w_res" where
  "handle_window p m e w =
     (case e of
        ChooseType i \<Rightarrow> Inr (set_type_filter (pf_qt p) (type_items ! i) w)
      | ChooseDirection i \<Rightarrow> Inr (set_direction_filter (pf_qt p) (direction_items ! i) w)
      | ChooseBackend i \<Rightarrow> Inr (w\<lparr>w_backend := backend_items ! i\<rparr>)
      | EditSearch s \<Rightarrow> Inr (set_search (pf_qt p) s w)
      | EditDevice s \<Rightarrow> Inr (w\<lparr>w_device := s\<rparr>)
      | EditScenario s \<Rightarrow> Inr (w\<lparr>w_scenario := s\<rparr>)
      | ThemeButton \<Rightarrow> Inr (toggle_theme w)
      | OpenButton path \<Rightarrow> Inr (openTrace p m path w)
      | SaveButton path can_open \<Rightarrow> Inr (w\<lparr>w_gui := fst (saveTrace path can_open (w_gui w))\<rparr>)
      | EnumerateButton \<Rightarrow> Inr w
      | AiButton \<Rightarrow> Inr (openAiPerfDialog w)
      | SelectRow i \<Rightarrow> Inr (w\<lparr>w_gui := select_row i (w_gui w)\<rparr>)
      | TimerTick \<Rightarrow> poll_window p m w
      | RunnerEnded crashed exitCode \<Rightarrow> runner_ended p m crashed exitCode w
      | EnumerateFlow started \<Rightarrow> Inr (launch_enumeration p m started w)
      | MeasureButton started \<Rightarrow>
          (case w_dialog w of None \<Rightarrow> Inr w | Some dlg \<Rightarrow> launch_measurement p m started dlg w)
      | ChoosePreset i \<Rightarrow> (case w_dialog w of None \<Rightarrow> Inr w | Some dlg \<Rightarrow> choose_preset i dlg w)
      | EditForm f \<Rightarrow> (case w_dialog w of None \<Rightarrow> Inr w | Some dlg \<Rightarrow> Inr (edit_form f dlg w))
      | CloseAiDialog \<Rightarrow> Inr (closeAiDialog w)
      | PcieLsButton \<Rightarrow> pcie_ls_button p m w
      | CaptureEnded cap crashed exitCode \<Rightarrow> capture_ended p m cap crashed exitCode w
      | ClosePcieLs \<Rightarrow> Inr (w\<lparr>w_pcie_ls := LsDeleted\<rparr>)
      | CloseWindow \<Rightarrow> Inr (closeEvent p m w))"

definition handle :: "'b platform \<Rightarrow> moment \<Rightarrow> event \<Rightarrow> window \<times> 'b \<Rightarrow> (window \<times> 'b) w_res" where
  "handle p m e st =
     (case st of (w, b) \<Rightarrow>
        if e = EnumerateButton then enumerate_button p m w b
        else (case handle_window p m e w of Inl ub \<Rightarrow> Inl ub | Inr w' \<Rightarrow> Inr (w', b)))"

inductive window_reachable :: "'b platform \<Rightarrow> 'b \<Rightarrow> window \<times> 'b \<Rightarrow> bool" for p b0 where
  shown: "window_reachable p b0 (start_window p m arg, b0)"
| happens: "\<lbrakk>window_reachable p b0 (w, b); enabled w e; handle p m e (w, b) = Inr st\<rbrakk>
    \<Longrightarrow> window_reachable p b0 st"

end
