(* ===== verification/GuiSafety.thy ===== *)
theory GuiSafety
  imports GuiWindow
begin

text \<open>
  What holds in every state the viewer's window can reach: the shape of its table and of the rest
  of the window, the colours of its rows, which handlers can run into undefined behaviour, and when
  the result of a runner is dropped. Every operation on the table has a lemma that it keeps \<open>table_ok\<close>, every handler one
  that it keeps \<open>window_ok\<close>.
\<close>

section \<open>The table in every state\<close>

text \<open>
  The colours of the rows are those of one moment: a theme and a current row. Rows inserted since
  have none.
\<close>

definition coloured :: "bool \<Rightarrow> nat option \<Rightarrow> gui \<Rightarrow> bool" where
  "coloured d cur g \<longleftrightarrow>
     length (g_colors g) = length (g_rows g) \<and>
     (\<forall>i < length (g_rows g). g_colors g ! i \<in> {None, Some (row_colors d (cur = Some i) (g_rows g ! i))})"

definition table_ok :: "gui \<Rightarrow> bool" where
  "table_ok g \<longleftrightarrow>
     length (g_hidden g) = length (g_rows g) \<and>
     (\<forall>i. g_current g = Some i \<longrightarrow> i < length (g_rows g)) \<and>
     g_type_filter g \<in> set type_items \<and> g_direction_filter g \<in> set direction_items \<and>
     distinct (g_live_seen g) \<and> (\<exists>d cur. coloured d cur g)"

definition window_ok :: "window \<Rightarrow> bool" where
  "window_ok w \<longleftrightarrow>
     table_ok (w_gui w) \<and> w_backend w \<in> set backend_items \<and>
     (w_style w, w_theme_button w) = applyTheme (g_dark (w_gui w)) \<and>
     (w_running w \<longrightarrow> g_live_process (w_gui w)) \<and>
     (g_live_process (w_gui w) \<longrightarrow> w_slot w \<noteq> None) \<and>
     (w_slot w \<noteq> None \<or> g_live_timer (w_gui w) \<or> w_dialog w \<noteq> None \<longrightarrow> w_readout w \<noteq> None) \<and>
     (\<forall>dlg. w_dialog w = Some dlg \<longrightarrow> dlg_preset dlg < length preset_items \<and> form_ok (dlg_form dlg)) \<and>
     (\<forall>traceLog profile f. w_slot w = Some (MeasureSlot traceLog profile f) \<longrightarrow> form_ok f)"

section \<open>Handlers keep the table\<close>

lemma coloured_filter: "coloured (g_dark g) (g_current g) (applyFilter qt g)"
  by (simp add: coloured_def colorRows_def nth_enumerate_eq)

lemma coloured_same [simp]:
  "coloured d cur (updateSummaryStats g) = coloured d cur g" "coloured d cur (select_row i g) = coloured d cur g"
  "coloured d cur (g\<lparr>g_status := s\<rparr>) = coloured d cur g" "coloured d cur (g\<lparr>g_dark := dark\<rparr>) = coloured d cur g"
  "coloured d cur (g\<lparr>g_live_timer := t\<rparr>) = coloured d cur g" "coloured d cur (g\<lparr>g_live_process := q\<rparr>) = coloured d cur g"
  "coloured d cur (g\<lparr>g_live_seen := ls\<rparr>) = coloured d cur g" "coloured d cur (g\<lparr>g_live_path := l\<rparr>) = coloured d cur g"
  "coloured d cur (g\<lparr>g_type_filter := ty\<rparr>) = coloured d cur g"
  "coloured d cur (g\<lparr>g_direction_filter := dir\<rparr>) = coloured d cur g"
  "coloured d cur (g\<lparr>g_search := tx\<rparr>) = coloured d cur g" "coloured d cur (clear_rows g)"
  "coloured d cur (show_box box g) = coloured d cur g"
  by (simp_all add: coloured_def updateSummaryStats_def select_row_def clear_rows_def)

lemma coloured_insert [simp]: "coloured d cur g \<Longrightarrow> coloured d cur (insert_rows rs g)"
  by (auto simp: coloured_def nth_append)

named_theorems table_intros \<open>operations that keep the table well formed\<close>

lemma table_stats [table_intros]: "table_ok g \<Longrightarrow> table_ok (updateSummaryStats g)"
  by (simp add: table_ok_def) (simp add: updateSummaryStats_def)

lemma table_filter [table_intros]:
  "\<lbrakk>\<forall>i. g_current g = Some i \<longrightarrow> i < length (g_rows g); g_type_filter g \<in> set type_items;
    g_direction_filter g \<in> set direction_items; distinct (g_live_seen g)\<rbrakk> \<Longrightarrow> table_ok (applyFilter qt g)"
  using coloured_filter [of g qt]
  by (auto simp: table_ok_def) (simp add: applyFilter_def colorRows_def updateSummaryStats_def)

lemma table_insert [table_intros]: "table_ok g \<Longrightarrow> table_ok (insert_rows rs g)"
  by (auto simp: table_ok_def intro: coloured_insert)

lemma table_clear [table_intros]: "table_ok g \<Longrightarrow> table_ok (clear_rows g)"
  by (simp add: table_ok_def) (simp add: clear_rows_def)

lemma table_select [table_intros]: "table_ok g \<Longrightarrow> table_ok (select_row i g)"
  by (simp add: table_ok_def) (simp add: select_row_def)

lemma table_status [simp]: "table_ok (g\<lparr>g_status := s\<rparr>) = table_ok g" "table_ok (show_box box g) = table_ok g"
  "table_ok (g\<lparr>g_dark := dark\<rparr>) = table_ok g" "table_ok (g\<lparr>g_live_timer := t\<rparr>) = table_ok g" "table_ok (g\<lparr>g_live_process := q\<rparr>) = table_ok g"
  by (simp_all add: table_ok_def)

lemma table_load [table_intros]: "table_ok g \<Longrightarrow> table_ok (loadTraceFile qt clock fs path g)"
proof -
  assume ok: "table_ok g"
  have "table_ok (loadCsv qt clock path (Some content) g)" for content
  proof -
    have "table_ok (applyFilter qt (insert_rows rows (clear_rows g)))" for rows
      using ok by (intro table_filter) (simp_all add: table_ok_def clear_rows_def)
    from this this [of "[]"] show ?thesis
      using table_clear [OF ok] by (auto simp: loadCsv_def Let_def intro!: table_stats table_select)
  qed
  then show ?thesis
    using ok by (cases "fs path") (simp_all add: loadTraceFile_def loadCsv_def)
qed

lemma poll_fold_distinct:
  "distinct seen \<Longrightarrow> distinct (snd (fold (poll_line qt clock) ls (rows, seen)))"
  by (induction ls arbitrary: rows seen)
    (auto simp: poll_line_def Let_def split: prod.splits option.splits)

lemma table_poll [table_intros]: "table_ok g \<Longrightarrow> table_ok (pollLiveTrace qt clock fs running g)"
proof -
  assume ok: "table_ok g"
  show ?thesis
  proof (cases "g_live_path g = [] \<or> fs (g_live_path g) = None")
    case False
    then obtain t where t: "fs (g_live_path g) = Some t" by auto
    obtain added seen where f: "fold (poll_line qt clock) (enumerate 0 (split_newlines t)) ([], g_live_seen g) = (added, seen)"
      by (cases "fold (poll_line qt clock) (enumerate 0 (split_newlines t)) ([], g_live_seen g)")
    have d: "distinct seen"
      using poll_fold_distinct [of "g_live_seen g" qt clock "enumerate 0 (split_newlines t)" "[]"] ok f
      by (simp add: table_ok_def)
    let ?g = "(insert_rows added g)\<lparr>g_live_seen := seen\<rparr>"
    have "table_ok ?g" using table_insert [OF ok, of added] d by (simp add: table_ok_def)
    moreover have "table_ok (g\<lparr>g_live_seen := seen\<rparr>)" using ok d by (simp add: table_ok_def)
    moreover have "table_ok (applyFilter qt ?g)" using ok d by (intro table_filter) (auto simp: table_ok_def)
    ultimately show ?thesis using False t f
      by (simp add: pollLiveTrace_def Let_def table_stats table_select)
  qed (use ok in \<open>auto simp: pollLiveTrace_def split: option.split\<close>)
qed

lemma table_start [table_intros]: "table_ok g \<Longrightarrow> table_ok (startLiveTrace e path g)"
  by (cases e) (auto simp: table_ok_def startLiveTrace_def intro: exI [of _ True])

lemma table_save [table_intros]: "table_ok g \<Longrightarrow> table_ok (fst (saveTrace path can_open g))"
  by (simp add: saveTrace_def)

lemma table_enum_finished [table_intros]:
  "table_ok g \<Longrightarrow> table_ok (snd (enumeration_finished qt clock fs path s crashed ec g))"
  by (simp add: enumeration_finished_def Let_def table_load)

lemma table_runner_finished [table_intros]:
  "table_ok g \<Longrightarrow> table_ok (snd (runner_finished qt fixed td clock t profile f s crashed ec g))"
  by (simp add: runner_finished_def Let_def)

lemma table_enum_loop:
  "\<lbrakk>enum_loop qt clock env i as c b g = Inr (r, c', b', g'); table_ok g\<rbrakk> \<Longrightarrow> table_ok g'"
proof (induction as arbitrary: i c b g)
  case (Cons a as)
  then obtain result t' ctx' b1 c1 where
    step: "pcie_send (env i) (Some c) (Some (enum_packet a)) b = Inr (result, t', ctx', b1)" "ctx' = Some c1"
    by (auto simp: c_simps)
  show ?case
  proof (cases "result = 0")
    case True
    with Cons.prems step obtain bytes where
      "enum_loop qt clock env (i + 1) as c1 b1
         (insert_rows [enum_row qt (clock i) a bytes] g) =
       Inr (r, c', b', g')"
      by (auto simp: c_simps)
    then show ?thesis by (rule Cons.IH) (intro table_insert Cons.prems(2))
  qed (use Cons.prems step in auto)
qed simp

lemma table_enum_done [table_intros]: "table_ok g \<Longrightarrow> table_ok (enum_done qt i l g)"
proof -
  assume ok: "table_ok g"
  then have "table_ok (applyFilter qt g)" by (intro table_filter) (simp_all add: table_ok_def)
  then show ?thesis by (simp add: enum_done_def Let_def table_stats table_select)
qed

lemma table_enumerate:
  assumes "enumeratePciDevice qt clock bes ok env set_env be dev sc b g = Inr (g', b')" and "table_ok g"
  shows "table_ok g'"
  using assms
  by (auto simp: enumeratePciDevice_def c_simps intro!: table_enum_done table_clear
      split: option.splits if_splits dest!: table_enum_loop)


section \<open>Handlers keep the window\<close>

text \<open>The parts of the window an operation on the table alone leaves as they are.\<close>

lemma live_filter [simp]:
  "g_live_process (applyFilter qt g) = g_live_process g" "g_live_timer (applyFilter qt g) = g_live_timer g"
  "g_live_process (updateSummaryStats g) = g_live_process g"
  "g_live_timer (updateSummaryStats g) = g_live_timer g"
  "g_live_process (select_row i g) = g_live_process g" "g_live_timer (select_row i g) = g_live_timer g"
  "g_live_process (clear_rows g) = g_live_process g" "g_live_timer (clear_rows g) = g_live_timer g"
  "g_dark (updateSummaryStats g) = g_dark g" "g_dark (select_row i g) = g_dark g"
  "g_dark (startLiveTrace e path g) = g_dark g"
  by (simp_all add: startLiveTrace_def applyFilter_def colorRows_def updateSummaryStats_def select_row_def clear_rows_def)

lemma live_load [simp]:
  "g_live_process (loadTraceFile qt clock fs path g) = g_live_process g"
  "g_live_timer (loadTraceFile qt clock fs path g) = g_live_timer g"
  "g_dark (loadTraceFile qt clock fs path g) = g_dark g"
  by (simp_all add: loadTraceFile_def loadCsv_def Let_def split: option.split)

lemma live_save [simp]:
  "g_live_process (fst (saveTrace path ok g)) = g_live_process g"
  "g_live_timer (fst (saveTrace path ok g)) = g_live_timer g"
  "g_dark (fst (saveTrace path ok g)) = g_dark g"
  by (simp_all add: saveTrace_def)

lemma live_enum_loop:
  "enum_loop qt clock env i as c b g = Inr (r, c', b', g') \<Longrightarrow>
   g_live_process g' = g_live_process g \<and> g_live_timer g' = g_live_timer g \<and> g_dark g' = g_dark g"
proof (induction as arbitrary: i c b g)
  case (Cons a as)
  then obtain result t' ctx' b1 c1 where
    step: "pcie_send (env i) (Some c) (Some (enum_packet a)) b = Inr (result, t', ctx', b1)" "ctx' = Some c1"
    by (auto simp: c_simps)
  show ?case
  proof (cases "result = 0")
    case True
    with Cons.prems step obtain bytes where
      "enum_loop qt clock env (i + 1) as c1 b1
         (insert_rows [enum_row qt (clock i) a bytes] g) =
       Inr (r, c', b', g')"
      by (auto simp: c_simps)
    from Cons.IH [OF this] show ?thesis by simp
  qed (use Cons.prems step in auto)
qed simp

lemma live_enum_done [simp]:
  "g_live_process (enum_done qt i l g) = g_live_process g" "g_live_timer (enum_done qt i l g) = g_live_timer g"
  "g_dark (enum_done qt i l g) = g_dark g"
  by (simp_all add: enum_done_def Let_def)

lemma live_enumerate:
  assumes "enumeratePciDevice qt clock bes ok env set_env be dev sc b g = Inr (g', b')"
  shows "g_live_process g' = g_live_process g \<and> g_live_timer g' = g_live_timer g \<and> g_dark g' = g_dark g"
  using assms
  by (auto simp: enumeratePciDevice_def c_simps
      split: option.splits if_splits dest!: live_enum_loop)

lemma live_poll:
  "g_live_process (pollLiveTrace qt clock fs running g) \<longrightarrow> g_live_process g"
  "g_live_timer (pollLiveTrace qt clock fs running g) \<longrightarrow> g_live_timer g"
  "running \<Longrightarrow> g_live_process (pollLiveTrace qt clock fs running g) = g_live_process g"
  "g_dark (pollLiveTrace qt clock fs running g) = g_dark g"
  by (simp_all add: pollLiveTrace_def Let_def split: option.split prod.split)

lemma live_enum_finished [simp]:
  "g_live_process (snd (enumeration_finished qt clock fs path s crashed ec g)) = g_live_process g"
  "g_live_timer (snd (enumeration_finished qt clock fs path s crashed ec g)) = g_live_timer g"
  "g_dark (snd (enumeration_finished qt clock fs path s crashed ec g)) = g_dark g"
  by (simp_all add: enumeration_finished_def Let_def)

lemma live_runner_finished [simp]:
  "g_live_process (snd (runner_finished qt fixed td clock t profile f s crashed ec g)) = g_live_process g"
  "g_live_timer (snd (runner_finished qt fixed td clock t profile f s crashed ec g)) = g_live_timer g"
  "g_dark (snd (runner_finished qt fixed td clock t profile f s crashed ec g)) = g_dark g"
  by (simp_all add: runner_finished_def Let_def)

lemma window_ok_readout:
  "\<lbrakk>window_ok w; update_readout p w = Inr w'\<rbrakk> \<Longrightarrow> window_ok w'"
  by (auto simp: update_readout_def window_ok_def split: option.splits)

text \<open>A handler that changes the table only.\<close>

lemma window_ok_table:
  "\<lbrakk>window_ok w; table_ok g; g_live_process g = g_live_process (w_gui w);
    g_live_timer g = g_live_timer (w_gui w); g_dark g = g_dark (w_gui w)\<rbrakk> \<Longrightarrow> window_ok (w\<lparr>w_gui := g\<rparr>)"
  by (simp add: window_ok_def)

lemma window_ok_gui: "window_ok w \<Longrightarrow> table_ok (w_gui w)"
  by (simp add: window_ok_def)

lemma window_ok_filters:
  assumes "window_ok w"
  shows "t \<in> set type_items \<Longrightarrow> window_ok (set_type_filter qt t w)"
    and "d \<in> set direction_items \<Longrightarrow> window_ok (set_direction_filter qt d w)"
    and "window_ok (set_search qt s w)"
  using assms window_ok_gui [OF assms]
  by (auto simp: set_type_filter_def set_direction_filter_def set_search_def table_ok_def
      intro!: window_ok_table table_filter)

lemma window_ok_poll:
  fixes p :: "'b platform"
  assumes ok: "window_ok w" and poll: "poll_window p m w = Inr w'"
  shows "window_ok w'"
proof -
  let ?w = "w\<lparr>w_gui := pollLiveTrace (pf_qt p) (m_clock m) (m_files m) (w_running w) (w_gui w)\<rparr>"
  have "table_ok (w_gui ?w)" using window_ok_gui [OF ok] by (simp add: table_poll)
  then have "window_ok ?w"
    using ok live_poll [where g = "w_gui w" and running = "w_running w"]
    by (auto simp: window_ok_def)
  with poll show ?thesis
    by (auto simp: poll_window_def Let_def split: if_splits intro: window_ok_readout)
qed

lemma window_ok_start:
  assumes "window_ok w" and "w_readout w \<noteq> None"
    and "\<And>tl pr f. slot = MeasureSlot tl pr f \<Longrightarrow> form_ok f"
  shows "window_ok (start_runner e path started cmd slot w)"
  using assms table_start [OF window_ok_gui [OF assms(1)], of e path]
  by (auto simp: window_ok_def start_runner_def launch_runner_def stopProcessAndDelete_def runner_exit_def
      Let_def runner_of_def)

lemma window_ok_target [simp]: "window_ok (w\<lparr>w_target := t\<rparr>) = window_ok w"
  "window_ok (w\<lparr>w_captures := cs\<rparr>) = window_ok w" "window_ok (w\<lparr>w_pcie_ls := l\<rparr>) = window_ok w"
  by (simp_all add: window_ok_def)

lemma window_ok_status:
  "window_ok w \<Longrightarrow> window_ok (w\<lparr>w_gui := (w_gui w)\<lparr>g_status := s\<rparr>\<rparr>)"
  "window_ok w \<Longrightarrow> window_ok (w\<lparr>w_captures := cs, w_gui := (w_gui w)\<lparr>g_status := s\<rparr>\<rparr>)"
  by (simp_all add: window_ok_def)

lemma window_ok_box [simp]: "window_ok (window_box box w) = window_ok w"
  by (simp add: window_ok_def window_box_def)

lemma window_box_fields [simp]:
  "w_gui (window_box box w) = show_box box (w_gui w)" "w_running (window_box box w) = w_running w"
  "w_suppress (window_box box w) = w_suppress w" "w_slot (window_box box w) = w_slot w"
  "w_readout (window_box box w) = w_readout w" "w_dialog (window_box box w) = w_dialog w"
  "w_closed (window_box box w) = w_closed w" "w_pcie_ls (window_box box w) = w_pcie_ls w"
  by (simp_all add: window_box_def)

lemma window_ok_dialog: "\<lbrakk>window_ok w; w_dialog w = Some dlg\<rbrakk> \<Longrightarrow>
   w_readout w \<noteq> None \<and> dlg_preset dlg < length preset_items \<and> form_ok (dlg_form dlg)"
  by (simp add: window_ok_def)

lemma window_ok_launch:
  assumes "window_ok w" and "w_dialog w = Some dlg"
  shows "window_ok (launch_enumeration p m started w)"
    and "launch_measurement p m started dlg w = Inr w' \<Longrightarrow> window_ok w'"
  using assms window_ok_dialog [OF assms]
  by (auto simp: launch_enumeration_def launch_measurement_def Let_def
      intro!: window_ok_start window_ok_status split: if_splits sum.splits
      dest!: window_ok_readout [rotated])

lemma window_ok_ended:
  assumes ok: "window_ok w" and ended: "runner_ended p m crashed ec w = Inr w'"
  shows "window_ok w'"
proof -
  let ?w = "w\<lparr>w_running := False\<rparr>"
  have ok': "window_ok (?w\<lparr>w_gui := g, w_suppress := s\<rparr>)"
    if "table_ok g" "g_live_process g = g_live_process (w_gui w)" "g_live_timer g = g_live_timer (w_gui w)"
      "g_dark g = g_dark (w_gui w)" for g s
    using that ok by (simp add: window_ok_def)
  show ?thesis
  proof (cases "w_slot w")
    case None
    then show ?thesis using ended ok by (auto simp: runner_ended_def window_ok_def)
  next
    case (Some slot)
    then show ?thesis
    proof (cases slot)
      case (EnumerationSlot traceLog)
      with ended Some show ?thesis
        using ok' [of "snd (enumeration_finished (pf_qt p) (m_clock m) (m_files m) traceLog (w_suppress w) crashed ec (w_gui w))"]
          window_ok_gui [OF ok]
        by (auto simp: runner_ended_def Let_def table_enum_finished split: prod.splits)
    next
      case (MeasureSlot traceLog profile f)
      with ended Some show ?thesis
        using ok' [of "snd (runner_finished (pf_qt p) (pf_fixed p) (pf_to_double p) (m_clock m)
              (m_files m traceLog) profile f (w_suppress w) crashed ec (w_gui w))"] window_ok_gui [OF ok]
        by (auto simp: runner_ended_def Let_def table_runner_finished
            split: prod.splits if_splits dest!: window_ok_readout [rotated])
    qed
  qed
qed


lemma window_ok_ls:
  assumes "window_ok w"
  shows "showPcieLsWindow p m path w = Inr w' \<Longrightarrow> window_ok w'"
    and "pcie_ls_button p m w = Inr w' \<Longrightarrow> window_ok w'"
    and "capture_ended p m cap crashed ec w = Inr w' \<Longrightarrow> window_ok w'"
  using assms
  by (auto simp: showPcieLsWindow_def pcie_ls_button_def capture_ended_def Let_def split: if_splits
      intro!: window_ok_status)

lemma window_ok_close: "window_ok w \<Longrightarrow> window_ok (closeEvent p m w)"
  by (auto simp: closeEvent_def window_ok_def Let_def runner_of_def stopProcessAndDelete_def runner_exit_def)

lemma window_ok_edits:
  assumes "window_ok w"
  shows "window_ok (toggle_theme w)" "window_ok (openAiPerfDialog w)" "window_ok (closeAiDialog w)"
    "window_ok (w\<lparr>w_device := s\<rparr>)" "window_ok (w\<lparr>w_scenario := s\<rparr>)"
    "i < length backend_items \<Longrightarrow> window_ok (w\<lparr>w_backend := backend_items ! i\<rparr>)"
    "w_dialog w = Some dlg \<Longrightarrow> window_ok (edit_form f dlg w)"
    "\<lbrakk>w_dialog w = Some dlg; i < length preset_items; choose_preset i dlg w = Inr w'\<rbrakk> \<Longrightarrow> window_ok w'"
proof -
  have "form_ok (applyPreset 0 first_form)" by (simp add: applyPreset_ok first_form_def fill_form_ok)
  then show "window_ok (openAiPerfDialog w)"
    using assms by (auto simp: openAiPerfDialog_def window_ok_def preset_items_def split: option.split)
qed (use assms in \<open>auto simp: window_ok_def toggle_theme_def closeAiDialog_def Let_def edit_form_def fill_form_ok choose_preset_def
      split: if_splits\<close>)

lemma handle_window_ok:
  assumes ok: "window_ok w" and en: "enabled w e" and h: "handle_window p m e w = Inr w'"
  shows "window_ok w'"
  using ok en h window_ok_gui [OF ok]
  by (cases e)
    (auto simp: handle_window_def enabled_def openTrace_def split: option.splits
      intro!: window_ok_table table_load table_save table_select
      intro: window_ok_filters window_ok_edits window_ok_poll window_ok_ended window_ok_launch window_ok_ls
        window_ok_close)

lemma enumerate_button_ok:
  "\<lbrakk>window_ok w; enumerate_button p m w b = Inr (w', b')\<rbrakk> \<Longrightarrow> window_ok w'"
  by (auto simp: enumerate_button_def window_ok_gui split: sum.splits prod.splits
      intro!: window_ok_table dest: live_enumerate table_enumerate)

lemma handle_ok:
  "\<lbrakk>window_ok w; enabled w e; handle p m e (w, b) = Inr (w', b')\<rbrakk> \<Longrightarrow> window_ok w'"
  by (auto simp: handle_def split: if_splits sum.splits intro: handle_window_ok enumerate_button_ok)

lemma start_window_ok: "window_ok (start_window p m arg)"
proof -
  have "table_ok initial_gui"
    by (simp add: table_ok_def coloured_def initial_gui_def type_items_def direction_items_def)
  then have init: "window_ok initial_window" "table_ok (w_gui initial_window)" "w_gui initial_window = initial_gui"
    by (simp_all add: window_ok_def initial_window_def initial_gui_def backend_items_def)
  then show ?thesis
    by (auto simp: start_window_def table_load intro!: window_ok_table split: option.split)
qed

section \<open>Every state of the window\<close>

lemma window_reachable_ok: "window_reachable p b0 (w, b) \<Longrightarrow> window_ok w"
proof (induction "(w, b)" arbitrary: w b rule: window_reachable.induct)
  case (happens w b e m w' b')
  then show ?case by (blast intro: handle_ok)
qed (rule start_window_ok)

text \<open>
  C5: Whatever the user does and whatever the processes, the files and the backends do, the viewer's
  window stays consistent: every row has its hidden flag, the current row is a row of the table,
  the boxes show one of their items, the style sheet is that of the theme and the theme button
  names the other one, no line is recorded as
  seen twice, a running process is one the window knows, a process it knows has its slot, and the
  values of the performance dialog are within the ranges of their boxes.
\<close>

theorem window_type_safe:
  assumes "window_reachable p b0 (w, b)"
  shows "length (g_hidden (w_gui w)) = length (g_rows (w_gui w)) \<and>
    (\<forall>i. g_current (w_gui w) = Some i \<longrightarrow> i < length (g_rows (w_gui w))) \<and>
    g_type_filter (w_gui w) \<in> set type_items \<and> g_direction_filter (w_gui w) \<in> set direction_items \<and>
    w_backend w \<in> set backend_items \<and> (w_style w, w_theme_button w) = applyTheme (g_dark (w_gui w)) \<and>
    distinct (g_live_seen (w_gui w)) \<and>
    (w_running w \<longrightarrow> g_live_process (w_gui w)) \<and> (g_live_process (w_gui w) \<longrightarrow> w_slot w \<noteq> None) \<and>
    (\<forall>dlg. w_dialog w = Some dlg \<longrightarrow> dlg_preset dlg < 4 \<and> form_ok (dlg_form dlg))"
  using window_reachable_ok [OF assms] by (auto simp: window_ok_def table_ok_def preset_items_def)

section \<open>Colours and the theme\<close>

lemma row_colors_theme: "row_colors d s r \<noteq> row_colors (\<not> d) s' r'"
  by (simp add: row_colors_def)

text \<open>
  C15: The colours of the table. In every state of the window the rows have the colours of one
  moment, with its theme and its current row, or none. A new search text gives every row the
  colours of the present theme and row. The theme button changes the style sheet and leaves the
  rows as they are: a row in the colours of the old theme keeps them, and they are not those of
  any row in the new one.
\<close>

theorem window_row_colours:
  assumes "window_reachable p b0 (w, b)"
  shows "(\<exists>d cur. coloured d cur (w_gui w)) \<and>
    (\<forall>s. s \<noteq> g_search (w_gui w) \<longrightarrow>
       (\<exists>w'. handle p m (EditSearch s) (w, b) = Inr (w', b) \<and>
          coloured (g_dark (w_gui w')) (g_current (w_gui w')) (w_gui w') \<and> None \<notin> set (g_colors (w_gui w')))) \<and>
    (\<exists>w'. handle p m ThemeButton (w, b) = Inr (w', b) \<and>
       w_style w' = fst (applyTheme (\<not> g_dark (w_gui w))) \<and> g_colors (w_gui w') = g_colors (w_gui w) \<and>
       (\<forall>i < length (g_rows (w_gui w)). \<forall>sel r.
          g_colors (w_gui w) ! i = Some (row_colors (g_dark (w_gui w)) sel r) \<longrightarrow>
          (\<forall>sel' r'. g_colors (w_gui w') ! i \<noteq> Some (row_colors (g_dark (w_gui w')) sel' r'))))"
proof -
  have "\<exists>d cur. coloured d cur (w_gui w)"
    using window_ok_gui [OF window_reachable_ok [OF assms]] by (simp add: table_ok_def)
  moreover have "coloured (g_dark (w_gui w)) (g_current (w_gui w)) (w_gui (set_search (pf_qt p) s w)) \<and>
      None \<notin> set (g_colors (w_gui (set_search (pf_qt p) s w)))" if "s \<noteq> g_search (w_gui w)" for s
    using that coloured_filter [of "(w_gui w)\<lparr>g_search := s\<rparr>" "pf_qt p"]
    by (auto simp: set_search_def colorRows_def)
  ultimately show ?thesis
    using row_colors_theme [of "g_dark (w_gui w)", THEN not_sym]
    by (auto simp: handle_def handle_window_def set_search_def toggle_theme_def Let_def)
qed

section \<open>Undefined behaviour\<close>

lemma readout_defined: "w_readout w \<noteq> None \<Longrightarrow> \<exists>w'. update_readout p w = Inr w'"
  by (auto simp: update_readout_def)

lemma poll_defined: "\<lbrakk>window_ok w; g_live_timer (w_gui w)\<rbrakk> \<Longrightarrow> poll_window p m w \<noteq> Inl e"
  using readout_defined [of "w\<lparr>w_gui := pollLiveTrace (pf_qt p) (m_clock m) (m_files m) (w_running w) (w_gui w)\<rparr>" p]
  by (auto simp: poll_window_def Let_def window_ok_def)

lemma ended_defined: "window_ok w \<Longrightarrow> runner_ended p m crashed ec w \<noteq> Inl e"
  using readout_defined
  by (auto simp: runner_ended_def Let_def window_ok_def update_readout_def
      split: option.splits runner_slot.splits prod.splits)

lemma measure_defined:
  "\<lbrakk>window_ok w; w_dialog w = Some dlg\<rbrakk> \<Longrightarrow> launch_measurement p m started dlg w \<noteq> Inl e"
  by (auto simp: launch_measurement_def Let_def window_ok_def update_readout_def start_runner_def)

text \<open>The event shows a \<open>pcie ls\<close> capture.\<close>

definition shows_capture :: "'b platform \<Rightarrow> moment \<Rightarrow> event \<Rightarrow> bool" where
  "shows_capture p m e \<longleftrightarrow>
     (case e of
        PcieLsButton \<Rightarrow>
          (let script = resolvedScript (pf_paths p) m in
           script \<noteq> [] \<and> file_exists m (script_log (pf_paths p) script ''zephyr_pcie_ls.log''))
      | CaptureEnded cap crashed ec \<Rightarrow> \<not> crashed \<and> ec = 0 \<and> file_exists m (fst cap)
      | _ \<Rightarrow> False)"

lemma handle_window_ub:
  assumes ok: "window_ok w" and en: "enabled w e"
  shows "handle_window p m e w = Inl ub \<longleftrightarrow>
    ub = Dangling \<and>
    ((\<exists>i dlg. e = ChoosePreset i \<and> i \<le> 2 \<and> w_dialog w = Some dlg \<and> i \<noteq> dlg_preset dlg) \<or>
     (w_pcie_ls w = LsDeleted \<and> shows_capture p m e))"
  using en poll_defined [where p = p, OF ok] ended_defined [where p = p, OF ok] measure_defined [where p = p, OF ok]
  by (cases e)
    (auto simp: handle_window_def enabled_def choose_preset_def pcie_ls_button_def capture_ended_def
      showPcieLsWindow_def shows_capture_def Let_def split: option.splits if_splits)

text \<open>
  C8: The viewer has undefined behaviour in exactly these cases, in every state it can reach: the
  preset of the performance dialog is changed to one of the first three, a capture is to be shown
  after the window of the one before was closed, or the library it enumerates a device through has
  undefined behaviour itself. In particular the performance label is never written before it exists.
\<close>

theorem window_undefined_behaviour:
  assumes "window_reachable p b0 (w, b)" and "enabled w e"
  shows "handle p m e (w, b) = Inl ub \<longleftrightarrow>
    (ub = Dangling \<and> (\<exists>i dlg. e = ChoosePreset i \<and> i \<le> 2 \<and> w_dialog w = Some dlg \<and> i \<noteq> dlg_preset dlg)) \<or>
    (ub = Dangling \<and> w_pcie_ls w = LsDeleted \<and> shows_capture p m e) \<or>
    (\<exists>l. ub = Library l \<and> e = EnumerateButton \<and>
       enumeratePciDevice (pf_qt p) (m_clock m) (pf_backends p) (m_calloc m) (m_env m) (pf_set_env p)
         (w_backend w) (w_device w) (w_scenario w) b (w_gui w) = Inl l)"
  using handle_window_ub [OF window_reachable_ok [OF assms(1)] assms(2), of p m ub]
  by (cases "e = EnumerateButton")
    (auto simp: handle_def enumerate_button_def shows_capture_def split: sum.splits prod.splits)

section \<open>Results that are dropped\<close>

lemma start_runner_flag:
  "w_suppress (start_runner e path started cmd slot w) =
     (\<not> w_running w \<and> (w_suppress w \<or> g_live_process (w_gui w)) \<or>
      w_running w \<and> \<not> g_live_process (w_gui w) \<and> w_suppress w)"
  by (auto simp: start_runner_def launch_runner_def stopProcessAndDelete_def runner_exit_def runner_of_def Let_def)

lemma runner_ended_suppressed:
  "\<lbrakk>w_suppress w; w_slot w = Some slot\<rbrakk> \<Longrightarrow>
   runner_ended p m crashed ec w = Inr (w\<lparr>w_running := False, w_suppress := False\<rparr>)"
  by (cases slot) (simp_all add: runner_ended_def enumeration_finished_def runner_finished_def)

lemma launch_flag:
  assumes "window_ok w" and "resolvedScript (pf_paths p) m \<noteq> []"
  shows "w_suppress (launch_enumeration p m True w) =
      (\<not> w_running w \<and> (w_suppress w \<or> g_live_process (w_gui w)))"
    and "launch_measurement p m True dlg w = Inr w' \<Longrightarrow>
      w_suppress w' = (\<not> w_running w \<and> (w_suppress w \<or> g_live_process (w_gui w)))"
  using assms
  by (auto simp: launch_enumeration_def launch_measurement_def Let_def start_runner_flag window_ok_def
      update_readout_def split: sum.splits option.splits)

text \<open>Events that leave the runner alone: all but its end, a launch and the closing of the window.\<close>

definition touches_runner :: "event \<Rightarrow> bool" where
  "touches_runner e \<longleftrightarrow>
     (case e of RunnerEnded _ _ \<Rightarrow> True | EnumerateFlow _ \<Rightarrow> True | MeasureButton _ \<Rightarrow> True
      | CloseWindow \<Rightarrow> True | _ \<Rightarrow> False)"

inductive meanwhile :: "'b platform \<Rightarrow> window \<times> 'b \<Rightarrow> window \<times> 'b \<Rightarrow> bool" for p st where
  at_once: "meanwhile p st st"
| event: "\<lbrakk>meanwhile p st (w, b); enabled w e; \<not> touches_runner e; handle p m e (w, b) = Inr st'\<rbrakk>
    \<Longrightarrow> meanwhile p st st'"

text \<open>The runner and what its slot will do.\<close>

definition run_of :: "window \<Rightarrow> bool \<times> bool \<times> runner_slot option" where
  "run_of w = (w_running w, w_suppress w, w_slot w)"

lemma run_of_table [simp]:
  "run_of (w\<lparr>w_gui := g\<rparr>) = run_of w" "run_of (window_box box w) = run_of w"
  "run_of (w\<lparr>w_captures := cs\<rparr>) = run_of w" "run_of (w\<lparr>w_pcie_ls := l\<rparr>) = run_of w"
  "run_of (w\<lparr>w_dialog := d\<rparr>) = run_of w" "run_of (w\<lparr>w_readout := t\<rparr>) = run_of w"
  by (simp_all add: run_of_def)

lemma run_of_readout: "update_readout p w = Inr w' \<Longrightarrow> run_of w' = run_of w"
  by (auto simp: update_readout_def split: option.splits)

lemma handle_window_run:
  assumes "\<not> touches_runner e" and "handle_window p m e w = Inr w'"
  shows "run_of w' = run_of w"
  using assms
  by (cases e)
    (auto simp: handle_window_def touches_runner_def set_type_filter_def set_direction_filter_def set_search_def
      toggle_theme_def openTrace_def openAiPerfDialog_def closeAiDialog_def choose_preset_def edit_form_def
      poll_window_def pcie_ls_button_def capture_ended_def showPcieLsWindow_def Let_def run_of_def
      split: option.splits if_splits dest!: run_of_readout)

lemma meanwhile_run:
  "meanwhile p (w1, b1) (w, b) \<Longrightarrow> window_ok w1 \<Longrightarrow> window_ok w \<and> run_of w = run_of w1"
proof (induction "(w, b)" arbitrary: w b rule: meanwhile.induct)
  case (event w b e m w' b')
  then have "window_ok w" "run_of w = run_of w1" by simp_all
  moreover from this event have "window_ok w'" by (blast intro: handle_ok)
  moreover have "run_of w' = run_of w"
    using event(4,5)
    by (auto simp: handle_def enumerate_button_def split: if_splits sum.splits dest!: handle_window_run)
  ultimately show ?case by simp
qed simp

text \<open>What the slot reports when the flag is not set.\<close>

lemma runner_ended_reports:
  assumes "\<not> w_suppress w" and "w_readout w \<noteq> None"
  shows "w_slot w = Some slot \<Longrightarrow> crashed \<or> exitCode \<noteq> 0 \<Longrightarrow>
      \<exists>w' t s. runner_ended p m crashed exitCode w = Inr w' \<and>
        g_boxes (w_gui w') = g_boxes (w_gui w) @ [Warning t s]"
    and "w_slot w = Some (MeasureSlot traceLog profile f) \<Longrightarrow> file_exists m traceLog \<Longrightarrow>
      \<exists>w' s. runner_ended p m False 0 w = Inr w' \<and>
        g_boxes (w_gui w') = g_boxes (w_gui w) @ [Information ''AI PCIe performance summary'' s]"
    and "w_slot w = Some (EnumerationSlot traceLog) \<Longrightarrow> file_exists m traceLog \<Longrightarrow>
      \<exists>w'. runner_ended p m False 0 w = Inr w' \<and>
        g_status (w_gui w') = qargs ''Loaded %1 trace entries from %2''
          [print_dec (length (g_rows (w_gui w'))), traceLog]"
  using assms
  by (cases slot;
      auto simp: runner_ended_def enumeration_finished_def runner_finished_def enumeration_failed_box_def update_readout_def
      file_exists_def Let_def)+

lemma launch_slot:
  assumes "resolvedScript (pf_paths p) m \<noteq> []"
    and "traceLog = script_log (pf_paths p) (resolvedScript (pf_paths p) m) trace_log_name"
  shows "w_slot (launch_enumeration p m True w) = Some (EnumerationSlot traceLog)"
    and "launch_measurement p m True dlg w = Inr w' \<Longrightarrow>
      \<exists>profile. w_slot w' = Some (MeasureSlot traceLog profile (dlg_form dlg))"
  using assms
  by (auto simp: launch_enumeration_def launch_measurement_def start_runner_def update_readout_def Let_def
      split: sum.splits option.splits)

lemma launch_running:
  assumes "resolvedScript (pf_paths p) m \<noteq> []"
  shows "w_running (launch_enumeration p m True w)"
    and "launch_measurement p m True dlg w = Inr w' \<Longrightarrow> w_running w'"
  using assms
  by (auto simp: launch_enumeration_def launch_measurement_def start_runner_def update_readout_def Let_def
      launch_runner_def split: sum.splits option.splits)

text \<open>
  C16: A runner is started while the process before it has ended and no poll has noticed, which is
  always so while the trace file cannot be opened. Then, whatever happens meanwhile, the end of this
  run changes nothing but the two flags of the process, whether it succeeds, fails or crashes: no
  message box, no status, no trace loaded. With the flag clear the same end would have been
  reported: a failure by a warning, a success with a trace file by the summary box of a measurement
  or the status of an enumeration.
\<close>

theorem window_result_dropped:
  assumes "window_reachable p b0 (w, b)" and "enabled w e"
    and "e = EnumerateFlow True \<or> e = MeasureButton True"
    and "resolvedScript (pf_paths p) m \<noteq> []"
    and "g_live_process (w_gui w)" and "\<not> w_running w"
    and "handle p m e (w, b) = Inr (w1, b1)" and "meanwhile p (w1, b1) (w2, b2)"
    and "traceLog = script_log (pf_paths p) (resolvedScript (pf_paths p) m) trace_log_name"
  shows "w_running w2 \<and>
    (\<forall>m' crashed exitCode. handle p m' (RunnerEnded crashed exitCode) (w2, b2) =
       Inr (w2\<lparr>w_running := False, w_suppress := False\<rparr>, b2)) \<and>
    (\<forall>m' crashed exitCode. crashed \<or> exitCode \<noteq> 0 \<longrightarrow>
       (\<exists>w3 t s. handle p m' (RunnerEnded crashed exitCode) (w2\<lparr>w_suppress := False\<rparr>, b2) = Inr (w3, b2) \<and>
          g_boxes (w_gui w3) = g_boxes (w_gui w2) @ [Warning t s])) \<and>
    (\<forall>m'. file_exists m' traceLog \<longrightarrow>
       (\<exists>w3. handle p m' (RunnerEnded False 0) (w2\<lparr>w_suppress := False\<rparr>, b2) = Inr (w3, b2) \<and>
          (if e = MeasureButton True
           then \<exists>s. g_boxes (w_gui w3) = g_boxes (w_gui w2) @ [Information ''AI PCIe performance summary'' s]
           else g_status (w_gui w3) =
             qargs ''Loaded %1 trace entries from %2'' [print_dec (length (g_rows (w_gui w3))), traceLog])))"
proof -
  have ok: "window_ok w" by (rule window_reachable_ok [OF assms(1)])
  have ok1: "window_ok w1" by (rule handle_ok [OF ok assms(2,7)])
  note run2 = meanwhile_run [OF assms(8) ok1]
  have flag: "w_suppress w1 \<and> w_running w1"
    using assms(2-7) launch_flag [OF ok assms(4)] launch_running [OF assms(4)]
    by (auto simp: handle_def handle_window_def enabled_def split: sum.splits)
  obtain slot where slot: "w_slot w1 = Some slot"
    "if e = MeasureButton True then \<exists>profile f. slot = MeasureSlot traceLog profile f else slot = EnumerationSlot traceLog"
  proof (cases "e = MeasureButton True")
    case True
    then obtain dlg where "launch_measurement p m True dlg w = Inr w1"
      using assms(2,7) by (auto simp: handle_def handle_window_def enabled_def split: sum.splits)
    from launch_slot(2) [OF assms(4,9) this] True that show ?thesis by auto
  next
    case False
    then have "w1 = launch_enumeration p m True w"
      using assms(3,7) by (auto simp: handle_def handle_window_def)
    with launch_slot(1) [OF assms(4,9)] False that show ?thesis by auto
  qed
  have w2: "w_suppress w2" "w_running w2" "w_slot w2 = Some slot" "w_readout w2 \<noteq> None"
    using run2 flag slot(1) by (auto simp: run_of_def window_ok_def)
  let ?w = "w2\<lparr>w_suppress := False\<rparr>"
  have clear: "\<not> w_suppress ?w" "w_readout ?w \<noteq> None" "w_slot ?w = Some slot" using w2 by simp_all
  have handle: "handle p m' (RunnerEnded crashed exitCode) (v, b2) =
      (case runner_ended p m' crashed exitCode v of Inl ub \<Rightarrow> Inl ub | Inr w' \<Rightarrow> Inr (w', b2))" for m' crashed exitCode v
    by (simp add: handle_def handle_window_def)
  have "\<exists>w3 t s. handle p m' (RunnerEnded crashed exitCode) (?w, b2) = Inr (w3, b2) \<and>
      g_boxes (w_gui w3) = g_boxes (w_gui w2) @ [Warning t s]" if "crashed \<or> exitCode \<noteq> 0" for m' crashed exitCode
    using runner_ended_reports(1) [OF clear(1,2,3) that, of p m'] by (auto simp: handle)
  moreover have "\<exists>w3. handle p m' (RunnerEnded False 0) (?w, b2) = Inr (w3, b2) \<and>
      (if e = MeasureButton True
       then \<exists>s. g_boxes (w_gui w3) = g_boxes (w_gui w2) @ [Information ''AI PCIe performance summary'' s]
       else g_status (w_gui w3) =
         qargs ''Loaded %1 trace entries from %2'' [print_dec (length (g_rows (w_gui w3))), traceLog])"
    if "file_exists m' traceLog" for m'
  proof (cases "e = MeasureButton True")
    case True
    with slot(2) clear(3) obtain profile f where "w_slot ?w = Some (MeasureSlot traceLog profile f)" by auto
    from runner_ended_reports(2) [OF clear(1,2) this that, of p] True show ?thesis by (auto simp: handle)
  next
    case False
    with slot(2) clear(3) have "w_slot ?w = Some (EnumerationSlot traceLog)" by simp
    from runner_ended_reports(3) [OF clear(1,2) this that, of p] False show ?thesis by (auto simp: handle)
  qed
  ultimately show ?thesis
    using w2 by (simp add: handle runner_ended_suppressed)
qed

section \<open>A run of the window\<close>

definition sample_script :: string where
  "sample_script = ''/r/scripts/run_zephyr_ai_topology.sh''"

definition sample_platform :: "image pci_world platform" where
  "sample_platform =
     \<lparr>pf_qt = simple_qt, pf_fixed = simple_fixed, pf_to_double = (\<lambda>_. 0), pf_to_int = (\<lambda>_. None),
      pf_paths = \<lparr>p_current = ''/r'', p_app_dir = ''/r/bin'', p_clean = id,
                  p_absolute = (\<lambda>_. ''/r/scripts''), p_file = (\<lambda>d f. d @ ''/'' @ f)\<rparr>,
      pf_backends = image_backends, pf_set_env = set_pci_env\<rparr>"

definition sample_moment :: "(string \<rightharpoonup> string) \<Rightarrow> moment" where
  "sample_moment fs =
     \<lparr>m_files = fs(sample_script \<mapsto> []), m_clock = id,
      m_env = (\<lambda>i. \<lparr>tv_sec = 1, tv_nsec = 0, realloc_ok = \<lambda>n. False\<rparr>), m_calloc = True\<rparr>"

lemma sample_script_found: "resolvedScript (pf_paths sample_platform) (sample_moment fs) = sample_script"
  by (simp add: resolvedScript_def candidateScripts_def sample_platform_def sample_moment_def file_exists_def
      sample_script_def)

abbreviation dialog_open :: window where
  "dialog_open \<equiv> openAiPerfDialog initial_window"

lemma reach_dialog: "window_reachable p b (dialog_open, b)"
proof -
  have "window_reachable p b (initial_window, b)"
    using window_reachable.shown [of p b _ None] by (simp add: start_window_def)
  then show ?thesis
    by (rule window_reachable.happens [where e = AiButton])
      (simp_all add: enabled_def handle_def handle_window_def initial_window_def)
qed

lemma dialog_open_simps [simp]:
  "w_dialog dialog_open = Some \<lparr>dlg_preset = 0, dlg_form = applyPreset 0 first_form\<rparr>"
  "w_readout dialog_open = Some ''Live performance: waiting for trace...''"
  "w_pcie_ls dialog_open = LsNone" "w_gui dialog_open = initial_gui" "\<not> w_closed dialog_open"
  "\<not> w_running dialog_open" "\<not> w_suppress dialog_open"
  by (simp_all add: openAiPerfDialog_def initial_window_def)

text \<open>The dialog's enumeration has run to its end and left no trace.\<close>

abbreviation first_run :: window where
  "first_run \<equiv> launch_enumeration sample_platform (sample_moment Map.empty) True dialog_open"

lemma first_run_simps [simp]:
  "w_dialog first_run = w_dialog dialog_open" "\<not> w_closed first_run" "w_running first_run"
  "\<not> w_suppress first_run" "g_live_process (w_gui first_run)" "g_live_timer (w_gui first_run)"
  "w_slot first_run = Some (EnumerationSlot ''/r/scripts/../zephyr_ai_topology_trace.log'')"
  by (simp_all add: launch_enumeration_def Let_def sample_script_found start_runner_def launch_runner_def
      runner_of_def startLiveTrace_def script_log_def workDir_def)
    (simp_all add: sample_script_def initial_gui_def sample_platform_def trace_log_name_def)

lemma reach_first_run: "window_reachable sample_platform b (first_run, b)"
  by (rule window_reachable.happens [OF reach_dialog, where e = "EnumerateFlow True"])
    (simp_all add: enabled_def handle_def handle_window_def)

text \<open>The run ends with an error, which is reported, before any poll.\<close>

abbreviation first_end :: window where
  "first_end \<equiv> first_run\<lparr>w_running := False, w_gui := show_box enumeration_failed_box (w_gui first_run), w_suppress := False\<rparr>"

lemma reach_first_end: "window_reachable sample_platform b (first_end, b)"
  by (rule window_reachable.happens [OF reach_first_run, where e = "RunnerEnded True 1" and m = "sample_moment Map.empty"])
    (simp_all add: enabled_def handle_def handle_window_def runner_ended_def enumeration_finished_def)

text \<open>A capture is shown and its window closed.\<close>

abbreviation capture_files :: "string \<rightharpoonup> string" where
  "capture_files \<equiv> [''/r/scripts/../zephyr_pcie_ls.log'' \<mapsto> []]"

lemma sample_capture:
  "file_exists (sample_moment capture_files)
     (script_log (pf_paths sample_platform) sample_script ''zephyr_pcie_ls.log'')"
  "sample_script \<noteq> []"
  by (simp_all add: file_exists_def sample_moment_def script_log_def workDir_def sample_platform_def sample_script_def)

abbreviation capture_closed :: window where
  "capture_closed \<equiv> dialog_open\<lparr>w_pcie_ls := LsDeleted\<rparr>"

lemma reach_capture_closed: "window_reachable sample_platform b (capture_closed, b)"
proof -
  let ?path = "script_log (pf_paths sample_platform) sample_script ''zephyr_pcie_ls.log''"
  let ?w = "dialog_open\<lparr>w_pcie_ls := LsShown (pcie_ls_text (pf_qt sample_platform) ?path
              (m_files (sample_moment capture_files) ?path))\<rparr>"
  have "window_reachable sample_platform b (?w, b)"
    by (rule window_reachable.happens [OF reach_dialog, where e = PcieLsButton and m = "sample_moment capture_files"])
      (simp_all add: enabled_def handle_def handle_window_def pcie_ls_button_def Let_def sample_script_found
        sample_capture showPcieLsWindow_def)
  then show ?thesis
    by (rule window_reachable.happens [where e = ClosePcieLs])
      (simp_all add: enabled_def handle_def handle_window_def)
qed

text \<open>A trace of one line is loaded as the window starts.\<close>

abbreviation traced :: window where
  "traced \<equiv> start_window sample_platform (sample_moment [''a.log'' \<mapsto> raw_line sample_row @ [CHR 0x0A]]) (Some ''a.log'')"

lemma traced_row:
  "g_rows (w_gui traced) = [sample_row\<lparr>row_ts := ''0''\<rparr>]" "g_search (w_gui traced) = []"
  "g_colors (w_gui traced) = [Some (row_colors False False (sample_row\<lparr>row_ts := ''0''\<rparr>))]"
  "g_current (w_gui traced) = Some 0" "\<not> g_dark (w_gui traced)"
proof -
  let ?text = "raw_line sample_row @ [CHR 0x0A]"
  note plain = raw_line_text [OF sample_raw_row]
  have lines: "split_newlines ?text = [raw_line sample_row, []]"
    by (simp add: split_newlines_line [OF plain(2)])
  have "\<not> is_csv simple_qt [raw_line sample_row, []]"
    using saved_not_csv [OF simple_qt_text, of "[sample_row]"] by (simp add: sample_raw_row)
  moreover have "load_lines simple_qt id False [raw_line sample_row, []] = [sample_row\<lparr>row_ts := ''0''\<rparr>]"
    using load_raw_lines [OF simple_qt_text, of "[sample_row]" id] by (simp add: sample_raw_row restamped_def)
  moreover have "qt_trimmed simple_qt (raw_line sample_row) \<noteq> []"
    using plain by (simp add: qt_textD)
  moreover have "sample_script \<noteq> ''a.log''" by (simp add: sample_script_def)
  ultimately show "g_rows (w_gui traced) = [sample_row\<lparr>row_ts := ''0''\<rparr>]" "g_search (w_gui traced) = []"
    "g_colors (w_gui traced) = [Some (row_colors False False (sample_row\<lparr>row_ts := ''0''\<rparr>))]"
    "g_current (w_gui traced) = Some 0" "\<not> g_dark (w_gui traced)"
    by (simp_all add: start_window_def loadTraceFile_def loadCsv_def Let_def lines sample_moment_def sample_platform_def
        colorRows_def initial_gui_def)
qed

theorem window_row_colours_witness:
  "\<exists>w'. handle sample_platform (sample_moment Map.empty) ThemeButton (traced, image_world sample_config) =
        Inr (w', image_world sample_config) \<and>
     w_style w' = fst (applyTheme True) \<and> g_current (w_gui traced) = Some 0 \<and>
     g_colors (w_gui w') = [Some (row_colors False False (sample_row\<lparr>row_ts := ''0''\<rparr>))]"
  using window_row_colours [OF window_reachable.shown, of sample_platform
      "sample_moment [''a.log'' \<mapsto> raw_line sample_row @ [CHR 0x0A]]" "Some ''a.log''" "sample_moment Map.empty"
      "image_world sample_config"]
  by (auto simp: traced_row)

theorem window_type_safe_witness:
  "length (g_hidden (w_gui first_run)) = length (g_rows (w_gui first_run)) \<and>
   (w_style first_run, w_theme_button first_run) = applyTheme (g_dark (w_gui first_run)) \<and>
   g_live_process (w_gui first_run) \<and> w_slot first_run \<noteq> None"
  using window_type_safe [OF reach_first_run [of "image_world sample_config"]] by simp

theorem window_undefined_behaviour_witness:
  "handle sample_platform (sample_moment capture_files) PcieLsButton
     (capture_closed, image_world sample_config) = Inl Dangling"
  using window_undefined_behaviour [OF reach_capture_closed, where e = PcieLsButton
      and m = "sample_moment capture_files" and ub = Dangling and b = "image_world sample_config"]
  by (simp add: enabled_def shows_capture_def sample_script_found sample_capture Let_def)

theorem window_result_dropped_witness:
  "\<exists>w1 w2. handle sample_platform (sample_moment Map.empty) (MeasureButton True) (first_end, image_world sample_config) =
       Inr (w1, image_world sample_config) \<and>
     w2 = w1\<lparr>w_device := ''0000:01:00.0''\<rparr> \<and>
     handle sample_platform (sample_moment Map.empty) (RunnerEnded True 1) (w2, image_world sample_config) =
       Inr (w2\<lparr>w_running := False, w_suppress := False\<rparr>, image_world sample_config) \<and>
     (\<exists>w3 t s. handle sample_platform (sample_moment Map.empty) (RunnerEnded True 1)
         (w2\<lparr>w_suppress := False\<rparr>, image_world sample_config) = Inr (w3, image_world sample_config) \<and>
       g_boxes (w_gui w3) = g_boxes (w_gui w2) @ [Warning t s])"
proof -
  let ?b = "image_world sample_config" and ?m = "sample_moment Map.empty"
  have en: "enabled first_end (MeasureButton True)" by (simp add: enabled_def)
  from measure_defined [OF window_reachable_ok [OF reach_first_end], of _ sample_platform ?m True]
  obtain w1 where w1: "launch_measurement sample_platform ?m True \<lparr>dlg_preset = 0, dlg_form = applyPreset 0 first_form\<rparr>
      first_end = Inr w1"
    by (cases "launch_measurement sample_platform ?m True \<lparr>dlg_preset = 0, dlg_form = applyPreset 0 first_form\<rparr> first_end")
      auto
  then have launched: "handle sample_platform ?m (MeasureButton True) (first_end, ?b) = Inr (w1, ?b)"
    by (simp add: handle_def handle_window_def)
  have "\<not> w_closed w1"
    using w1 by (auto simp: launch_measurement_def Let_def sample_script_found sample_capture update_readout_def start_runner_def
        split: sum.splits option.splits)
  then have "meanwhile sample_platform (w1, ?b) (w1\<lparr>w_device := ''0000:01:00.0''\<rparr>, ?b)"
    by (intro meanwhile.event [OF meanwhile.at_once, where e = "EditDevice ''0000:01:00.0''"])
      (simp_all add: enabled_def touches_runner_def handle_def handle_window_def)
  from window_result_dropped [OF reach_first_end en _ _ _ _ launched this refl]
  show ?thesis using launched by (simp add: sample_script_found sample_capture)
qed

end
