(* ===== verification/GuiGolden.thy ===== *)
theory GuiGolden
  imports GuiWindow ExamplePrograms
begin

text \<open>
  The viewer's enumeration on the golden backend, the one it starts with: what its scenario box
  sets in the environment, what \<open>src/backend_dummy.c\<close> reads there, and what the window shows
  afterwards, from the click to the status line.
\<close>

section \<open>A profile and settings in the scenario box\<close>

text \<open>The first part names the profile, the others are settings.\<close>

definition scenario_text :: "string \<Rightarrow> (string \<times> string) list \<Rightarrow> string" where
  "scenario_text profile kvs = join_text (CHR '','') (profile # map setting_text kvs)"

lemma clean_no_eq_set: "clean s \<Longrightarrow> CHR ''='' \<notin> set s"
  by (auto simp: clean_def list_all_iff)

lemma scenario_profile_settings:
  assumes "clean profile" and "list_all clean_setting kvs" and "length (scenario_text profile kvs) \<le> 255"
  shows "dummy_apply_scenario_values (scenario_text profile kvs) cfg =
    (case fold (\<lambda>(k, v). scenario_setting k v) kvs (cfg, Some profile) of
       (cfg', None) \<Rightarrow> cfg'
     | (cfg', Some name) \<Rightarrow> if name = [] then cfg' else use_profile name cfg')"
proof -
  have t: "profile \<noteq> [] \<and> list_all (\<lambda>c. \<not> scenario_sep c) profile"
    using assms(1) clean_no_sep [OF assms(1)] by (simp add: clean_def)
  then have tok: "tokens scenario_sep (scenario_text profile kvs) = profile # map setting_text kvs"
    using assms(2) setting_text_no_sep
    unfolding scenario_text_def by (intro tokens_join) (auto simp: scenario_sep_def list_all_iff)
  then have "scenario_text profile kvs \<noteq> []" by (auto simp: tokens.simps)
  moreover have "scenario_token profile (cfg, None) = (cfg, Some profile)"
    using t clean_no_eq_set [OF assms(1)] assms(1) by (simp add: scenario_token_def)
  ultimately show ?thesis
    using assms(2,3) tok by (simp add: dummy_apply_scenario_values_def fold_scenario_tokens)
qed

lemma decimal_digits:
  "digit_char 0 = CHR ''0''" "digit_char (Suc 0) = CHR ''1''" "digit_char 2 = CHR ''2''"
  "digit_char 5 = CHR ''5''" "digit_char 6 = CHR ''6''"
  by code_simp+

lemma print_dec_digit: "n < 10 \<Longrightarrow> print_dec n = [digit_char n]"
  by (simp add: print_dec_def print_base.simps [of 10 n])

lemma print_dec_step: "10 \<le> n \<Longrightarrow> print_dec n = print_dec (n div 10) @ [digit_char (n mod 10)]"
  by (simp add: print_dec_def print_base.simps [of 10 n])

lemma default_scenario:
  "w_scenario initial_window =
     scenario_text (profile_text True 8 16)
       [(''latency'', print_dec 250 @ ''ns''), (''tps'', print_dec 250000), (''burst'', print_dec 16),
        (''jitter'', print_dec 50 @ ''ns'')]"
proof -
  have d: "print_dec 250 = ''250''" "print_dec 250000 = ''250000''" "print_dec 16 = ''16''" "print_dec 50 = ''50''"
    by (simp_all add: print_dec_step print_dec_digit decimal_digits)
  show ?thesis
    unfolding d profile_keys(7) [symmetric]
    by (simp only: initial_window_def window.select_convs scenario_text_def setting_text_def join_text.simps
        list.map prod.case append.simps)
qed

text \<open>What the dummy backend makes of the scenario the window starts with.\<close>

definition default_config :: "dummy_config \<Rightarrow> dummy_config" where
  "default_config cfg =
     cfg\<lparr>cfg_max_speed := 8, cfg_neg_speed := 8, cfg_max_width := 16, cfg_neg_width := 16,
         cfg_latency_ns := 250, cfg_tokens_per_second := 250000, cfg_burst_size := 16,
         cfg_jitter_ns := 50\<rparr>"

lemma default_scenario_applied:
  "dummy_apply_scenario_values (w_scenario initial_window) cfg = default_config cfg"
proof -
  let ?kvs = "[(''latency'', print_dec 250 @ ''ns''), (''tps'', print_dec 250000), (''burst'', print_dec 16),
        (''jitter'', print_dec 50 @ ''ns'')]"
  have "clean ''latency''" "clean ''tps''" "clean ''burst''" "clean ''jitter''"
    by (simp_all add: clean_def c_isspace_def scenario_sep_def)
  then have clean: "list_all clean_setting ?kvs"
    by (simp add: clean_setting_def clean_append clean_ns)
  have "length (w_scenario initial_window) \<le> 255" by (simp add: initial_window_def)
  then have len: "length (scenario_text (profile_text True 8 16) ?kvs) \<le> 255"
    by (simp only: default_scenario)
  have "fold (\<lambda>(k, v). scenario_setting k v) ?kvs (cfg, Some (profile_text True 8 16)) =
      (cfg\<lparr>cfg_latency_ns := 250, cfg_tokens_per_second := 250000, cfg_burst_size := 16, cfg_jitter_ns := 50\<rparr>,
       Some (profile_text True 8 16))"
    by (simp add: scenario_setting_def duration_ns dummy_parse_u32_print_dec)
  moreover have "profile_text True 8 16 \<noteq> []" by (simp add: profile_text_def)
  ultimately show ?thesis
    unfolding default_scenario scenario_profile_settings [OF clean_profile_text clean len]
    by (simp add: use_profile_some [OF dummy_profile_roundtrip] default_config_def)
qed

lemma default_runtime_config:
  assumes "getenv ''PCIE_DUMMY_PROFILE'' = Some (w_scenario initial_window)"
    and "getenv ''PCIE_DUMMY_SCENARIO'' = Some (w_scenario initial_window)"
  shows "dummy_read_runtime_config getenv = default_config (env_config getenv)"
proof -
  have "default_config (use_profile s cfg) = default_config cfg" for s cfg
    by (simp add: use_profile_def default_config_def split: option.split)
  moreover have "w_scenario initial_window \<noteq> []" by (simp add: initial_window_def)
  ultimately show ?thesis
    using assms by (simp add: dummy_read_runtime_config_def default_scenario_applied Let_def)
      (simp add: default_negotiated_def default_config_def)
qed


section \<open>The enumeration on the golden backend\<close>

lemma enum_loop_dummy:
  assumes env: "\<And>i. granted (env i)"
  shows "\<lbrakk>ctx_ok dummy_ops c; length (trace_of c) + length as < 1000\<rbrakk> \<Longrightarrow>
    \<exists>c' st'. enum_loop qt clock env i as c st g =
        Inr (None, c', st', insert_rows (map (\<lambda>(j, a). enum_row qt (clock j) a (replicate 4 0))
                                          (enumerate i as)) g) \<and>
      ctx_ok dummy_ops c' \<and> dm_environ st' = dm_environ st"
proof (induction as arbitrary: i c st g)
  case (Cons a as)
  have v: "valid_tlp (enum_packet a)" by (simp add: enum_packet_def valid_tlp_def)
  from send_dummy [OF Cons.prems(1) env [of i] v, of st] Cons.prems(2) obtain c1 where
    c1: "pcie_send (env i) (Some c) (Some (enum_packet a)) st = Inr (0, Some (enum_packet a), Some c1, dummy_pace st)"
      "ctx_ok dummy_ops c1" "length (trace_of c1) + length as < 1000"
    by auto
  let ?g = "insert_rows [enum_row qt (clock i) a (replicate 4 0)] g"
  from Cons.IH [OF c1(2,3), of "i + 1" "dummy_pace st" ?g] c1(1) show ?case
    by (simp add: enum_packet_def Prelude.mem_read_def)
qed simp

definition golden_info :: device_info where
  "golden_info = device_info_zero\<lparr>vendor_id := 0x1AE0, device_id := 1, class_code := 0x0400,
                                  revision_id := 1, has_pcie_capability := 1\<rparr>"

definition id_unset :: "environ \<Rightarrow> bool" where
  "id_unset getenv \<longleftrightarrow>
     (\<forall>v \<in> {''PCIE_DUMMY_VENDOR_ID'', ''PCIE_DUMMY_DEVICE_ID'', ''PCIE_DUMMY_CLASS_CODE'', ''PCIE_DUMMY_REVISION''}.
        getenv v = None)"

lemma golden_device_info:
  "id_unset (dm_environ st) \<Longrightarrow> dummy_device_info (Some i) st = Inr (0, Some golden_info, st)"
  by (simp add: dummy_device_info_def id_unset_def golden_info_def dummy_parse_u32_unset Let_def)

lemma enumerate_golden:
  assumes ctor: "ctor_golden bes = pcie_backend_dummy" and be: "be = ''golden'' \<or> be = ''dummy''"
    and env: "\<forall>i. granted (env i)"
    and ids: "id_unset (dm_environ (enum_environment qt set_env be dev sc st))"
  shows "\<exists>st'. dm_environ st' = dm_environ (enum_environment qt set_env be dev sc st) \<and>
    enumeratePciDevice qt clock bes True env set_env be dev sc st g =
    Inr (enum_done qt golden_info
           (dummy_status (dummy_read_runtime_config (dm_environ (enum_environment qt set_env be dev sc st))))
           (insert_rows (map (\<lambda>(j, a). enum_row qt (clock j) a (replicate 4 0)) (enumerate 0 enumAddrs))
              (clear_rows g)), st')"
proof -
  let ?st = "enum_environment qt set_env be dev sc st"
  let ?c = "fresh_ctx\<lparr>backend := Some dummy_ops\<rparr> :: (dummy_state, unit) pcie_ctx"
  have opened: "pcie_open bes True (Some be) ?st = Inr (Some ?c, ?st)"
    using ctor be by (auto simp: pcie_open_def select_backend_def pcie_backend_dummy_def)
  have e: "\<And>i. granted (env i)" using env by simp
  have "length (trace_of ?c) + length enumAddrs < 1000"
    by (simp add: enumAddrs_def trace_of_def fresh_ctx_def)
  from enum_loop_dummy [where env = env and i = 0 and qt = qt and clock = clock and g = "clear_rows g" and st = ?st,
      OF e ctx_ok_fresh this]
  obtain c' st' where loop: "enum_loop qt clock env 0 enumAddrs ?c ?st (clear_rows g) =
      Inr (None, c', st', insert_rows (map (\<lambda>(j, a). enum_row qt (clock j) a (replicate 4 0))
               (enumerate 0 enumAddrs)) (clear_rows g))" "ctx_ok dummy_ops c'"
    "dm_environ st' = dm_environ ?st"
    by auto
  show ?thesis
    using loop close_dummy [OF loop(2), of st'] golden_device_info [OF ids]
    by (simp add: enumeratePciDevice_def opened pcie_get_device_info_def pcie_get_link_status_def
        dummy_link_status_def)
qed

text \<open>Setting a variable changes that variable of the backend's environment.\<close>

definition set_env_law :: "dummy_state set_env \<Rightarrow> bool" where
  "set_env_law set_env \<longleftrightarrow> (\<forall>v s st. dm_environ (set_env v s st) = (dm_environ st)(v := s))"

lemma first_environment:
  assumes "set_env_law set_env" and "qt_text qt"
  shows "dm_environ (enum_environment qt set_env ''golden'' (w_device initial_window) (w_scenario initial_window) st) =
    (dm_environ st)(''PCIE_PCI_DEVICE'' := None, ''PCIE_DUMMY_SCENARIO'' := Some (w_scenario initial_window),
       ''PCIE_DUMMY_PROFILE'' := Some (w_scenario initial_window))"
proof -
  have "ascii (w_scenario initial_window)" "w_scenario initial_window \<noteq> []"
    "c_trim (w_scenario initial_window) = w_scenario initial_window"
    by (simp_all add: initial_window_def c_trim_def c_isspace_def)
  with assms show ?thesis
    by (simp add: enum_environment_def set_env_law_def qt_text_def Let_def)
qed


lemma hex_digits:
  "digit_char 4 = CHR ''4''" "digit_char 10 = CHR ''a''" "digit_char 14 = CHR ''e''"
  by code_simp+

lemma print_hex_digit: "n < 16 \<Longrightarrow> print_hex n = [digit_char n]"
  by (simp add: print_hex_def print_base.simps [of 16 n])

lemma print_hex_step: "16 \<le> n \<Longrightarrow> print_hex n = print_hex (n div 16) @ [digit_char (n mod 16)]"
  by (simp add: print_hex_def print_base.simps [of 16 n])

lemma golden_summary:
  assumes "qt_numbers qt"
  shows "device_summary qt golden_info (dummy_status (default_config cfg)) =
    ''Vendor 0x1ae0 Device 0x0001 Class 0x000400 Rev 0x01 | Link 256.0 GT/s/16 lanes''"
proof -
  have num: "qt_number qt w 16 k = zero_pad w (print_hex k)" "qt_number qt w 10 k = zero_pad w (print_dec k)" for w k
    using assms by (simp_all add: qt_numbers_def)
  have zeros: "replicate 3 (CHR ''0'') = ''000''" by (simp add: numeral_3_eq_3)
  have n: "qt_number qt 4 16 6880 = ''1ae0''" "qt_number qt 4 16 (Suc 0) = ''0001''" "qt_number qt 6 16 1024 = ''000400''"
    "qt_number qt 2 16 (Suc 0) = ''01''" "qt_number qt 0 10 16 = ''16''"
    by (simp_all add: num zero_pad_def print_hex_step print_hex_digit print_dec_step print_dec_digit
        decimal_digits hex_digits zeros)
  show ?thesis
    by (simp add: device_summary_def golden_info_def dummy_status_def default_config_def n
        pcie_link_speed_from_code_def qargs_def qarg_def take_mark_def is_digit_def digit_val_def)
qed

section \<open>The first click\<close>

text \<open>
  C7: The viewer as it starts, asked to enumerate: on the golden backend the table shows the eight
  configuration registers with four zero bytes each, none hidden and the first selected; the status
  line names the backend's default device, its class without the base class 0x06, and the link of
  the profile in the scenario box; and the settings behind the profile, the latency, the rate, the
  burst and the jitter, are what the backend runs with.
\<close>

theorem golden_first_enumeration:
  assumes "qt_text (pf_qt p)" and "qt_numbers (pf_qt p)"
    and "ctor_golden (pf_backends p) = pcie_backend_dummy" and "set_env_law (pf_set_env p)"
    and "m_calloc m" and "\<forall>i. granted (m_env m i)" and "id_unset (dm_environ st)"
  shows "\<exists>w st'. handle p m EnumerateButton (initial_window, st) = Inr (w, st') \<and>
    g_rows (w_gui w) = map (\<lambda>(i, a). enum_row (pf_qt p) (m_clock m i) a [0, 0, 0, 0]) (enumerate 0 enumAddrs) \<and>
    g_visible (w_gui w) = 8 \<and> g_current (w_gui w) = Some 0 \<and>
    g_status (w_gui w) = ''Enumerated PCI device (Vendor 0x1ae0 Device 0x0001 Class 0x000400 Rev 0x01 | Link 256.0 GT/s/16 lanes)'' \<and>
    (let cfg = dummy_read_runtime_config (dm_environ st')
     in cfg_latency_ns cfg = 250 \<and> cfg_tokens_per_second cfg = 250000 \<and> cfg_burst_size cfg = 16 \<and>
        cfg_jitter_ns cfg = 50)"
proof -
  let ?qt = "pf_qt p" and ?d = "w_device initial_window" and ?s = "w_scenario initial_window"
  let ?st = "enum_environment ?qt (pf_set_env p) ''golden'' ?d ?s st"
  note e = first_environment [OF assms(4,1), of st]
  have "id_unset (dm_environ ?st)" using assms(7) by (simp add: e id_unset_def)
  from enumerate_golden [OF assms(3) disjI1 [OF refl] assms(6) this, of "m_clock m" initial_gui]
  obtain st' where st': "dm_environ st' = dm_environ ?st"
    "enumeratePciDevice ?qt (m_clock m) (pf_backends p) True (m_env m) (pf_set_env p) ''golden'' ?d ?s st initial_gui =
       Inr (enum_done ?qt golden_info (dummy_status (dummy_read_runtime_config (dm_environ ?st)))
         (insert_rows (map (\<lambda>(j, a). enum_row ?qt (m_clock m j) a (replicate 4 0)) (enumerate 0 enumAddrs))
            (clear_rows initial_gui)), st')"
    by blast
  have cfg: "dummy_read_runtime_config (dm_environ ?st) = default_config (env_config (dm_environ ?st))"
    by (rule default_runtime_config) (simp_all add: e)
  have sel: "w_backend initial_window = ''golden''" "w_gui initial_window = initial_gui"
    by (simp_all add: initial_window_def)
  have [simp]: "qt_trimmed ?qt [] = []" using assms(1) by (simp add: qt_text_def ascii_def c_trim_def)
  have vis: "g_visible (enum_done ?qt i l (insert_rows rows (clear_rows initial_gui))) = length rows"
    for i l rows
    by (simp add: enum_done_def applyFilter_def colorRows_def updateSummaryStats_def select_row_def insert_rows_def clear_rows_def initial_gui_def
        row_visible_def type_items_def direction_items_def comp_def Let_def)
  have "handle p m EnumerateButton (initial_window, st) = Inr (initial_window\<lparr>w_gui :=
       enum_done ?qt golden_info (dummy_status (default_config (env_config (dm_environ ?st))))
         (insert_rows (map (\<lambda>(j, a). enum_row ?qt (m_clock m j) a (replicate 4 0)) (enumerate 0 enumAddrs))
            (clear_rows initial_gui))\<rparr>, st')"
    using st'(2) [unfolded cfg] assms(5) by (simp add: handle_def enumerate_button_def sel)
  moreover have "g_status (enum_done ?qt golden_info (dummy_status (default_config c)) g) =
      ''Enumerated PCI device (Vendor 0x1ae0 Device 0x0001 Class 0x000400 Rev 0x01 | Link 256.0 GT/s/16 lanes)''" for c g
    by (simp add: enum_done_def Let_def golden_summary [OF assms(2)] qarg_def take_mark_def is_digit_def digit_val_def)
  ultimately show ?thesis
    using cfg st'(1)
    by (simp add: enum_done_fields vis default_config_def) (simp add: enumAddrs_def numeral_eq_Suc)
qed


definition golden_platform :: "dummy_state platform" where
  "golden_platform =
     \<lparr>pf_qt = simple_qt, pf_fixed = simple_fixed, pf_to_double = (\<lambda>_. 0), pf_to_int = (\<lambda>_. None),
      pf_paths = \<lparr>p_current = ''/r'', p_app_dir = ''/r/bin'', p_clean = id, p_absolute = id,
                  p_file = (\<lambda>d f. d @ ''/'' @ f)\<rparr>,
      pf_backends = dummy_backends, pf_set_env = (\<lambda>v s st. st\<lparr>dm_environ := (dm_environ st)(v := s)\<rparr>)\<rparr>"

theorem golden_first_enumeration_witness:
  "\<exists>w st'. handle golden_platform
        \<lparr>m_files = Map.empty, m_clock = id, m_env = sample_env, m_calloc = True\<rparr> EnumerateButton
        (initial_window, \<lparr>dm_environ = Map.empty, dm_count = 0, dm_next_tx_ns = 0, dm_clock_ns = 5\<rparr>) = Inr (w, st') \<and>
     g_status (w_gui w) = ''Enumerated PCI device (Vendor 0x1ae0 Device 0x0001 Class 0x000400 Rev 0x01 | Link 256.0 GT/s/16 lanes)'' \<and>
     cfg_latency_ns (dummy_read_runtime_config (dm_environ st')) = 250"
  using golden_first_enumeration [of golden_platform
      "\<lparr>m_files = Map.empty, m_clock = id, m_env = sample_env, m_calloc = True\<rparr>"
      "\<lparr>dm_environ = Map.empty, dm_count = 0, dm_next_tx_ns = 0, dm_clock_ns = 5\<rparr>"]
  by (auto simp: golden_platform_def dummy_backends_def set_env_law_def id_unset_def granted_def alloc_law_def
      sample_env_def Let_def)

end
