(* ===== verification/GuiTopology.thy ===== *)
theory GuiTopology
  imports CText
begin

text \<open>
  The page of the performance dialog that draws the AI topology, \<open>buildAiTopologyHtml\<close> of
  \<open>gui/src/MainWindow.cpp\<close>: root ports, switches and endpoints with their bus numbers, and the HTML
  made of them. The source holds the page as one text; here it is a tree of elements and the text
  is what \<open>render\<close> writes for it.
\<close>

section \<open>HTML\<close>

datatype html = Text string | Elem string "(string \<times> string) list" "html list"

definition attribute_text :: "string \<times> string \<Rightarrow> string" where
  "attribute_text a = '' '' @ fst a @ ''='' @ [CHR 0x27] @ snd a @ [CHR 0x27]"

fun render :: "html \<Rightarrow> string" where
  "render (Text s) = s"
| "render (Elem tag attrs body) =
     ''<'' @ tag @ concat (map attribute_text attrs) @ ''>'' @ concat (map render body) @
     ''</'' @ tag @ ''>''"

definition styled :: "string \<Rightarrow> string \<Rightarrow> html list \<Rightarrow> html" where
  "styled tag style body = Elem tag [(''style'', style)] body"

definition line_of :: "string \<Rightarrow> html" where
  "line_of s = Elem ''div'' [] [Text s]"

definition name_line :: "string \<Rightarrow> html" where
  "name_line s = styled ''div'' ''font-weight:bold;'' [Text s]"

definition place_line :: "string \<Rightarrow> html" where
  "place_line s = styled ''div'' ''font-size:12px;opacity:0.9;'' [Text s]"

definition cell :: "string \<Rightarrow> html list \<Rightarrow> html" where
  "cell style body = Elem ''td'' [(''align'', ''center''), (''style'', style)] body"

definition row_table :: "string \<Rightarrow> html list \<Rightarrow> html" where
  "row_table style cells = Elem ''table'' [(''width'', ''100%''), (''style'', style)] [Elem ''tr'' [] cells]"

section \<open>The topology\<close>

text \<open>Root ports: number, function, bus and role.\<close>

definition root_ports :: "(nat \<times> nat \<times> nat \<times> string) list" where
  "root_ports =
     [(1, 0, 1, ''Compute Hub 1''), (2, 1, 7, ''Compute Hub 2''), (3, 2, 13, ''Storage Array 1''),
      (4, 3, 19, ''Storage Array 2'')]"

text \<open>The switches below them: number and bus.\<close>

definition switches :: "(nat \<times> nat) list" where
  "switches = [(0, 2), (1, 8), (2, 14), (3, 20)]"

definition switch_ports :: "(nat \<times> nat) list" where
  "switch_ports = [(0, 0), (0, 1), (1, 0), (1, 1), (2, 0), (2, 1), (3, 0), (3, 1)]"

text \<open>Endpoints: kind, bus and name.\<close>

definition endpoints :: "(string \<times> nat \<times> string) list" where
  "endpoints =
     [(''[ GPU 1 ]'', 3, ''ai1''), (''[ GPU 2 ]'', 5, ''ai2''), (''[ GPU 3 ]'', 9, ''ai3''),
      (''[ GPU 4 ]'', 11, ''ai4''), (''[ NVMe 1 ]'', 15, ''nvme1''), (''[ NVMe 2 ]'', 17, ''nvme2''),
      (''[ SmartNIC ]'', 21, ''eth1''), (''[ SmartNIC ]'', 23, ''eth2'')]"

section \<open>The page\<close>

definition bus_text :: "nat \<Rightarrow> string" where
  "bus_text bus = zero_pad 2 (print_dec bus)"

definition root_port_cell :: "nat \<times> nat \<times> nat \<times> string \<Rightarrow> html" where
  "root_port_cell p =
     (case p of (n, f, bus, role) \<Rightarrow>
        cell ''border:1px solid #b7bec9;padding:9px;width:24%;''
          [name_line (''[ rp'' @ print_dec n @ '' ]''),
           place_line (''(01.'' @ print_dec f @ '', Bus '' @ bus_text bus @ '')''), line_of role])"

definition switch_cell :: "nat \<times> nat \<Rightarrow> html" where
  "switch_cell s =
     (case s of (n, bus) \<Rightarrow>
        cell ''border:1px solid #9aa4b2;padding:8px;width:24%;''
          [name_line (''[switch'' @ print_dec n @ ''_up]''),
           place_line (''(00.0, Bus '' @ bus_text bus @ '')'')])"

definition switch_port_cell :: "nat \<times> nat \<Rightarrow> html" where
  "switch_port_cell p =
     (case p of (n, port) \<Rightarrow>
        cell ''border:1px solid #9aa4b2;padding:6px;width:12%;''
          [Text (''[sw'' @ print_dec n @ '' dp'' @ print_dec port @ '']'')])"

definition endpoint_cell :: "string \<times> nat \<times> string \<Rightarrow> html" where
  "endpoint_cell e =
     (case e of (kind, bus, name) \<Rightarrow>
        cell ''border:1px solid #dfe5ee;padding:8px;width:12%;''
          [name_line kind, place_line (''('' @ print_dec bus @ '':0.0)''), line_of name])"

definition topology_page :: html where
  "topology_page =
     Elem ''html'' []
       [styled ''body'' ''background:#0f1117;color:#e7ebf3;font-family:monospace;''
         [styled ''div'' ''padding:8px;''
           [styled ''div'' ''text-align:center;font-weight:bold;font-size:18px;padding:8px;''
              [Text ''[ CPU Complex ]''],
            styled ''div'' ''text-align:center;font-size:14px;padding-bottom:10px;''
              [Text ''[ PCIe Bus 00 ]''],
            row_table ''border-spacing:10px 8px;'' (map root_port_cell root_ports),
            styled ''div'' ''border-top:2px solid #dfe5ee; margin:10px 0;'' [],
            row_table ''border-spacing:10px 8px;'' (map switch_cell switches),
            row_table ''border-spacing:10px 6px;'' (map switch_port_cell switch_ports),
            row_table ''border-spacing:10px 6px;'' (map endpoint_cell endpoints)]]]"

definition buildAiTopologyHtml :: string where
  "buildAiTopologyHtml = render topology_page"

section \<open>The drawing is a PCI hierarchy\<close>

text \<open>The buses of a root port: its own, up to that of the next one.\<close>

definition port_buses :: "nat \<times> nat \<times> nat \<times> string \<Rightarrow> nat set" where
  "port_buses p = (case p of (_, _, bus, _) \<Rightarrow> {bus ..< bus + 6})"

text \<open>
  No bus is given twice, each root port has its switch on the next bus and exactly two endpoints
  within its range, one per downstream port of the switch, and no range meets another.
\<close>

lemma topology_buses:
  "distinct (map (fst \<circ> snd \<circ> snd) root_ports @ map snd switches @ map (fst \<circ> snd) endpoints)"
  "map snd switches = map (Suc \<circ> fst \<circ> snd \<circ> snd) root_ports"
  "map (\<lambda>p. length (filter (\<lambda>e. fst (snd e) \<in> port_buses p) endpoints)) root_ports = [2, 2, 2, 2]"
  "map (\<lambda>s. length (filter (\<lambda>q. fst q = fst s) switch_ports)) switches = [2, 2, 2, 2]"
  by (simp_all add: root_ports_def switches_def endpoints_def switch_ports_def port_buses_def)

end
