(* ===== verification/Spec2Isabelle.thy ===== *)
theory Spec2Isabelle
  imports Session Pshark DummyBackend PciDevice PciRing Fpga FpgaDriver FpgaCtrlDriver Xgig BridgeServer
    ExamplePrograms DevicePrograms Logging GuiDetails GuiEnumerate GuiScenario GuiRunner GuiSafety GuiGolden
    GuiTopology
begin

text \<open>
  A verification library for libpcapcie: the C library that sends, receives, filters and traces
  PCI Express transaction-layer packets over exchangeable backends, its example programs, the
  ARM DS bridge server, the simulated FPGA driver and the logic of the graphical trace viewer.

  \<^bold>\<open>The program.\<close> \<open>src/pcapcie.c\<close> keeps a context with a backend's operation table, statistics,
  up to eight sniffers and a growing trace array. \<open>pcie_open\<close> picks a backend; \<open>pcie_send\<close> and
  \<open>pcie_recv\<close> hand packets to its operations and record them; \<open>pcie_loop\<close> receives until the
  backend fails and calls the sniffers whose filter matches; the link queries go through the
  table too; the trace can be written as pcap or CSV. \<open>src/backend_dummy.c\<close>, \<open>backend_pci.c\<close>,
  \<open>backend_fpga.c\<close>, \<open>backend_xgig.c\<close> and \<open>backend_armds.c\<close> are the backends;
  \<open>armds_bridge_server.c\<close> is the far end of the last one. \<open>examples/\<close> and
  \<open>gui/src/MainWindow.cpp\<close> use the library and read the files it writes.

  \<^bold>\<open>Theories and sources.\<close>
  \<^item> \<open>Prelude\<close>: C outcomes (undefined behaviour is \<open>Inl\<close>), object memory, byte orders.
    \<open>CText\<close>: printing and parsing of the C library.
  \<^item> \<open>Tlp\<close>: \<open>include/pcapcie/tlp.h\<close>, \<open>filter.h\<close>, \<open>src/tlp.c\<close>, \<open>src/filter.c\<close>.
    \<open>Link\<close>: the enumerations and code tables of \<open>pcapcie.h\<close> and \<open>src/pcapcie.c\<close>.
  \<^item> \<open>Backend\<close>: \<open>include/pcapcie/backend.h\<close>, the operation table, and the locales \<open>pcie_backend\<close>,
    \<open>finite_backend\<close> and \<open>scripted_backend\<close>, the contracts the library relies on. Every backend
    interprets the one it keeps.
  \<^item> \<open>Trace\<close>: \<open>struct pcie_ctx\<close> is \<open>pcie_ctx\<close>; the trace array and the locale \<open>trace_log\<close>.
    \<open>Pcapcie\<close>: the other operations of \<open>src/pcapcie.c\<close>. \<open>TraceExport\<close>: its two exporters.
    \<open>Session\<close>: sequences of calls as a step relation.
  \<^item> \<open>DummyConfig\<close>, \<open>DummyBackend\<close>: \<open>src/backend_dummy.c\<close>. \<open>Pci\<close>, \<open>PciDevice\<close>, \<open>PciRing\<close>:
    \<open>src/backend_pci.c\<close>. \<open>Fpga\<close>: \<open>src/backend_fpga.c\<close>. \<open>Socket\<close>, \<open>Xgig\<close>, \<open>Armds\<close>:
    \<open>src/backend_xgig.c\<close> and \<open>src/backend_armds.c\<close>. \<open>Bridge\<close>, \<open>BridgeServer\<close>:
    \<open>armds_bridge_server.c\<close>.
    \<open>FpgaDriver\<close>, \<open>FpgaCtrlDriver\<close>: the two drivers of \<open>fpga_driver.c\<close>. \<open>Logging\<close>: \<open>pcie_log\<close>.
  \<^item> \<open>Pshark\<close>: \<open>examples/pshark.c\<close>. \<open>Console\<close>: what the library and its backends write to
    standard output. \<open>ExamplePrograms\<close>: the other six programs of \<open>examples/\<close>, with all of their
    standard output. \<open>DevicePrograms\<close>: the link check on a PCI Express device, and \<open>sniff_and_send\<close>
    on the FPGA, which is undefined.
  \<^item> \<open>GuiText\<close>, \<open>GuiTrace\<close>, \<open>GuiDetails\<close>, \<open>GuiEnumerate\<close>, \<open>GuiScenario\<close>,
    \<open>GuiRunner\<close>: the string functions, trace table, packet details, PCI enumeration,
    performance dialog and runner life cycle of \<open>gui/src/MainWindow.cpp\<close>. \<open>GuiStyle\<close>,
    \<open>GuiTopology\<close>: its style sheets and the topology page. \<open>GuiWindow\<close>: the window of
    \<open>MainWindow.h\<close> with a handler for each signal it connects, and \<open>gui/src/main.cpp\<close>; its events are a
    step function, its states those reachable from the constructor. \<open>GuiSafety\<close>: what holds in
    them. \<open>GuiGolden\<close>: the first enumeration, from the click through the dummy backend.

  \<^bold>\<open>Conventions.\<close> A definition has the name of the function or type it translates; one of
  several for a single function is named after the part it does. A fixed-width integer is a word of that
  width. A pointer argument is an option, \<open>None\<close> for \<open>NULL\<close>, and comes back as the object's
  value after the call. The statics of a backend and what it talks to are one state that every
  operation takes and returns. The operating system, the network, the FPGA, the kernel and Qt are
  parameters, records of the calls the sources make; what a theorem needs of them
  (\<open>config_device\<close>, \<open>config_writes\<close>, \<open>pipe_net\<close>, \<open>alloc_law\<close>, \<open>qt_text\<close>, \<open>qt_numbers\<close>, \<open>fixed_law\<close>,
  \<open>set_env_law\<close>, \<open>pci_env_law\<close>) is a hypothesis with a concrete instance among the witnesses. So is
  \<open>layout_ok\<close>, for the register offsets the second driver uses and nothing declares.
  \<open>config_device\<close> is a device's file in sysfs: its own path opens, an open descriptor reads the
  bytes there, in pieces. Only \<open>config_writes\<close> speaks of writing, and only of the bytes that are plain
  storage; a read-only register may keep its value.

  A message box is added to the list of those shown. What happens while one is open counts as
  happening after the handler that shows it.

  \<^bold>\<open>What is shown.\<close>
  \<^item> Contracts and state: the trace array refines an append-only list, also when the allocator
    refuses (\<open>Trace\<close>, \<open>Session\<close>); the completion ring is a bounded queue under any sequence of
    calls, however often it is gone round (\<open>PciRing\<close>); any sequence of calls keeps the context well formed and its trace exportable (below); the
    driver's registers are never left, and a send runs through busy and complete to ready, in
    exactly these steps (\<open>FpgaDriver\<close>); the bridge server closes every socket it opens (\<open>BridgeServer\<close>); when the
    viewer's runner reports its result and when it does not (\<open>GuiRunner\<close>, \<open>GuiSafety\<close>); in every
    state the viewer can reach its table has the right shape and rows in the colours of one moment,
    which the theme button does not renew, and undefined behaviour is left to
    the handlers named (\<open>GuiSafety\<close>).
  \<^item> Across components: packets sent by the ARM DS backend are the packets the bridge forwards
    (\<open>Bridge\<close>); the Xgig stream, the pcap file and the viewer's raw files can be read back
    (\<open>Xgig\<close>, \<open>TraceExport\<close>, \<open>GuiTrace\<close>); the CSV file is counted and listed by \<open>pshark\<close> and shown
    by the viewer (\<open>Pshark\<close>, \<open>GuiTrace\<close>); the viewer's enumeration and performance form reach the
    backends as meant (\<open>GuiEnumerate\<close>, \<open>GuiGolden\<close>, \<open>GuiScenario\<close>); programs end as their
    backends and devices tell them (\<open>ExamplePrograms\<close>, \<open>DevicePrograms\<close>).
  \<^item> Backends: what the PCI accesses, the capability search and the link registers give on a device
    with short transfers (\<open>PciDevice\<close>), delivery by \<open>pcie_loop\<close>, link targets, throttle and
    configuration texts of the dummy backend, and the register traffic of the FPGA.
  \<^item> Behaviour that differs from the intention is stated as it is: headers sent before a refusal,
    sockets left non-blocking, announced lengths that are not there, payloads cut at a zero byte,
    traces saved unreadably, classes and types the viewer never names.

  \<^bold>\<open>Bounds and loops.\<close> \<open>cap_walk\<close> makes at most the 48 steps of the source's counter,
  \<open>wait_loop\<close> the 1000000 polls, the dummy backend delivers 1000 packets; these recursions are
  on those counters and need no fuel of their own. \<open>recv_loop\<close> of the library and
  \<open>bridge_loop\<close> of the server are \<open>partial_function\<close>s, where \<open>None\<close> is a loop that does not
  return, since a backend or a peer may deliver for ever; the first is shown to return on the
  dummy backend, the second on every stream of packets that ends. Other loops recurse on their
  data.

  \<^bold>\<open>Simplifications.\<close> \<open>t->length << 16\<close> in \<open>fpga_send\<close> shifts a promoted \<open>int\<close>; the model takes the
  wrapped word the compilers give. Two's complement and a 64-bit target are assumed. Doubles of
  the viewer are real numbers, their printing a parameter; the box of the drop rate rounds to its
  two decimals, halves upwards. The C locale is \<open>"C"\<close>. Counters that a \<open>nat\<close> stands for are those of
  containers in memory; the \<open>int\<close> row counter of \<open>pshark\<close>, which counts lines of a file, overflows.

  \<^bold>\<open>Not modelled.\<close> The calls that write messages (those of \<open>pcie_log\<close>, standard error, \<open>pr_info\<close>),
  which change no state of the program; the drop rate of the dummy backend beyond its text, as
  nothing reads it; the layout of the viewer's widgets and its file dialogs, which are the path
  chosen, and what the processes it starts do, as they belong to Qt and the system; build files,
  scripts and \<open>build/\<close>.

  \<^bold>\<open>Undefined backends.\<close> \<open>pcie_backend_fpga\<close> returns the address of a compound literal whose
  lifetime ends with the call. Once the FPGA has started, opening it through the library is
  \<open>Inl LifetimeEnd\<close>; the operations of the literal have their own theorems in \<open>Fpga\<close>.

  \<^bold>\<open>Plan.\<close> Next: the enumeration over the ARM DS backend; schedules of driver writes and work items
  without the assumption that no return to ready is due.
\<close>

section \<open>The library as a whole\<close>

text \<open>
  C4: After any sequence of library calls on a context from \<open>pcie_open\<close>, over any backend
  whatever it does, both exports of the trace succeed without reading outside the array: the
  pcap file is exactly one header and 292 bytes for each counted record, the CSV file the
  header line and one line for each. There are never more than eight sniffers, and the
  received address range is still the empty one the context was opened with.
\<close>

theorem session_invariant:
  assumes "session_reachable bes b0 (c, b, u)"
  shows "(\<exists>bytes. pcie_trace_write_pcap True (Some c) (Some path) = Inr (0, Some bytes) \<and>
            length bytes = 28 + 292 * unat (pcie_trace_count (Some c))) \<and>
         (\<exists>rs. pcie_trace_write_csv True (Some c) (Some path) = Inr (0, Some (csv_file rs)) \<and>
            length rs = unat (pcie_trace_count (Some c))) \<and>
         sniffer_count c \<le> 8 \<and>
         pcie_rx_addr_min (Some c) = Inr (- 1) \<and> pcie_rx_addr_max (Some c) = Inr 0"
proof -
  have inv: "session_inv c" by (rule session_reachable_inv [OF assms])
  then have ok: "trace_ok c" by (simp add: session_inv_def)
  have "length (pcap_file (trace_of c)) = 28 + 292 * length (trace_of c)"
    by (rule length_pcap_file) (rule trace_of_payload [OF ok])
  moreover have "length (trace_of c) = unat (pcie_trace_count (Some c))"
    using length_trace_of [OF ok] by (simp add: pcie_trace_count_def)
  ultimately show ?thesis
    using inv ok
    by (auto simp: session_inv_def max_sniffers_def pcie_trace_write_pcap_def pcie_trace_write_csv_def
        pcie_rx_addr_min_def pcie_rx_addr_max_def)
qed

theorem session_invariant_witness:
  "\<exists>c st. session_reachable dummy_backends (profile_state ''gen6x8'') (c, st, ()) \<and>
     trace_of (c :: (dummy_state, unit) pcie_ctx) =
       [spec_entry (sample_env 0) capture_packet (direction_val PCIE_TRACE_TX)] \<and>
     (\<exists>bytes. pcie_trace_write_pcap True (Some c) (Some ''t.pcap'') = Inr (0, Some bytes) \<and>
        length bytes = 320)"
proof -
  let ?st = "profile_state ''gen6x8''"
  let ?c = "fresh_ctx\<lparr>backend := Some dummy_ops\<rparr> :: (dummy_state, unit) pcie_ctx"
  have env: "granted (sample_env 0)" by (simp add: granted_def alloc_law_def sample_env_def)
  have "valid_tlp capture_packet"
    by (simp add: capture_packet_def valid_tlp_def pcie_tlp_cfg_write_def)
  from send_dummy [OF ctx_ok_fresh env this] obtain c1 where
    c1: "pcie_send (sample_env 0) (Some ?c) (Some capture_packet) ?st =
           Inr (0, Some capture_packet, Some c1, dummy_pace ?st)"
      "ctx_ok dummy_ops c1"
      "trace_of c1 = [spec_entry (sample_env 0) capture_packet (direction_val PCIE_TRACE_TX)]"
    by auto
  have "session_reachable dummy_backends ?st (?c, ?st, ())"
    by (rule session_reachable.opened [OF open_dummy]) (simp add: dummy_backends_def)
  moreover have "api_step (?c, ?st, ()) (c1, dummy_pace ?st, ())"
    using c1(1) env by (auto intro: api_step.call_send simp: granted_def)
  ultimately have r: "session_reachable dummy_backends ?st (c1, dummy_pace ?st, ())"
    by (rule session_reachable.stepped)
  have "length (trace_of c1) = unat (pcie_trace_count (Some c1))"
    using length_trace_of [of c1] c1(2) by (simp add: pcie_trace_count_def ctx_ok_def)
  with session_invariant [OF r, of "''t.pcap''"] c1(3) r show ?thesis by auto
qed

end
